(* ===== verification/Mist_Prelude.thy ===== *)
theory Mist_Prelude
  imports Main "HOL-Library.State_Monad" "HOL-Library.Word" "HOL-Library.List_Lexorder"
    "HOL-Library.Char_ord" "HOL-Library.Sublist"
begin

text \<open>
  Shared vocabulary of the development.

  The daemon's handlers run in the state monad of \<open>HOL-Library.State_Monad\<close>: a Go
  function with effects is a value of type \<open>('s, 'a) state\<close>, its early returns are the
  branches of the \<open>do\<close> block.  This theory holds a small calculus for such programs
  (\<open>maintains\<close> for invariants, \<open>keeps\<close> for frame properties) and the byte-string
  operations of Go's \<open>strings\<close> package that the source uses.  A Go string or byte slice
  is a \<^typ>\<open>string\<close>, that is a list of 8-bit characters: \<open>len\<close> is \<^const>\<open>length\<close>.
\<close>

named_theorems maintains_intro \<open>rules that show a program maintains an invariant\<close>
named_theorems keeps_intro \<open>rules that show a program leaves a component alone\<close>
named_theorems go_str \<open>equations of the string operations on concrete shapes\<close>

type_synonym byte = "8 word"
type_synonym bytes = "8 word list"
type_synonym err = string

section \<open>Programs in the state monad\<close>

abbreviation ret :: "'a \<Rightarrow> ('s, 'a) state" where
  "ret \<equiv> State_Monad.return"

text \<open>The final state and the result of a run.\<close>

definition final :: "('s, 'a) state \<Rightarrow> 's \<Rightarrow> 's" where
  "final m s = snd (run_state m s)"

definition result :: "('s, 'a) state \<Rightarrow> 's \<Rightarrow> 'a" where
  "result m s = fst (run_state m s)"

lemma final_return [simp]: "final (ret x) s = s"
  by (simp add: final_def)

lemma result_return [simp]: "result (ret x) s = x"
  by (simp add: result_def)

lemma final_bind [simp]: "final (m \<bind> f) s = final (f (result m s)) (final m s)"
  by (simp add: final_def result_def split: prod.split)

lemma result_bind [simp]: "result (m \<bind> f) s = result (f (result m s)) (final m s)"
  by (simp add: final_def result_def split: prod.split)

lemma run_state_final_result: "run_state m s = (result m s, final m s)"
  by (simp add: final_def result_def)

lemma final_State [simp]: "final (State f) s = snd (f s)"
  by (simp add: final_def)

lemma result_State [simp]: "result (State f) s = fst (f s)"
  by (simp add: result_def)

lemma final_if: "final (if b then m else n) s = (if b then final m s else final n s)"
  by simp

lemma result_if: "result (if b then m else n) s = (if b then result m s else result n s)"
  by simp

lemma final_option: "final (case x of None \<Rightarrow> m | Some y \<Rightarrow> f y) s =
    (case x of None \<Rightarrow> final m s | Some y \<Rightarrow> final (f y) s)"
  by (simp split: option.split)

lemma result_option: "result (case x of None \<Rightarrow> m | Some y \<Rightarrow> f y) s =
    (case x of None \<Rightarrow> result m s | Some y \<Rightarrow> result (f y) s)"
  by (simp split: option.split)

text \<open>Push \<^const>\<open>final\<close> and \<^const>\<open>result\<close> through the branches of a program.\<close>

lemmas run_branch = final_if result_if final_option result_option

subsection \<open>Invariants\<close>

definition maintains :: "('s \<Rightarrow> bool) \<Rightarrow> ('s, 'a) state \<Rightarrow> bool" where
  "maintains P m \<longleftrightarrow> (\<forall>s. P s \<longrightarrow> P (final m s))"

lemma maintainsI: "(\<And>s. P s \<Longrightarrow> P (final m s)) \<Longrightarrow> maintains P m"
  by (simp add: maintains_def)

lemma maintainsD: "maintains P m \<Longrightarrow> P s \<Longrightarrow> P (final m s)"
  by (simp add: maintains_def)

lemma maintains_return [maintains_intro]: "maintains P (ret x)"
  by (simp add: maintains_def)

lemma maintains_bind [maintains_intro]:
  "maintains P m \<Longrightarrow> (\<And>a. maintains P (f a)) \<Longrightarrow> maintains P (m \<bind> f)"
  by (simp add: maintains_def)

lemma maintains_if [maintains_intro]:
  "(b \<Longrightarrow> maintains P m) \<Longrightarrow> (\<not> b \<Longrightarrow> maintains P n) \<Longrightarrow> maintains P (if b then m else n)"
  by simp

lemma maintains_option [maintains_intro]:
  "(x = None \<Longrightarrow> maintains P m) \<Longrightarrow> (\<And>y. x = Some y \<Longrightarrow> maintains P (f y)) \<Longrightarrow>
   maintains P (case x of None \<Rightarrow> m | Some y \<Rightarrow> f y)"
  by (cases x) simp_all

lemma maintains_sum [maintains_intro]:
  "(\<And>y. x = Inl y \<Longrightarrow> maintains P (f y)) \<Longrightarrow> (\<And>y. x = Inr y \<Longrightarrow> maintains P (g y)) \<Longrightarrow>
   maintains P (case x of Inl y \<Rightarrow> f y | Inr y \<Rightarrow> g y)"
  by (cases x) simp_all

lemma maintains_prod [maintains_intro]:
  "(\<And>a b. x = (a, b) \<Longrightarrow> maintains P (f a b)) \<Longrightarrow> maintains P (case x of (a, b) \<Rightarrow> f a b)"
  by (cases x) simp

lemma maintains_let [maintains_intro]:
  "(\<And>y. y = x \<Longrightarrow> maintains P (f y)) \<Longrightarrow> maintains P (let y = x in f y)"
  by simp

subsection \<open>Frames\<close>

definition keeps :: "('s \<Rightarrow> 'b) \<Rightarrow> ('s, 'a) state \<Rightarrow> bool" where
  "keeps v m \<longleftrightarrow> (\<forall>s. v (final m s) = v s)"

lemma keepsI: "(\<And>s. v (final m s) = v s) \<Longrightarrow> keeps v m"
  by (simp add: keeps_def)

lemma keepsD: "keeps v m \<Longrightarrow> v (final m s) = v s"
  by (simp add: keeps_def)

lemma keeps_return [keeps_intro]: "keeps v (ret x)"
  by (simp add: keeps_def)

lemma keeps_bind [keeps_intro]:
  "keeps v m \<Longrightarrow> (\<And>a. keeps v (f a)) \<Longrightarrow> keeps v (m \<bind> f)"
  by (simp add: keeps_def)

lemma keeps_if [keeps_intro]:
  "(b \<Longrightarrow> keeps v m) \<Longrightarrow> (\<not> b \<Longrightarrow> keeps v n) \<Longrightarrow> keeps v (if b then m else n)"
  by simp

lemma keeps_option [keeps_intro]:
  "(x = None \<Longrightarrow> keeps v m) \<Longrightarrow> (\<And>y. x = Some y \<Longrightarrow> keeps v (f y)) \<Longrightarrow>
   keeps v (case x of None \<Rightarrow> m | Some y \<Rightarrow> f y)"
  by (cases x) simp_all

lemma keeps_sum [keeps_intro]:
  "(\<And>y. x = Inl y \<Longrightarrow> keeps v (f y)) \<Longrightarrow> (\<And>y. x = Inr y \<Longrightarrow> keeps v (g y)) \<Longrightarrow>
   keeps v (case x of Inl y \<Rightarrow> f y | Inr y \<Rightarrow> g y)"
  by (cases x) simp_all

lemma keeps_prod [keeps_intro]:
  "(\<And>a b. x = (a, b) \<Longrightarrow> keeps v (f a b)) \<Longrightarrow> keeps v (case x of (a, b) \<Rightarrow> f a b)"
  by (cases x) simp

lemma keeps_let [keeps_intro]:
  "(\<And>y. y = x \<Longrightarrow> keeps v (f y)) \<Longrightarrow> keeps v (let y = x in f y)"
  by simp

lemma keeps_maintains: "keeps v m \<Longrightarrow> maintains (\<lambda>s. P (v s)) m"
  by (simp add: keeps_def maintains_def)

end
