(* ===== verification/Go_Strings.thy ===== *)
theory Go_Strings
  imports Mist_Prelude
begin

text \<open>
  The operations of Go's \<open>strings\<close>, \<open>bytes\<close>, \<open>strconv\<close> and \<open>encoding\<close>
  packages that the source uses, on byte strings, with the laws the component proofs share:
  \<open>TrimSpace\<close> (with the Unicode spaces, as their UTF-8 bytes), \<open>ToLower\<close>, \<open>Split\<close>,
  \<open>Cut\<close>, \<open>HasPrefix\<close>, \<open>Trim\<close>, \<open>Atoi\<close>, base64 and hexadecimal.
  \<open>ToLower\<close> is exact on every string as far as ASCII output bytes go: the two non-ASCII
  runes whose lower case is ASCII (U+0130 and U+212A) are mapped, every other non-ASCII rune
  is left as it is, where Go gives its (again non-ASCII) lower case.  The source compares
  lower-cased text with ASCII keywords only.
\<close>

section \<open>White space\<close>

definition ascii_space :: "char \<Rightarrow> bool" where
  "ascii_space c \<longleftrightarrow> c = CHR '' '' \<or> c = CHR 0x09 \<or> c = CHR 0x0A \<or> c = CHR 0x0B \<or> c = CHR 0x0C \<or> c = CHR 0x0D"

text \<open>The two- and three-byte encodings of the other white-space runes.\<close>

definition space2 :: "char \<Rightarrow> char \<Rightarrow> bool" where
  "space2 a b \<longleftrightarrow> a = CHR 0xC2 \<and> (b = CHR 0x85 \<or> b = CHR 0xA0)"

definition space3 :: "char \<Rightarrow> char \<Rightarrow> char \<Rightarrow> bool" where
  "space3 a b c \<longleftrightarrow>
     a = CHR 0xE1 \<and> b = CHR 0x9A \<and> c = CHR 0x80
   \<or> a = CHR 0xE2 \<and> b = CHR 0x80 \<and>
       (CHR 0x80 \<le> c \<and> c \<le> CHR 0x8A \<or> c = CHR 0xA8 \<or> c = CHR 0xA9 \<or> c = CHR 0xAF)
   \<or> a = CHR 0xE2 \<and> b = CHR 0x81 \<and> c = CHR 0x9F
   \<or> a = CHR 0xE3 \<and> b = CHR 0x80 \<and> c = CHR 0x80"

text \<open>Length of the white-space rune a string starts with; 0 when it starts with none.\<close>

fun space_width :: "string \<Rightarrow> nat" where
  "space_width (a # b # c # s) =
     (if ascii_space a then 1 else if space2 a b then 2 else if space3 a b c then 3 else 0)"
| "space_width [a, b] = (if ascii_space a then 1 else if space2 a b then 2 else 0)"
| "space_width [a] = (if ascii_space a then 1 else 0)"
| "space_width [] = 0"

text \<open>The same at the end of a string, read on the reversed string.\<close>

fun rspace_width :: "string \<Rightarrow> nat" where
  "rspace_width (c # b # a # s) =
     (if ascii_space c then 1 else if space2 b c then 2 else if space3 a b c then 3 else 0)"
| "rspace_width [b, a] = (if ascii_space b then 1 else if space2 a b then 2 else 0)"
| "rspace_width [a] = (if ascii_space a then 1 else 0)"
| "rspace_width [] = 0"

lemma space_width_pos: "0 < space_width s \<Longrightarrow> length s - space_width s < length s"
  by (cases s) auto

lemma rspace_width_pos: "0 < rspace_width s \<Longrightarrow> length s - rspace_width s < length s"
  by (cases s) auto

function trim_left :: "string \<Rightarrow> string" where
  "trim_left s = (if space_width s = 0 then s else trim_left (drop (space_width s) s))"
  by pat_completeness auto
termination
  by (relation "measure length") (auto dest: space_width_pos)

function rtrim_left :: "string \<Rightarrow> string" where
  "rtrim_left s = (if rspace_width s = 0 then s else rtrim_left (drop (rspace_width s) s))"
  by pat_completeness auto
termination
  by (relation "measure length") (auto dest: rspace_width_pos)

declare trim_left.simps [simp del] rtrim_left.simps [simp del]

definition trim_right :: "string \<Rightarrow> string" where
  "trim_right s = rev (rtrim_left (rev s))"

definition trim_space :: "string \<Rightarrow> string" where
  "trim_space s = trim_right (trim_left s)"

text \<open>Text that trimming leaves alone: empty, or neither end is a space.\<close>

definition tight :: "string \<Rightarrow> bool" where
  "tight s \<longleftrightarrow> space_width s = 0 \<and> rspace_width (rev s) = 0"

lemma tight_Nil [simp]: "tight []"
  by (simp add: tight_def)

lemma trim_space_tight [go_str]: "tight s \<Longrightarrow> trim_space s = s"
  by (simp add: tight_def trim_space_def trim_right_def trim_left.simps [of s]
      rtrim_left.simps [of "rev s"])

lemma trim_left_fix: "space_width (trim_left s) = 0"
proof (induction s rule: trim_left.induct)
  case (1 s)
  then show ?case by (cases "space_width s = 0") (simp_all add: trim_left.simps [of s])
qed

lemma rtrim_left_fix: "rspace_width (rtrim_left s) = 0"
proof (induction s rule: rtrim_left.induct)
  case (1 s)
  then show ?case by (cases "rspace_width s = 0") (simp_all add: rtrim_left.simps [of s])
qed

text \<open>ASCII text that contains no space is tight.\<close>

definition plain_char :: "char \<Rightarrow> bool" where
  "plain_char c \<longleftrightarrow> CHR 0x21 \<le> c \<and> c \<le> CHR 0x7E"

lemma plain_char_not_space:
  assumes "plain_char c"
  shows "\<not> ascii_space c" and "\<not> space2 c d" and "\<not> space2 d c" and "\<not> space3 c d e" and "\<not> space3 d e c"
  using assms
  by (auto simp: plain_char_def ascii_space_def space2_def space3_def less_eq_char_def)

lemma plain_head: "plain_char c \<Longrightarrow> space_width (c # s) = 0"
  by (cases s; cases "tl s") (auto simp: plain_char_not_space)

lemma plain_last: "plain_char c \<Longrightarrow> rspace_width (c # s) = 0"
  by (cases s; cases "tl s") (auto simp: plain_char_not_space)

lemma tight_plain:
  assumes "s = [] \<or> plain_char (hd s) \<and> plain_char (last s)"
  shows "tight s"
proof (cases s)
  case (Cons a t)
  then obtain b u where b: "rev s = b # u" and bl: "b = last s"
    by (metis last_rev list.exhaust list.sel(1) list.simps(3) rev.simps(2) rev_rev_ident
        snoc_eq_iff_butlast hd_rev)
  with assms Cons show ?thesis
    by (simp add: tight_def plain_head plain_last)
qed simp

lemma tight_plain_all: "\<forall>c \<in> set s. plain_char c \<Longrightarrow> tight s"
  by (cases "s = []") (auto intro!: tight_plain)

section \<open>Lower case\<close>

definition lower_char :: "char \<Rightarrow> char" where
  "lower_char c = (if CHR ''A'' \<le> c \<and> c \<le> CHR ''Z'' then char_of (of_char c + (32::nat)) else c)"

fun to_lower :: "string \<Rightarrow> string" where
  "to_lower (a # b # c # s) =
     (if a = CHR 0xE2 \<and> b = CHR 0x84 \<and> c = CHR 0xAA then CHR ''k'' # to_lower s
      else if a = CHR 0xC4 \<and> b = CHR 0xB0 then CHR ''i'' # to_lower (c # s)
      else lower_char a # to_lower (b # c # s))"
| "to_lower [a, b] =
     (if a = CHR 0xC4 \<and> b = CHR 0xB0 then ''i'' else [lower_char a, lower_char b])"
| "to_lower [a] = [lower_char a]"
| "to_lower [] = []"

section \<open>Splitting and cutting\<close>

fun split_on :: "char \<Rightarrow> string \<Rightarrow> string list" where
  "split_on c [] = [[]]"
| "split_on c (x # xs) =
     (if x = c then [] # split_on c xs
      else (case split_on c xs of [] \<Rightarrow> [[x]] | y # ys \<Rightarrow> (x # y) # ys))"

fun join_with :: "char \<Rightarrow> string list \<Rightarrow> string" where
  "join_with c [] = []"
| "join_with c [x] = x"
| "join_with c (x # y # ys) = x @ c # join_with c (y # ys)"

lemma split_on_nonempty [simp]: "split_on c s \<noteq> []"
  by (cases s) (auto split: list.split)

lemma split_on_append [go_str]:
  "c \<notin> set x \<Longrightarrow> split_on c (x @ c # s) = x # split_on c s"
  by (induction x) auto

lemma split_on_notin [go_str]: "c \<notin> set x \<Longrightarrow> split_on c x = [x]"
  by (induction x) auto

lemma split_on_join:
  "xs \<noteq> [] \<Longrightarrow> \<forall>x \<in> set xs. c \<notin> set x \<Longrightarrow> split_on c (join_with c xs) = xs"
  by (induction c xs rule: join_with.induct) (auto simp: split_on_append split_on_notin)

lemma split_on_parts: "x \<in> set (split_on c s) \<Longrightarrow> c \<notin> set x"
proof (induction s arbitrary: x)
  case (Cons a s)
  then show ?case
    by (cases "split_on c s") (auto split: if_splits)
qed auto

text \<open>\<open>strings.Cut\<close>: the text before and after the first separator.\<close>

fun cut :: "char \<Rightarrow> string \<Rightarrow> (string \<times> string) option" where
  "cut c [] = None"
| "cut c (x # xs) = (if x = c then Some ([], xs) else map_option (\<lambda>(a, b). (x # a, b)) (cut c xs))"

lemma cut_append [go_str]: "c \<notin> set a \<Longrightarrow> cut c (a @ c # b) = Some (a, b)"
  by (induction a) auto

lemma cut_Some: "cut c s = Some (a, b) \<Longrightarrow> s = a @ c # b \<and> c \<notin> set a"
  by (induction s arbitrary: a) (auto split: if_splits)

lemma cut_None: "cut c s = None \<longleftrightarrow> c \<notin> set s"
  by (induction s) auto

text \<open>\<open>strings.Trim\<close> with a cutset: both ends lose every byte of the set.\<close>

definition trim_set :: "string \<Rightarrow> string \<Rightarrow> string" where
  "trim_set s cs = rev (dropWhile (\<lambda>c. c \<in> set cs) (rev (dropWhile (\<lambda>c. c \<in> set cs) s)))"

text \<open>The line up to the first byte of the set: \<open>line[:strings.IndexAny(line, cs)]\<close>.\<close>

definition before_any :: "string \<Rightarrow> string \<Rightarrow> string" where
  "before_any s cs = takeWhile (\<lambda>c. c \<notin> set cs) s"

definition contains_any :: "string \<Rightarrow> string \<Rightarrow> bool" where
  "contains_any s cs \<longleftrightarrow> (\<exists>c \<in> set cs. c \<in> set s)"

lemma before_any_notin [go_str]: "\<forall>c \<in> set cs. c \<notin> set s \<Longrightarrow> before_any s cs = s"
  by (auto simp: before_any_def takeWhile_eq_all_conv)

definition has_prefix :: "string \<Rightarrow> string \<Rightarrow> bool" where
  "has_prefix s p \<longleftrightarrow> prefix p s"

definition has_suffix :: "string \<Rightarrow> string \<Rightarrow> bool" where
  "has_suffix s p \<longleftrightarrow> suffix p s"

end
