(* ===== verification/Bolt.thy ===== *)
theory Bolt
  imports Mist_Prelude
begin

text \<open>
  The part of the bbolt key/value store the daemon relies on, as its documentation states it:
  a bucket maps byte-string keys to values and iterates them in byte order; \<open>Put\<close> refuses an
  empty key and a key longer than \<open>MaxKeySize\<close>; \<open>Delete\<close> of an absent key is no error.
  A bucket is a list of pairs sorted by key.  The locale \<open>kv_bucket\<close> is the interface the
  store rests on, interpreted below on these definitions.
\<close>

type_synonym 'v bucket = "(string \<times> 'v) list"

fun bucket_put :: "string \<Rightarrow> 'v \<Rightarrow> 'v bucket \<Rightarrow> 'v bucket" where
  "bucket_put k v [] = [(k, v)]"
| "bucket_put k v ((a, b) # m) =
     (if k < a then (k, v) # (a, b) # m
      else if k = a then (k, v) # m
      else (a, b) # bucket_put k v m)"

definition bucket_get :: "'v bucket \<Rightarrow> string \<Rightarrow> 'v option" where
  "bucket_get m k = map_of m k"

definition bucket_delete :: "string \<Rightarrow> 'v bucket \<Rightarrow> 'v bucket" where
  "bucket_delete k m = filter (\<lambda>p. fst p \<noteq> k) m"

definition bucket_keys :: "'v bucket \<Rightarrow> string list" where
  "bucket_keys m = map fst m"

definition bucket_ordered :: "'v bucket \<Rightarrow> bool" where
  "bucket_ordered m \<longleftrightarrow> sorted_wrt (<) (map fst m)"

text \<open>\<open>bbolt.MaxKeySize\<close>; an empty key is \<open>ErrKeyRequired\<close>.\<close>

definition max_key_size :: nat where
  "max_key_size = 32768"

definition key_ok :: "string \<Rightarrow> bool" where
  "key_ok k \<longleftrightarrow> k \<noteq> [] \<and> length k \<le> max_key_size"

section \<open>The interface\<close>

locale kv_bucket =
  fixes put :: "string \<Rightarrow> 'v \<Rightarrow> 'b \<Rightarrow> 'b"
    and get :: "'b \<Rightarrow> string \<Rightarrow> 'v option"
    and delete :: "string \<Rightarrow> 'b \<Rightarrow> 'b"
    and keys :: "'b \<Rightarrow> string list"
    and empty :: 'b
    and wf :: "'b \<Rightarrow> bool"
  assumes get_put: "get (put k v b) j = (if j = k then Some v else get b j)"
    and get_delete: "get (delete k b) j = (if j = k then None else get b j)"
    and get_empty: "get empty j = None"
    and set_keys: "k \<in> set (keys b) \<longleftrightarrow> get b k \<noteq> None"
    and keys_sorted: "wf b \<Longrightarrow> sorted_wrt (<) (keys b)"
    and wf_empty: "wf empty"
    and wf_put: "wf b \<Longrightarrow> wf (put k v b)"
    and wf_delete: "wf b \<Longrightarrow> wf (delete k b)"
begin

lemma put_get_same: "get (put k v b) k = Some v"
  by (simp add: get_put)

lemma delete_get_same: "get (delete k b) k = None"
  by (simp add: get_delete)

lemma keys_put: "set (keys (put k v b)) = insert k (set (keys b))"
  by (auto simp: set_keys get_put split: if_splits)

lemma keys_delete: "set (keys (delete k b)) = set (keys b) - {k}"
  by (auto simp: set_keys get_delete split: if_splits)

lemma no_keys: "keys b = [] \<longleftrightarrow> (\<forall>k. get b k = None)"
  by (metis set_keys set_empty2 ex_in_conv)

lemma keys_put_nonempty: "keys (put k v b) \<noteq> []"
  using keys_put [of k v b] by auto

lemma keys_distinct: "wf b \<Longrightarrow> distinct (keys b)"
  using keys_sorted by (metis strict_sorted_iff)

end

lemma bucket_get_put: "bucket_get (bucket_put k v m) j = (if j = k then Some v else bucket_get m j)"
  by (induction k v m rule: bucket_put.induct) (auto simp: bucket_get_def)

lemma bucket_get_delete: "bucket_get (bucket_delete k m) j = (if j = k then None else bucket_get m j)"
  by (induction m) (auto simp: bucket_get_def bucket_delete_def)

lemma fst_bucket_put: "fst ` set (bucket_put k v m) = insert k (fst ` set m)"
  by (induction k v m rule: bucket_put.induct) auto

lemma bucket_ordered_put: "bucket_ordered m \<Longrightarrow> bucket_ordered (bucket_put k v m)"
proof (induction k v m rule: bucket_put.induct)
  case (2 k v a b m)
  then have "bucket_ordered (bucket_put k v m)" if "\<not> k < a" "k \<noteq> a"
    using that by (simp add: bucket_ordered_def)
  with 2 show ?case
    using fst_bucket_put [of k v m] by (fastforce simp: bucket_ordered_def)
qed (simp add: bucket_ordered_def)

lemma bucket_ordered_delete: "bucket_ordered m \<Longrightarrow> bucket_ordered (bucket_delete k m)"
  by (simp add: bucket_ordered_def bucket_delete_def sorted_wrt_map sorted_wrt_filter)

lemma bucket_base: "bucket_get [] k = None" "bucket_ordered []"
  "sorted_wrt (<) (bucket_keys m) \<longleftrightarrow> bucket_ordered m"
  by (simp_all add: bucket_get_def bucket_ordered_def bucket_keys_def)

interpretation bolt: kv_bucket bucket_put bucket_get bucket_delete bucket_keys "[]" bucket_ordered
proof unfold_locales
  fix k :: string and b :: "'v bucket"
  show "k \<in> set (bucket_keys b) \<longleftrightarrow> bucket_get b k \<noteq> None"
    by (simp add: bucket_keys_def bucket_get_def map_of_eq_None_iff)
qed (simp_all add: bucket_get_put bucket_get_delete bucket_ordered_put bucket_ordered_delete bucket_base)

lemmas bucket_laws = bolt.get_put bolt.get_delete bolt.get_empty

end
