(* ===== verification/World.thy ===== *)
theory World
  imports Go_Strings Bolt
begin

text \<open>
  What the daemon runs against.  The state of a run, \<open>world\<close>, holds the database, the two
  in-memory sets of single-use keys, the portal note and kick channel, the forwarder's
  counters, the pending firmware image and the device (of a type \<open>'d\<close> the model does not
  look into).  Everything the source calls and does not contain is a field of \<open>env\<close>:
  the command runner and the detached start (the OpenWRT tools), the conntrack flush, the
  clock, the random source, the outcome of database and file operations, the portal probe's
  HTTP exchange, the hash and signature primitives, the CBOR and JSON decoders, and the
  RFC 3339 text form of times.  Clock, random source and failures are read in sequence: the
  \<open>n\<close>-th call sees entry \<open>n\<close>.
\<close>

section \<open>Time\<close>

text \<open>An instant is a number of nanoseconds since the Unix epoch, a duration likewise.\<close>

type_synonym time = int

definition second :: time where "second = 1000000000"

definition minute :: time where "minute = 60 * second"

definition hour :: time where "hour = 60 * minute"

text \<open>The first instant whose year has five digits: RFC 3339 ends there.\<close>

definition time_limit :: time where "time_limit = 253402300800 * second"

definition time_in_range :: "time \<Rightarrow> bool" where
  "time_in_range t \<longleftrightarrow> 0 \<le> t \<and> t < time_limit"

text \<open>The instant an RFC 3339 text with whole seconds denotes.\<close>

definition whole_second :: "time \<Rightarrow> time" where
  "whole_second t = t div second * second"

lemma whole_second_le: "whole_second t \<le> t" and whole_second_gt: "t < whole_second t + second"
  by (auto simp: whole_second_def second_def)

lemma whole_second_mono: "s \<le> t \<Longrightarrow> whole_second s \<le> whole_second t"
  by (simp add: whole_second_def second_def zdiv_mono1)

section \<open>Data of the external codecs\<close>

record cose_key =
  ck_kty :: int
  ck_alg :: int
  ck_crv :: int
  ck_x :: bytes
  ck_y :: bytes

record client_data =
  cd_type :: string
  cd_challenge :: string
  cd_origin :: string

text \<open>The persisted pause of the portal machine (\<open>portalRecord\<close>).\<close>

record portal_record =
  pr_active :: bool
  pr_since :: time
  pr_deadline :: time
  pr_url :: string
  pr_savedKS :: bool
  pr_savedDNS :: bool

text \<open>What the API may show of a VPN configuration (\<open>vpn.Summary\<close>).\<close>

record summary =
  su_addresses :: "string list"
  su_dns :: "string list"
  su_endpoints :: "string list"
  su_allowedIPs :: "string list"

text \<open>The response to the portal probe, redirects not followed.\<close>

record http_resp =
  hr_status :: int
  hr_location :: string
  hr_body :: string

text \<open>What the platform's JSON outputs hold of interest.\<close>

record board =
  bd_model :: string
  bd_board :: string
  bd_release :: string
  bd_target :: string

record scan_entry =
  sc_ssid :: string
  sc_signal :: int
  sc_enabled :: bool

text \<open>A response of the DoH upstream: status code and line, and the body read.\<close>

record doh_resp =
  dr_code :: int
  dr_status :: string
  dr_body :: "err + bytes"

section \<open>Environment and state\<close>

record 'd env =
  run_cmd :: "'d \<Rightarrow> string list \<Rightarrow> (err + string) \<times> 'd"
  detach_cmd :: "'d \<Rightarrow> string list \<Rightarrow> err option \<times> 'd"
  flush_ct :: "('d \<Rightarrow> err option \<times> 'd) option"
  http_probe :: "nat \<Rightarrow> 'd \<Rightarrow> http_resp option"
  clock :: "nat \<Rightarrow> time"
  rand_read :: "nat \<Rightarrow> nat \<Rightarrow> bytes option"
  io_fault :: "nat \<Rightarrow> bool"
  sha256 :: "bytes \<Rightarrow> bytes"
  ecdsa_verify :: "nat \<times> nat \<Rightarrow> bytes \<Rightarrow> bytes \<Rightarrow> bool"
  cbor_key :: "bytes \<Rightarrow> cose_key option"
  cbor_attestation :: "bytes \<Rightarrow> bytes option"
  cbor_first :: "bytes \<Rightarrow> bytes option"
  json_client_data :: "bytes \<Rightarrow> client_data option"
  json_challenge :: "bytes \<Rightarrow> string option"
  json_portal :: "portal_record \<Rightarrow> string option"
  parse_portal :: "string \<Rightarrow> portal_record option"
  json_summary :: "summary \<Rightarrow> string"
  time_format :: "time \<Rightarrow> string"
  time_parse :: "string \<Rightarrow> time option"
  lookup_host :: "nat \<Rightarrow> string \<Rightarrow> err + string list"
  doh :: "nat \<Rightarrow> 'd \<Rightarrow> string \<Rightarrow> bytes \<Rightarrow> err + doh_resp"
  ctx_done :: "nat \<Rightarrow> bool"
  json_radios :: "string \<Rightarrow> (bool \<times> string list) list option"
  json_scan :: "string \<Rightarrow> scan_entry list option"
  json_ifstatus :: "string \<Rightarrow> (bool \<times> string list) option"
  json_board :: "string \<Rightarrow> board option"
  rp_id :: string
  allowed_origins :: "string list"

record db =
  db_creds :: "bytes bucket"
  db_sessions :: "string bucket"
  db_config :: "string bucket"

record forwarder =
  fw_addr :: string
  fw_url :: string
  fw_provider :: string
  fw_queries :: "64 word"
  fw_failures :: "64 word"
  fw_lastOK :: int
  fw_lastErr :: "string option"
  fw_idle :: nat

record 'd world =
  w_n :: nat
  w_db :: db
  w_dev :: 'd
  w_chals :: "string \<rightharpoonup> time"
  w_stepups :: "string \<rightharpoonup> time"
  w_note :: "string option"
  w_kick :: bool
  w_fwd :: forwarder
  w_image :: "bytes option"

section \<open>Primitive effects\<close>

definition time_now :: "'d env \<Rightarrow> ('d world, time) state" where
  "time_now E = State (\<lambda>w. (clock E (w_n w), w\<lparr>w_n := Suc (w_n w)\<rparr>))"

definition random_bytes :: "'d env \<Rightarrow> nat \<Rightarrow> ('d world, bytes option) state" where
  "random_bytes E k = State (\<lambda>w. (rand_read E (w_n w) k, w\<lparr>w_n := Suc (w_n w)\<rparr>))"

definition io_ok :: "'d env \<Rightarrow> ('d world, bool) state" where
  "io_ok E = State (\<lambda>w. (\<not> io_fault E (w_n w), w\<lparr>w_n := Suc (w_n w)\<rparr>))"

text \<open>
  A bbolt transaction.  \<open>Update\<close> commits the whole change or reports an error and changes
  nothing; the function itself may refuse (\<open>None\<close>).  \<open>View\<close> reads one consistent state.
\<close>

definition db_update :: "'d env \<Rightarrow> (db \<Rightarrow> db option) \<Rightarrow> ('d world, bool) state" where
  "db_update E f = State (\<lambda>w.
     let w' = w\<lparr>w_n := Suc (w_n w)\<rparr> in
     if io_fault E (w_n w) then (False, w')
     else (case f (w_db w) of None \<Rightarrow> (False, w') | Some d \<Rightarrow> (True, w'\<lparr>w_db := d\<rparr>)))"

definition db_view :: "'d env \<Rightarrow> (db \<Rightarrow> 'a) \<Rightarrow> ('d world, 'a option) state" where
  "db_view E f = State (\<lambda>w.
     (if io_fault E (w_n w) then None else Some (f (w_db w)), w\<lparr>w_n := Suc (w_n w)\<rparr>))"

text \<open>\<open>Runner.Run\<close>: one external command; \<open>Inl\<close> is its error.\<close>

definition run :: "'d env \<Rightarrow> string list \<Rightarrow> ('d world, err + string) state" where
  "run E argv = State (\<lambda>w. case run_cmd E (w_dev w) argv of (r, d) \<Rightarrow> (r, w\<lparr>w_dev := d\<rparr>))"

text \<open>The \<open>runAll\<close> loop of the packages that shell out: stop at the first error.\<close>

fun run_all :: "'d env \<Rightarrow> string list list \<Rightarrow> ('d world, err option) state" where
  "run_all E [] = ret None"
| "run_all E (c # cs) = do {
     r \<leftarrow> run E c;
     case r of Inl e \<Rightarrow> ret (Some e) | Inr _ \<Rightarrow> run_all E cs }"

definition detach :: "'d env \<Rightarrow> string list \<Rightarrow> ('d world, err option) state" where
  "detach E argv = State (\<lambda>w. case detach_cmd E (w_dev w) argv of (r, d) \<Rightarrow> (r, w\<lparr>w_dev := d\<rparr>))"

definition get_world :: "('d world \<Rightarrow> 'a) \<Rightarrow> ('d world, 'a) state" where
  "get_world f = State (\<lambda>w. (f w, w))"

text \<open>Readings in sequence of an outcome that depends on the device: probe, upstream, cancellation.\<close>

definition observe :: "'d env \<Rightarrow> (nat \<Rightarrow> 'd \<Rightarrow> 'a) \<Rightarrow> ('d world, 'a) state" where
  "observe E f = State (\<lambda>w. (f (w_n w) (w_dev w), w\<lparr>w_n := Suc (w_n w)\<rparr>))"

definition modify :: "('d world \<Rightarrow> 'd world) \<Rightarrow> ('d world, unit) state" where
  "modify f = State (\<lambda>w. ((), f w))"

text \<open>
  Documented behaviour of \<open>Time.Format\<close> and \<open>time.Parse\<close> with the RFC 3339 layout:
  four-digit years print to text without a bar and parse back to the same instant, cut to
  whole seconds.
\<close>

definition rfc3339_ok :: "'d env \<Rightarrow> bool" where
  "rfc3339_ok E \<longleftrightarrow> (\<forall>t. time_in_range t \<longrightarrow>
     CHR ''|'' \<notin> set (time_format E t) \<and> time_parse E (time_format E t) = Some (whole_second t))"

text \<open>
  \<open>encoding/json\<close> reads back the portal record it wrote; the address of a sign-in page comes
  back as it was when it is plain text, and with its invalid bytes replaced otherwise.
\<close>

definition portal_json_ok :: "'d env \<Rightarrow> bool" where
  "portal_json_ok E \<longleftrightarrow> (\<forall>r. time_in_range (pr_since r) \<longrightarrow> time_in_range (pr_deadline r) \<longrightarrow>
     (\<exists>s u. json_portal E r = Some s \<and> parse_portal E s = Some (r\<lparr>pr_url := u\<rparr>)
        \<and> ((\<forall>c \<in> set (pr_url r). plain_char c) \<longrightarrow> u = pr_url r)))"

definition clock_ok :: "'d env \<Rightarrow> bool" where
  "clock_ok E \<longleftrightarrow> (\<forall>n. time_in_range (clock E n)) \<and> (\<forall>m n. m \<le> n \<longrightarrow> clock E m \<le> clock E n)"

text \<open>The random source works and no database or file operation fails.\<close>

definition rand_ok :: "'d env \<Rightarrow> bool" where
  "rand_ok E \<longleftrightarrow> (\<forall>n k. \<exists>b. rand_read E n k = Some b \<and> length b = k)"

definition no_faults :: "'d env \<Rightarrow> bool" where
  "no_faults E \<longleftrightarrow> (\<forall>n. \<not> io_fault E n)"

section \<open>What the primitives do\<close>

lemma time_now_run [simp]:
  "result (time_now E) w = clock E (w_n w)" "final (time_now E) w = w\<lparr>w_n := Suc (w_n w)\<rparr>"
  by (simp_all add: time_now_def)

lemma random_bytes_run [simp]:
  "result (random_bytes E k) w = rand_read E (w_n w) k"
  "final (random_bytes E k) w = w\<lparr>w_n := Suc (w_n w)\<rparr>"
  by (simp_all add: random_bytes_def)

lemma io_ok_run [simp]:
  "result (io_ok E) w = (\<not> io_fault E (w_n w))" "final (io_ok E) w = w\<lparr>w_n := Suc (w_n w)\<rparr>"
  by (simp_all add: io_ok_def)

text \<open>The database a transaction leaves, given whether the transaction itself failed.\<close>

definition commit :: "bool \<Rightarrow> (db \<Rightarrow> db option) \<Rightarrow> db \<Rightarrow> db" where
  "commit fault f d = (if fault then d else case f d of None \<Rightarrow> d | Some d' \<Rightarrow> d')"

lemma db_update_run [simp]:
  "result (db_update E f) w = (\<not> io_fault E (w_n w) \<and> f (w_db w) \<noteq> None)"
  "final (db_update E f) w = w\<lparr>w_n := Suc (w_n w), w_db := commit (io_fault E (w_n w)) f (w_db w)\<rparr>"
  by (simp_all add: db_update_def commit_def Let_def split: option.split)

lemma db_view_run [simp]:
  "result (db_view E f) w = (if io_fault E (w_n w) then None else Some (f (w_db w)))"
  "final (db_view E f) w = w\<lparr>w_n := Suc (w_n w)\<rparr>"
  by (simp_all add: db_view_def)

lemma run_run [simp]:
  "result (run E argv) w = fst (run_cmd E (w_dev w) argv)"
  "final (run E argv) w = w\<lparr>w_dev := snd (run_cmd E (w_dev w) argv)\<rparr>"
  by (simp_all add: run_def split: prod.split)

lemma detach_run [simp]:
  "result (detach E argv) w = fst (detach_cmd E (w_dev w) argv)"
  "final (detach E argv) w = w\<lparr>w_dev := snd (detach_cmd E (w_dev w) argv)\<rparr>"
  by (simp_all add: detach_def split: prod.split)

lemma get_world_run [simp]: "result (get_world f) w = f w" "final (get_world f) w = w"
  by (simp_all add: get_world_def)

lemma observe_run [simp]:
  "result (observe E f) w = f (w_n w) (w_dev w)" "final (observe E f) w = w\<lparr>w_n := Suc (w_n w)\<rparr>"
  by (simp_all add: observe_def)

lemma modify_run [simp]: "result (modify f) w = ()" "final (modify f) w = f w"
  by (simp_all add: modify_def)

text \<open>A command list acts on the device alone: \<open>run_all\<close> is a fold over the device.\<close>

fun dev_all :: "('d \<Rightarrow> string list \<Rightarrow> (err + string) \<times> 'd) \<Rightarrow> string list list \<Rightarrow> 'd \<Rightarrow> err option \<times> 'd" where
  "dev_all f [] d = (None, d)"
| "dev_all f (c # cs) d =
     (case f d c of (Inl e, d') \<Rightarrow> (Some e, d') | (Inr _, d') \<Rightarrow> dev_all f cs d')"

lemma run_all_run [simp]:
  "result (run_all E cs) w = fst (dev_all (run_cmd E) cs (w_dev w))"
  "final (run_all E cs) w = w\<lparr>w_dev := snd (dev_all (run_cmd E) cs (w_dev w))\<rparr>"
proof (induction cs arbitrary: w)
  case (Cons c cs)
  { case 1
    show ?case using Cons by (simp split: prod.split sum.split)
  next
    case 2
    show ?case using Cons by (simp split: prod.split sum.split)
  }
qed simp_all

lemma dev_all_append:
  "dev_all f (cs @ ds) d =
     (case dev_all f cs d of (None, d') \<Rightarrow> dev_all f ds d' | (Some e, d') \<Rightarrow> (Some e, d'))"
  by (induction cs arbitrary: d) (auto split: prod.split sum.split)

subsection \<open>Frames of the primitives\<close>

lemma keeps_reads [keeps_intro]:
  "keeps w_db (time_now E)" "keeps w_dev (time_now E)" "keeps w_chals (time_now E)"
  "keeps w_stepups (time_now E)" "keeps w_note (time_now E)" "keeps w_kick (time_now E)"
  "keeps w_fwd (time_now E)" "keeps w_image (time_now E)"
  "keeps w_db (random_bytes E k)" "keeps w_dev (random_bytes E k)" "keeps w_chals (random_bytes E k)"
  "keeps w_stepups (random_bytes E k)" "keeps w_note (random_bytes E k)" "keeps w_kick (random_bytes E k)"
  "keeps w_fwd (random_bytes E k)" "keeps w_image (random_bytes E k)"
  "keeps w_db (io_ok E)" "keeps w_dev (io_ok E)" "keeps w_chals (io_ok E)"
  "keeps w_stepups (io_ok E)" "keeps w_note (io_ok E)" "keeps w_kick (io_ok E)"
  "keeps w_fwd (io_ok E)" "keeps w_image (io_ok E)"
  "keeps w_db (db_view E f)" "keeps w_dev (db_view E f)" "keeps w_chals (db_view E f)"
  "keeps w_stepups (db_view E f)" "keeps w_note (db_view E f)" "keeps w_kick (db_view E f)"
  "keeps w_fwd (db_view E f)" "keeps w_image (db_view E f)"
  "keeps w_db (observe E h)" "keeps w_dev (observe E h)" "keeps w_chals (observe E h)"
  "keeps w_stepups (observe E h)" "keeps w_note (observe E h)" "keeps w_kick (observe E h)"
  "keeps w_fwd (observe E h)" "keeps w_image (observe E h)"
  "keeps v (get_world g)"
  by (simp_all add: keeps_def)

lemma keeps_modify [keeps_intro]: "(\<And>w. v (f w) = v w) \<Longrightarrow> keeps v (modify f)"
  by (simp add: keeps_def)

lemma keeps_db_update [keeps_intro]:
  "keeps w_dev (db_update E f)" "keeps w_chals (db_update E f)"
  "keeps w_stepups (db_update E f)" "keeps w_note (db_update E f)" "keeps w_kick (db_update E f)"
  "keeps w_fwd (db_update E f)" "keeps w_image (db_update E f)"
  by (simp_all add: keeps_def)

lemma keeps_db_part:
  assumes "\<And>d d'. f d = Some d' \<Longrightarrow> g d' = g d"
  shows "keeps (\<lambda>w. g (w_db w)) (db_update E f)"
  using assms by (auto simp: keeps_def commit_def split: option.split)

lemma keeps_device_ops [keeps_intro]:
  "keeps w_db (run E argv)" "keeps w_chals (run E argv)" "keeps w_stepups (run E argv)"
  "keeps w_note (run E argv)" "keeps w_kick (run E argv)" "keeps w_fwd (run E argv)"
  "keeps w_image (run E argv)"
  "keeps w_db (run_all E cs)" "keeps w_chals (run_all E cs)" "keeps w_stepups (run_all E cs)"
  "keeps w_note (run_all E cs)" "keeps w_kick (run_all E cs)" "keeps w_fwd (run_all E cs)"
  "keeps w_image (run_all E cs)"
  "keeps w_db (detach E argv)" "keeps w_chals (detach E argv)" "keeps w_stepups (detach E argv)"
  "keeps w_note (detach E argv)" "keeps w_kick (detach E argv)" "keeps w_fwd (detach E argv)"
  "keeps w_image (detach E argv)"
  by (simp_all add: keeps_def)

text \<open>Programs that leave the database alone leave each bucket alone.\<close>

lemma keeps_db_comp: "keeps w_db m \<Longrightarrow> keeps (\<lambda>w. g (w_db w)) m"
  by (simp add: keeps_def)

lemma keeps_db_ops:
  "keeps w_db (time_now E)" "keeps w_db (random_bytes E k)" "keeps w_db (io_ok E)"
  "keeps w_db (db_view E f)" "keeps w_db (run E argv)" "keeps w_db (run_all E cs)"
  "keeps w_db (detach E argv)" "keeps w_db (observe E h)"
  by (intro keeps_intro)+

lemmas keeps_creds_ops [keeps_intro] = keeps_db_ops [THEN keeps_db_comp [where g = db_creds]]

lemmas keeps_config_ops [keeps_intro] = keeps_db_ops [THEN keeps_db_comp [where g = db_config]]

end
