(* ===== verification/Ttl_Set.thy ===== *)
theory Ttl_Set
  imports World
begin

text \<open>
  \<open>ttlSet\<close> of \<open>internal/httpapi/authflow.go\<close>: single-use keys with a deadline, behind
  a mutex.  It backs ceremony challenges and step-up credits.  The pure operations work on
  the map from keys to deadlines; the effects below read the clock and update one of the
  daemon's two sets.  The locale \<open>ticket_set\<close> is the contract the ceremonies use; its
  lemmas compare a set with the specification \<open>open_ticket\<close> that only looks at the history
  of grants and uses.
\<close>

section \<open>The map of deadlines\<close>

type_synonym ttl_map = "string \<rightharpoonup> time"

text \<open>\<open>grant\<close> first drops every entry that is past its deadline.\<close>

definition ttl_gc :: "time \<Rightarrow> ttl_map \<Rightarrow> ttl_map" where
  "ttl_gc now m = (\<lambda>k. case m k of None \<Rightarrow> None | Some e \<Rightarrow> if now > e then None else Some e)"

definition ttl_grant :: "time \<Rightarrow> time \<Rightarrow> string \<Rightarrow> ttl_map \<Rightarrow> ttl_map" where
  "ttl_grant ttl now k m = (ttl_gc now m)(k \<mapsto> now + ttl)"

text \<open>\<open>consume\<close> removes the key whatever the answer is.\<close>

definition ttl_consume :: "time \<Rightarrow> string \<Rightarrow> ttl_map \<Rightarrow> bool \<times> ttl_map" where
  "ttl_consume now k m = ((case m k of None \<Rightarrow> False | Some e \<Rightarrow> now < e), m(k := None))"

section \<open>The contract\<close>

datatype ticket_event = Grant time string | Consume time string

fun ev_time :: "ticket_event \<Rightarrow> time" where
  "ev_time (Grant t _) = t"
| "ev_time (Consume t _) = t"

text \<open>
  Histories list the latest event first.  Specification: the time of the last grant of a key
  that no use has followed.
\<close>

fun open_ticket :: "string \<Rightarrow> ticket_event list \<Rightarrow> time option" where
  "open_ticket k [] = None"
| "open_ticket k (Grant t j # es) = (if j = k then Some t else open_ticket k es)"
| "open_ticket k (Consume t j # es) = (if j = k then None else open_ticket k es)"

fun grants :: "string \<Rightarrow> ticket_event list \<Rightarrow> nat" where
  "grants k [] = 0"
| "grants k (Grant t j # es) = (if j = k then 1 else 0) + grants k es"
| "grants k (Consume t j # es) = grants k es"

text \<open>The set after a history, and the uses of a key that were answered yes.\<close>

fun ticket_after :: "(time \<Rightarrow> string \<Rightarrow> 'm \<Rightarrow> 'm) \<Rightarrow> (time \<Rightarrow> string \<Rightarrow> 'm \<Rightarrow> bool \<times> 'm) \<Rightarrow> 'm \<Rightarrow>
    ticket_event list \<Rightarrow> 'm" where
  "ticket_after g c m [] = m"
| "ticket_after g c m (Grant t k # es) = g t k (ticket_after g c m es)"
| "ticket_after g c m (Consume t k # es) = snd (c t k (ticket_after g c m es))"

fun ticket_uses :: "(time \<Rightarrow> string \<Rightarrow> 'm \<Rightarrow> 'm) \<Rightarrow> (time \<Rightarrow> string \<Rightarrow> 'm \<Rightarrow> bool \<times> 'm) \<Rightarrow> 'm \<Rightarrow>
    string \<Rightarrow> ticket_event list \<Rightarrow> nat" where
  "ticket_uses g c m k [] = 0"
| "ticket_uses g c m k (Grant t j # es) = ticket_uses g c m k es"
| "ticket_uses g c m k (Consume t j # es) =
     (if j = k \<and> fst (c t j (ticket_after g c m es)) then 1 else 0) + ticket_uses g c m k es"

locale ticket_set =
  fixes ttl :: time
    and grant :: "time \<Rightarrow> string \<Rightarrow> 'm \<Rightarrow> 'm"
    and consume :: "time \<Rightarrow> string \<Rightarrow> 'm \<Rightarrow> bool \<times> 'm"
    and deadline :: "'m \<Rightarrow> string \<Rightarrow> time option"
    and empty :: 'm
  assumes deadline_empty: "deadline empty k = None"
    and deadline_grant: "deadline (grant now k m) j =
      (if j = k then Some (now + ttl)
       else case deadline m j of None \<Rightarrow> None | Some e \<Rightarrow> if now > e then None else Some e)"
    and consume_answer: "fst (consume now k m) \<longleftrightarrow> (\<exists>e. deadline m k = Some e \<and> now < e)"
    and deadline_consume: "deadline (snd (consume now k m)) j = (if j = k then None else deadline m j)"
begin

lemma uses_grants: "ticket_uses grant consume empty k es + (if deadline (ticket_after grant consume empty es) k = None then 0 else 1) \<le> grants k es"
proof (induction es)
  case (Cons e es)
  then show ?case
    by (cases e) (auto simp: deadline_grant deadline_consume consume_answer split: option.splits if_splits)
qed (simp add: deadline_empty)

text \<open>
  In a history whose times do not go back, the stored deadline is the one of the last open
  grant, or the entry has been collected after its deadline.
\<close>

lemma deadline_after:
  assumes "sorted_wrt (\<ge>) (map ev_time es)"
  shows "deadline (ticket_after grant consume empty es) k = map_option (\<lambda>g. g + ttl) (open_ticket k es)
       \<or> deadline (ticket_after grant consume empty es) k = None \<and>
         (\<exists>g e. open_ticket k es = Some g \<and> e \<in> set es \<and> g + ttl < ev_time e)"
  using assms
proof (induction es)
  case (Cons e es)
  then have IH: "deadline (ticket_after grant consume empty es) k = map_option (\<lambda>g. g + ttl) (open_ticket k es)
       \<or> deadline (ticket_after grant consume empty es) k = None \<and>
         (\<exists>g e. open_ticket k es = Some g \<and> e \<in> set es \<and> g + ttl < ev_time e)"
    by simp
  show ?case
  proof (cases e)
    case (Grant t j)
    show ?thesis
    proof (cases "j = k")
      case True
      with Grant show ?thesis by (simp add: deadline_grant)
    next
      case False
      show ?thesis
      proof (cases "open_ticket k es")
        case None
        with IH Grant False show ?thesis by (simp add: deadline_grant)
      next
        case (Some g)
        have "g + ttl < ev_time e" if "g + ttl < t" using that Grant by simp
        with IH Grant False Some show ?thesis
          by (cases "t > g + ttl") (fastforce simp: deadline_grant)+
      qed
    qed
  next
    case (Consume t j)
    with IH show ?thesis by (auto simp: deadline_consume)
  qed
qed (simp add: deadline_empty)

text \<open>Refinement: a use is answered yes exactly when the last open grant is young enough.\<close>

lemma consume_refines:
  assumes "sorted_wrt (\<ge>) (map ev_time es)" and "\<forall>e \<in> set es. ev_time e \<le> now"
  shows "fst (consume now k (ticket_after grant consume empty es)) \<longleftrightarrow> (\<exists>g. open_ticket k es = Some g \<and> now < g + ttl)"
proof -
  consider "deadline (ticket_after grant consume empty es) k = map_option (\<lambda>g. g + ttl) (open_ticket k es)"
    | g e where "deadline (ticket_after grant consume empty es) k = None" "open_ticket k es = Some g" "e \<in> set es" "g + ttl < ev_time e"
    using deadline_after [OF assms(1)] by blast
  then show ?thesis
  proof cases
    case 1
    then show ?thesis by (auto simp: consume_answer)
  next
    case 2
    with assms(2) have "\<not> now < g + ttl" by fastforce
    with 2 show ?thesis by (simp add: consume_answer)
  qed
qed

lemma consumed_once: "fst (consume t' k (snd (consume t k m))) = False"
  by (simp add: consume_answer deadline_consume)

end

lemma ttl_grant_deadline:
  "ttl_grant ttl now k m j = (if j = k then Some (now + ttl)
     else case m j of None \<Rightarrow> None | Some e \<Rightarrow> if now > e then None else Some e)"
  by (simp add: ttl_grant_def ttl_gc_def)

lemma ttl_consume_answer: "fst (ttl_consume now k m) \<longleftrightarrow> (\<exists>e. m k = Some e \<and> now < e)"
  by (simp add: ttl_consume_def split: option.split)

lemma ttl_consume_rest: "snd (ttl_consume now k m) j = (if j = k then None else m j)"
  by (simp add: ttl_consume_def)

interpretation ttl: ticket_set ttl "ttl_grant ttl" ttl_consume "\<lambda>m. m" Map.empty for ttl
  by unfold_locales (simp_all add: ttl_grant_deadline ttl_consume_answer ttl_consume_rest)

definition ttl_after :: "time \<Rightarrow> ticket_event list \<Rightarrow> ttl_map" where
  "ttl_after ttl es = ticket_after (ttl_grant ttl) ttl_consume Map.empty es"

definition ttl_uses :: "time \<Rightarrow> string \<Rightarrow> ticket_event list \<Rightarrow> nat" where
  "ttl_uses ttl k es = ticket_uses (ttl_grant ttl) ttl_consume Map.empty k es"

section \<open>The two sets of the daemon\<close>

definition challengeTTL :: time where "challengeTTL = 2 * minute"

definition stepUpTTL :: time where "stepUpTTL = 2 * minute"

datatype ttl_set = Chals | StepUps

fun set_ttl :: "ttl_set \<Rightarrow> time" where
  "set_ttl Chals = challengeTTL"
| "set_ttl StepUps = stepUpTTL"

fun set_map :: "ttl_set \<Rightarrow> 'd world \<Rightarrow> ttl_map" where
  "set_map Chals w = w_chals w"
| "set_map StepUps w = w_stepups w"

fun put_map :: "ttl_set \<Rightarrow> ttl_map \<Rightarrow> 'd world \<Rightarrow> 'd world" where
  "put_map Chals m w = w\<lparr>w_chals := m\<rparr>"
| "put_map StepUps m w = w\<lparr>w_stepups := m\<rparr>"

definition grant :: "'d env \<Rightarrow> ttl_set \<Rightarrow> string \<Rightarrow> ('d world, unit) state" where
  "grant E s key = do {
     now \<leftarrow> time_now E;
     modify (\<lambda>w. put_map s (ttl_grant (set_ttl s) now key (set_map s w)) w) }"

text \<open>The clock is read only for a key that is present: \<open>ok \<and> time.Now().Before(exp)\<close>.\<close>

definition consume :: "'d env \<Rightarrow> ttl_set \<Rightarrow> string \<Rightarrow> ('d world, bool) state" where
  "consume E s key = do {
     e \<leftarrow> get_world (\<lambda>w. set_map s w key);
     modify (\<lambda>w. put_map s ((set_map s w)(key := None)) w);
     case e of
       None \<Rightarrow> ret False
     | Some ex \<Rightarrow> do { now \<leftarrow> time_now E; ret (now < ex) } }"

lemma set_map_put_map [simp]: "set_map s (put_map s m w) = m"
  by (cases s) simp_all

lemma set_map_put_other: "s \<noteq> s' \<Longrightarrow> set_map s (put_map s' m w) = set_map s w"
  by (cases s; cases s') simp_all

lemma w_n_put_map [simp]: "w_n (put_map s m w) = w_n w"
  by (cases s) simp_all

lemma consume_run:
  "result (consume E s key) w = fst (ttl_consume (clock E (w_n w)) key (set_map s w))"
  "set_map s (final (consume E s key) w) = snd (ttl_consume (clock E (w_n w)) key (set_map s w))"
  by (cases s; simp add: consume_def ttl_consume_def split: option.split)+

lemma grant_run:
  "set_map s (final (grant E s key) w) = ttl_grant (set_ttl s) (clock E (w_n w)) key (set_map s w)"
  by (cases s; simp add: grant_def)

lemma put_map_frame [simp]:
  "w_db (put_map s m w) = w_db w" "w_dev (put_map s m w) = w_dev w" "w_note (put_map s m w) = w_note w"
  "w_kick (put_map s m w) = w_kick w" "w_fwd (put_map s m w) = w_fwd w" "w_image (put_map s m w) = w_image w"
  by (cases s; simp)+

lemma keeps_tickets [keeps_intro]:
  "keeps w_db (grant E s k)" "keeps w_dev (grant E s k)" "keeps w_fwd (grant E s k)"
  "keeps w_image (grant E s k)" "keeps w_note (grant E s k)"
  "keeps w_db (consume E s k)" "keeps w_dev (consume E s k)" "keeps w_fwd (consume E s k)"
  "keeps w_image (consume E s k)" "keeps w_note (consume E s k)"
  "keeps w_stepups (grant E Chals k)" "keeps w_stepups (consume E Chals k)"
  unfolding grant_def consume_def by (intro keeps_intro; simp)+

lemma keeps_db_tickets: "keeps w_db (grant E s k)" "keeps w_db (consume E s k)"
  by (intro keeps_intro)+

lemmas keeps_creds_tickets [keeps_intro] = keeps_db_tickets [THEN keeps_db_comp [where g = db_creds]]

lemmas keeps_config_tickets [keeps_intro] = keeps_db_tickets [THEN keeps_db_comp [where g = db_config]]

end
