(* ===== verification/Store.thy ===== *)
theory Store
  imports World
begin

text \<open>
  \<open>internal/store/store.go\<close>: credentials, sessions and configuration values in three bbolt
  buckets.  Every operation is one transaction; a session record is the text
  \<open>issued|lastSeen\<close>, both times in RFC 3339 with whole seconds.  The locale
  \<open>session_store\<close> is what the session policy of the HTTP layer needs of it.
\<close>

definition checked_put :: "string \<Rightarrow> 'v \<Rightarrow> 'v bucket \<Rightarrow> 'v bucket option" where
  "checked_put k v m = (if key_ok k then Some (bucket_put k v m) else None)"

lemma checked_put_Some: "checked_put k v m = Some m' \<longleftrightarrow> key_ok k \<and> m' = bucket_put k v m"
  by (auto simp: checked_put_def)

section \<open>Credentials and configuration\<close>

definition put_credential :: "'d env \<Rightarrow> string \<Rightarrow> bytes \<Rightarrow> ('d world, bool) state" where
  "put_credential E cid cose =
     db_update E (\<lambda>d. map_option (\<lambda>m. d\<lparr>db_creds := m\<rparr>) (checked_put cid cose (db_creds d)))"

definition credential :: "'d env \<Rightarrow> string \<Rightarrow> ('d world, bytes option option) state" where
  "credential E cid = db_view E (\<lambda>d. bucket_get (db_creds d) cid)"

definition credential_count :: "'d env \<Rightarrow> ('d world, nat option) state" where
  "credential_count E = db_view E (\<lambda>d. length (bucket_keys (db_creds d)))"

definition list_credential_ids :: "'d env \<Rightarrow> ('d world, string list option) state" where
  "list_credential_ids E = db_view E (\<lambda>d. bucket_keys (db_creds d))"

definition put_config :: "'d env \<Rightarrow> string \<Rightarrow> string \<Rightarrow> ('d world, bool) state" where
  "put_config E k v =
     db_update E (\<lambda>d. map_option (\<lambda>m. d\<lparr>db_config := m\<rparr>) (checked_put k v (db_config d)))"

definition config :: "'d env \<Rightarrow> string \<Rightarrow> ('d world, string option option) state" where
  "config E k = db_view E (\<lambda>d. bucket_get (db_config d) k)"

definition delete_config :: "'d env \<Rightarrow> string \<Rightarrow> ('d world, bool) state" where
  "delete_config E k = db_update E (\<lambda>d. Some (d\<lparr>db_config := bucket_delete k (db_config d)\<rparr>))"

section \<open>Sessions\<close>

definition session_value :: "'d env \<Rightarrow> time \<Rightarrow> time \<Rightarrow> string" where
  "session_value E issued seen = time_format E issued @ CHR ''|'' # time_format E seen"

definition session_put :: "'d env \<Rightarrow> string \<Rightarrow> time \<Rightarrow> time \<Rightarrow> db \<Rightarrow> db option" where
  "session_put E tok issued seen d =
     map_option (\<lambda>m. d\<lparr>db_sessions := m\<rparr>)
       (checked_put tok (session_value E issued seen) (db_sessions d))"

definition session_look :: "'d env \<Rightarrow> string \<Rightarrow> db \<Rightarrow> (time \<times> time) option" where
  "session_look E tok d =
     (case bucket_get (db_sessions d) tok of
        None \<Rightarrow> None
      | Some v \<Rightarrow>
         (case cut CHR ''|'' v of
            None \<Rightarrow> None
          | Some (i, s) \<Rightarrow>
             (case (time_parse E i, time_parse E s) of
                (Some it, Some st) \<Rightarrow> Some (it, st)
              | _ \<Rightarrow> None)))"

definition session_bump :: "'d env \<Rightarrow> string \<Rightarrow> time \<Rightarrow> db \<Rightarrow> db option" where
  "session_bump E tok seen d =
     (case bucket_get (db_sessions d) tok of
        None \<Rightarrow> Some d
      | Some v \<Rightarrow>
         (case cut CHR ''|'' v of
            None \<Rightarrow> Some d
          | Some (i, _) \<Rightarrow>
             map_option (\<lambda>m. d\<lparr>db_sessions := m\<rparr>)
               (checked_put tok (i @ CHR ''|'' # time_format E seen) (db_sessions d))))"

definition session_delete :: "string \<Rightarrow> db \<Rightarrow> db" where
  "session_delete tok d = d\<lparr>db_sessions := bucket_delete tok (db_sessions d)\<rparr>"

definition put_session :: "'d env \<Rightarrow> string \<Rightarrow> time \<Rightarrow> time \<Rightarrow> ('d world, bool) state" where
  "put_session E tok issued seen = db_update E (session_put E tok issued seen)"

text \<open>\<open>Session\<close>: the outer \<^const>\<open>None\<close> is a read error, the inner one \<open>ok = false\<close>.\<close>

definition session :: "'d env \<Rightarrow> string \<Rightarrow> ('d world, (time \<times> time) option option) state" where
  "session E tok = (if tok = [] then ret (Some None) else db_view E (session_look E tok))"

definition bump_session :: "'d env \<Rightarrow> string \<Rightarrow> time \<Rightarrow> ('d world, bool) state" where
  "bump_session E tok seen = db_update E (session_bump E tok seen)"

definition delete_session :: "'d env \<Rightarrow> string \<Rightarrow> ('d world, bool) state" where
  "delete_session E tok = db_update E (\<lambda>d. Some (session_delete tok d))"

section \<open>The interface the session policy uses\<close>

locale session_store =
  fixes times_ok :: bool
    and look :: "string \<Rightarrow> 'x \<Rightarrow> (time \<times> time) option"
    and put :: "string \<Rightarrow> time \<Rightarrow> time \<Rightarrow> 'x \<Rightarrow> 'x option"
    and bump :: "string \<Rightarrow> time \<Rightarrow> 'x \<Rightarrow> 'x option"
    and del :: "string \<Rightarrow> 'x \<Rightarrow> 'x"
  assumes look_put: "times_ok \<Longrightarrow> time_in_range i \<Longrightarrow> time_in_range s \<Longrightarrow> put t i s x = Some x' \<Longrightarrow>
      look u x' = (if u = t then Some (whole_second i, whole_second s) else look u x)"
    and put_other: "put t i s x = Some x' \<Longrightarrow> u \<noteq> t \<Longrightarrow> look u x' = look u x"
    and look_bump: "times_ok \<Longrightarrow> time_in_range s \<Longrightarrow> bump t s x = Some x' \<Longrightarrow> look t x = Some (i, s0) \<Longrightarrow>
      look t x' = Some (i, whole_second s)"
    and bump_other: "bump t s x = Some x' \<Longrightarrow> u \<noteq> t \<Longrightarrow> look u x' = look u x"
    and look_del: "look u (del t x) = (if u = t then None else look u x)"
begin

text \<open>The issue time of a session never changes while its record lives.\<close>

lemma bump_issued:
  assumes "times_ok" "time_in_range s" "bump t s x = Some x'" "look t x \<noteq> None"
    "look u x' = Some (i, s')"
  shows "\<exists>s0. look u x = Some (i, s0)"
proof (cases "u = t")
  case True
  with assms look_bump show ?thesis by fastforce
next
  case False
  with assms bump_other show ?thesis by force
qed

lemma del_issued: "look u (del t x) = Some p \<Longrightarrow> look u x = Some p"
  by (simp add: look_del split: if_splits)

end

lemma session_value_cut:
  assumes "rfc3339_ok E" "time_in_range i"
  shows "cut CHR ''|'' (session_value E i s) = Some (time_format E i, time_format E s)"
  using assms by (simp add: session_value_def rfc3339_ok_def cut_append)

lemma session_look_put:
  assumes "rfc3339_ok E" "time_in_range i" "time_in_range s" "session_put E t i s d = Some d'"
  shows "session_look E u d' =
    (if u = t then Some (whole_second i, whole_second s) else session_look E u d)"
proof -
  from assms(4) have d': "d' = d\<lparr>db_sessions := bucket_put t (session_value E i s) (db_sessions d)\<rparr>"
    by (auto simp: session_put_def checked_put_Some)
  show ?thesis
    using assms(1-3) session_value_cut [OF assms(1,2), of s]
    by (simp add: d' session_look_def bucket_laws rfc3339_ok_def)
qed

lemma session_look_other:
  "session_put E t i s d = Some d' \<Longrightarrow> u \<noteq> t \<Longrightarrow> session_look E u d' = session_look E u d"
  by (auto simp: session_put_def checked_put_Some session_look_def bucket_laws)

lemma session_bump_cases:
  assumes "session_bump E t s d = Some d'"
  obtains "d' = d" "session_look E t d = None"
  | i r where "bucket_get (db_sessions d) t = Some (i @ CHR ''|'' # r)" "CHR ''|'' \<notin> set i"
      "d' = d\<lparr>db_sessions := bucket_put t (i @ CHR ''|'' # time_format E s) (db_sessions d)\<rparr>"
proof -
  show ?thesis
  proof (cases "bucket_get (db_sessions d) t")
    case None
    with assms that(1) show ?thesis by (simp add: session_bump_def session_look_def)
  next
    case (Some v)
    show ?thesis
    proof (cases "cut CHR ''|'' v")
      case None
      with Some assms that(1) show ?thesis by (simp add: session_bump_def session_look_def)
    next
      case (Some p)
      obtain i r where p: "p = (i, r)" by (cases p)
      with Some have v: "v = i @ CHR ''|'' # r" "CHR ''|'' \<notin> set i" by (auto dest: cut_Some)
      with Some \<open>bucket_get (db_sessions d) t = Some v\<close> assms p that(2) [of i r] show ?thesis
        by (auto simp: session_bump_def checked_put_Some)
    qed
  qed
qed

lemma session_look_bump:
  assumes "rfc3339_ok E" "time_in_range s" "session_bump E t s d = Some d'"
    "session_look E t d = Some (i, s0)"
  shows "session_look E t d' = Some (i, whole_second s)"
  using assms(3)
proof (cases rule: session_bump_cases)
  case 1
  with assms(4) show ?thesis by simp
next
  case (2 a r)
  with assms(1,2,4) show ?thesis
    by (auto simp: session_look_def bucket_laws cut_append rfc3339_ok_def split: option.splits)
qed

lemma session_bump_other:
  "session_bump E t s d = Some d' \<Longrightarrow> u \<noteq> t \<Longrightarrow> session_look E u d' = session_look E u d"
  by (erule session_bump_cases) (auto simp: session_look_def bucket_laws)

lemma session_look_delete:
  "session_look E u (session_delete t d) = (if u = t then None else session_look E u d)"
  by (simp add: session_look_def session_delete_def bucket_laws)

interpretation store: session_store "rfc3339_ok E" "session_look E" "session_put E"
  "session_bump E" session_delete for E
  by unfold_locales
    (simp_all add: session_look_put session_look_other session_look_bump session_bump_other
      session_look_delete)

section \<open>Effects of the store operations\<close>

lemmas store_ops = put_credential_def credential_def credential_count_def list_credential_ids_def
  put_config_def config_def delete_config_def put_session_def session_def bump_session_def
  delete_session_def

lemma session_only_sessions:
  "session_put E t i s d = Some d' \<Longrightarrow> db_creds d' = db_creds d \<and> db_config d' = db_config d"
  "session_bump E t s d = Some d' \<Longrightarrow> db_creds d' = db_creds d \<and> db_config d' = db_config d"
  "db_creds (session_delete t d) = db_creds d \<and> db_config (session_delete t d) = db_config d"
  by (auto simp: session_put_def session_bump_def session_delete_def checked_put_Some
      split: option.splits)

lemma keeps_store [keeps_intro]:
  "keeps w_dev (put_credential E c cose)" "keeps w_dev (credential E c)" "keeps w_dev (credential_count E)"
  "keeps w_dev (list_credential_ids E)" "keeps w_dev (put_config E k v)" "keeps w_dev (config E k)"
  "keeps w_dev (delete_config E k)" "keeps w_dev (put_session E t i s)" "keeps w_dev (session E t)"
  "keeps w_dev (bump_session E t s)" "keeps w_dev (delete_session E t)"
  "keeps w_stepups (put_credential E c cose)" "keeps w_stepups (credential E c)"
  "keeps w_stepups (credential_count E)" "keeps w_stepups (list_credential_ids E)"
  "keeps w_stepups (put_config E k v)" "keeps w_stepups (config E k)"
  "keeps w_stepups (delete_config E k)" "keeps w_stepups (put_session E t i s)"
  "keeps w_stepups (session E t)" "keeps w_stepups (bump_session E t s)"
  "keeps w_stepups (delete_session E t)"
  "keeps w_db (credential E c)" "keeps w_db (credential_count E)"
  "keeps w_db (list_credential_ids E)" "keeps w_db (config E k)" "keeps w_db (session E t)"
  unfolding store_ops by (intro keeps_intro)+

lemma keeps_store_rest [keeps_intro]:
  "keeps w_chals (put_credential E c cose)" "keeps w_chals (credential E c)"
  "keeps w_chals (credential_count E)" "keeps w_chals (list_credential_ids E)"
  "keeps w_chals (put_config E k v)" "keeps w_chals (config E k)" "keeps w_chals (delete_config E k)"
  "keeps w_chals (put_session E t i s)" "keeps w_chals (session E t)"
  "keeps w_chals (bump_session E t s)" "keeps w_chals (delete_session E t)"
  "keeps w_fwd (put_credential E c cose)" "keeps w_fwd (credential E c)"
  "keeps w_fwd (credential_count E)" "keeps w_fwd (list_credential_ids E)"
  "keeps w_fwd (put_config E k v)" "keeps w_fwd (config E k)" "keeps w_fwd (delete_config E k)"
  "keeps w_fwd (put_session E t i s)" "keeps w_fwd (session E t)" "keeps w_fwd (bump_session E t s)"
  "keeps w_fwd (delete_session E t)"
  "keeps w_note (put_credential E c cose)" "keeps w_note (credential E c)"
  "keeps w_note (credential_count E)" "keeps w_note (list_credential_ids E)"
  "keeps w_note (put_config E k v)" "keeps w_note (config E k)" "keeps w_note (delete_config E k)"
  "keeps w_note (put_session E t i s)" "keeps w_note (session E t)"
  "keeps w_note (bump_session E t s)" "keeps w_note (delete_session E t)"
  "keeps w_kick (put_credential E c cose)" "keeps w_kick (credential E c)"
  "keeps w_kick (credential_count E)" "keeps w_kick (list_credential_ids E)"
  "keeps w_kick (put_config E k v)" "keeps w_kick (config E k)" "keeps w_kick (delete_config E k)"
  "keeps w_kick (put_session E t i s)" "keeps w_kick (session E t)"
  "keeps w_kick (bump_session E t s)" "keeps w_kick (delete_session E t)"
  "keeps w_image (put_credential E c cose)" "keeps w_image (credential E c)"
  "keeps w_image (credential_count E)" "keeps w_image (list_credential_ids E)"
  "keeps w_image (put_config E k v)" "keeps w_image (config E k)" "keeps w_image (delete_config E k)"
  "keeps w_image (put_session E t i s)" "keeps w_image (session E t)"
  "keeps w_image (bump_session E t s)" "keeps w_image (delete_session E t)"
  unfolding store_ops by (intro keeps_intro)+

lemma keeps_creds_config [keeps_intro]:
  "keeps (\<lambda>w. db_creds (w_db w)) (put_config E k v)"
  "keeps (\<lambda>w. db_creds (w_db w)) (delete_config E k)"
  "keeps (\<lambda>w. db_creds (w_db w)) (put_session E t i s)"
  "keeps (\<lambda>w. db_creds (w_db w)) (bump_session E t s)"
  "keeps (\<lambda>w. db_creds (w_db w)) (delete_session E t)"
  "keeps (\<lambda>w. db_config (w_db w)) (put_credential E c cose)"
  "keeps (\<lambda>w. db_config (w_db w)) (put_session E t i s)"
  "keeps (\<lambda>w. db_config (w_db w)) (bump_session E t s)"
  "keeps (\<lambda>w. db_config (w_db w)) (delete_session E t)"
  unfolding store_ops by (rule keeps_db_part; auto dest: session_only_sessions(1,2) simp: session_only_sessions(3))+

lemma keeps_sessions_store [keeps_intro]:
  "keeps (\<lambda>w. db_sessions (w_db w)) (put_config E k v)"
  "keeps (\<lambda>w. db_sessions (w_db w)) (delete_config E k)"
  "keeps (\<lambda>w. db_sessions (w_db w)) (put_credential E c cose)"
  unfolding store_ops by (rule keeps_db_part; auto)+

lemma keeps_db_store:
  "keeps w_db (credential E c)" "keeps w_db (credential_count E)"
  "keeps w_db (list_credential_ids E)" "keeps w_db (config E k)" "keeps w_db (session E t)"
  by (intro keeps_intro)+

lemmas keeps_creds_store [keeps_intro] = keeps_db_store [THEN keeps_db_comp [where g = db_creds]]

lemmas keeps_config_store [keeps_intro] = keeps_db_store [THEN keeps_db_comp [where g = db_config]]

end
