(* ===== verification/Go_Encoding.thy ===== *)
theory Go_Encoding
  imports Go_Strings
begin

text \<open>
  The text encodings of the standard library that the source uses: base64 (the URL alphabet
  without padding for tokens and credential ids, the standard padded form for WireGuard
  keys), lower-case hexadecimal, and decimal numbers (\<open>strconv.Atoi\<close>).
\<close>

section \<open>Bytes and text\<close>

definition byte_of :: "char \<Rightarrow> byte" where
  "byte_of c = word_of_nat (of_char c)"

definition char_of_byte :: "byte \<Rightarrow> char" where
  "char_of_byte b = char_of (unat b)"

definition bytes_of :: "string \<Rightarrow> bytes" where
  "bytes_of s = map byte_of s"

definition string_of :: "bytes \<Rightarrow> string" where
  "string_of bs = map char_of_byte bs"

lemma unat_byte_less [simp]: "unat (a :: byte) < 256"
  using unsigned_less [of a] by simp

lemma char_of_byte_of [simp]: "char_of_byte (byte_of c) = c"
proof -
  have "(of_char c :: nat) < 256" by (rule nat_of_char_less_256)
  then show ?thesis by (simp add: char_of_byte_def byte_of_def unat_of_nat)
qed

lemma byte_of_char_of [simp]: "byte_of (char_of_byte b) = b"
  by (simp add: char_of_byte_def byte_of_def)

lemma string_of_bytes_of [simp]: "string_of (bytes_of s) = s"
  by (simp add: string_of_def bytes_of_def comp_def map_idI)

lemma bytes_of_string_of [simp]: "bytes_of (string_of b) = b"
  by (simp add: string_of_def bytes_of_def comp_def map_idI)

lemma length_string_of [simp]: "length (string_of b) = length b"
  by (simp add: string_of_def)

lemma length_bytes_of [simp]: "length (bytes_of s) = length s"
  by (simp add: bytes_of_def)

lemma string_of_inj [simp]: "string_of a = string_of b \<longleftrightarrow> a = b"
  by (metis bytes_of_string_of)

section \<open>Base64\<close>

definition b64_std :: string where
  "b64_std = ''ABCDEFGHIJKLMNOPQRSTUVWXYZabcdefghijklmnopqrstuvwxyz0123456789+/''"

definition b64_url :: string where
  "b64_url = ''ABCDEFGHIJKLMNOPQRSTUVWXYZabcdefghijklmnopqrstuvwxyz0123456789-_''"

text \<open>Three bytes are four digits of six bits, most significant first.\<close>

definition word24 :: "byte \<Rightarrow> byte \<Rightarrow> byte \<Rightarrow> nat" where
  "word24 a b c = unat a * 65536 + unat b * 256 + unat c"

fun b64_encode :: "string \<Rightarrow> string \<Rightarrow> bytes \<Rightarrow> string" where
  "b64_encode al pad (a # b # c # r) =
     (let n = word24 a b c in
      [al ! (n div 262144), al ! (n div 4096 mod 64), al ! (n div 64 mod 64), al ! (n mod 64)]
      @ b64_encode al pad r)"
| "b64_encode al pad [a, b] =
     (let n = word24 a b 0 in
      [al ! (n div 262144), al ! (n div 4096 mod 64), al ! (n div 64 mod 64)] @ pad)"
| "b64_encode al pad [a] =
     (let n = word24 a 0 0 in [al ! (n div 262144), al ! (n div 4096 mod 64)] @ pad @ pad)"
| "b64_encode al pad [] = []"

definition b64url :: "bytes \<Rightarrow> string" where
  "b64url b = b64_encode b64_url [] b"

definition b64std :: "bytes \<Rightarrow> string" where
  "b64std b = b64_encode b64_std ''='' b"

text \<open>The value of a digit: its position in the alphabet.\<close>

fun index_of :: "string \<Rightarrow> char \<Rightarrow> nat option" where
  "index_of [] c = None"
| "index_of (x # xs) c = (if x = c then Some 0 else map_option Suc (index_of xs c))"

definition b64_digit :: "char \<Rightarrow> nat option" where
  "b64_digit c = index_of b64_std c"

definition byte3 :: "nat \<Rightarrow> bytes" where
  "byte3 n = [word_of_nat (n div 65536), word_of_nat (n div 256), word_of_nat n]"

text \<open>
  \<open>StdEncoding.DecodeString\<close>: carriage returns and line feeds are skipped, the rest is
  groups of four digits, padding stands only at the end of the last group, and the unused low
  bits of the last digit are not checked (the encoding is not \<open>Strict\<close>).
\<close>

fun b64_groups :: "string \<Rightarrow> bytes option" where
  "b64_groups [] = Some []"
| "b64_groups (a # b # c # d # r) =
     (case (b64_digit a, b64_digit b) of
        (Some x, Some y) \<Rightarrow>
          (if c = CHR ''='' then
             (if d = CHR ''='' \<and> r = [] then Some (take 1 (byte3 (x * 262144 + y * 4096))) else None)
           else (case b64_digit c of
              None \<Rightarrow> None
            | Some z \<Rightarrow>
               (if d = CHR ''='' then
                  (if r = [] then Some (take 2 (byte3 (x * 262144 + y * 4096 + z * 64))) else None)
                else (case b64_digit d of
                   None \<Rightarrow> None
                 | Some u \<Rightarrow>
                    map_option (\<lambda>bs. byte3 (x * 262144 + y * 4096 + z * 64 + u) @ bs) (b64_groups r)))))
      | _ \<Rightarrow> None)"
| "b64_groups _ = None"

definition b64_decode :: "string \<Rightarrow> bytes option" where
  "b64_decode s = b64_groups (filter (\<lambda>c. c \<noteq> CHR 0x0D \<and> c \<noteq> CHR 0x0A) s)"

subsection \<open>Digits\<close>

lemma index_of_nth: "distinct al \<Longrightarrow> i < length al \<Longrightarrow> index_of al (al ! i) = Some i"
  by (induction al arbitrary: i) (auto simp: nth_Cons split: nat.split)

lemma b64_std_shape: "distinct b64_std" "length b64_std = 64"
  by (simp_all add: b64_std_def)

lemma b64_url_shape: "distinct b64_url" "length b64_url = 64"
  by (simp_all add: b64_url_def)

lemma b64_digit_nth [simp]: "i < 64 \<Longrightarrow> b64_digit (b64_std ! i) = Some i"
  by (simp add: b64_digit_def index_of_nth b64_std_shape)

lemma word24_less: "word24 a b c < 16777216"
  using unat_byte_less [of a] unat_byte_less [of b] unat_byte_less [of c] unfolding word24_def by linarith

lemma div_digit: "r < m \<Longrightarrow> (a * m + r) div m = (a :: nat)"
  and mod_digit: "r < m \<Longrightarrow> (a * m + r) mod m = (r :: nat)"
  by simp_all

lemma word24_div: "word24 a b c div 65536 = unat a" "word24 a b c div 256 = unat a * 256 + unat b"
proof -
  have "unat b * 256 + unat c < 65536"
    using unat_byte_less [of b] unat_byte_less [of c] by linarith
  then show "word24 a b c div 65536 = unat a"
    using div_digit [of "unat b * 256 + unat c" 65536 "unat a"] by (simp add: word24_def add.assoc)
  show "word24 a b c div 256 = unat a * 256 + unat b"
    using div_digit [of "unat c" 256 "unat a * 256 + unat b"] by (simp add: word24_def)
qed

lemma byte_low: "(word_of_nat (x * 256 + unat y) :: byte) = y"
proof -
  have "(x * 256 + unat y) mod 2 ^ LENGTH(8) = unat y"
    by (simp add: mod_digit)
  then have "unat (word_of_nat (x * 256 + unat y) :: byte) = unat y"
    by (simp only: unat_of_nat)
  then show ?thesis by (rule unsigned_word_eqI)
qed

lemma byte3_word24 [simp]: "byte3 (word24 a b c) = [a, b, c]"
proof -
  have "word24 a b c = (unat a * 256 + unat b) * 256 + unat c"
    by (simp add: word24_def)
  then show ?thesis
    unfolding byte3_def word24_div using byte_low [of "unat a" b] byte_low [of "unat a * 256 + unat b" c]
    by simp
qed

text \<open>Reassembling the digits of a 24-bit group.\<close>

lemma base64_digits:
  "q1 * 64 + r1 = n \<Longrightarrow> q2 * 64 + r2 = q1 \<Longrightarrow> q3 * 64 + r3 = q2 \<Longrightarrow>
   q3 * 262144 + r3 * 4096 + r2 * 64 + r1 = (n :: nat)"
  by linarith

lemma sextets:
  "n div 262144 * 262144 + n div 4096 mod 64 * 4096 + n div 64 mod 64 * 64 + n mod 64 = (n :: nat)"
proof -
  have d: "n div 4096 = n div 64 div 64" "n div 262144 = n div 64 div 64 div 64"
    by (simp_all add: div_mult2_eq [symmetric])
  show ?thesis
    unfolding d by (rule base64_digits; rule div_mult_mod_eq)
qed

lemma top_sextet: "n < 16777216 \<Longrightarrow> n div 262144 < (64 :: nat)"
  by (simp add: less_mult_imp_div_less)

lemma word24_low:
  "word24 a b 0 mod 64 = 0" "word24 a 0 0 mod 64 = 0" "word24 a 0 0 div 64 mod 64 = 0"
proof -
  have two: "word24 a b 0 = 64 * (unat a * 1024 + unat b * 4)" for b
    by (simp add: word24_def)
  have one: "word24 a 0 0 = 64 * (64 * (unat a * 16))"
    by (simp add: word24_def)
  show "word24 a b 0 mod 64 = 0" unfolding two by (rule mod_mult_self1_is_0)
  show "word24 a 0 0 mod 64 = 0" unfolding one by (rule mod_mult_self1_is_0)
  have "word24 a 0 0 div 64 = 64 * (unat a * 16)"
    unfolding one by (rule nonzero_mult_div_cancel_left) simp
  then show "word24 a 0 0 div 64 mod 64 = 0" by (metis mod_mult_self1_is_0)
qed

subsection \<open>Decoding an encoding\<close>

lemma b64_digit_special [simp]:
  "b64_digit CHR ''='' = None" "b64_digit CHR 0x0D = None" "b64_digit CHR 0x0A = None"
  by (simp_all add: b64_digit_def b64_std_def)

lemma b64_char_ne [simp]:
  assumes "i < 64"
  shows "b64_std ! i \<noteq> CHR ''=''" "b64_std ! i \<noteq> CHR 0x0D" "b64_std ! i \<noteq> CHR 0x0A"
  using b64_digit_nth [OF assms] by (metis b64_digit_special option.distinct(1))+

lemma b64_groups_encode: "b64_groups (b64_encode b64_std ''='' b) = Some b"
proof (induction b64_std "''=''" b rule: b64_encode.induct)
  case (1 a b c r)
  then show ?case
    using top_sextet [OF word24_less, of a b c] sextets [of "word24 a b c"] by (simp add: Let_def)
next
  case (2 a b)
  then show ?case
    using top_sextet [OF word24_less, of a b 0] sextets [of "word24 a b 0"]
    by (simp add: Let_def word24_low)
next
  case (3 a)
  then show ?case
    using top_sextet [OF word24_less, of a 0 0] sextets [of "word24 a 0 0"]
    by (simp add: Let_def word24_low)
qed simp

lemma b64std_chars: "set (b64std b) \<subseteq> set b64_std \<union> {CHR ''=''}"
  unfolding b64std_def
proof (induction b64_std "''=''" b rule: b64_encode.induct)
  case (1 a b c r)
  have "word24 a b c div 262144 < length b64_std" "\<And>n. n mod 64 < length b64_std"
    using top_sextet [OF word24_less, of a b c] by (simp_all add: b64_std_shape)
  then show ?case using 1 by (auto simp: Let_def)
next
  case (2 a b)
  have "word24 a b 0 div 262144 < length b64_std" "\<And>n. n mod 64 < length b64_std"
    using top_sextet [OF word24_less, of a b 0] by (simp_all add: b64_std_shape)
  then show ?case by (auto simp: Let_def)
next
  case (3 a)
  have "word24 a 0 0 div 262144 < length b64_std" "\<And>n. n mod 64 < length b64_std"
    using top_sextet [OF word24_less, of a 0 0] by (simp_all add: b64_std_shape)
  then show ?case by (auto simp: Let_def)
qed simp

lemma b64_encode_no_newline:
  "CHR 0x0D \<notin> set (b64std b)" "CHR 0x0A \<notin> set (b64std b)"
proof -
  have "CHR 0x0D \<notin> set b64_std \<union> {CHR ''=''}" "CHR 0x0A \<notin> set b64_std \<union> {CHR ''=''}"
    by (simp_all add: b64_std_def)
  then show "CHR 0x0D \<notin> set (b64std b)" "CHR 0x0A \<notin> set (b64std b)"
    using b64std_chars [of b] by blast+
qed

lemma b64_decode_encode: "b64_decode (b64std b) = Some b"
proof -
  have "filter (\<lambda>c. c \<noteq> CHR 0x0D \<and> c \<noteq> CHR 0x0A) (b64std b) = b64std b"
    using b64_encode_no_newline [of b] by (intro filter_True) metis
  then show ?thesis
    by (simp add: b64_decode_def b64std_def b64_groups_encode)
qed

lemma b64url_length: "length b mod 3 = 1 \<Longrightarrow> length (b64_encode al [] b) = length b div 3 * 4 + 2"
proof (induction al "[] :: string" b rule: b64_encode.induct)
  case (1 al a b c r)
  have "length (a # b # c # r) mod 3 = length r mod 3" "length (a # b # c # r) div 3 = Suc (length r div 3)"
    using mod_add_self1 [of 3 "length r"] div_add_self1 [of 3 "length r"] by (simp_all del: mod_add_self1)
  with 1 show ?case by (simp add: Let_def)
qed (auto simp: Let_def)

text \<open>A token is 22 characters.\<close>

lemma b64url_token [simp]: "length b = 16 \<Longrightarrow> length (b64url b) = 22"
  using b64url_length [of b b64_url] by (simp add: b64url_def)

section \<open>Decimal numbers\<close>

definition digit_val :: "char \<Rightarrow> nat option" where
  "digit_val c = (if CHR ''0'' \<le> c \<and> c \<le> CHR ''9'' then Some (of_char c - 48) else None)"

definition digit_char :: "nat \<Rightarrow> char" where
  "digit_char n = char_of (n + 48)"

fun digits_val :: "nat \<Rightarrow> string \<Rightarrow> nat option" where
  "digits_val acc [] = Some acc"
| "digits_val acc (c # s) =
     (case digit_val c of None \<Rightarrow> None | Some d \<Rightarrow> digits_val (acc * 10 + d) s)"

text \<open>
  \<open>strconv.Atoi\<close>: an optional sign, at least one digit, digits only, and a value the
  64-bit \<open>int\<close> holds.  Where \<open>int\<close> has 32 bits more values are out of range, all of
  them far outside the bounds every caller checks next.
\<close>

definition atoi :: "string \<Rightarrow> int option" where
  "atoi s =
     (let neg = (s \<noteq> [] \<and> hd s = CHR ''-'');
          d = (case s of [] \<Rightarrow> [] | c # r \<Rightarrow> if c = CHR ''-'' \<or> c = CHR ''+'' then r else s) in
      if d = [] then None
      else (case digits_val 0 d of
              None \<Rightarrow> None
            | Some n \<Rightarrow>
               (if neg then (if n \<le> 2 ^ 63 then Some (- int n) else None)
                else if n < 2 ^ 63 then Some (int n) else None)))"

function dec :: "nat \<Rightarrow> string" where
  "dec n = (if n < 10 then [digit_char n] else dec (n div 10) @ [digit_char (n mod 10)])"
  by pat_completeness auto
termination
  by (relation "measure id") auto

declare dec.simps [simp del]

lemma digit_char_shape: "n < 10 \<Longrightarrow> of_char (digit_char n) = n + 48"
  by (simp add: digit_char_def)

lemma digit_val_char [simp]: "n < 10 \<Longrightarrow> digit_val (digit_char n) = Some n"
  by (simp add: digit_val_def less_eq_char_def digit_char_def)

lemma digits_val_append:
  "digits_val a (s @ t) = (case digits_val a s of None \<Rightarrow> None | Some b \<Rightarrow> digits_val b t)"
  by (induction a s rule: digits_val.induct) (auto split: option.split)

lemma digits_val_dec: "digits_val 0 (dec n) = Some n"
proof (induction n rule: dec.induct)
  case (1 n)
  then show ?case by (cases "n < 10") (simp_all add: dec.simps [of n] digits_val_append)
qed

lemma dec_digits: "c \<in> set (dec n) \<Longrightarrow> \<exists>d < 10. c = digit_char d"
proof (induction n rule: dec.induct)
  case (1 n)
  have "\<exists>d < 10. digit_char (n mod 10) = digit_char d" by (rule exI [of _ "n mod 10"]) simp
  with 1 show ?case by (cases "n < 10") (auto simp: dec.simps [of n])
qed

lemma dec_Cons: "\<exists>d r. dec n = digit_char d # r \<and> d < 10"
proof -
  have "dec n \<noteq> []" by (subst dec.simps) simp
  then obtain c r where r: "dec n = c # r" by (cases "dec n") auto
  with dec_digits [of c n] show ?thesis by auto
qed

lemma digit_char_ne: "d < 10 \<Longrightarrow> of_char c < (48 :: nat) \<or> 57 < (of_char c :: nat) \<Longrightarrow> digit_char d \<noteq> c"
  using digit_char_shape [of d] by auto

lemma atoi_dec: "n < 2 ^ 63 \<Longrightarrow> atoi (dec n) = Some (int n)"
proof -
  assume n: "n < 2 ^ 63"
  obtain d r where d: "dec n = digit_char d # r" "d < 10" using dec_Cons by blast
  then have "digit_char d \<noteq> CHR ''-''" "digit_char d \<noteq> CHR ''+''"
    using digit_char_ne [of d "CHR ''-''"] digit_char_ne [of d "CHR ''+''"] by simp_all
  with d n digits_val_dec [of n] show ?thesis by (auto simp: atoi_def Let_def)
qed

section \<open>Hexadecimal\<close>

definition hex_char :: "nat \<Rightarrow> char" where
  "hex_char n = (if n < 10 then char_of (n + 48) else char_of (n + 87))"

text \<open>The \<open>%02x\<close> of one byte.\<close>

definition hex2 :: "byte \<Rightarrow> string" where
  "hex2 b = [hex_char (unat b div 16), hex_char (unat b mod 16)]"

definition hex_val :: "char \<Rightarrow> nat option" where
  "hex_val c =
     (if CHR ''0'' \<le> c \<and> c \<le> CHR ''9'' then Some (of_char c - 48)
      else if CHR ''a'' \<le> c \<and> c \<le> CHR ''f'' then Some (of_char c - 87)
      else if CHR ''A'' \<le> c \<and> c \<le> CHR ''F'' then Some (of_char c - 55)
      else None)"

text \<open>\<open>hex.DecodeString\<close>: pairs of digits, nothing else.\<close>

fun hex_decode :: "string \<Rightarrow> bytes option" where
  "hex_decode [] = Some []"
| "hex_decode [c] = None"
| "hex_decode (a # b # s) =
     (case (hex_val a, hex_val b) of
        (Some x, Some y) \<Rightarrow> map_option (\<lambda>bs. word_of_nat (x * 16 + y) # bs) (hex_decode s)
      | _ \<Rightarrow> None)"

lemma hex_val_char [simp]: "n < 16 \<Longrightarrow> hex_val (hex_char n) = Some n"
  by (auto simp: hex_val_def hex_char_def less_eq_char_def)

lemma hex_decode_hex2: "hex_decode (hex2 b @ s) = map_option (\<lambda>bs. b # bs) (hex_decode s)"
proof -
  have "unat b div 16 < 16" using unat_byte_less [of b] by (simp add: less_mult_imp_div_less)
  then show ?thesis by (simp add: hex2_def)
qed

lemma hex_round_trip: "hex_decode (concat (map hex2 bs)) = Some bs"
  by (induction bs) (simp_all add: hex_decode_hex2)

section \<open>16-bit lengths\<close>

text \<open>\<open>binary.BigEndian\<close>.\<close>

definition be16 :: "byte \<Rightarrow> byte \<Rightarrow> nat" where
  "be16 a b = unat a * 256 + unat b"

definition put_be16 :: "nat \<Rightarrow> bytes" where
  "put_be16 n = [word_of_nat (n div 256), word_of_nat n]"

lemma be16_split: "n < 65536 \<Longrightarrow> be16 (word_of_nat (n div 256)) (word_of_nat n) = n"
proof -
  assume n: "n < 65536"
  then have "n div 256 < 256" by (simp add: less_mult_imp_div_less)
  then have "unat (word_of_nat (n div 256) :: byte) = n div 256" by (simp add: unat_of_nat)
  moreover have "unat (word_of_nat n :: byte) = n mod 256" by (simp add: unat_of_nat)
  ultimately show ?thesis by (simp only: be16_def div_mult_mod_eq)
qed

lemma be16_bytes: "word_of_nat (be16 a b div 256) = a" "word_of_nat (be16 a b) = b"
  unfolding be16_def div_digit [OF unat_byte_less] byte_low by simp_all

end
