(* ===== verification/Auth.thy ===== *)
theory Auth
  imports World Go_Encoding
begin

unbundle bit_operations_syntax

text \<open>
  \<open>internal/auth\<close>: the minimal WebAuthn.  COSE key parsing and the signature check
  (\<open>auth.go\<close>), the clientDataJSON and authenticator-data checks and the registration
  parser (\<open>webauthn.go\<close>).  CBOR decoding, SHA-256 and ECDSA are fields of the environment;
  the byte layout of a registration is read here as the source reads it.
\<close>

datatype auth_error =
    BadCbor | UnsupportedKey | BadClientData | WrongType string | ChallengeMismatch
  | OriginNotAllowed string | TooShort | RpMismatch | NoUserPresent | BadAttestation
  | NoAttested | AttestedTruncated | IdTruncated | BadCoseKey

definition CeremonyCreate :: string where "CeremonyCreate = ''webauthn.create''"

definition CeremonyGet :: string where "CeremonyGet = ''webauthn.get''"

definition flagUserPresent :: byte where "flagUserPresent = 1"

definition flagAttestedCred :: byte where "flagAttestedCred = push_bit 6 1"

section \<open>auth.go\<close>

text \<open>\<open>big.Int.SetBytes\<close>: big-endian.\<close>

definition nat_of_bytes :: "bytes \<Rightarrow> nat" where
  "nat_of_bytes bs = foldl (\<lambda>n b. n * 256 + unat b) 0 bs"

definition parse_cose :: "'d env \<Rightarrow> bytes \<Rightarrow> auth_error + (nat \<times> nat)" where
  "parse_cose E b =
     (case cbor_key E b of
        None \<Rightarrow> Inl BadCbor
      | Some k \<Rightarrow>
         (if ck_kty k \<noteq> 2 \<or> ck_crv k \<noteq> 1 \<or> ck_alg k \<noteq> - 7 then Inl UnsupportedKey
          else Inr (nat_of_bytes (ck_x k), nat_of_bytes (ck_y k))))"

definition verify_assertion :: "'d env \<Rightarrow> nat \<times> nat \<Rightarrow> bytes \<Rightarrow> bytes \<Rightarrow> bytes \<Rightarrow> bool" where
  "verify_assertion E pub authData clientDataJSON sig =
     ecdsa_verify E pub (sha256 E (authData @ sha256 E clientDataJSON)) sig"

definition new_token :: "'d env \<Rightarrow> ('d world, string option) state" where
  "new_token E = do { b \<leftarrow> random_bytes E 16; ret (map_option b64url b) }"

definition hash_token :: "'d env \<Rightarrow> string \<Rightarrow> string" where
  "hash_token E tok = string_of (sha256 E (bytes_of tok))"

section \<open>webauthn.go\<close>

definition verify_client_data ::
  "'d env \<Rightarrow> bytes \<Rightarrow> string \<Rightarrow> string \<Rightarrow> string list \<Rightarrow> auth_error option" where
  "verify_client_data E raw ceremony wantChallenge origins =
     (case json_client_data E raw of
        None \<Rightarrow> Some BadClientData
      | Some cd \<Rightarrow>
         (if cd_type cd \<noteq> ceremony then Some (WrongType (cd_type cd))
          else if cd_challenge cd \<noteq> wantChallenge then Some ChallengeMismatch
          else if cd_origin cd \<in> set origins then None
          else Some (OriginNotAllowed (cd_origin cd))))"

definition verify_auth_data :: "'d env \<Rightarrow> bytes \<Rightarrow> string \<Rightarrow> auth_error option" where
  "verify_auth_data E authData rp =
     (if length authData < 37 then Some TooShort
      else if take 32 authData \<noteq> sha256 E (bytes_of rp) then Some RpMismatch
      else if authData ! 32 AND flagUserPresent = 0 then Some NoUserPresent
      else None)"

definition parse_registration :: "'d env \<Rightarrow> bytes \<Rightarrow> string \<Rightarrow> auth_error + (bytes \<times> bytes)" where
  "parse_registration E attObj rp =
     (case cbor_attestation E attObj of
        None \<Rightarrow> Inl BadAttestation
      | Some ad \<Rightarrow>
         (case verify_auth_data E ad rp of
            Some e \<Rightarrow> Inl e
          | None \<Rightarrow>
             (if ad ! 32 AND flagAttestedCred = 0 then Inl NoAttested
              else
                (let rest = drop 37 ad in
                 if length rest < 18 then Inl AttestedTruncated
                 else
                   (let idLen = be16 (rest ! 16) (rest ! 17) in
                    if length rest < 18 + idLen then Inl IdTruncated
                    else
                      (let credID = take idLen (drop 18 rest) in
                       case cbor_first E (drop (18 + idLen) rest) of
                         None \<Rightarrow> Inl BadCoseKey
                       | Some raw \<Rightarrow>
                          (case parse_cose E raw of
                             Inl e \<Rightarrow> Inl e
                           | Inr _ \<Rightarrow> Inr (credID, raw))))))))"

section \<open>The byte layout of a registration\<close>

text \<open>
  The format the parser reads: RP hash, flags, signature counter, AAGUID, the length and
  bytes of the credential id, then the COSE key and whatever extensions follow.
\<close>

definition registration_data :: "bytes \<Rightarrow> byte \<Rightarrow> bytes \<Rightarrow> bytes \<Rightarrow> bytes \<Rightarrow> bytes \<Rightarrow> bytes" where
  "registration_data rpHash flags counter aaguid credID rest =
     rpHash @ [flags] @ counter @ aaguid
     @ [word_of_nat (length credID div 256), word_of_nat (length credID)] @ credID @ rest"

lemma verify_auth_data_None:
  "verify_auth_data E ad rp = None \<longleftrightarrow>
     37 \<le> length ad \<and> take 32 ad = sha256 E (bytes_of rp) \<and> ad ! 32 AND flagUserPresent \<noteq> 0"
  by (simp add: verify_auth_data_def)

lemma verify_client_data_None:
  "verify_client_data E raw c ch os = None \<longleftrightarrow>
     (\<exists>cd. json_client_data E raw = Some cd \<and> cd_type cd = c \<and> cd_challenge cd = ch \<and> cd_origin cd \<in> set os)"
  by (auto simp: verify_client_data_def split: option.splits)

lemma take_drop_33: "37 \<le> length xs \<Longrightarrow>
    take 32 xs @ xs ! 32 # take 4 (drop 33 xs) @ drop 37 xs = xs"
proof -
  assume l: "37 \<le> length xs"
  have "xs ! 32 # drop 33 xs = drop 32 xs"
    using l Cons_nth_drop_Suc [of 32 xs] by simp
  moreover have "take 4 (drop 33 xs) @ drop 37 xs = drop 33 xs"
    using append_take_drop_id [of 4 "drop 33 xs"] by simp
  ultimately show ?thesis by (metis append_take_drop_id)
qed

lemma take_drop_18: "18 \<le> length xs \<Longrightarrow>
    take 16 xs @ xs ! 16 # xs ! 17 # take n (drop 18 xs) @ drop (18 + n) xs = xs"
proof -
  assume l: "18 \<le> length xs"
  have "xs ! 16 # drop 17 xs = drop 16 xs" "xs ! 17 # drop 18 xs = drop 17 xs"
    using l Cons_nth_drop_Suc [of 16 xs] Cons_nth_drop_Suc [of 17 xs] by simp_all
  moreover have "take n (drop 18 xs) @ drop (18 + n) xs = drop 18 xs"
    using append_take_drop_id [of n "drop 18 xs"] by (simp add: add.commute)
  ultimately show ?thesis by (metis append_take_drop_id)
qed

text \<open>What a parsed registration says about its bytes, and nothing read out of range.\<close>

lemma parse_registration_Inr:
  assumes "parse_registration E att rp = Inr (cid, key)"
  obtains ad flags aaguid counter ext where
    "cbor_attestation E att = Some ad"
    "ad = registration_data (sha256 E (bytes_of rp)) flags counter aaguid cid ext"
    "length counter = 4" "length aaguid = 16" "length cid < 65536"
    "flags AND flagUserPresent \<noteq> 0" "flags AND flagAttestedCred \<noteq> 0"
    "cbor_first E ext = Some key" "\<exists>pub. parse_cose E key = Inr pub"
proof -
  from assms obtain ad where ad: "cbor_attestation E att = Some ad" "verify_auth_data E ad rp = None"
    by (auto simp: parse_registration_def split: option.splits)
  define rest where "rest = drop 37 ad"
  define n where "n = be16 (rest ! 16) (rest ! 17)"
  from assms ad have r: "ad ! 32 AND flagAttestedCred \<noteq> 0" "18 \<le> length rest" "18 + n \<le> length rest"
    "cid = take n (drop 18 rest)" "cbor_first E (drop (18 + n) rest) = Some key"
    "\<exists>pub. parse_cose E key = Inr pub"
    by (auto simp: parse_registration_def Let_def rest_def n_def not_less split: if_splits option.splits sum.splits)
  from ad(2) have v: "37 \<le> length ad" "take 32 ad = sha256 E (bytes_of rp)" "ad ! 32 AND flagUserPresent \<noteq> 0"
    by (simp_all add: verify_auth_data_None)
  have n: "n < 65536"
    using unat_byte_less [of "rest ! 16"] unat_byte_less [of "rest ! 17"]
    unfolding n_def be16_def by linarith
  have len: "length cid = n" using r(3,4) by simp
  have split: "ad = take 32 ad @ [ad ! 32] @ take 4 (drop 33 ad) @ rest"
    using v(1) take_drop_33 [of ad] by (simp add: rest_def)
  have "rest = take 16 rest @ [rest ! 16, rest ! 17] @ take n (drop 18 rest) @ drop (18 + n) rest"
    using r(2) take_drop_18 [of rest n] by simp
  then have "ad = registration_data (take 32 ad) (ad ! 32) (take 4 (drop 33 ad)) (take 16 rest) cid
      (drop (18 + n) rest)"
    using split len r(4) be16_bytes [of "rest ! 16" "rest ! 17"]
    by (simp add: registration_data_def n_def)
  then show ?thesis
    using that [OF ad(1), where flags = "ad ! 32" and counter = "take 4 (drop 33 ad)"
        and aaguid = "take 16 rest" and ext = "drop (18 + n) rest"] v r n len
    by (simp add: rest_def)
qed

lemma parse_registration_build:
  assumes "cbor_attestation E att =
      Some (registration_data (sha256 E (bytes_of rp)) flags counter aaguid cid ext)"
    and "length (sha256 E (bytes_of rp)) = 32" "length counter = 4" "length aaguid = 16" "length cid < 65536"
    and "flags AND flagUserPresent \<noteq> 0" "flags AND flagAttestedCred \<noteq> 0"
    and "cbor_first E ext = Some key" "parse_cose E key = Inr pub"
  shows "parse_registration E att rp = Inr (cid, key)"
proof -
  define ad where "ad = registration_data (sha256 E (bytes_of rp)) flags counter aaguid cid ext"
  have "length ad = 55 + length cid + length ext" "take 32 ad = sha256 E (bytes_of rp)"
    "ad ! 32 = flags" "drop 37 ad = aaguid @ [word_of_nat (length cid div 256), word_of_nat (length cid)] @ cid @ ext"
    using assms(2-4) by (simp_all add: ad_def registration_data_def nth_append)
  moreover have "be16 (word_of_nat (length cid div 256)) (word_of_nat (length cid)) = length cid"
    using assms(5) by (rule be16_split)
  ultimately show ?thesis
    using assms by (simp add: parse_registration_def verify_auth_data_def Let_def ad_def [symmetric] nth_append)
qed

end
