(* ===== verification/Http_Types.thy ===== *)
theory Http_Types
  imports Ttl_Set Store Auth
begin

text \<open>
  Requests and responses of the JSON API (\<open>writeJSON\<close>, \<open>http.Error\<close>, \<open>sessionToken\<close>
  of \<open>internal/httpapi/api.go\<close>).  A request body is what \<open>json.Decode\<close> gave:
  \<^const>\<open>None\<close> when it failed.  The session token of a request is the value of its cookie,
  empty when there is none.  A response holds the status, the body and the session cookie it
  sets or clears.
\<close>

datatype json =
    JStr string | JBool bool | JInt int | JList "json list" | JObj "(string \<times> json) list"
  | JRaw string | JNull

datatype body = Text string | Json json

text \<open>Every session cookie is \<open>HttpOnly\<close>, \<open>Secure\<close>, \<open>SameSite=Strict\<close>, path \<open>/\<close>.\<close>

datatype cookie = SetSession string time | ClearSession

record response =
  rs_code :: nat
  rs_body :: body
  rs_cookie :: "cookie option"

definition http_error :: "string \<Rightarrow> nat \<Rightarrow> response" where
  "http_error msg code = \<lparr>rs_code = code, rs_body = Text msg, rs_cookie = None\<rparr>"

definition write_json :: "nat \<Rightarrow> (string \<times> json) list \<Rightarrow> response" where
  "write_json code kvs = \<lparr>rs_code = code, rs_body = Json (JObj kvs), rs_cookie = None\<rparr>"

definition with_cookie :: "cookie \<Rightarrow> response \<Rightarrow> response" where
  "with_cookie c r = r\<lparr>rs_cookie := Some c\<rparr>"

text \<open>Fields of a response body.\<close>

definition field :: "response \<Rightarrow> string \<Rightarrow> json option" where
  "field r k = (case rs_body r of Json (JObj fs) \<Rightarrow> map_of fs k | _ \<Rightarrow> None)"

lemma response_code [simp]:
  "rs_code (http_error m c) = c" "rs_code (write_json c fs) = c"
  "rs_code (with_cookie k r) = rs_code r"
  "rs_cookie (http_error m c) = None" "rs_cookie (write_json c fs) = None"
  "rs_cookie (with_cookie k r) = Some k"
  by (simp_all add: http_error_def write_json_def with_cookie_def)

lemma field_simps [simp]:
  "field (http_error m c) k = None" "field (write_json c fs) k = map_of fs k"
  "field (with_cookie ck r) k = field r k"
  by (simp_all add: field_def http_error_def write_json_def with_cookie_def)

text \<open>HTTP status codes the source uses.\<close>

abbreviation "StatusOK \<equiv> (200::nat)"
abbreviation "StatusBadRequest \<equiv> (400::nat)"
abbreviation "StatusUnauthorized \<equiv> (401::nat)"
abbreviation "StatusForbidden \<equiv> (403::nat)"
abbreviation "StatusConflict \<equiv> (409::nat)"
abbreviation "StatusUnprocessableEntity \<equiv> (422::nat)"
abbreviation "StatusPreconditionRequired \<equiv> (428::nat)"
abbreviation "StatusInternalServerError \<equiv> (500::nat)"
abbreviation "StatusBadGateway \<equiv> (502::nat)"

record register_req =
  rq_clientDataJSON :: bytes
  rq_attestationObject :: bytes

record login_req =
  lq_credentialId :: string
  lq_authenticatorData :: bytes
  lq_clientDataJSON :: bytes
  lq_signature :: bytes

end
