(* ===== verification/Sessions.thy ===== *)
theory Sessions
  imports Http_Types
begin

text \<open>
  The session policy of \<open>internal/httpapi/authflow.go\<close>: issuing, the idle and absolute
  limits, the throttled slide of the idle limit, logout, and the gate \<open>requireSession\<close> of
  \<open>api.go\<close>.  A handler is a program that returns the response; the gate takes the
  handler it guards as its argument.
\<close>

definition sessionIdle :: time where "sessionIdle = 15 * minute"

definition sessionAbsolute :: time where "sessionAbsolute = 12 * hour"

definition sessionBumpMin :: time where "sessionBumpMin = 30 * second"

text \<open>\<open>issueSession\<close>: the cookie it sets, or \<^const>\<open>None\<close> for its error.\<close>

definition issue_session :: "'d env \<Rightarrow> ('d world, cookie option) state" where
  "issue_session E = do {
     t \<leftarrow> new_token E;
     case t of
       None \<Rightarrow> ret None
     | Some tok \<Rightarrow> do {
         now \<leftarrow> time_now E;
         ok \<leftarrow> put_session E tok now now;
         ret (if ok then Some (SetSession tok (now + sessionAbsolute)) else None) } }"

definition session_valid :: "'d env \<Rightarrow> string \<Rightarrow> bool \<Rightarrow> ('d world, bool) state" where
  "session_valid E tok slide = do {
     r \<leftarrow> session E tok;
     case r of
       None \<Rightarrow> ret False
     | Some None \<Rightarrow> ret False
     | Some (Some (issued, seen)) \<Rightarrow> do {
         now \<leftarrow> time_now E;
         if now > seen + sessionIdle \<or> now > issued + sessionAbsolute then do {
           _ \<leftarrow> delete_session E tok;
           ret False }
         else do {
           _ \<leftarrow> (if slide \<and> now - seen > sessionBumpMin then bump_session E tok now else ret True);
           ret True } } }"

definition logout :: "'d env \<Rightarrow> string \<Rightarrow> ('d world, response) state" where
  "logout E tok = do {
     _ \<leftarrow> (if tok \<noteq> [] then delete_session E tok else ret True);
     ret (with_cookie ClearSession (write_json StatusOK [(''ok'', JBool True)])) }"

definition require_session ::
  "'d env \<Rightarrow> string \<Rightarrow> ('d world, response) state \<Rightarrow> ('d world, response) state" where
  "require_session E tok next = do {
     v \<leftarrow> session_valid E tok True;
     if v then next else ret (http_error ''unauthorized'' StatusUnauthorized) }"

section \<open>The policy as a predicate\<close>

text \<open>A stored session is live at an instant when neither limit has passed.\<close>

definition live_at :: "time \<Rightarrow> time \<times> time \<Rightarrow> bool" where
  "live_at now p \<longleftrightarrow> now \<le> snd p + sessionIdle \<and> now \<le> fst p + sessionAbsolute"

definition session_live :: "'d env \<Rightarrow> string \<Rightarrow> time \<Rightarrow> db \<Rightarrow> bool" where
  "session_live E tok now d \<longleftrightarrow> tok \<noteq> [] \<and> (\<exists>p. session_look E tok d = Some p \<and> live_at now p)"

lemma session_run:
  "result (session E tok) w =
     (if tok = [] then Some None else if io_fault E (w_n w) then None
      else Some (session_look E tok (w_db w)))"
  "w_db (final (session E tok) w) = w_db w"
  "w_n (final (session E tok) w) = (if tok = [] then w_n w else Suc (w_n w))"
  by (simp_all add: session_def)

text \<open>The clock reading of the check: the read comes before it.\<close>

lemma session_valid_result:
  "result (session_valid E tok slide) w \<longleftrightarrow>
     \<not> io_fault E (w_n w) \<and> session_live E tok (clock E (Suc (w_n w))) (w_db w)"
  by (auto simp: session_valid_def session_run session_live_def live_at_def run_branch
      split: option.split prod.split)

text \<open>What the check leaves in the database.\<close>

definition session_effect :: "'d env \<Rightarrow> string \<Rightarrow> bool \<Rightarrow> time \<Rightarrow> db \<Rightarrow> db \<Rightarrow> bool" where
  "session_effect E tok slide now d d' \<longleftrightarrow>
     d' = d
   \<or> d' = session_delete tok d \<and> \<not> session_live E tok now d
   \<or> slide \<and> session_live E tok now d \<and> session_bump E tok now d = Some d'
     \<and> (\<forall>p. session_look E tok d = Some p \<longrightarrow> now - snd p > sessionBumpMin)"

lemma session_valid_effect:
  "session_effect E tok slide (clock E (Suc (w_n w))) (w_db w) (w_db (final (session_valid E tok slide) w))"
  by (auto simp: session_valid_def session_run session_effect_def session_live_def live_at_def
      run_branch delete_session_def bump_session_def commit_def split: option.split prod.split)

lemma keeps_session_valid [keeps_intro]:
  "keeps w_dev (session_valid E tok slide)" "keeps w_stepups (session_valid E tok slide)"
  "keeps (\<lambda>w. db_creds (w_db w)) (session_valid E tok slide)"
  "keeps (\<lambda>w. db_config (w_db w)) (session_valid E tok slide)"
  "keeps w_image (session_valid E tok slide)" "keeps w_fwd (session_valid E tok slide)"
  "keeps w_chals (session_valid E tok slide)"
  unfolding session_valid_def
  by (intro keeps_intro)+

end
