(* ===== verification/Ceremonies.thy ===== *)
theory Ceremonies
  imports Sessions
begin

text \<open>
  The WebAuthn ceremonies and the recovery code of \<open>internal/httpapi/authflow.go\<close>:
  registration (trust on first use), login, recovery, step-up re-authentication and the gate
  \<open>requireStepUp\<close>.  Each handler is one program, with the source's checks in the source's
  order.
\<close>

definition recoveryHashKey :: string where "recoveryHashKey = ''recovery_hash''"

definition internal_error :: response where
  "internal_error = http_error ''internal'' StatusInternalServerError"

definition bad_request :: response where
  "bad_request = http_error ''bad request'' StatusBadRequest"

definition denied :: response where
  "denied = http_error ''denied'' StatusUnauthorized"

text \<open>A failed count reads as zero: the source drops the error.\<close>

definition provisioned :: "'d env \<Rightarrow> ('d world, bool) state" where
  "provisioned E = do {
     n \<leftarrow> credential_count E;
     ret (case n of None \<Rightarrow> False | Some k \<Rightarrow> k > 0) }"

text \<open>\<open>ttlSet.issue\<close>: a fresh random key, granted.\<close>

definition issue_challenge :: "'d env \<Rightarrow> ('d world, string option) state" where
  "issue_challenge E = do {
     t \<leftarrow> new_token E;
     case t of
       None \<Rightarrow> ret None
     | Some key \<Rightarrow> do { _ \<leftarrow> grant E Chals key; ret (Some key) } }"

text \<open>\<open>verifyCeremony\<close>: the error response it writes, or \<^const>\<open>None\<close> when it passed.\<close>

definition verify_ceremony :: "'d env \<Rightarrow> bytes \<Rightarrow> string \<Rightarrow> ('d world, response option) state" where
  "verify_ceremony E cdj ceremony =
     (case json_challenge E cdj of
        None \<Rightarrow> ret (Some (http_error ''stale or unknown challenge'' StatusBadRequest))
      | Some ch \<Rightarrow> do {
          ok \<leftarrow> consume E Chals ch;
          ret (if \<not> ok then Some (http_error ''stale or unknown challenge'' StatusBadRequest)
               else (case verify_client_data E cdj ceremony ch (allowed_origins E) of
                       Some _ \<Rightarrow> Some denied
                     | None \<Rightarrow> None)) })"

section \<open>Registration\<close>

definition register_begin :: "'d env \<Rightarrow> string \<Rightarrow> ('d world, response) state" where
  "register_begin E tok = do {
     p \<leftarrow> provisioned E;
     allowed \<leftarrow> (if p then session_valid E tok False else ret True);
     if \<not> allowed then ret (http_error ''already provisioned'' StatusForbidden)
     else do {
       ch \<leftarrow> issue_challenge E;
       case ch of
         None \<Rightarrow> ret internal_error
       | Some c \<Rightarrow> do {
           uid \<leftarrow> new_token E;
           ret (case uid of
                  None \<Rightarrow> internal_error
                | Some u \<Rightarrow> write_json StatusOK
                    [(''rpId'', JStr (rp_id E)), (''challenge'', JStr c),
                     (''user'', JObj [(''id'', JStr u), (''name'', JStr ''MistUI Owner'')])]) } } }"

text \<open>The recovery code of a first registration: \<^const>\<open>None\<close> is an error.\<close>

definition mint_recovery_code :: "'d env \<Rightarrow> ('d world, string option) state" where
  "mint_recovery_code E = do {
     t \<leftarrow> new_token E;
     case t of
       None \<Rightarrow> ret None
     | Some code \<Rightarrow> do {
         ok \<leftarrow> put_config E recoveryHashKey (hash_token E code);
         ret (if ok then Some code else None) } }"

definition register_finish ::
  "'d env \<Rightarrow> string \<Rightarrow> register_req option \<Rightarrow> ('d world, response) state" where
  "register_finish E tok rq = do {
     p \<leftarrow> provisioned E;
     allowed \<leftarrow> (if p then session_valid E tok False else ret True);
     if \<not> allowed then ret (http_error ''already provisioned'' StatusForbidden)
     else (case rq of
       None \<Rightarrow> ret bad_request
     | Some req \<Rightarrow> do {
         bad \<leftarrow> verify_ceremony E (rq_clientDataJSON req) CeremonyCreate;
         case bad of
           Some r \<Rightarrow> ret r
         | None \<Rightarrow>
             (case parse_registration E (rq_attestationObject req) (rp_id E) of
                Inl _ \<Rightarrow> ret (http_error ''registration rejected'' StatusBadRequest)
              | Inr (credID, cose) \<Rightarrow> do {
                  ok \<leftarrow> put_credential E (b64url credID) cose;
                  if \<not> ok then ret internal_error
                  else do {
                    code \<leftarrow> (if \<not> p then do { r \<leftarrow> mint_recovery_code E; ret (Some r) } else ret None);
                    if code = Some None then ret internal_error
                    else do {
                      c \<leftarrow> issue_session E;
                      ret (case c of
                             None \<Rightarrow> internal_error
                           | Some ck \<Rightarrow> with_cookie ck (write_json StatusOK
                               ([(''registered'', JBool True), (''credentialId'', JStr (b64url credID))]
                                @ (case code of Some (Some rc) \<Rightarrow> [(''recoveryCode'', JStr rc)] | _ \<Rightarrow> [])))) } } }) }) }"

section \<open>Login\<close>

definition login_begin :: "'d env \<Rightarrow> ('d world, response) state" where
  "login_begin E = do {
     p \<leftarrow> provisioned E;
     if \<not> p then ret (http_error ''unprovisioned'' StatusConflict)
     else do {
       ids \<leftarrow> list_credential_ids E;
       case ids of
         None \<Rightarrow> ret internal_error
       | Some l \<Rightarrow> do {
           ch \<leftarrow> issue_challenge E;
           ret (case ch of
                  None \<Rightarrow> internal_error
                | Some c \<Rightarrow> write_json StatusOK
                    [(''rpId'', JStr (rp_id E)), (''challenge'', JStr c),
                     (''credentialIds'', JList (map JStr l))]) } } }"

text \<open>
  The assertion check \<open>loginFinish\<close> and \<open>stepUpFinish\<close> share line for line: ceremony,
  authenticator data, stored credential, signature.  The error response, or \<^const>\<open>None\<close>.
\<close>

definition check_assertion :: "'d env \<Rightarrow> login_req \<Rightarrow> ('d world, response option) state" where
  "check_assertion E req = do {
     bad \<leftarrow> verify_ceremony E (lq_clientDataJSON req) CeremonyGet;
     case bad of
       Some r \<Rightarrow> ret (Some r)
     | None \<Rightarrow>
         (case verify_auth_data E (lq_authenticatorData req) (rp_id E) of
            Some _ \<Rightarrow> ret (Some denied)
          | None \<Rightarrow> do {
              c \<leftarrow> credential E (lq_credentialId req);
              ret (case c of
                     None \<Rightarrow> Some denied
                   | Some None \<Rightarrow> Some denied
                   | Some (Some cose) \<Rightarrow>
                      (case parse_cose E cose of
                         Inl _ \<Rightarrow> Some internal_error
                       | Inr pub \<Rightarrow>
                          (if \<not> verify_assertion E pub (lq_authenticatorData req)
                                  (lq_clientDataJSON req) (lq_signature req)
                           then Some denied else None))) }) }"

definition login_finish :: "'d env \<Rightarrow> login_req option \<Rightarrow> ('d world, response) state" where
  "login_finish E rq =
     (case rq of
        None \<Rightarrow> ret bad_request
      | Some req \<Rightarrow> do {
          bad \<leftarrow> check_assertion E req;
          case bad of
            Some r \<Rightarrow> ret r
          | None \<Rightarrow> do {
              c \<leftarrow> issue_session E;
              ret (case c of
                     None \<Rightarrow> internal_error
                   | Some ck \<Rightarrow> with_cookie ck (write_json StatusOK [(''authenticated'', JBool True)])) } })"

section \<open>Recovery\<close>

text \<open>
  The handler in its two halves, the check of the code and the burn-and-issue: a request is
  the first followed by the second, and other requests can run in between.  The check gives
  the error response, or \<^const>\<open>None\<close> when the code is right.
\<close>

definition recovery_check :: "'d env \<Rightarrow> string option \<Rightarrow> ('d world, response option) state" where
  "recovery_check E rq =
     (case rq of
        None \<Rightarrow> ret (Some bad_request)
      | Some code \<Rightarrow>
          (if code = [] then ret (Some bad_request)
           else do {
             stored \<leftarrow> config E recoveryHashKey;
             ret (case stored of
                    None \<Rightarrow> Some denied
                  | Some None \<Rightarrow> Some denied
                  | Some (Some h) \<Rightarrow> if h \<noteq> hash_token E code then Some denied else None) }))"

definition recovery_commit :: "'d env \<Rightarrow> ('d world, response) state" where
  "recovery_commit E = do {
     ok \<leftarrow> delete_config E recoveryHashKey;
     if \<not> ok then ret internal_error
     else do {
       c \<leftarrow> issue_session E;
       ret (case c of
              None \<Rightarrow> internal_error
            | Some ck \<Rightarrow> with_cookie ck (write_json StatusOK
                [(''authenticated'', JBool True), (''recoveryUsed'', JBool True)])) } }"

definition login_recovery :: "'d env \<Rightarrow> string option \<Rightarrow> ('d world, response) state" where
  "login_recovery E rq = do {
     bad \<leftarrow> recovery_check E rq;
     case bad of Some r \<Rightarrow> ret r | None \<Rightarrow> recovery_commit E }"

definition recovery_regenerate :: "'d env \<Rightarrow> ('d world, response) state" where
  "recovery_regenerate E = do {
     c \<leftarrow> mint_recovery_code E;
     ret (case c of
            None \<Rightarrow> internal_error
          | Some code \<Rightarrow> write_json StatusOK [(''recoveryCode'', JStr code)]) }"

section \<open>Step-up\<close>

definition step_up_begin :: "'d env \<Rightarrow> ('d world, response) state" where
  "step_up_begin E = do {
     ids \<leftarrow> list_credential_ids E;
     case ids of
       None \<Rightarrow> ret internal_error
     | Some l \<Rightarrow> do {
         ch \<leftarrow> issue_challenge E;
         ret (case ch of
                None \<Rightarrow> internal_error
              | Some c \<Rightarrow> write_json StatusOK
                  [(''rpId'', JStr (rp_id E)), (''challenge'', JStr c),
                   (''credentialIds'', JList (map JStr l))]) } }"

definition step_up_finish :: "'d env \<Rightarrow> string \<Rightarrow> login_req option \<Rightarrow> ('d world, response) state" where
  "step_up_finish E tok rq =
     (case rq of
        None \<Rightarrow> ret bad_request
      | Some req \<Rightarrow> do {
          bad \<leftarrow> check_assertion E req;
          case bad of
            Some r \<Rightarrow> ret r
          | None \<Rightarrow> do {
              _ \<leftarrow> grant E StepUps tok;
              ret (write_json StatusOK [(''steppedUp'', JBool True)]) } })"

definition require_step_up ::
  "'d env \<Rightarrow> string \<Rightarrow> ('d world, response) state \<Rightarrow> ('d world, response) state" where
  "require_step_up E tok next = do {
     ok \<leftarrow> consume E StepUps tok;
     if \<not> ok then ret (write_json StatusPreconditionRequired [(''stepUpRequired'', JBool True)])
     else next }"

section \<open>What the steps of a ceremony do\<close>

lemma new_token_run [simp]:
  "result (new_token E) w = map_option b64url (rand_read E (w_n w) 16)"
  "final (new_token E) w = w\<lparr>w_n := Suc (w_n w)\<rparr>"
  by (simp_all add: new_token_def)

text \<open>A session is either stored, with the token the cookie carries, or the database is as before.\<close>

lemma issue_session_cases:
  obtains (stored) tok now b where
      "result (issue_session E) w = Some (SetSession tok (now + sessionAbsolute))"
      "session_put E tok now now (w_db w) = Some (w_db (final (issue_session E) w))"
      "now = clock E (Suc (w_n w))" "rand_read E (w_n w) 16 = Some b" "tok = b64url b"
  | (failed) "result (issue_session E) w = None" "w_db (final (issue_session E) w) = w_db w"
proof (cases "rand_read E (w_n w) 16")
  case None
  then show ?thesis using failed by (simp add: issue_session_def)
next
  case (Some b)
  define now where "now = clock E (Suc (w_n w))"
  show ?thesis
  proof (cases "\<not> io_fault E (Suc (Suc (w_n w))) \<and> session_put E (b64url b) now now (w_db w) \<noteq> None")
    case True
    then show ?thesis
      using Some stored [of "b64url b" now b]
      by (auto simp: issue_session_def put_session_def commit_def now_def)
  next
    case False
    then show ?thesis
      using Some failed
      by (auto simp: issue_session_def put_session_def commit_def now_def split: option.splits)
  qed
qed

lemma keeps_sessions_ops [keeps_intro]:
  "keeps w_dev (new_token E)" "keeps w_db (new_token E)" "keeps w_stepups (new_token E)"
  "keeps (\<lambda>w. db_creds (w_db w)) (new_token E)" "keeps (\<lambda>w. db_config (w_db w)) (new_token E)"
  "keeps w_chals (new_token E)" "keeps w_chals (issue_session E)"
  "keeps w_dev (issue_session E)" "keeps w_stepups (issue_session E)"
  "keeps (\<lambda>w. db_creds (w_db w)) (issue_session E)" "keeps (\<lambda>w. db_config (w_db w)) (issue_session E)"
  "keeps w_dev (logout E tok)" "keeps w_stepups (logout E tok)"
  "keeps (\<lambda>w. db_creds (w_db w)) (logout E tok)" "keeps (\<lambda>w. db_config (w_db w)) (logout E tok)"
  unfolding new_token_def issue_session_def logout_def by (intro keeps_intro)+

lemma keeps_sessions_rest [keeps_intro]:
  "keeps w_fwd (new_token E)" "keeps w_note (new_token E)" "keeps w_kick (new_token E)" "keeps w_image (new_token E)"
  "keeps w_fwd (issue_session E)" "keeps w_note (issue_session E)" "keeps w_kick (issue_session E)"
  "keeps w_image (issue_session E)"
  unfolding new_token_def issue_session_def by (intro keeps_intro)+

lemma keeps_challenge [keeps_intro]:
  "keeps w_db (issue_challenge E)" "keeps w_dev (issue_challenge E)" "keeps w_stepups (issue_challenge E)"
  "keeps (\<lambda>w. db_creds (w_db w)) (issue_challenge E)" "keeps (\<lambda>w. db_config (w_db w)) (issue_challenge E)"
  "keeps w_db (verify_ceremony E cdj c)" "keeps w_dev (verify_ceremony E cdj c)"
  "keeps w_stepups (verify_ceremony E cdj c)"
  "keeps (\<lambda>w. db_creds (w_db w)) (verify_ceremony E cdj c)"
  "keeps (\<lambda>w. db_config (w_db w)) (verify_ceremony E cdj c)"
  unfolding issue_challenge_def verify_ceremony_def by (intro keeps_intro)+

lemma keeps_assertion [keeps_intro]:
  "keeps w_db (check_assertion E req)" "keeps w_dev (check_assertion E req)"
  "keeps w_stepups (check_assertion E req)"
  "keeps (\<lambda>w. db_creds (w_db w)) (check_assertion E req)"
  "keeps (\<lambda>w. db_config (w_db w)) (check_assertion E req)"
  unfolding check_assertion_def by (intro keeps_intro)+

lemma keeps_provisioned [keeps_intro]:
  "keeps w_db (provisioned E)" "keeps w_dev (provisioned E)" "keeps w_stepups (provisioned E)"
  "keeps (\<lambda>w. db_creds (w_db w)) (provisioned E)" "keeps (\<lambda>w. db_config (w_db w)) (provisioned E)"
  unfolding provisioned_def by (intro keeps_intro)+

lemma keeps_mint [keeps_intro]:
  "keeps w_dev (mint_recovery_code E)" "keeps w_stepups (mint_recovery_code E)"
  "keeps (\<lambda>w. db_creds (w_db w)) (mint_recovery_code E)"
  unfolding mint_recovery_code_def by (intro keeps_intro)+

lemma keeps_recovery_steps [keeps_intro]:
  "keeps w_dev (recovery_check E rq)" "keeps w_stepups (recovery_check E rq)"
  "keeps w_db (recovery_check E rq)"
  "keeps w_dev (recovery_commit E)" "keeps w_stepups (recovery_commit E)"
  unfolding recovery_check_def recovery_commit_def by (intro keeps_intro)+

text \<open>No ceremony touches the device.\<close>

lemma keeps_dev_ceremonies [keeps_intro]:
  "keeps w_dev (register_begin E tok)" "keeps w_dev (register_finish E tok rq)"
  "keeps w_dev (login_begin E)" "keeps w_dev (login_finish E lq)"
  "keeps w_dev (login_recovery E code)" "keeps w_dev (recovery_regenerate E)"
  "keeps w_dev (step_up_begin E)" "keeps w_dev (step_up_finish E tok lq)"
  unfolding register_begin_def register_finish_def login_begin_def login_finish_def
    login_recovery_def recovery_regenerate_def step_up_begin_def step_up_finish_def
  by (intro keeps_intro)+

text \<open>Step-up credits come from the step-up ceremony alone.\<close>

lemma keeps_stepups_ceremonies [keeps_intro]:
  "keeps w_stepups (register_begin E tok)" "keeps w_stepups (register_finish E tok rq)"
  "keeps w_stepups (login_begin E)" "keeps w_stepups (login_finish E lq)"
  "keeps w_stepups (login_recovery E code)" "keeps w_stepups (recovery_regenerate E)"
  "keeps w_stepups (step_up_begin E)"
  unfolding register_begin_def register_finish_def login_begin_def login_finish_def
    login_recovery_def recovery_regenerate_def step_up_begin_def
  by (intro keeps_intro)+

section \<open>When an assertion is accepted\<close>

text \<open>
  A challenge is open when it was issued, not used, and its deadline lies ahead of the
  reading the check makes.
\<close>

definition challenge_open :: "'d env \<Rightarrow> string \<Rightarrow> 'd world \<Rightarrow> bool" where
  "challenge_open E ch w \<longleftrightarrow> (\<exists>e. w_chals w ch = Some e \<and> clock E (w_n w) < e)"

definition ceremony_ok :: "'d env \<Rightarrow> bytes \<Rightarrow> string \<Rightarrow> 'd world \<Rightarrow> bool" where
  "ceremony_ok E cdj ceremony w \<longleftrightarrow>
     (\<exists>ch cd. json_challenge E cdj = Some ch \<and> challenge_open E ch w
       \<and> json_client_data E cdj = Some cd \<and> cd_type cd = ceremony \<and> cd_challenge cd = ch
       \<and> cd_origin cd \<in> set (allowed_origins E))"

text \<open>
  The login condition: an open challenge of the right ceremony and origin, authenticator data
  for this host with the user-present bit, a stored credential with an ES256 key, and a
  signature by that key over the authenticator data and the hash of the client data.
\<close>

definition assertion_ok :: "'d env \<Rightarrow> login_req \<Rightarrow> 'd world \<Rightarrow> bool" where
  "assertion_ok E req w \<longleftrightarrow>
     ceremony_ok E (lq_clientDataJSON req) CeremonyGet w
   \<and> 37 \<le> length (lq_authenticatorData req)
   \<and> take 32 (lq_authenticatorData req) = sha256 E (bytes_of (rp_id E))
   \<and> lq_authenticatorData req ! 32 AND flagUserPresent \<noteq> 0
   \<and> (\<exists>cose k. bucket_get (db_creds (w_db w)) (lq_credentialId req) = Some cose
        \<and> cbor_key E cose = Some k \<and> ck_kty k = 2 \<and> ck_crv k = 1 \<and> ck_alg k = - 7
        \<and> ecdsa_verify E (nat_of_bytes (ck_x k), nat_of_bytes (ck_y k))
            (sha256 E (lq_authenticatorData req @ sha256 E (lq_clientDataJSON req)))
            (lq_signature req))"

lemma consume_chals_run:
  "result (consume E Chals ch) w = challenge_open E ch w"
  by (auto simp: consume_run ttl_consume_answer challenge_open_def)

lemma verify_ceremony_None:
  "result (verify_ceremony E cdj c) w = None \<longleftrightarrow> ceremony_ok E cdj c w"
  by (auto simp: verify_ceremony_def ceremony_ok_def consume_chals_run verify_client_data_def
      split: option.splits if_splits)

text \<open>The challenge a ceremony names is spent whether the ceremony passes or not.\<close>

lemma verify_ceremony_spends:
  "json_challenge E cdj = Some ch \<Longrightarrow> w_chals (final (verify_ceremony E cdj c) w) ch = None"
  using consume_run(2) [of Chals E ch w]
  by (simp add: verify_ceremony_def ttl_consume_rest)

lemma parse_cose_Inr:
  "parse_cose E b = Inr pub \<longleftrightarrow> (\<exists>k. cbor_key E b = Some k \<and> ck_kty k = 2 \<and> ck_crv k = 1 \<and> ck_alg k = - 7
     \<and> pub = (nat_of_bytes (ck_x k), nat_of_bytes (ck_y k)))"
  by (auto simp: parse_cose_def split: option.splits)

lemma check_assertion_sound:
  assumes "result (check_assertion E req) w = None"
  shows "assertion_ok E req w"
proof -
  let ?m = "verify_ceremony E (lq_clientDataJSON req) CeremonyGet"
  have db: "w_db (final ?m w) = w_db w"
    by (rule keepsD [OF keeps_challenge(6)])
  from assms have "result ?m w = None" "verify_auth_data E (lq_authenticatorData req) (rp_id E) = None"
    "\<exists>cose pub. bucket_get (db_creds (w_db w)) (lq_credentialId req) = Some cose \<and> parse_cose E cose = Inr pub
       \<and> verify_assertion E pub (lq_authenticatorData req) (lq_clientDataJSON req) (lq_signature req)"
    by (auto simp: check_assertion_def run_branch credential_def db split: option.splits sum.splits if_splits)
  then show ?thesis
    by (auto simp: assertion_ok_def verify_ceremony_None verify_auth_data_None parse_cose_Inr verify_assertion_def)
qed

lemma check_assertion_complete:
  assumes "no_faults E" "assertion_ok E req w"
  shows "result (check_assertion E req) w = None"
proof -
  let ?m = "verify_ceremony E (lq_clientDataJSON req) CeremonyGet"
  have db: "w_db (final ?m w) = w_db w"
    by (rule keepsD [OF keeps_challenge(6)])
  from assms(2) have "result ?m w = None" "verify_auth_data E (lq_authenticatorData req) (rp_id E) = None"
    "\<exists>cose pub. bucket_get (db_creds (w_db w)) (lq_credentialId req) = Some cose \<and> parse_cose E cose = Inr pub
       \<and> verify_assertion E pub (lq_authenticatorData req) (lq_clientDataJSON req) (lq_signature req)"
    by (auto simp: assertion_ok_def verify_ceremony_None verify_auth_data_None parse_cose_Inr verify_assertion_def)
  then show ?thesis
    using assms(1) by (auto simp: check_assertion_def run_branch credential_def db no_faults_def)
qed

text \<open>Whatever a ceremony answers, the challenge it named is gone afterwards.\<close>

lemma check_assertion_spends:
  assumes "json_challenge E (lq_clientDataJSON req) = Some ch"
  shows "w_chals (final (check_assertion E req) w) ch = None"
proof -
  have "keeps w_chals (credential E c)" for c
    unfolding credential_def by (intro keeps_intro)
  then show ?thesis
    using verify_ceremony_spends [OF assms, of CeremonyGet w]
    by (simp add: check_assertion_def run_branch keepsD split: option.split)
qed

lemma spent_challenge:
  assumes "case json_challenge E cdj of None \<Rightarrow> True | Some ch \<Rightarrow> w_chals w ch = None"
  shows "result (verify_ceremony E cdj c) w = Some (http_error ''stale or unknown challenge'' StatusBadRequest)"
  using assms by (cases "json_challenge E cdj") (auto simp: verify_ceremony_def consume_chals_run challenge_open_def)

end
