(* ===== verification/Sample_Env.thy ===== *)
theory Sample_Env
  imports Ceremonies
begin

text \<open>
  A concrete environment on which the hypotheses of the properties are shown to hold.  Its
  clock ticks a second per reading for a million readings, its hash pads to 32 bytes, a signature is the digest's
  head, CBOR and JSON are the simplest injective encodings, and times print in unary.  Nothing
  here models the program.
\<close>

definition sample_key :: cose_key where
  "sample_key = \<lparr>ck_kty = 2, ck_alg = - 7, ck_crv = 1, ck_x = [1], ck_y = [2]\<rparr>"

definition sample_hash :: "bytes \<Rightarrow> bytes" where
  "sample_hash b = take 32 (b @ replicate 32 0)"

text \<open>Portal records as text: two flags, the two times in unary, then the URL.\<close>

definition sample_flag :: "bool \<Rightarrow> char" where
  "sample_flag b = (if b then CHR ''t'' else CHR ''f'')"

definition sample_unary :: "time \<Rightarrow> string" where
  "sample_unary t = replicate (nat t) CHR ''i''"

definition sample_json_portal :: "portal_record \<Rightarrow> string" where
  "sample_json_portal r =
     sample_flag (pr_active r) # sample_flag (pr_savedKS r) # sample_flag (pr_savedDNS r)
     # sample_unary (pr_since r) @ CHR '','' # sample_unary (pr_deadline r) @ CHR '','' # pr_url r"

definition sample_parse_portal :: "string \<Rightarrow> portal_record option" where
  "sample_parse_portal s = (case s of
     a # k # d # rest \<Rightarrow>
       (case cut CHR '','' rest of
          None \<Rightarrow> None
        | Some (x, rest') \<Rightarrow>
           (case cut CHR '','' rest' of
              None \<Rightarrow> None
            | Some (y, u) \<Rightarrow> Some \<lparr>pr_active = (a = CHR ''t''), pr_since = int (length x),
                pr_deadline = int (length y), pr_url = u, pr_savedKS = (k = CHR ''t''),
                pr_savedDNS = (d = CHR ''t'')\<rparr>))
   | _ \<Rightarrow> None)"

definition sample_env ::
  "('d \<Rightarrow> string list \<Rightarrow> (err + string) \<times> 'd) \<Rightarrow> ('d \<Rightarrow> string list \<Rightarrow> err option \<times> 'd) \<Rightarrow> 'd env" where
  "sample_env rc det = \<lparr>
     run_cmd = rc, detach_cmd = det, flush_ct = None,
     http_probe = (\<lambda>n d. None), clock = (\<lambda>n. min (int n) 1000000 * second),
     rand_read = (\<lambda>n k. Some (replicate k (word_of_nat n))), io_fault = (\<lambda>n. False),
     sha256 = sample_hash, ecdsa_verify = (\<lambda>pub d s. s = take 4 d),
     cbor_key = (\<lambda>b. if b = [7] then Some sample_key else None),
     cbor_attestation = Some, cbor_first = (\<lambda>b. Some (take 1 b)),
     json_client_data = (\<lambda>b. case b of [] \<Rightarrow> None | t # c \<Rightarrow>
        Some \<lparr>cd_type = (if t = 0 then CeremonyCreate else CeremonyGet), cd_challenge = string_of c,
              cd_origin = ''https://mist.lan''\<rparr>),
     json_challenge = (\<lambda>b. case b of [] \<Rightarrow> None | t # c \<Rightarrow> Some (string_of c)),
     json_portal = (\<lambda>r. Some (sample_json_portal r)), parse_portal = sample_parse_portal,
     json_summary = (\<lambda>s. ''{}''),
     time_format = (\<lambda>t. replicate (nat (t div second)) CHR ''i''),
     time_parse = (\<lambda>s. Some (int (length s) * second)),
     lookup_host = (\<lambda>n h. Inl ''no such host''),
     doh = (\<lambda>n d u q. Inl ''unreachable''), ctx_done = (\<lambda>n. False),
     json_radios = (\<lambda>s. Some []), json_scan = (\<lambda>s. Some []), json_ifstatus = (\<lambda>s. None),
     json_board = (\<lambda>s. None),
     rp_id = ''mist.lan'', allowed_origins = [''https://mist.lan'']\<rparr>"

lemma sample_rfc3339: "rfc3339_ok (sample_env rc det)"
  by (auto simp: rfc3339_ok_def sample_env_def time_in_range_def whole_second_def second_def)

lemma sample_parse_json:
  assumes "time_in_range (pr_since r)" "time_in_range (pr_deadline r)"
  shows "sample_parse_portal (sample_json_portal r) = Some r"
  using assms by (simp add: sample_parse_portal_def sample_json_portal_def sample_flag_def sample_unary_def
      cut_append time_in_range_def)

lemma sample_portal_json: "portal_json_ok (sample_env rc det)"
  unfolding portal_json_ok_def
proof (intro allI impI)
  fix r :: portal_record
  assume "time_in_range (pr_since r)" "time_in_range (pr_deadline r)"
  from sample_parse_json [OF this]
  show "\<exists>s u. json_portal (sample_env rc det) r = Some s
      \<and> parse_portal (sample_env rc det) s = Some (r\<lparr>pr_url := u\<rparr>)
      \<and> ((\<forall>c \<in> set (pr_url r). plain_char c) \<longrightarrow> u = pr_url r)"
    by (intro exI [of _ "sample_json_portal r"] exI [of _ "pr_url r"]) (simp add: sample_env_def)
qed

lemma sample_clock: "clock_ok (sample_env rc det)"
  by (auto simp: clock_ok_def sample_env_def second_def time_in_range_def time_limit_def)

text \<open>The device of the authentication examples: one that answers every command with nothing.\<close>

definition idle_env :: "unit env" where
  "idle_env = sample_env (\<lambda>d c. (Inr [], d)) (\<lambda>d c. (None, d))"

definition sample_db :: db where
  "sample_db = \<lparr>db_creds = [], db_sessions = [], db_config = []\<rparr>"

definition sample_fwd :: forwarder where
  "sample_fwd = \<lparr>fw_addr = ''127.0.0.1:5335'', fw_url = [], fw_provider = ''quad9'', fw_queries = 0,
     fw_failures = 0, fw_lastOK = 0, fw_lastErr = None, fw_idle = 0\<rparr>"

definition sample_world :: "'d \<Rightarrow> 'd world" where
  "sample_world d = \<lparr>w_n = 0, w_db = sample_db, w_dev = d, w_chals = Map.empty, w_stepups = Map.empty,
     w_note = None, w_kick = False, w_fwd = sample_fwd, w_image = None\<rparr>"

text \<open>A registration, and an assertion with the credential it stores.\<close>

definition sample_authdata :: bytes where
  "sample_authdata = sample_hash (bytes_of ''mist.lan'') @ [1] @ [0, 0, 0, 0]"

definition sample_client :: "byte \<Rightarrow> string \<Rightarrow> bytes" where
  "sample_client t ch = t # bytes_of ch"

definition sample_login :: login_req where
  "sample_login = \<lparr>lq_credentialId = ''cred'', lq_authenticatorData = sample_authdata,
     lq_clientDataJSON = sample_client 1 ''chal'', lq_signature = take 4 sample_authdata\<rparr>"

definition sample_register :: register_req where
  "sample_register = \<lparr>rq_clientDataJSON = sample_client 0 ''chal'',
     rq_attestationObject = registration_data (sample_hash (bytes_of ''mist.lan'')) 65
        [0, 0, 0, 0] (replicate 16 0) [9] [7]\<rparr>"

text \<open>An open challenge, and a stored credential and session.\<close>

definition challenged :: "'d \<Rightarrow> 'd world" where
  "challenged d = (sample_world d)\<lparr>w_chals := [''chal'' \<mapsto> 100 * second]\<rparr>"

definition enrolled :: "'d \<Rightarrow> 'd world" where
  "enrolled d = (challenged d)\<lparr>w_db := \<lparr>db_creds = [(''cred'', [7])],
     db_sessions = [(''tok'', ''i|i'')], db_config = [(recoveryHashKey, string_of (sample_hash (bytes_of ''code'')))]\<rparr>\<rparr>"

text \<open>The stored session is live at the first readings of the clock, and need not be written back.\<close>

lemma sample_look: "session_look (sample_env rc det) ''tok'' (w_db (enrolled d)) = Some (second, second)"
proof -
  have "cut CHR ''|'' ''i|i'' = Some (''i'', ''i'')" by code_simp
  then show ?thesis by (simp add: session_look_def enrolled_def bucket_get_def sample_env_def)
qed

lemma sample_session_valid:
  assumes "w_n w = 0" "w_db w = w_db (enrolled d)"
  shows "result (session_valid (sample_env rc det) ''tok'' b) w"
    "final (session_valid (sample_env rc det) ''tok'' b) w = w\<lparr>w_n := 2\<rparr>"
proof -
  let ?E = "sample_env rc det"
  have r: "\<not> io_fault ?E n" "clock ?E 1 = second" for n
    by (simp_all add: sample_env_def)
  have s: "result (session ?E ''tok'') w = Some (Some (second, second))" "final (session ?E ''tok'') w = w\<lparr>w_n := 1\<rparr>"
    using assms r sample_look [of rc det d] by (simp_all add: session_def)
  show "result (session_valid ?E ''tok'' b) w" "final (session_valid ?E ''tok'' b) w = w\<lparr>w_n := 2\<rparr>"
    using s r by (simp_all add: session_valid_def sessionIdle_def sessionAbsolute_def sessionBumpMin_def
        second_def minute_def hour_def)
qed

end
