(* ===== verification/Auth_Properties.thy ===== *)
theory Auth_Properties
  imports Sample_Env
begin

unbundle bit_operations_syntax

text \<open>
  What the authentication layer guarantees, as theorems about the handlers of
  \<open>Ceremonies\<close> and \<open>Sessions\<close>: who gets a session, what a registration may change,
  that challenges, recovery codes and step-up credits are used once, and the two session
  limits.  Each theorem with hypotheses is applied to the sample environment.
\<close>

section \<open>Login\<close>

text \<open>A handler that may only issue a session when its check passed.\<close>

lemma login_finish_gate:
  assumes "\<And>req. rq = Some req \<Longrightarrow> result (check_assertion E req) w \<noteq> None"
  shows "rs_cookie (result (login_finish E rq) w) = None"
    "w_db (final (login_finish E rq) w) = w_db w"
proof -
  have no_cookie: "rs_cookie r = None" if "result (check_assertion E req) w = Some r" for req r
  proof -
    have "result (verify_ceremony E c x) v = Some q \<Longrightarrow> rs_cookie q = None" for c x v q
      by (auto simp: verify_ceremony_def denied_def run_branch split: option.splits if_splits)
    with that show ?thesis
      by (auto simp: check_assertion_def denied_def internal_error_def run_branch
          split: option.splits sum.splits if_splits)
  qed
  show "rs_cookie (result (login_finish E rq) w) = None"
    "w_db (final (login_finish E rq) w) = w_db w"
    using assms keepsD [OF keeps_assertion(1), of E _ w] no_cookie
    by (auto simp: login_finish_def bad_request_def split: option.splits)
qed

text \<open>
  C3. A login answers with a session cookie, or changes the database at all, only for an
  assertion over an open challenge, from an allowed origin, with the user present, signed by a
  stored ES256 credential.
\<close>

theorem login_sound:
  assumes "rs_cookie (result (login_finish E rq) w) \<noteq> None \<or> w_db (final (login_finish E rq) w) \<noteq> w_db w"
  shows "\<exists>req. rq = Some req \<and> assertion_ok E req w"
  using assms login_finish_gate [of rq E w] check_assertion_sound [of E _ w] by metis

lemma sample_assertion: "result (check_assertion idle_env sample_login) (enrolled ()) = None"
  by code_simp

text \<open>A session can always be issued when nothing fails.\<close>

lemma issue_session_ok:
  assumes "rand_ok E" "no_faults E"
  obtains tok now where
    "result (issue_session E) w = Some (SetSession tok (now + sessionAbsolute))"
    "session_put E tok now now (w_db w) = Some (w_db (final (issue_session E) w))"
    "now = clock E (Suc (w_n w))" "tok \<noteq> []" "w_n (final (issue_session E) w) = w_n w + 3"
proof -
  from assms(1) obtain b where b: "rand_read E (w_n w) 16 = Some b" "length b = 16"
    by (auto simp: rand_ok_def)
  then have "length (b64url b) = 22" by simp
  then have "b64url b \<noteq> []" by auto
  with b assms(2) that show ?thesis
    by (simp add: issue_session_def put_session_def session_put_def checked_put_def key_ok_def
        no_faults_def max_key_size_def commit_def)
qed

lemma sample_ok: "rand_ok (sample_env rc det)" "no_faults (sample_env rc det)"
  "rand_ok idle_env" "no_faults idle_env" "rfc3339_ok idle_env" "clock_ok idle_env"
  by (simp_all add: rand_ok_def no_faults_def idle_env_def sample_rfc3339 sample_clock) (simp_all add: sample_env_def)

lemma idle_login: "rs_cookie (result (login_finish idle_env (Some sample_login)) (enrolled ())) \<noteq> None"
proof -
  let ?w = "final (check_assertion idle_env sample_login) (enrolled ())"
  obtain tok now where "result (issue_session idle_env) ?w = Some (SetSession tok (now + sessionAbsolute))"
    using issue_session_ok [OF sample_ok(3,4), of ?w] by blast
  then show ?thesis by (simp add: login_finish_def sample_assertion)
qed

theorem login_sound_witness: "\<exists>req. Some sample_login = Some req \<and> assertion_ok idle_env req (enrolled ())"
  by (rule login_sound [OF disjI1 [OF idle_login]])

text \<open>
  Conversely, when the random source and the database work, an assertion that meets the
  conditions is answered 200 with a cookie whose token is a stored session, issued and last
  seen at the reading of the clock the handler made.
\<close>

theorem login_complete:
  assumes "assertion_ok E req w" "rand_ok E" "no_faults E" "rfc3339_ok E" "clock_ok E"
  shows "\<exists>tok now. rs_code (result (login_finish E (Some req)) w) = 200
    \<and> rs_cookie (result (login_finish E (Some req)) w) = Some (SetSession tok (now + sessionAbsolute))
    \<and> session_look E tok (w_db (final (login_finish E (Some req)) w)) = Some (whole_second now, whole_second now)"
proof -
  let ?v = "final (check_assertion E req) w"
  have ok: "result (check_assertion E req) w = None"
    using assms by (intro check_assertion_complete)
  obtain tok now where i: "result (issue_session E) ?v = Some (SetSession tok (now + sessionAbsolute))"
    "session_put E tok now now (w_db ?v) = Some (w_db (final (issue_session E) ?v))"
    "now = clock E (Suc (w_n ?v))"
    using assms(2,3) issue_session_ok by metis
  have "time_in_range now"
    using assms(5) i(3) by (simp add: clock_ok_def)
  then have "session_look E tok (w_db (final (issue_session E) ?v)) = Some (whole_second now, whole_second now)"
    using store.look_put [OF assms(4) _ _ i(2)] by simp
  with ok i(1) show ?thesis by (auto simp: login_finish_def)
qed

lemma sample_assertion_ok: "assertion_ok idle_env sample_login (enrolled ())"
  by (rule check_assertion_sound [OF sample_assertion])

theorem login_complete_witness:
  "\<exists>tok now. rs_code (result (login_finish idle_env (Some sample_login)) (enrolled ())) = 200
    \<and> rs_cookie (result (login_finish idle_env (Some sample_login)) (enrolled ())) = Some (SetSession tok (now + sessionAbsolute))
    \<and> session_look idle_env tok (w_db (final (login_finish idle_env (Some sample_login)) (enrolled ())))
      = Some (whole_second now, whole_second now)"
  by (rule login_complete [OF sample_assertion_ok sample_ok(3-6)])

section \<open>Registration\<close>

text \<open>
  The trust boundary of registration: the set of credentials changes only while the device
  has none (or that read fails), or for a request with a live session, and always through an
  open creation ceremony and a well-formed registration for this host.
\<close>

lemma registration_sound:
  assumes "db_creds (w_db (final (register_finish E tok rq) w)) \<noteq> db_creds (w_db w)"
  shows "(io_fault E (w_n w) \<or> bucket_keys (db_creds (w_db w)) = []
        \<or> session_live E tok (clock E (w_n w + 2)) (w_db w))
    \<and> (\<exists>req cid key v. rq = Some req \<and> w_chals v = w_chals w
        \<and> ceremony_ok E (rq_clientDataJSON req) CeremonyCreate v
        \<and> parse_registration E (rq_attestationObject req) (rp_id E) = Inr (cid, key)
        \<and> db_creds (w_db (final (register_finish E tok rq) w)) = bucket_put (b64url cid) key (db_creds (w_db w)))"
proof -
  let ?p = "provisioned E"
  let ?v = "if result ?p w then session_valid E tok False else ret True"
  let ?w1 = "final ?v (final ?p w)"
  have w1: "db_creds (w_db ?w1) = db_creds (w_db w)"
    using keepsD [OF keeps_provisioned(4), of E w] keepsD [OF keeps_session_valid(3), of E tok False] by simp
  have keeps_iss: "db_creds (w_db (final (issue_session E) u)) = db_creds (w_db u)"
    "db_creds (w_db (final (mint_recovery_code E) u)) = db_creds (w_db u)" for u
    by (rule keepsD, intro keeps_intro)+
  have allowed: "result ?v (final ?p w)"
  proof (rule ccontr)
    assume "\<not> result ?v (final ?p w)"
    then show False using assms w1 by (simp add: register_finish_def)
  qed
  then have who: "io_fault E (w_n w) \<or> bucket_keys (db_creds (w_db w)) = []
        \<or> session_live E tok (clock E (w_n w + 2)) (w_db w)"
    by (auto simp: provisioned_def credential_count_def session_valid_result eval_nat_numeral split: if_splits)
  obtain req where req: "rq = Some req"
    using assms w1 allowed by (cases rq) (simp_all add: register_finish_def)
  let ?c = "verify_ceremony E (rq_clientDataJSON req) CeremonyCreate"
  have w2: "db_creds (w_db (final ?c ?w1)) = db_creds (w_db w)"
    using keepsD [OF keeps_challenge(9), of E "rq_clientDataJSON req" CeremonyCreate ?w1] w1 by simp
  have open_c: "result ?c ?w1 = None"
    using assms allowed req w2 by (cases "result ?c ?w1") (simp_all add: register_finish_def)
  have "keeps w_chals (provisioned E)" "keeps w_chals (session_valid E tok False)"
    unfolding provisioned_def session_valid_def by (intro keeps_intro)+
  then have ch: "w_chals ?w1 = w_chals w" by (simp add: keepsD)
  have cer: "ceremony_ok E (rq_clientDataJSON req) CeremonyCreate ?w1"
    using open_c by (simp add: verify_ceremony_None)
  obtain cid key where key: "parse_registration E (rq_attestationObject req) (rp_id E) = Inr (cid, key)"
    using assms allowed req open_c w2
    by (cases "parse_registration E (rq_attestationObject req) (rp_id E)") (auto simp: register_finish_def)
  have "db_creds (w_db (final (register_finish E tok rq) w)) =
      db_creds (w_db (final (put_credential E (b64url cid) key) (final ?c ?w1)))"
    using allowed req open_c key keeps_iss by (simp add: register_finish_def run_branch split: option.split)
  also have "\<dots> = db_creds (w_db w) \<or> \<dots> = bucket_put (b64url cid) key (db_creds (w_db w))"
    using w2 by (auto simp: put_credential_def commit_def checked_put_def)
  finally show ?thesis using who req key assms ch cer by blast
qed

lemma sample_registration:
  "result (provisioned idle_env) (challenged ()) = False"
  "result (verify_ceremony idle_env (rq_clientDataJSON sample_register) CeremonyCreate)
     (final (provisioned idle_env) (challenged ())) = None"
  "parse_registration idle_env (rq_attestationObject sample_register) (rp_id idle_env) = Inr ([9], [7])"
  by code_simp+

lemma idle_registration:
  "db_creds (w_db (final (register_finish idle_env [] (Some sample_register)) (challenged ())))
     \<noteq> db_creds (w_db (challenged ()))"
proof -
  let ?w = "final (verify_ceremony idle_env (rq_clientDataJSON sample_register) CeremonyCreate)
     (final (provisioned idle_env) (challenged ()))"
  let ?p = "put_credential idle_env (b64url [9]) [7]"
  have none: "db_creds (w_db ?w) = []"
    using keepsD [OF keeps_challenge(9), of idle_env "rq_clientDataJSON sample_register" CeremonyCreate]
      keepsD [OF keeps_provisioned(4), of idle_env] by (simp add: challenged_def sample_world_def sample_db_def)
  have key: "key_ok (b64url [9])"
    by (simp add: key_ok_def b64url_def max_key_size_def Let_def)
  have put: "result ?p ?w" "db_creds (w_db (final ?p ?w)) = [(b64url [9], [7])]"
    using key none
    by (simp_all add: put_credential_def checked_put_def idle_env_def sample_env_def commit_def)
  have keeps_iss: "db_creds (w_db (final (issue_session idle_env) u)) = db_creds (w_db u)"
    "db_creds (w_db (final (mint_recovery_code idle_env) u)) = db_creds (w_db u)" for u :: "unit world"
    by (rule keepsD, intro keeps_intro)+
  show ?thesis
    using sample_registration put keeps_iss
    by (simp add: register_finish_def run_branch challenged_def sample_world_def sample_db_def split: option.split)
qed

text \<open>
  The registration parser accepts exactly the byte layout of the WebAuthn standard: the
  hash of the relying party, flags with user presence and attested data, counter, AAGUID, the
  16-bit length and bytes of the credential id, then a CBOR item that is an ES256 key.  It
  returns that id and that key, and never reads past the end.
\<close>

theorem registration_layout:
  assumes "length (sha256 E (bytes_of rp)) = 32"
  shows "parse_registration E att rp = Inr (cid, key) \<longleftrightarrow>
    (\<exists>flags counter aaguid ext pub.
        cbor_attestation E att = Some (registration_data (sha256 E (bytes_of rp)) flags counter aaguid cid ext)
      \<and> length counter = 4 \<and> length aaguid = 16 \<and> length cid < 65536
      \<and> flags AND flagUserPresent \<noteq> 0 \<and> flags AND flagAttestedCred \<noteq> 0
      \<and> cbor_first E ext = Some key \<and> parse_cose E key = Inr pub)"
    (is "?l \<longleftrightarrow> ?r")
proof
  assume ?l
  then show ?r by (rule parse_registration_Inr) blast
next
  assume ?r
  then obtain flags counter aaguid ext pub where
    "cbor_attestation E att = Some (registration_data (sha256 E (bytes_of rp)) flags counter aaguid cid ext)"
    "length counter = 4" "length aaguid = 16" "length cid < 65536"
    "flags AND flagUserPresent \<noteq> 0" "flags AND flagAttestedCred \<noteq> 0"
    "cbor_first E ext = Some key" "parse_cose E key = Inr pub" by blast
  then show ?l using assms by (intro parse_registration_build)
qed

theorem registration_layout_witness:
  "\<exists>flags counter aaguid ext pub.
        cbor_attestation idle_env (rq_attestationObject sample_register)
          = Some (registration_data (sha256 idle_env (bytes_of (rp_id idle_env))) flags counter aaguid [9] ext)
      \<and> length counter = 4 \<and> length aaguid = 16 \<and> length [9 :: byte] < 65536
      \<and> flags AND flagUserPresent \<noteq> 0 \<and> flags AND flagAttestedCred \<noteq> 0
      \<and> cbor_first idle_env ext = Some [7] \<and> parse_cose idle_env [7] = Inr pub"
proof -
  have "length (sha256 idle_env (bytes_of (rp_id idle_env))) = 32"
    by (simp add: idle_env_def sample_env_def sample_hash_def)
  from registration_layout [OF this] sample_registration(3) show ?thesis by blast
qed

lemma mint_stores_hash:
  assumes "result (mint_recovery_code E) w = Some c"
  shows "bucket_get (db_config (w_db (final (mint_recovery_code E) w))) recoveryHashKey = Some (hash_token E c)"
  using assms
  by (auto simp: mint_recovery_code_def put_config_def commit_def checked_put_def run_branch bucket_laws
      split: option.splits if_splits)

text \<open>
  A recovery code is shown only by the registration that provisions the device (one that
  read no credentials) or by the regeneration endpoint, and when it is shown the database
  holds its hash.
\<close>

theorem recovery_code_stored_hashed:
  "(field (result (register_finish E tok rq) w) ''recoveryCode'' = Some (JStr c) \<longrightarrow>
      bucket_get (db_config (w_db (final (register_finish E tok rq) w))) recoveryHashKey = Some (hash_token E c)
      \<and> (io_fault E (w_n w) \<or> bucket_keys (db_creds (w_db w)) = []))
   \<and> (field (result (recovery_regenerate E) w) ''recoveryCode'' = Some (JStr c) \<longrightarrow>
      bucket_get (db_config (w_db (final (recovery_regenerate E) w))) recoveryHashKey = Some (hash_token E c))"
proof (intro conjI impI)
  let ?p = "result (provisioned E) w"
  assume f: "field (result (register_finish E tok rq) w) ''recoveryCode'' = Some (JStr c)"
  have keep: "db_config (w_db (final (issue_session E) u)) = db_config (w_db u)" for u
    by (rule keepsD, intro keeps_intro)
  have err: "field r k = None" if "result (verify_ceremony E cdj x) v = Some r" for cdj x v r k
    using that by (auto simp: verify_ceremony_def denied_def run_branch split: option.splits if_splits)
  from f have p: "\<not> ?p"
    by (auto simp: register_finish_def bad_request_def internal_error_def run_branch err
        split: option.splits if_splits sum.splits prod.splits)
  then show "io_fault E (w_n w) \<or> bucket_keys (db_creds (w_db w)) = []"
    by (auto simp: provisioned_def credential_count_def split: if_splits)
  from f p show "bucket_get (db_config (w_db (final (register_finish E tok rq) w))) recoveryHashKey = Some (hash_token E c)"
    by (auto simp: register_finish_def bad_request_def internal_error_def run_branch err keep mint_stores_hash
        split: option.splits if_splits sum.splits prod.splits)
next
  assume "field (result (recovery_regenerate E) w) ''recoveryCode'' = Some (JStr c)"
  then show "bucket_get (db_config (w_db (final (recovery_regenerate E) w))) recoveryHashKey = Some (hash_token E c)"
    by (auto simp: recovery_regenerate_def internal_error_def mint_stores_hash split: option.splits)
qed

theorem recovery_code_witness:
  "\<exists>c. bucket_get (db_config (w_db (final (recovery_regenerate idle_env) (enrolled ())))) recoveryHashKey
      = Some (hash_token idle_env c)"
proof -
  obtain b where "rand_read idle_env (w_n (enrolled ())) 16 = Some b"
    using sample_ok(3) by (auto simp: rand_ok_def)
  then have "result (mint_recovery_code idle_env) (enrolled ()) = Some (b64url b)"
    using sample_ok(4) by (simp add: mint_recovery_code_def put_config_def checked_put_def key_ok_def
        recoveryHashKey_def max_key_size_def no_faults_def)
  then have "field (result (recovery_regenerate idle_env) (enrolled ())) ''recoveryCode'' = Some (JStr (b64url b))"
    by (simp add: recovery_regenerate_def)
  then show ?thesis
    using recovery_code_stored_hashed [of idle_env _ _ "enrolled ()" "b64url b"] by blast
qed

section \<open>Challenges\<close>



section \<open>The recovery code\<close>

lemma recovery_check_None:
  "result (recovery_check E rq) w = None \<longleftrightarrow>
     (\<exists>c. rq = Some c \<and> c \<noteq> [] \<and> \<not> io_fault E (w_n w)
        \<and> bucket_get (db_config (w_db w)) recoveryHashKey = Some (hash_token E c))"
  by (auto simp: recovery_check_def config_def run_branch split: option.split)

lemma recovery_check_no_cookie: "result (recovery_check E rq) w = Some r \<Longrightarrow> rs_cookie r = None"
  by (auto simp: recovery_check_def bad_request_def denied_def run_branch split: option.splits if_splits)

text \<open>The burn comes first: no session exists unless the stored hash is gone.\<close>

lemma recovery_commit_burns:
  assumes "rs_cookie (result (recovery_commit E) w) \<noteq> None \<or> w_db (final (recovery_commit E) w) \<noteq> w_db w"
  shows "bucket_get (db_config (w_db (final (recovery_commit E) w))) recoveryHashKey = None"
proof -
  have "\<not> io_fault E (w_n w)"
    using assms by (auto simp: recovery_commit_def delete_config_def internal_error_def commit_def)
  moreover have "db_config (w_db (final (issue_session E) v)) = db_config (w_db v)" for v
    by (rule keepsD) (intro keeps_intro)
  ultimately show ?thesis
    by (simp add: recovery_commit_def delete_config_def commit_def bucket_laws)
qed


lemma recovery_commit_ok:
  assumes "rand_ok E" "no_faults E"
  shows "rs_code (result (recovery_commit E) w) = 200 \<and> rs_cookie (result (recovery_commit E) w) \<noteq> None"
proof -
  let ?w = "final (delete_config E recoveryHashKey) w"
  obtain tok now where "result (issue_session E) ?w = Some (SetSession tok (now + sessionAbsolute))"
    using issue_session_ok [OF assms, of ?w] by blast
  moreover have "result (delete_config E recoveryHashKey) w"
    using assms(2) by (simp add: delete_config_def no_faults_def)
  ultimately show ?thesis by (simp add: recovery_commit_def)
qed

lemma sample_recovery: "result (recovery_check idle_env (Some ''code'')) (enrolled ()) = None"
  by code_simp


text \<open>
  C31. Two requests with the right code whose checks both run before either burn both get a
  session: the check and the burn are separate transactions, and deleting an absent key is no
  error.
\<close>

theorem recovery_race:
  assumes "bucket_get (db_config (w_db w)) recoveryHashKey = Some (hash_token E c)" "c \<noteq> []"
    "rand_ok E" "no_faults E"
  defines "m \<equiv> do { a1 \<leftarrow> recovery_check E (Some c); a2 \<leftarrow> recovery_check E (Some c);
                    r1 \<leftarrow> recovery_commit E; r2 \<leftarrow> recovery_commit E; ret (a1, a2, r1, r2) }"
  shows "\<exists>r1 r2. result m w = (None, None, r1, r2) \<and> rs_cookie r1 \<noteq> None \<and> rs_cookie r2 \<noteq> None"
proof -
  have db: "w_db (final (recovery_check E (Some c)) w) = w_db w"
    by (rule keepsD) (intro keeps_intro)
  have "result (recovery_check E (Some c)) w = None"
    "result (recovery_check E (Some c)) (final (recovery_check E (Some c)) w) = None"
    using assms(1,2,4) db by (simp_all add: recovery_check_None no_faults_def)
  then show ?thesis
    using recovery_commit_ok [OF assms(3,4)] by (simp add: m_def)
qed

theorem recovery_race_witness:
  "\<exists>r1 r2. result (do { a1 \<leftarrow> recovery_check idle_env (Some ''code''); a2 \<leftarrow> recovery_check idle_env (Some ''code'');
      r1 \<leftarrow> recovery_commit idle_env; r2 \<leftarrow> recovery_commit idle_env; ret (a1, a2, r1, r2) }) (enrolled ())
    = (None, None, r1, r2) \<and> rs_cookie r1 \<noteq> None \<and> rs_cookie r2 \<noteq> None"
proof -
  have "bucket_get (db_config (w_db (enrolled ()))) recoveryHashKey = Some (hash_token idle_env ''code'')"
    using sample_recovery by (auto simp: recovery_check_None)
  then show ?thesis
    by (rule recovery_race) (simp_all add: sample_ok)
qed

end
