(* ===== verification/Session_Properties.thy ===== *)
theory Session_Properties
  imports Auth_Properties
begin

text \<open>
  The session limits over histories.  A history is a run of the relation \<open>session_step\<close>:
  checks of any token (passive or sliding), sessions issued under other tokens, logouts, and
  whatever else the daemon does without touching the session bucket.  Then the step-up
  credits and the two sets of single-use keys.
\<close>

section \<open>Histories of a session\<close>

text \<open>With \<open>slides = False\<close> the session's own checks are passive ones.\<close>

inductive session_step :: "'d env \<Rightarrow> string \<Rightarrow> bool \<Rightarrow> 'd world \<Rightarrow> 'd world \<Rightarrow> bool"
  for E :: "'d env" and tok :: string and slides :: bool where
  check: "t \<noteq> tok \<or> slides \<or> \<not> s \<Longrightarrow> session_step E tok slides w (final (session_valid E t s) w)"
| issue: "\<forall>e. result (issue_session E) w \<noteq> Some (SetSession tok e) \<Longrightarrow>
    session_step E tok slides w (final (issue_session E) w)"
| logout: "session_step E tok slides w (final (logout E t) w)"
| other: "db_sessions (w_db w') = db_sessions (w_db w) \<Longrightarrow> session_step E tok slides w w'"

lemma session_look_sessions: "db_sessions d' = db_sessions d \<Longrightarrow> session_look E t d' = session_look E t d"
  by (simp add: session_look_def)

text \<open>One step leaves the record, removes it, or (a sliding check) moves its last-seen time.\<close>

lemma session_effect_look:
  assumes "rfc3339_ok E" "clock_ok E"
  shows "session_look E tok (w_db (final (session_valid E t s) w)) = session_look E tok (w_db w)
    \<or> t = tok \<and> session_look E tok (w_db (final (session_valid E t s) w)) = None
    \<or> t = tok \<and> s \<and> (\<exists>i a b. session_look E tok (w_db w) = Some (i, a)
        \<and> session_look E tok (w_db (final (session_valid E t s) w)) = Some (i, b))"
proof -
  have range: "time_in_range (clock E (Suc (w_n w)))" using assms(2) by (simp add: clock_ok_def)
  show ?thesis
    using session_valid_effect [of E t s w] unfolding session_effect_def
  proof (elim disjE conjE)
    assume "session_live E t (clock E (Suc (w_n w))) (w_db w)" "s"
      and bump: "session_bump E t (clock E (Suc (w_n w))) (w_db w) = Some (w_db (final (session_valid E t s) w))"
    then obtain i a where "session_look E t (w_db w) = Some (i, a)" by (auto simp: session_live_def)
    with store.look_bump [OF assms(1) range bump] store.bump_other [OF bump] \<open>s\<close> show ?thesis
      by (cases "t = tok") auto
  qed (auto simp: store.look_del)
qed

lemma issue_other_look:
  assumes "rfc3339_ok E" "clock_ok E" "\<forall>e. result (issue_session E) w \<noteq> Some (SetSession tok e)"
  shows "session_look E tok (w_db (final (issue_session E) w)) = session_look E tok (w_db w)"
proof (cases rule: issue_session_cases [of E w])
  case (stored t now b)
  with assms(3) have "t \<noteq> tok" by auto
  then show ?thesis using store.put_other [OF stored(2)] by auto
qed simp

lemma logout_look:
  "session_look E tok (w_db (final (logout E t) w)) = session_look E tok (w_db w)
   \<or> session_look E tok (w_db (final (logout E t) w)) = None"
  by (auto simp: logout_def delete_session_def commit_def store.look_del)

lemma session_step_look:
  assumes "session_step E tok slides w w'" "rfc3339_ok E" "clock_ok E"
  shows "session_look E tok (w_db w') = session_look E tok (w_db w)
    \<or> session_look E tok (w_db w') = None
    \<or> slides \<and> (\<exists>i a b. session_look E tok (w_db w) = Some (i, a) \<and> session_look E tok (w_db w') = Some (i, b))"
  using assms(1)
proof (cases rule: session_step.cases)
  case (check t s)
  show ?thesis using check(2) session_effect_look [OF assms(2,3), of tok t s w] unfolding check(1) by blast
next
  case issue
  then show ?thesis using issue_other_look [OF assms(2,3)] by blast
next
  case logout
  then show ?thesis using logout_look by metis
next
  case other
  then have "session_look E tok (w_db w') = session_look E tok (w_db w)" by (rule session_look_sessions)
  then show ?thesis by blast
qed

lemma session_history:
  assumes "(session_step E tok slides)\<^sup>*\<^sup>* w w'" "rfc3339_ok E" "clock_ok E"
  shows "session_look E tok (w_db w') = None
    \<or> (\<exists>i a b. session_look E tok (w_db w) = Some (i, a) \<and> session_look E tok (w_db w') = Some (i, b)
        \<and> (slides \<or> b = a))"
  using assms(1)
proof (induction rule: rtranclp_induct)
  case base
  then show ?case by (cases "session_look E tok (w_db w)") auto
next
  case (step v v')
  then show ?case using session_step_look [OF step(2) assms(2,3)] by auto
qed

text \<open>
  C24. The absolute cap: whatever happens to a session after it was issued at \<open>i\<close>, every
  check made more than twelve hours later refuses it.  Nothing extends the cap.
\<close>

theorem absolute_cap:
  assumes "(session_step E tok True)\<^sup>*\<^sup>* w w'" "rfc3339_ok E" "clock_ok E"
    "session_look E tok (w_db w) = Some (i, seen)"
    "clock E (Suc (w_n w')) > i + sessionAbsolute"
  shows "\<not> result (session_valid E tok slide) w'"
  using session_history [OF assms(1-3)] assms(4,5)
  by (auto simp: session_valid_result session_live_def live_at_def)

lemma sample_session: "session_look idle_env ''tok'' (w_db (enrolled ())) = Some (second, second)"
  by (simp add: session_look_def enrolled_def idle_env_def sample_env_def bucket_get_def)

text \<open>A later moment of the sample world, with the database as it was.\<close>

lemma sample_later: "session_step idle_env tok slides w (w\<lparr>w_n := n\<rparr>)"
  by (rule session_step.other) simp

lemma sample_clock_at: "clock idle_env n = min (int n) 1000000 * second"
  by (simp add: idle_env_def sample_env_def)

theorem absolute_cap_witness: "\<not> result (session_valid idle_env ''tok'' True) ((enrolled ())\<lparr>w_n := 50000\<rparr>)"
  using r_into_rtranclp [of "session_step idle_env ''tok'' True", OF sample_later] sample_ok(5,6) sample_session
  by (rule absolute_cap) (simp add: sample_clock_at second_def sessionAbsolute_def hour_def minute_def)

text \<open>
  C25. Passive checks do not keep a session alive: after any number of them (and anything else
  that is not an action of this session), a check more than fifteen minutes after the recorded
  last use refuses it.
\<close>

theorem idle_timeout_under_polling:
  assumes "(session_step E tok False)\<^sup>*\<^sup>* w w'" "rfc3339_ok E" "clock_ok E"
    "session_look E tok (w_db w) = Some (i, seen)"
    "clock E (Suc (w_n w')) > seen + sessionIdle"
  shows "\<not> result (session_valid E tok slide) w'"
  using session_history [OF assms(1-3)] assms(4,5)
  by (auto simp: session_valid_result session_live_def live_at_def)

theorem idle_timeout_witness:
  "\<not> result (session_valid idle_env ''tok'' True)
      ((final (session_valid idle_env ''tok'' False) (enrolled ()))\<lparr>w_n := 2000\<rparr>)"
proof (rule idle_timeout_under_polling)
  let ?p = "final (session_valid idle_env ''tok'' False) (enrolled ())"
  have "session_step idle_env ''tok'' False (enrolled ()) ?p" by (rule session_step.check) simp
  then show "(session_step idle_env ''tok'' False)\<^sup>*\<^sup>* (enrolled ()) (?p\<lparr>w_n := 2000\<rparr>)"
    using sample_later by (rule rtranclp_trans [OF r_into_rtranclp r_into_rtranclp])
  show "second + sessionIdle < clock idle_env (Suc (w_n (?p\<lparr>w_n := 2000\<rparr>)))"
    by (simp add: sample_clock_at second_def sessionIdle_def minute_def)
qed (rule sample_ok(5) sample_ok(6) sample_session)+

text \<open>
  Logout revokes on the server: unless the delete itself fails, the token is refused by
  every later check, whatever happens in between.
\<close>

theorem logout_revokes:
  assumes "(session_step E tok True)\<^sup>*\<^sup>* (final (logout E tok) w) w'" "rfc3339_ok E" "clock_ok E"
    "\<not> io_fault E (w_n w)"
  shows "\<not> result (session_valid E tok slide) w'"
proof (cases "tok = []")
  case True
  then show ?thesis by (simp add: session_valid_result session_live_def)
next
  case False
  then have "session_look E tok (w_db (final (logout E tok) w)) = None"
    using assms(4) by (simp add: logout_def delete_session_def commit_def store.look_del)
  then show ?thesis
    using session_history [OF assms(1-3)] by (auto simp: session_valid_result session_live_def)
qed

theorem logout_revokes_witness:
  "\<not> result (session_valid idle_env ''tok'' True) (final (logout idle_env ''tok'') (enrolled ()))"
  by (rule logout_revokes [OF rtranclp.rtrancl_refl sample_ok(5,6)]) (use sample_ok(4) in \<open>simp add: no_faults_def\<close>)

text \<open>
  A session action is let through exactly for a readable session within both limits at the
  moment of the check; the handler behind the gate runs on the state the check left, and no
  other response than 401 comes back otherwise.
\<close>

lemma require_session_gate:
  "result (require_session E tok next) w =
     (if \<not> io_fault E (w_n w) \<and> session_live E tok (clock E (Suc (w_n w))) (w_db w)
      then result next (final (session_valid E tok True) w)
      else http_error ''unauthorized'' StatusUnauthorized)
   \<and> (\<not> session_live E tok (clock E (Suc (w_n w))) (w_db w) \<longrightarrow>
        w_dev (final (require_session E tok next) w) = w_dev w
      \<and> db_creds (w_db (final (require_session E tok next) w)) = db_creds (w_db w)
      \<and> db_config (w_db (final (require_session E tok next) w)) = db_config (w_db w))"
  by (auto simp: require_session_def session_valid_result run_branch keepsD [OF keeps_session_valid(1)]
      keepsD [OF keeps_session_valid(3)] keepsD [OF keeps_session_valid(4)])

theorem require_session_witness:
  "w_dev (final (require_session idle_env ''other'' (recovery_regenerate idle_env)) (enrolled ())) = w_dev (enrolled ())
   \<and> db_config (w_db (final (require_session idle_env ''other'' (recovery_regenerate idle_env)) (enrolled ())))
     = db_config (w_db (enrolled ()))"
proof -
  have "session_look idle_env ''other'' (w_db (enrolled ())) = None"
    by (simp add: session_look_def enrolled_def bucket_get_def)
  then have "\<not> session_live idle_env ''other'' (clock idle_env (Suc (w_n (enrolled ())))) (w_db (enrolled ()))"
    by (simp add: session_live_def)
  then show ?thesis using require_session_gate [of idle_env "''other''" _ "enrolled ()"] by blast
qed

section \<open>Step-up credits\<close>

text \<open>
  Step-up credits come from the step-up ceremony alone, for the session that ran it, and
  only for an accepted assertion.
\<close>

lemma step_up_credit_sound:
  assumes "w_stepups (final (step_up_finish E tok rq) w) \<noteq> w_stepups w"
  shows "(\<exists>req. rq = Some req \<and> assertion_ok E req w)
    \<and> w_stepups (final (step_up_finish E tok rq) w) tok \<noteq> None
    \<and> (\<forall>t e. t \<noteq> tok \<and> w_stepups (final (step_up_finish E tok rq) w) t = Some e \<longrightarrow> w_stepups w t = Some e)"
proof -
  obtain req where req: "rq = Some req" and c: "result (check_assertion E req) w = None"
    using assms by (cases rq; cases "result (check_assertion E (the rq)) w")
      (auto simp: step_up_finish_def keepsD [OF keeps_assertion(3)])
  have "w_stepups (final (step_up_finish E tok rq) w)
      = ttl_grant stepUpTTL (clock E (w_n (final (check_assertion E req) w))) tok (w_stepups w)"
    using grant_run [of StepUps E tok "final (check_assertion E req) w"]
    by (simp add: step_up_finish_def req c keepsD [OF keeps_assertion(3)])
  then show ?thesis
    using req check_assertion_sound [OF c] by (auto simp: ttl_grant_deadline split: option.splits if_splits)
qed

lemma step_up_credit_witness:
  "\<exists>req. Some sample_login = Some req \<and> assertion_ok idle_env req (enrolled ())"
proof -
  let ?w = "final (check_assertion idle_env sample_login) (enrolled ())"
  have "w_stepups ?w ''tok'' = None"
    by (simp add: keepsD [OF keeps_assertion(3)] enrolled_def challenged_def sample_world_def)
  then have "w_stepups (final (step_up_finish idle_env ''tok'' (Some sample_login)) (enrolled ()))
      \<noteq> w_stepups (enrolled ())"
    using grant_run [of StepUps idle_env "''tok''" ?w] sample_assertion
    by (auto simp: step_up_finish_def ttl_grant_def keepsD [OF keeps_assertion(3)] dest!: fun_cong [of _ _ "''tok''"])
  then show ?thesis by (rule step_up_credit_sound [THEN conjunct1])
qed

text \<open>
  C26. One credit, one action: of two gated requests of a session in a row, with nothing in
  between that re-authenticates, the second never runs; it is answered 428 and leaves device
  and database alone.
\<close>

theorem step_up_single_use:
  fixes E :: "'d env" and tok :: string and w :: "'d world"
  assumes "keeps w_stepups h1"
  defines "w1 \<equiv> final (require_step_up E tok h1) w"
  shows "result (require_step_up E tok h2) w1 = write_json StatusPreconditionRequired [(''stepUpRequired'', JBool True)]
    \<and> w_dev (final (require_step_up E tok h2) w1) = w_dev w1
    \<and> w_db (final (require_step_up E tok h2) w1) = w_db w1"
proof -
  let ?c = "consume E StepUps tok"
  have spent: "w_stepups (final ?c w) tok = None"
    using consume_run(2) [of StepUps E tok w] by (simp add: ttl_consume_rest)
  have "w_stepups w1 = w_stepups (final ?c w)"
    using assms(1) by (simp add: w1_def require_step_up_def run_branch keepsD)
  with spent have "\<not> result ?c w1"
    by (simp add: consume_run ttl_consume_answer)
  then show ?thesis
    by (simp add: require_step_up_def keepsD [OF keeps_tickets(6)] keepsD [OF keeps_tickets(7)])
qed

theorem step_up_single_use_witness:
  "result (require_step_up idle_env ''tok'' (recovery_regenerate idle_env))
     (final (require_step_up idle_env ''tok'' (recovery_regenerate idle_env))
        ((enrolled ())\<lparr>w_stepups := [''tok'' \<mapsto> 100 * second]\<rparr>))
   = write_json StatusPreconditionRequired [(''stepUpRequired'', JBool True)]"
  using step_up_single_use [OF keeps_stepups_ceremonies(6)] by blast

section \<open>The sets of single-use keys\<close>

text \<open>
  C27. The set of deadlines with its garbage collection answers exactly like the specification
  that remembers the whole history: a use succeeds when the last grant of the key that no use
  has followed is younger than the set's lifetime.
\<close>

theorem ttl_set_refines:
  assumes "sorted_wrt (\<ge>) (map ev_time es)" "\<forall>e \<in> set es. ev_time e \<le> now"
  shows "fst (ttl_consume now k (ttl_after ttl es)) \<longleftrightarrow> (\<exists>g. open_ticket k es = Some g \<and> now < g + ttl)"
  unfolding ttl_after_def using assms by (rule ttl.consume_refines)

theorem ttl_set_refines_witness:
  "fst (ttl_consume 9 ''k'' (ttl_after 5 [Grant 8 ''j'', Grant 6 ''k'', Consume 2 ''k'', Grant 1 ''k'']))
     \<longleftrightarrow> (\<exists>g. open_ticket ''k'' [Grant 8 ''j'', Grant 6 ''k'', Consume 2 ''k'', Grant 1 ''k''] = Some g \<and> 9 < g + 5)"
  by (rule ttl_set_refines) simp_all

text \<open>
  In any history, in whatever order and at whatever times, a key is accepted at most as
  often as it was granted.
\<close>

lemma ttl_uses_bounded: "ttl_uses ttl k es \<le> grants k es"
  unfolding ttl_uses_def using ttl.uses_grants [of ttl k es] by linarith

end
