(* ===== verification/Go_Net.thy ===== *)
theory Go_Net
  imports Go_Encoding
begin

text \<open>
  The functions of Go's \<open>net\<close> package that the source calls: \<open>SplitHostPort\<close>,
  \<open>JoinHostPort\<close>, \<open>ParseIP\<close>, \<open>To4\<close> and \<open>ParseCIDR\<close>, over the address grammar of
  \<open>netip.ParseAddr\<close>.  The only error a caller looks at is whether there is one.
\<close>

section \<open>Host and port\<close>

text \<open>The text before and after the last separator.\<close>

definition cut_last :: "char \<Rightarrow> string \<Rightarrow> (string \<times> string) option" where
  "cut_last c s = map_option (\<lambda>(a, b). (rev b, rev a)) (cut c (rev s))"

definition join_host_port :: "string \<Rightarrow> string \<Rightarrow> string" where
  "join_host_port host port =
     (if CHR '':'' \<in> set host then CHR ''['' # host @ '']:'' @ port else host @ CHR '':'' # port)"

text \<open>
  Without brackets the host is what stands before the last colon and holds no colon itself;
  with brackets the closing one must stand right before the last colon.  No other bracket may
  occur.
\<close>

definition split_host_port :: "string \<Rightarrow> (string \<times> string) option" where
  "split_host_port s =
     (case cut_last CHR '':'' s of
        None \<Rightarrow> None
      | Some (h, port) \<Rightarrow>
         (if s \<noteq> [] \<and> hd s = CHR ''['' then
            (case cut CHR '']'' (tl s) of
               None \<Rightarrow> None
             | Some (host, rest) \<Rightarrow>
                (if h = CHR ''['' # host @ '']'' \<and> CHR ''['' \<notin> set (tl s) \<and> CHR '']'' \<notin> set rest
                 then Some (host, port) else None))
          else (if CHR '':'' \<in> set h \<or> CHR ''['' \<in> set s \<or> CHR '']'' \<in> set s then None
                else Some (h, port))))"

lemma cut_last_append: "c \<notin> set b \<Longrightarrow> cut_last c (a @ c # b) = Some (a, b)"
  by (simp add: cut_last_def cut_append)

lemma cut_last_Some: "cut_last c s = Some (a, b) \<Longrightarrow> s = a @ c # b \<and> c \<notin> set b"
  unfolding cut_last_def by (auto dest!: cut_Some simp: rev_swap)

lemma split_join_host_port:
  assumes "CHR ''['' \<notin> set h" "CHR '']'' \<notin> set h"
    "CHR '':'' \<notin> set p" "CHR ''['' \<notin> set p" "CHR '']'' \<notin> set p"
  shows "split_host_port (join_host_port h p) = Some (h, p)"
proof (cases "CHR '':'' \<in> set h")
  case True
  have "cut_last CHR '':'' ((CHR ''['' # h @ '']'') @ CHR '':'' # p) = Some (CHR ''['' # h @ '']'', p)"
    by (rule cut_last_append) (rule assms(3))
  moreover have "cut CHR '']'' (h @ CHR '']'' # CHR '':'' # p) = Some (h, CHR '':'' # p)"
    by (rule cut_append) (rule assms(2))
  ultimately show ?thesis using True assms by (simp add: split_host_port_def join_host_port_def)
next
  case False
  have "cut_last CHR '':'' (h @ CHR '':'' # p) = Some (h, p)"
    by (rule cut_last_append) (rule assms(3))
  moreover have "hd (h @ CHR '':'' # p) \<noteq> CHR ''[''" using assms(1) by (cases h) auto
  ultimately show ?thesis using False assms by (simp add: split_host_port_def join_host_port_def)
qed

text \<open>What a split says about its text: the two parts, joined again or bracketed needlessly.\<close>

lemma split_host_port_Some:
  assumes "split_host_port s = Some (h, p)"
  shows "(s = h @ CHR '':'' # p \<and> CHR '':'' \<notin> set h \<or> s = CHR ''['' # h @ '']:'' @ p)
    \<and> CHR ''['' \<notin> set h \<and> CHR '']'' \<notin> set h
    \<and> CHR '':'' \<notin> set p \<and> CHR ''['' \<notin> set p \<and> CHR '']'' \<notin> set p"
proof -
  from assms obtain a where a: "cut_last CHR '':'' s = Some (a, p)"
    by (auto simp: split_host_port_def split: option.splits if_splits)
  then have s: "s = a @ CHR '':'' # p" "CHR '':'' \<notin> set p" by (auto dest: cut_last_Some)
  show ?thesis
  proof (cases "s \<noteq> [] \<and> hd s = CHR ''[''")
    case True
    with assms a obtain rest where r: "cut CHR '']'' (tl s) = Some (h, rest)" "a = CHR ''['' # h @ '']''"
      "CHR ''['' \<notin> set (tl s)" "CHR '']'' \<notin> set rest"
      by (auto simp: split_host_port_def split: option.splits if_splits)
    with s have "tl s = h @ CHR '']'' # CHR '':'' # p" by simp
    with r cut_Some [OF r(1)] s show ?thesis by auto
  next
    case False
    with assms a s show ?thesis by (auto simp: split_host_port_def split: if_splits)
  qed
qed

section \<open>Addresses\<close>

datatype ip_addr = V4 bytes | V6 bytes string

text \<open>One octet: digits, at most 255, no leading zero.\<close>

definition octet :: "string \<Rightarrow> byte option" where
  "octet s =
     (if s = [] \<or> (hd s = CHR ''0'' \<and> tl s \<noteq> []) then None
      else (case digits_val 0 s of
              None \<Rightarrow> None
            | Some n \<Rightarrow> if n \<le> 255 then Some (word_of_nat n) else None))"

fun all_some :: "'a option list \<Rightarrow> 'a list option" where
  "all_some [] = Some []"
| "all_some (None # xs) = None"
| "all_some (Some x # xs) = map_option (\<lambda>ys. x # ys) (all_some xs)"

definition parse_ipv4 :: "string \<Rightarrow> bytes option" where
  "parse_ipv4 s =
     (let ps = split_on CHR ''.'' s in if length ps = 4 then all_some (map octet ps) else None)"

text \<open>The hexadecimal digits a text starts with, and the rest.\<close>

fun hex_span :: "string \<Rightarrow> string \<times> string" where
  "hex_span [] = ([], [])"
| "hex_span (c # s) = (if hex_val c = None then ([], c # s) else (case hex_span s of (a, b) \<Rightarrow> (c # a, b)))"

fun hex_num :: "nat \<Rightarrow> string \<Rightarrow> nat" where
  "hex_num acc [] = acc"
| "hex_num acc (c # s) =
     hex_num (case hex_val c of None \<Rightarrow> acc | Some d \<Rightarrow> acc * 16 + d) s"

text \<open>
  The loop of the IPv6 parser: the bytes read so far, where the ellipsis stands, the rest of
  the text.  It ends when the text does, when sixteen bytes are full, or at a trailing IPv4
  address.
\<close>

function ipv6_loop :: "bytes \<Rightarrow> nat option \<Rightarrow> string \<Rightarrow> (bytes \<times> nat option \<times> string) option" where
  "ipv6_loop ip ell s =
     (if length ip \<ge> 16 then Some (ip, ell, s)
      else (case hex_span s of (ds, r) \<Rightarrow>
        if length ds > 4 \<or> ds = [] then None
        else if r \<noteq> [] \<and> hd r = CHR ''.'' then
          (if ell = None \<and> length ip \<noteq> 12 \<or> length ip + 4 > 16 then None
           else (case parse_ipv4 s of None \<Rightarrow> None | Some f \<Rightarrow> Some (ip @ f, ell, [])))
        else
          (let n = hex_num 0 ds; ip' = ip @ [word_of_nat (n div 256), word_of_nat n] in
           if r = [] then Some (ip', ell, [])
           else if hd r \<noteq> CHR '':'' \<or> tl r = [] then None
           else if hd (tl r) = CHR '':'' then
             (if ell \<noteq> None then None
              else if tl (tl r) = [] then Some (ip', Some (length ip'), [])
              else ipv6_loop ip' (Some (length ip')) (tl (tl r)))
           else ipv6_loop ip' ell (tl r))))"
  by pat_completeness auto
termination
  by (relation "measure (\<lambda>(ip, ell, s). 16 - length ip)") auto

declare ipv6_loop.simps [simp del]

definition parse_ipv6 :: "string \<Rightarrow> ip_addr option" where
  "parse_ipv6 inp =
     (let (s, zone, zone_ok) = (case cut CHR ''%'' inp of
            None \<Rightarrow> (inp, [], True) | Some (a, z) \<Rightarrow> (a, z, z \<noteq> [])) in
      if \<not> zone_ok then None
      else
        (let lead = (take 2 s = ''::''); s' = (if lead then drop 2 s else s) in
         if lead \<and> s' = [] then Some (V6 (replicate 16 0) zone)
         else (case ipv6_loop [] (if lead then Some 0 else None) s' of
           None \<Rightarrow> None
         | Some (ip, ell, rest) \<Rightarrow>
            (if rest \<noteq> [] then None
             else if length ip < 16 then
               (case ell of
                  None \<Rightarrow> None
                | Some e \<Rightarrow> Some (V6 (take e ip @ replicate (16 - length ip) 0 @ drop e ip) zone))
             else if ell \<noteq> None then None
             else Some (V6 ip zone)))))"

text \<open>The first of dot, colon and percent decides the family.\<close>

fun parse_addr_at :: "string \<Rightarrow> string \<Rightarrow> ip_addr option" where
  "parse_addr_at s [] = None"
| "parse_addr_at s (c # r) =
     (if c = CHR ''.'' then map_option V4 (parse_ipv4 s)
      else if c = CHR '':'' then parse_ipv6 s
      else if c = CHR ''%'' then None
      else parse_addr_at s r)"

definition parse_addr :: "string \<Rightarrow> ip_addr option" where
  "parse_addr s = parse_addr_at s s"

fun no_zone :: "ip_addr \<Rightarrow> bool" where
  "no_zone (V4 _) = True"
| "no_zone (V6 _ z) = (z = [])"

fun bit_len :: "ip_addr \<Rightarrow> nat" where
  "bit_len (V4 _) = 32"
| "bit_len (V6 _ _) = 128"

text \<open>\<open>net.ParseIP\<close>: an address without a zone, as sixteen bytes.\<close>

fun as16 :: "ip_addr \<Rightarrow> bytes" where
  "as16 (V4 b) = replicate 10 0 @ [255, 255] @ b"
| "as16 (V6 b _) = b"

definition parse_ip :: "string \<Rightarrow> bytes option" where
  "parse_ip s = (case parse_addr s of
     None \<Rightarrow> None | Some a \<Rightarrow> if no_zone a then Some (as16 a) else None)"

definition to4 :: "bytes \<Rightarrow> bytes option" where
  "to4 ip =
     (if length ip = 4 then Some ip
      else if length ip = 16 \<and> take 12 ip = replicate 10 0 @ [255, 255] then Some (drop 12 ip)
      else None)"

text \<open>The prefix length of a CIDR: digits only, below the parser's limit.\<close>

definition dtoi :: "string \<Rightarrow> nat option" where
  "dtoi s = (if s = [] then None else (case digits_val 0 s of
     None \<Rightarrow> None | Some n \<Rightarrow> if n < 16777215 then Some n else None))"

definition parse_cidr :: "string \<Rightarrow> (ip_addr \<times> nat) option" where
  "parse_cidr s = (case cut CHR ''/'' s of
     None \<Rightarrow> None
   | Some (a, bits) \<Rightarrow>
      (case parse_addr a of
         None \<Rightarrow> None
       | Some ip \<Rightarrow>
          (if \<not> no_zone ip then None
           else (case dtoi bits of
                   None \<Rightarrow> None
                 | Some n \<Rightarrow> if n \<le> bit_len ip then Some (ip, n) else None))))"

section \<open>Dotted quads\<close>

text \<open>The text form of an IPv4 address, to state that it parses back.\<close>

definition show_ipv4 :: "bytes \<Rightarrow> string" where
  "show_ipv4 b = join_with CHR ''.'' (map (\<lambda>x. dec (unat x)) b)"

lemma dec_no_char: "of_char c < (48 :: nat) \<or> 57 < (of_char c :: nat) \<Longrightarrow> c \<notin> set (dec n)"
  using dec_digits digit_char_ne by blast

lemma dec_leading: "hd (dec n) = CHR ''0'' \<Longrightarrow> tl (dec n) = []"
proof (induction n rule: dec.induct)
  case (1 n)
  show ?case
  proof (cases "n < 10")
    case True
    then show ?thesis by (simp add: dec.simps [of n])
  next
    case False
    obtain d r where d: "dec (n div 10) = digit_char d # r" using dec_Cons by blast
    have "dec (n div 10) \<noteq> ''0''"
    proof
      assume "dec (n div 10) = ''0''"
      then have "digits_val 0 (dec (n div 10)) = Some 0" by (simp add: digit_val_def)
      with False show False by (simp add: digits_val_dec)
    qed
    with 1 False d show ?thesis by (auto simp: dec.simps [of n])
  qed
qed

lemma octet_dec: "octet (dec (unat b)) = Some b"
proof -
  have "dec (unat b) \<noteq> []" by (subst dec.simps) simp
  moreover have "unat b \<le> 255" using unat_byte_less [of b] by linarith
  ultimately show ?thesis using dec_leading [of "unat b"] by (auto simp: octet_def digits_val_dec)
qed

lemma all_some_map: "\<forall>x \<in> set xs. f x = Some (g x) \<Longrightarrow> all_some (map f xs) = Some (map g xs)"
  by (induction xs) simp_all

lemma parse_ipv4_show: "length b = 4 \<Longrightarrow> parse_ipv4 (show_ipv4 b) = Some b"
proof -
  assume l: "length b = 4"
  let ?ps = "map (\<lambda>x. dec (unat x)) b"
  have "split_on CHR ''.'' (show_ipv4 b) = ?ps"
    unfolding show_ipv4_def using l by (intro split_on_join) (auto simp: dec_no_char)
  moreover have "all_some (map octet ?ps) = Some b"
    using all_some_map [of b "octet \<circ> (\<lambda>x. dec (unat x))" "\<lambda>x. x"] by (simp add: octet_dec)
  ultimately show ?thesis using l by (simp add: parse_ipv4_def)
qed

lemma parse_addr_skip: "\<forall>c \<in> set a. c \<noteq> CHR ''.'' \<and> c \<noteq> CHR '':'' \<and> c \<noteq> CHR ''%'' \<Longrightarrow>
    parse_addr_at s (a @ r) = parse_addr_at s r"
  by (induction a) auto

lemma parse_addr_show_ipv4: "length b = 4 \<Longrightarrow> parse_addr (show_ipv4 b) = Some (V4 b)"
proof -
  assume l: "length b = 4"
  then obtain x y t where "b = x # y # t" by (auto simp: length_Suc_conv eval_nat_numeral)
  then have s: "show_ipv4 b = dec (unat x) @ CHR ''.'' # join_with CHR ''.'' (map (\<lambda>x. dec (unat x)) (y # t))"
    by (simp add: show_ipv4_def)
  have "\<forall>c \<in> set (dec (unat x)). c \<noteq> CHR ''.'' \<and> c \<noteq> CHR '':'' \<and> c \<noteq> CHR ''%''"
    using dec_no_char [of "CHR ''.''"] dec_no_char [of "CHR '':''"] dec_no_char [of "CHR ''%''"] by auto
  then have "parse_addr (show_ipv4 b) = map_option V4 (parse_ipv4 (show_ipv4 b))"
    unfolding parse_addr_def by (subst (2) s) (simp add: parse_addr_skip)
  then show ?thesis by (simp add: parse_ipv4_show [OF l])
qed

lemma parse_cidr_show: "length b = 4 \<Longrightarrow> n \<le> 32 \<Longrightarrow>
    parse_cidr (show_ipv4 b @ CHR ''/'' # dec n) = Some (V4 b, n)"
proof -
  assume l: "length b = 4" "n \<le> 32"
  have "c \<in> set (join_with d xs) \<Longrightarrow> c = d \<or> (\<exists>x \<in> set xs. c \<in> set x)" for c d and xs :: "string list"
    by (induction d xs rule: join_with.induct) auto
  then have "CHR ''/'' \<notin> set (show_ipv4 b)"
    using dec_no_char [of "CHR ''/''"] by (fastforce simp: show_ipv4_def)
  moreover have "dec n \<noteq> []" by (subst dec.simps) simp
  ultimately show ?thesis
    using l by (simp add: parse_cidr_def cut_append parse_addr_show_ipv4 dtoi_def digits_val_dec)
qed

end
