(* ===== verification/Uci.thy ===== *)
theory Uci
  imports Go_Strings
begin

text \<open>
  The configuration the daemon edits through \<open>uci\<close>: a package is a list of sections in
  file order, a section has a name (empty for an anonymous one, which is then addressed by type
  and index), a type and options, each a list of values (empty when absent).  The operations
  are the documented ones of the tool; the shell scripts the source passes to \<open>sh -c\<close> are
  translated with them in the theories of the packages that hold the scripts.
\<close>

record uci_section =
  us_name :: string
  us_type :: string
  us_opts :: "string \<Rightarrow> string list"

type_synonym package = "uci_section list"

text \<open>How a command addresses a section: by name, or as \<open>@type[index]\<close> with -1 the last.\<close>

datatype selector = Named string | First string | Last string

fun sel_text :: "selector \<Rightarrow> string" where
  "sel_text (Named n) = n"
| "sel_text (First t) = CHR ''@'' # t @ ''[0]''"
| "sel_text (Last t) = CHR ''@'' # t @ ''[-1]''"

section \<open>Sections\<close>

definition new_section :: "string \<Rightarrow> string \<Rightarrow> uci_section" where
  "new_section n t = \<lparr>us_name = n, us_type = t, us_opts = (\<lambda>k. [])\<rparr>"

definition set_opt :: "string \<Rightarrow> string list \<Rightarrow> uci_section \<Rightarrow> uci_section" where
  "set_opt k vs s = s\<lparr>us_opts := (us_opts s)(k := vs)\<rparr>"

text \<open>What \<open>uci get\<close> prints of an option: its values separated by spaces.\<close>

definition opt_text :: "string \<Rightarrow> uci_section \<Rightarrow> string" where
  "opt_text k s = join_with CHR '' '' (us_opts s k)"

lemma set_opt_simps [simp]:
  "us_name (set_opt k vs s) = us_name s" "us_type (set_opt k vs s) = us_type s"
  "us_opts (set_opt k vs s) j = (if j = k then vs else us_opts s j)"
  "us_name (new_section n t) = n" "us_type (new_section n t) = t" "us_opts (new_section n t) j = []"
  by (simp_all add: set_opt_def new_section_def)

section \<open>Packages\<close>

text \<open>Change the first section that meets a condition; \<^const>\<open>None\<close> when there is none.\<close>

fun update_first :: "('a \<Rightarrow> bool) \<Rightarrow> ('a \<Rightarrow> 'a) \<Rightarrow> 'a list \<Rightarrow> 'a list option" where
  "update_first P f [] = None"
| "update_first P f (x # xs) = (if P x then Some (f x # xs) else map_option (\<lambda>ys. x # ys) (update_first P f xs))"

definition update_last :: "('a \<Rightarrow> bool) \<Rightarrow> ('a \<Rightarrow> 'a) \<Rightarrow> 'a list \<Rightarrow> 'a list option" where
  "update_last P f xs = map_option rev (update_first P f (rev xs))"

fun update_sel :: "selector \<Rightarrow> (uci_section \<Rightarrow> uci_section) \<Rightarrow> package \<Rightarrow> package option" where
  "update_sel (Named n) f p = update_first (\<lambda>s. us_name s = n) f p"
| "update_sel (First t) f p = update_first (\<lambda>s. us_type s = t) f p"
| "update_sel (Last t) f p = update_last (\<lambda>s. us_type s = t) f p"

fun find_sel :: "selector \<Rightarrow> package \<Rightarrow> uci_section option" where
  "find_sel (Named n) p = find (\<lambda>s. us_name s = n) p"
| "find_sel (First t) p = find (\<lambda>s. us_type s = t) p"
| "find_sel (Last t) p = find (\<lambda>s. us_type s = t) (rev p)"

text \<open>\<open>uci set pkg.name=type\<close>: retype the section or append it.\<close>

definition put_section :: "string \<Rightarrow> string \<Rightarrow> package \<Rightarrow> package" where
  "put_section n t p =
     (case update_first (\<lambda>s. us_name s = n) (\<lambda>s. s\<lparr>us_type := t\<rparr>) p of
        Some q \<Rightarrow> q | None \<Rightarrow> p @ [new_section n t])"

definition del_section :: "string \<Rightarrow> package \<Rightarrow> package" where
  "del_section n p = filter (\<lambda>s. us_name s \<noteq> n) p"

definition add_section :: "string \<Rightarrow> package \<Rightarrow> package" where
  "add_section t p = p @ [new_section [] t]"

text \<open>The sections with a name; in a file the tool wrote there is at most one of each.\<close>

definition named :: "string \<Rightarrow> package \<Rightarrow> uci_section option" where
  "named n p = find (\<lambda>s. us_name s = n) p"

lemma named_update: "update_first (\<lambda>s. us_name s = n) f p = Some q \<Longrightarrow> (\<And>s. us_name (f s) = us_name s) \<Longrightarrow>
    named m q = (if m = n then map_option f (named n p) else named m p)"
proof (induction p arbitrary: q)
  case (Cons s p)
  then show ?case by (cases "us_name s = n") (auto simp: named_def)
qed simp

lemma named_update_None: "update_first (\<lambda>s. us_name s = n) f p = None \<longleftrightarrow> named n p = None"
  by (induction p) (auto simp: named_def)

lemma named_append: "named n (p @ q) = (case named n p of None \<Rightarrow> named n q | Some s \<Rightarrow> Some s)"
  by (induction p) (auto simp: named_def)

lemma named_put: "named m (put_section n t p) =
   (if m = n then Some (case named n p of None \<Rightarrow> new_section n t | Some s \<Rightarrow> s\<lparr>us_type := t\<rparr>) else named m p)"
proof (cases "update_first (\<lambda>s. us_name s = n) (\<lambda>s. s\<lparr>us_type := t\<rparr>) p")
  case None
  then have "named n p = None" by (simp add: named_update_None)
  moreover have "named m [new_section n t] = (if m = n then Some (new_section n t) else None)"
    by (simp add: named_def)
  ultimately show ?thesis using None by (auto simp: put_section_def named_append split: option.split)
next
  case (Some q)
  then have "named n p \<noteq> None" by (metis named_update_None option.distinct(1))
  then show ?thesis using Some named_update [OF Some] by (auto simp: put_section_def)
qed

lemma named_del: "named m (del_section n p) = (if m = n then None else named m p)"
  by (induction p) (auto simp: named_def del_section_def)

lemma named_add: "n \<noteq> [] \<Longrightarrow> named n (add_section t p) = named n p"
  by (simp add: add_section_def named_append) (simp add: named_def split: option.split)

section \<open>Shell text\<close>

text \<open>
  The scripts of the source as string literals: a tilde stands for the double quote, a back
  tick for the single quote and a percent sign for the backslash, none of which occurs in the
  scripts.
\<close>

definition sh :: "string \<Rightarrow> string" where
  "sh s = map (\<lambda>c. if c = CHR ''~'' then CHR 0x22 else if c = CHR 0x60 then CHR 0x27
                   else if c = CHR ''%'' then CHR 0x5C else c) s"

text \<open>\<open>grep -w\<close>: the word occurs as a maximal run of letters, digits and underscores.\<close>

definition word_char :: "char \<Rightarrow> bool" where
  "word_char c \<longleftrightarrow> (CHR ''a'' \<le> c \<and> c \<le> CHR ''z'') \<or> (CHR ''A'' \<le> c \<and> c \<le> CHR ''Z'')
     \<or> (CHR ''0'' \<le> c \<and> c \<le> CHR ''9'') \<or> c = CHR ''_''"

definition words_of :: "string \<Rightarrow> string list" where
  "words_of s = split_on CHR '' '' (map (\<lambda>c. if word_char c then c else CHR '' '') s)"

definition grep_word :: "string \<Rightarrow> string \<Rightarrow> bool" where
  "grep_word w s \<longleftrightarrow> w \<in> set (words_of s)"

end
