(* ===== verification/Vpn.thy ===== *)
theory Vpn
  imports World Vpn_Config Uci
begin

text \<open>
  \<open>internal/vpn/vpn.go\<close> and \<open>killswitch.go\<close>: the connector that writes a configuration as
  UCI, drives the tunnel, and sets or reads the kill switch.  The command lists are the
  source's argument vectors; each shell script is given as its text and as its translation on
  the firewall package.
\<close>

definition Iface :: string where "Iface = ''wg0''"

definition peer_type :: string where "peer_type = ''wireguard_'' @ Iface"

section \<open>Import\<close>

text \<open>The commands for one peer: \<open>set\<close> writes an option of the section just added.\<close>

definition peer_set :: "string \<Rightarrow> string \<Rightarrow> string list" where
  "peer_set k v = [''uci'', ''set'', ''network.@'' @ peer_type @ ''[-1].'' @ k @ ''='' @ v]"

definition import_peer_cmds :: "peer \<Rightarrow> string list list" where
  "import_peer_cmds p =
     [[''uci'', ''add'', ''network'', peer_type], peer_set ''public_key'' (p_publicKey p)]
     @ (if p_presharedKey p \<noteq> [] then [peer_set ''preshared_key'' (p_presharedKey p)] else [])
     @ map (\<lambda>a. [''uci'', ''add_list'', ''network.@'' @ peer_type @ ''[-1].allowed_ips='' @ a]) (p_allowedIPs p)
     @ [peer_set ''route_allowed_ips'' ''1'']
     @ (if p_endpointHost p \<noteq> [] then
          [peer_set ''endpoint_host'' (p_endpointHost p), peer_set ''endpoint_port'' (p_endpointPort p)] else [])
     @ (if p_keepalive p \<noteq> [] then [peer_set ''persistent_keepalive'' (p_keepalive p)] else [])"

definition zone_script :: string where
  "zone_script = sh (''uci show firewall | grep -q ~%.name=`vpn`~ || { '' @
     ''uci add firewall zone >/dev/null; uci set firewall.@zone[-1].name=vpn; '' @
     ''uci add_list firewall.@zone[-1].network='' @ Iface @ ''; uci set firewall.@zone[-1].input=REJECT; '' @
     ''uci set firewall.@zone[-1].output=ACCEPT; uci set firewall.@zone[-1].forward=REJECT; '' @
     ''uci set firewall.@zone[-1].masq=1; uci set firewall.@zone[-1].mtu_fix=1; '' @
     ''uci add firewall forwarding >/dev/null; uci set firewall.@forwarding[-1].src=lan; '' @
     ''uci set firewall.@forwarding[-1].dest=vpn; uci commit firewall; }'')"

definition import_cmds :: "vpn_config \<Rightarrow> string list list" where
  "import_cmds c =
     [[''sh'', ''-c'', ''while uci -q delete network.@'' @ peer_type @ ''[0]; do :; done''],
      [''sh'', ''-c'', ''uci -q delete network.'' @ Iface @ '' || true''],
      [''uci'', ''set'', ''network.'' @ Iface @ ''=interface''],
      [''uci'', ''set'', ''network.'' @ Iface @ ''.proto=wireguard''],
      [''uci'', ''set'', ''network.'' @ Iface @ ''.auto=0''],
      [''uci'', ''set'', ''network.'' @ Iface @ ''.private_key='' @ c_privateKey c]]
     @ map (\<lambda>a. [''uci'', ''add_list'', ''network.'' @ Iface @ ''.addresses='' @ a]) (c_addresses c)
     @ map (\<lambda>d. [''uci'', ''add_list'', ''network.'' @ Iface @ ''.dns='' @ d]) (c_dns c)
     @ (if c_mtu c \<noteq> [] then [[''uci'', ''set'', ''network.'' @ Iface @ ''.mtu='' @ c_mtu c]] else [])
     @ concat (map import_peer_cmds (c_peers c))
     @ [[''uci'', ''commit'', ''network''], [''sh'', ''-c'', zone_script], [''/etc/init.d/network'', ''reload'']]"

definition vpn_import_config :: "'d env \<Rightarrow> vpn_config \<Rightarrow> ('d world, err option) state" where
  "vpn_import_config E c = run_all E (import_cmds c)"

text \<open>A call whose output is dropped.\<close>

definition run_only :: "'d env \<Rightarrow> string list \<Rightarrow> ('d world, err option) state" where
  "run_only E argv = do { r \<leftarrow> run E argv; ret (case r of Inl e \<Rightarrow> Some e | Inr _ \<Rightarrow> None) }"

definition vpn_up :: "'d env \<Rightarrow> string \<Rightarrow> ('d world, err option) state" where
  "vpn_up E iface = run_only E [''ifup'', iface]"

definition vpn_down :: "'d env \<Rightarrow> string \<Rightarrow> ('d world, err option) state" where
  "vpn_down E iface = run_only E [''ifdown'', iface]"

definition vpn_status :: "'d env \<Rightarrow> ('d world, err + string) state" where
  "vpn_status E = run E [''wg'', ''show'', Iface]"

section \<open>The kill switch\<close>

definition findLanWanForwarding :: string where
  "findLanWanForwarding =
     sh ''uci show firewall | sed -n ~s/^firewall%.%(@forwarding%[[0-9]*%]%)%.src=`lan`$/%1/p~''"

definition ks_on_script :: string where
  "ks_on_script = ''changed=0; while :; do found='' @ sh ''~~; '' @
     ''for s in $('' @ findLanWanForwarding @ ''); do '' @
     sh ''[ ~$(uci -q get firewall.$s.dest)~ = ~wan~ ] && { found=$s; break; }; done; '' @
     sh ''[ -n ~$found~ ] || break; uci delete firewall.$found; changed=1; done; '' @
     sh ''[ ~$changed~ = 1 ] && { uci commit firewall; /etc/init.d/firewall reload; } || true''"

definition ks_off_script :: string where
  "ks_off_script = sh ''have=~~; '' @ ''for s in $('' @ findLanWanForwarding @ ''); do '' @
     sh ''[ ~$(uci -q get firewall.$s.dest)~ = ~wan~ ] && have=1; done; '' @
     sh ''[ -n ~$have~ ] || { uci add firewall forwarding >/dev/null; '' @
     ''uci set firewall.@forwarding[-1].src=lan; uci set firewall.@forwarding[-1].dest=wan; '' @
     ''uci commit firewall; /etc/init.d/firewall reload; }''"

definition ks_query_script :: string where
  "ks_query_script = ''for s in $('' @ findLanWanForwarding @ ''); do '' @
     sh ''[ ~$(uci -q get firewall.$s.dest)~ = ~wan~ ] && { echo off; exit 0; }; done; echo on''"

definition set_kill_switch :: "'d env \<Rightarrow> bool \<Rightarrow> ('d world, err option) state" where
  "set_kill_switch E enabled = do {
     r \<leftarrow> run E [''sh'', ''-c'', if enabled then ks_on_script else ks_off_script];
     case r of
       Inl e \<Rightarrow> ret (Some e)
     | Inr _ \<Rightarrow>
         (if enabled then
            (case flush_ct E of
               None \<Rightarrow> ret None
             | Some f \<Rightarrow> do {
                 e \<leftarrow> State (\<lambda>w. case f (w_dev w) of (r, d) \<Rightarrow> (r, w\<lparr>w_dev := d\<rparr>));
                 ret (case e of None \<Rightarrow> None
                      | Some m \<Rightarrow> Some (''kill switch set, but conntrack flush failed: '' @ m)) })
          else ret None) }"

text \<open>\<open>KillSwitch\<close>: \<^const>\<open>None\<close> is its error, read as off by callers that drop it.\<close>

definition kill_switch :: "'d env \<Rightarrow> ('d world, bool option) state" where
  "kill_switch E = do {
     r \<leftarrow> run E [''sh'', ''-c'', ks_query_script];
     ret (case r of Inl _ \<Rightarrow> None | Inr out \<Rightarrow> Some (out = ''on'')) }"

section \<open>The scripts on the firewall package\<close>

text \<open>What the sed pattern and the test select: an anonymous forwarding from lan to wan.\<close>

definition lan_wan :: "uci_section \<Rightarrow> bool" where
  "lan_wan s \<longleftrightarrow> us_name s = [] \<and> us_type s = ''forwarding'' \<and> us_opts s ''src'' = [''lan'']
     \<and> opt_text ''dest'' s = ''wan''"

fun drop_first :: "('a \<Rightarrow> bool) \<Rightarrow> 'a list \<Rightarrow> 'a list option" where
  "drop_first P [] = None"
| "drop_first P (x # xs) = (if P x then Some xs else map_option (\<lambda>ys. x # ys) (drop_first P xs))"

lemma drop_first_length: "drop_first P xs = Some ys \<Longrightarrow> length ys < length xs"
  by (induction xs arbitrary: ys) (fastforce split: if_splits)+

text \<open>One pass of the outer loop finds and deletes one forwarding; it ends when none is found.\<close>

function ks_on_loop :: "bool \<Rightarrow> package \<Rightarrow> bool \<times> package" where
  "ks_on_loop changed fw =
     (case drop_first lan_wan fw of None \<Rightarrow> (changed, fw) | Some fw' \<Rightarrow> ks_on_loop True fw')"
  by pat_completeness auto
termination
  by (relation "measure (length \<circ> snd)") (auto dest: drop_first_length)

declare ks_on_loop.simps [simp del]

definition ks_off_edit :: "package \<Rightarrow> bool \<times> package" where
  "ks_off_edit fw =
     (if \<exists>s \<in> set fw. lan_wan s then (False, fw)
      else (True, fw @ [set_opt ''dest'' [''wan''] (set_opt ''src'' [''lan''] (new_section [] ''forwarding''))]))"

definition ks_query_text :: "package \<Rightarrow> string" where
  "ks_query_text fw = (if \<exists>s \<in> set fw. lan_wan s then ''off'' else ''on'')"

text \<open>The zone script: skipped when some section's name option is \<open>vpn\<close>.\<close>

definition vpn_zone :: uci_section where
  "vpn_zone = set_opt ''mtu_fix'' [''1''] (set_opt ''masq'' [''1''] (set_opt ''forward'' [''REJECT'']
     (set_opt ''output'' [''ACCEPT''] (set_opt ''input'' [''REJECT''] (set_opt ''network'' [Iface]
     (set_opt ''name'' [''vpn''] (new_section [] ''zone'')))))))"

definition zone_edit :: "package \<Rightarrow> bool \<times> package" where
  "zone_edit fw =
     (if \<exists>s \<in> set fw. us_opts s ''name'' \<noteq> [] \<and> hd (us_opts s ''name'') = ''vpn'' then (False, fw)
      else (True, fw @ [vpn_zone,
             set_opt ''dest'' [''vpn''] (set_opt ''src'' [''lan''] (new_section [] ''forwarding''))]))"

lemma drop_first_filter: "drop_first P xs = Some ys \<Longrightarrow> filter (\<lambda>x. \<not> P x) ys = filter (\<lambda>x. \<not> P x) xs"
  by (induction xs arbitrary: ys) (auto split: if_splits)

lemma drop_first_None: "drop_first P xs = None \<longleftrightarrow> (\<forall>x \<in> set xs. \<not> P x)"
  by (induction xs) auto

text \<open>The loop removes exactly the direct forwardings and keeps everything else in order.\<close>

lemma ks_on_loop_result:
  "ks_on_loop c fw = (c \<or> (\<exists>s \<in> set fw. lan_wan s), filter (\<lambda>s. \<not> lan_wan s) fw)"
proof (induction c fw rule: ks_on_loop.induct)
  case (1 c fw)
  show ?case
  proof (cases "drop_first lan_wan fw")
    case None
    then have "\<forall>s \<in> set fw. \<not> lan_wan s" by (simp add: drop_first_None)
    with None show ?thesis by (auto simp: ks_on_loop.simps [of c fw] filter_id_conv)
  next
    case (Some fw')
    then have "\<exists>s \<in> set fw. lan_wan s" using drop_first_None [of lan_wan fw] by auto
    with Some 1 show ?thesis by (simp add: ks_on_loop.simps [of c fw] drop_first_filter)
  qed
qed

lemma keeps_vpn_ops [keeps_intro]:
  "keeps w_db (vpn_import_config E c)" "keeps w_db (vpn_up E i)" "keeps w_db (vpn_down E i)"
  "keeps w_db (vpn_status E)" "keeps w_db (set_kill_switch E b)" "keeps w_db (kill_switch E)"
  "keeps w_stepups (vpn_import_config E c)" "keeps w_stepups (vpn_up E i)" "keeps w_stepups (vpn_down E i)"
  "keeps w_stepups (vpn_status E)" "keeps w_stepups (set_kill_switch E b)" "keeps w_stepups (kill_switch E)"
  "keeps w_fwd (vpn_import_config E c)" "keeps w_fwd (vpn_up E i)" "keeps w_fwd (vpn_down E i)"
  "keeps w_fwd (vpn_status E)" "keeps w_fwd (set_kill_switch E b)" "keeps w_fwd (kill_switch E)"
  "keeps w_note (vpn_import_config E c)" "keeps w_note (vpn_up E i)" "keeps w_note (vpn_down E i)"
  "keeps w_note (vpn_status E)" "keeps w_note (set_kill_switch E b)" "keeps w_note (kill_switch E)"
  "keeps w_image (vpn_import_config E c)" "keeps w_image (vpn_up E i)" "keeps w_image (vpn_down E i)"
  "keeps w_image (vpn_status E)" "keeps w_image (set_kill_switch E b)" "keeps w_image (kill_switch E)"
  unfolding vpn_import_config_def vpn_up_def vpn_down_def run_only_def vpn_status_def set_kill_switch_def
    kill_switch_def
  by (intro keeps_intro; simp add: keeps_def split: prod.split)+

end
