(* ===== verification/Dns_Service.thy ===== *)
theory Dns_Service
  imports World Uci Go_Net
begin

text \<open>
  \<open>internal/dns/providers.go\<close> and \<open>service.go\<close>: the curated resolvers and the router side
  of encrypted DNS, as the argument vectors the source runs.
\<close>

section \<open>Providers\<close>

record provider =
  pv_key :: string
  pv_label :: string
  pv_host :: string
  pv_url :: string
  pv_ips :: "string list"

definition em_dash :: string where
  "em_dash = [CHR 0xE2, CHR 0x80, CHR 0x94]"

definition DefaultProvider :: string where "DefaultProvider = ''quad9''"

definition providers :: "provider list" where
  "providers =
     [\<lparr>pv_key = ''quad9'', pv_label = ''Quad9 '' @ em_dash @ '' nonprofit, blocks malware'',
       pv_host = ''dns.quad9.net'', pv_url = ''https://dns.quad9.net/dns-query'',
       pv_ips = [''9.9.9.9'', ''149.112.112.112'']\<rparr>,
      \<lparr>pv_key = ''cloudflare'', pv_label = ''Cloudflare (1.1.1.1) '' @ em_dash @ '' fastest'',
       pv_host = ''cloudflare-dns.com'', pv_url = ''https://cloudflare-dns.com/dns-query'',
       pv_ips = [''1.1.1.1'', ''1.0.0.1'']\<rparr>,
      \<lparr>pv_key = ''mullvad'', pv_label = ''Mullvad '' @ em_dash @ '' no logging, no filtering'',
       pv_host = ''dns.mullvad.net'', pv_url = ''https://dns.mullvad.net/dns-query'',
       pv_ips = [''194.242.2.2'']\<rparr>]"

definition provider_by_key :: "string \<Rightarrow> provider option" where
  "provider_by_key k = find (\<lambda>p. pv_key p = k) providers"

definition provider_by_hostname :: "string \<Rightarrow> provider option" where
  "provider_by_hostname h = find (\<lambda>p. pv_host p = h) providers"

definition valid_provider :: "string \<Rightarrow> bool" where
  "valid_provider k \<longleftrightarrow> provider_by_key k \<noteq> None"

definition all_resolver_ips :: "string list" where
  "all_resolver_ips = concat (map pv_ips providers)"

section \<open>Service\<close>

text \<open>The dnsmasq upstream syntax of the forwarder's address.\<close>

definition server_spec :: "string \<Rightarrow> string" where
  "server_spec addr =
     (case split_host_port addr of
        None \<Rightarrow> ''127.0.0.1#5335''
      | Some (h, p) \<Rightarrow> h @ ''#'' @ p)"

definition fw_set :: "string \<Rightarrow> string \<Rightarrow> string \<Rightarrow> string list" where
  "fw_set sec k v = [''uci'', ''set'', ''firewall.'' @ sec @ ''.'' @ k @ ''='' @ v]"

definition fw_delete :: "string \<Rightarrow> string list" where
  "fw_delete sec = [''sh'', ''-c'', ''uci -q delete firewall.'' @ sec @ '' || true'']"

definition del_server :: "string \<Rightarrow> string list" where
  "del_server spec = [''sh'', ''-c'', sh ''uci -q del_list `dhcp.@dnsmasq[0].server='' @ spec @ sh ''` || true'']"

definition dns_enable_cmds :: "string \<Rightarrow> string list list" where
  "dns_enable_cmds spec =
     [[''uci'', ''set'', ''dhcp.@dnsmasq[0].noresolv=1''],
      del_server spec,
      [''uci'', ''add_list'', ''dhcp.@dnsmasq[0].server='' @ spec],
      [''uci'', ''commit'', ''dhcp''],
      [''uci'', ''set'', ''firewall.mistui_dns_out=rule''],
      fw_set ''mistui_dns_out'' ''name'' ''mistui-dns53-out'',
      fw_set ''mistui_dns_out'' ''dest'' ''wan'',
      fw_set ''mistui_dns_out'' ''proto'' ''tcp udp'',
      fw_set ''mistui_dns_out'' ''dest_port'' ''53'',
      fw_set ''mistui_dns_out'' ''target'' ''REJECT'',
      [''uci'', ''set'', ''firewall.mistui_dns_fwd=rule''],
      fw_set ''mistui_dns_fwd'' ''name'' ''mistui-dns53-fwd'',
      fw_set ''mistui_dns_fwd'' ''src'' ''lan'',
      fw_set ''mistui_dns_fwd'' ''dest'' ''wan'',
      fw_set ''mistui_dns_fwd'' ''proto'' ''tcp udp'',
      fw_set ''mistui_dns_fwd'' ''dest_port'' ''53'',
      fw_set ''mistui_dns_fwd'' ''target'' ''REJECT'',
      [''uci'', ''set'', ''firewall.mistui_dns_hijack=redirect''],
      fw_set ''mistui_dns_hijack'' ''name'' ''mistui-dns-hijack'',
      fw_set ''mistui_dns_hijack'' ''src'' ''lan'',
      fw_set ''mistui_dns_hijack'' ''proto'' ''tcp udp'',
      fw_set ''mistui_dns_hijack'' ''src_dport'' ''53'',
      fw_set ''mistui_dns_hijack'' ''target'' ''DNAT'',
      [''uci'', ''commit'', ''firewall''],
      [''/etc/init.d/dnsmasq'', ''restart''],
      [''/etc/init.d/firewall'', ''reload'']]"

definition dns_disable_cmds :: "string \<Rightarrow> string list list" where
  "dns_disable_cmds spec =
     [[''sh'', ''-c'', ''uci -q delete dhcp.@dnsmasq[0].noresolv || true''],
      del_server spec,
      [''uci'', ''commit'', ''dhcp''],
      fw_delete ''mistui_dns_out'', fw_delete ''mistui_dns_fwd'', fw_delete ''mistui_dns_hijack'',
      fw_delete ''mistui_dns_ks'',
      [''uci'', ''commit'', ''firewall''],
      [''/etc/init.d/dnsmasq'', ''restart''],
      [''/etc/init.d/firewall'', ''reload'']]"

definition enabled_script :: "string \<Rightarrow> string" where
  "enabled_script spec = sh ''uci -q get `dhcp.@dnsmasq[0].server` | grep -qF `'' @ spec @ sh ''` && echo on || echo off''"

definition fail_closed_on_cmds :: "string list list" where
  "fail_closed_on_cmds =
     [[''uci'', ''set'', ''firewall.mistui_dns_ks=rule''],
      fw_set ''mistui_dns_ks'' ''name'' ''mistui-doh-failclosed'',
      fw_set ''mistui_dns_ks'' ''dest'' ''wan'',
      fw_set ''mistui_dns_ks'' ''proto'' ''tcp'',
      fw_set ''mistui_dns_ks'' ''dest_port'' ''443'',
      [''sh'', ''-c'', ''uci -q delete firewall.mistui_dns_ks.dest_ip || true'']]
     @ map (\<lambda>ip. [''uci'', ''add_list'', ''firewall.mistui_dns_ks.dest_ip='' @ ip]) all_resolver_ips
     @ [fw_set ''mistui_dns_ks'' ''target'' ''REJECT'',
        [''uci'', ''commit'', ''firewall''],
        [''/etc/init.d/firewall'', ''reload'']]"

definition fail_closed_off_cmds :: "string list list" where
  "fail_closed_off_cmds =
     [fw_delete ''mistui_dns_ks'', [''uci'', ''commit'', ''firewall''], [''/etc/init.d/firewall'', ''reload'']]"

definition dns_enable :: "'d env \<Rightarrow> ('d world, err option) state" where
  "dns_enable E = do {
     spec \<leftarrow> get_world (\<lambda>w. server_spec (fw_addr (w_fwd w)));
     run_all E (dns_enable_cmds spec) }"

definition dns_disable :: "'d env \<Rightarrow> ('d world, err option) state" where
  "dns_disable E = do {
     spec \<leftarrow> get_world (\<lambda>w. server_spec (fw_addr (w_fwd w)));
     run_all E (dns_disable_cmds spec) }"

text \<open>\<open>Enabled\<close>: \<^const>\<open>None\<close> is its error.\<close>

definition dns_enabled :: "'d env \<Rightarrow> ('d world, bool option) state" where
  "dns_enabled E = do {
     spec \<leftarrow> get_world (\<lambda>w. server_spec (fw_addr (w_fwd w)));
     r \<leftarrow> run E [''sh'', ''-c'', enabled_script spec];
     ret (case r of Inl _ \<Rightarrow> None | Inr out \<Rightarrow> Some (trim_space out = ''on'')) }"

text \<open>\<open>CloseUpstream\<close> drops the pooled idle connections.\<close>

definition close_upstream :: "('d world, unit) state" where
  "close_upstream = modify (\<lambda>w. w\<lparr>w_fwd := (w_fwd w)\<lparr>fw_idle := 0\<rparr>\<rparr>)"

definition set_fail_closed :: "'d env \<Rightarrow> bool \<Rightarrow> ('d world, err option) state" where
  "set_fail_closed E on =
     (if on then do {
        e \<leftarrow> run_all E fail_closed_on_cmds;
        case e of
          Some m \<Rightarrow> ret (Some m)
        | None \<Rightarrow> do { _ \<leftarrow> close_upstream; ret None } }
      else run_all E fail_closed_off_cmds)"

lemma keeps_close_upstream [keeps_intro]:
  "keeps w_db close_upstream" "keeps w_dev close_upstream" "keeps w_stepups close_upstream"
  "keeps w_note close_upstream" "keeps w_image close_upstream" "keeps w_kick close_upstream"
  by (simp_all add: close_upstream_def keeps_def)

lemma keeps_dns_ops [keeps_intro]:
  "keeps w_db (dns_enable E)" "keeps w_db (dns_disable E)" "keeps w_db (dns_enabled E)" "keeps w_db (set_fail_closed E b)"
  "keeps w_stepups (dns_enable E)" "keeps w_stepups (dns_disable E)" "keeps w_stepups (dns_enabled E)"
  "keeps w_stepups (set_fail_closed E b)"
  "keeps w_note (dns_enable E)" "keeps w_note (dns_disable E)" "keeps w_note (dns_enabled E)"
  "keeps w_note (set_fail_closed E b)"
  "keeps w_kick (dns_enable E)" "keeps w_kick (dns_disable E)" "keeps w_kick (dns_enabled E)"
  "keeps w_kick (set_fail_closed E b)"
  "keeps w_image (dns_enable E)" "keeps w_image (dns_disable E)" "keeps w_image (dns_enabled E)"
  "keeps w_image (set_fail_closed E b)"
  "keeps w_fwd (dns_enable E)" "keeps w_fwd (dns_disable E)" "keeps w_fwd (dns_enabled E)"
  unfolding dns_enable_def dns_disable_def dns_enabled_def set_fail_closed_def
  by (intro keeps_intro)+

lemma provider_by_key_in: "provider_by_key k = Some p \<Longrightarrow> p \<in> set providers \<and> pv_key p = k"
  by (auto simp: provider_by_key_def find_Some_iff in_set_conv_nth)

lemma provider_by_hostname_in: "provider_by_hostname h = Some p \<Longrightarrow> p \<in> set providers \<and> pv_host p = h"
  by (auto simp: provider_by_hostname_def find_Some_iff in_set_conv_nth)

lemma provider_ips_listed: "p \<in> set providers \<Longrightarrow> set (pv_ips p) \<subseteq> set all_resolver_ips"
  by (auto simp: all_resolver_ips_def)

end
