(* ===== verification/Netcfg.thy ===== *)
theory Netcfg
  imports World Go_Encoding
begin

unbundle bit_operations_syntax

text \<open>
  \<open>internal/netcfg/portal.go\<close> (the captive-portal verdict) and \<open>conntrack.go\<close> (the netlink
  request that flushes the connection table, and the reading of the kernel's reply).
\<close>

section \<open>The portal probe\<close>

record portal_status =
  ps_online :: bool
  ps_captive :: bool
  ps_url :: string

definition no_status :: portal_status where
  "no_status = \<lparr>ps_online = False, ps_captive = False, ps_url = []\<rparr>"

definition probeWant :: string where "probeWant = ''success''"

definition probe_verdict :: "http_resp option \<Rightarrow> portal_status" where
  "probe_verdict r =
     (case r of
        None \<Rightarrow> no_status
      | Some res \<Rightarrow>
         (if 300 \<le> hr_status res \<and> hr_status res < 400 \<and> hr_location res \<noteq> []
          then no_status\<lparr>ps_captive := True, ps_url := hr_location res\<rparr>
          else if hr_status res = 200 \<and> has_prefix (trim_space (take 4096 (hr_body res))) probeWant
          then no_status\<lparr>ps_online := True\<rparr>
          else no_status\<lparr>ps_captive := True\<rparr>))"

definition probe_portal :: "'d env \<Rightarrow> ('d world, portal_status) state" where
  "probe_portal E = do { r \<leftarrow> observe E (http_probe E); ret (probe_verdict r) }"

lemma keeps_probe [keeps_intro]:
  "keeps w_db (probe_portal E)" "keeps w_dev (probe_portal E)" "keeps w_stepups (probe_portal E)"
  "keeps w_fwd (probe_portal E)" "keeps w_note (probe_portal E)" "keeps w_image (probe_portal E)"
  "keeps w_kick (probe_portal E)"
  unfolding probe_portal_def by (intro keeps_intro)+

text \<open>Online and captive exclude each other, and only a captive verdict carries a sign-in address.\<close>

lemma probe_verdict_shape:
  "\<not> (ps_online (probe_verdict r) \<and> ps_captive (probe_verdict r))"
  "ps_url (probe_verdict r) \<noteq> [] \<Longrightarrow> ps_captive (probe_verdict r)"
  by (auto simp: probe_verdict_def no_status_def split: option.splits if_splits)

section \<open>The conntrack request\<close>

definition nfnlSubsysCTNetlink :: nat where "nfnlSubsysCTNetlink = 1"

definition ipctnlMsgCtDelete :: nat where "ipctnlMsgCtDelete = 2"

definition nfnetlinkV0 :: byte where "nfnetlinkV0 = 0"

text \<open>Kernel constants.\<close>

definition NLM_F_REQUEST :: nat where "NLM_F_REQUEST = 1"

definition NLM_F_ACK :: nat where "NLM_F_ACK = 4"

definition NLMSG_ERROR :: nat where "NLMSG_ERROR = 2"

text \<open>\<open>binary.NativeEndian\<close>: the byte order is the machine's.\<close>

definition put_ne :: "bool \<Rightarrow> nat \<Rightarrow> nat \<Rightarrow> bytes" where
  "put_ne little k n =
     (let bs = map (\<lambda>i. word_of_nat (n div 256 ^ i)) [0 ..< k] in if little then bs else rev bs)"

definition get_ne :: "bool \<Rightarrow> bytes \<Rightarrow> nat" where
  "get_ne little bs = foldr (\<lambda>b n. unat b + 256 * n) (if little then bs else rev bs) 0"

definition ct_request :: "bool \<Rightarrow> nat \<Rightarrow> byte \<Rightarrow> bytes" where
  "ct_request little seq family =
     put_ne little 4 20
     @ put_ne little 2 (nfnlSubsysCTNetlink * 256 + ipctnlMsgCtDelete)
     @ put_ne little 2 (NLM_F_REQUEST + NLM_F_ACK)
     @ put_ne little 4 seq
     @ put_ne little 4 0
     @ [family, nfnetlinkV0, 0, 0]"

text \<open>The reply in the 4096-byte buffer: short, of another type, an error code, or success.\<close>

datatype ct_error = UnexpectedReply nat nat | Errno int

definition ct_reply :: "bool \<Rightarrow> bytes \<Rightarrow> ct_error option" where
  "ct_reply little reply =
     (let buf = take 4096 reply @ replicate (4096 - length reply) 0; n = length (take 4096 reply) in
      if n < 20 \<or> get_ne little (take 2 (drop 4 buf)) \<noteq> NLMSG_ERROR
      then Some (UnexpectedReply n (get_ne little (take 2 (drop 4 buf))))
      else
        (let code = sint (word_of_nat (get_ne little (take 4 (drop 16 buf))) :: 32 word) in
         if code \<noteq> 0 then Some (Errno (- code)) else None))"

text \<open>
  \<open>FlushConntrack\<close> over the outcomes of its system calls: \<^const>\<open>Some\<close> the error of one that
  failed, and the bytes of the reply.
\<close>

datatype flush_error = SocketErr err | BindErr err | SendErr err | RecvErr err | ReplyErr ct_error

definition flush_conntrack ::
  "bool \<Rightarrow> err option \<Rightarrow> err option \<Rightarrow> (bytes \<Rightarrow> err option) \<Rightarrow> err + bytes \<Rightarrow> flush_error option" where
  "flush_conntrack little sock bnd send reply =
     (case sock of Some e \<Rightarrow> Some (SocketErr e) | None \<Rightarrow>
       (case bnd of Some e \<Rightarrow> Some (BindErr e) | None \<Rightarrow>
         (case send (ct_request little 1 0) of Some e \<Rightarrow> Some (SendErr e) | None \<Rightarrow>
           (case reply of
              Inl e \<Rightarrow> Some (RecvErr e)
            | Inr b \<Rightarrow> map_option ReplyErr (ct_reply little b)))))"

lemma put_ne_length [simp]: "length (put_ne l k n) = k"
  by (simp add: put_ne_def Let_def)

lemma get_le: "foldr (\<lambda>b n. unat b + 256 * n) (map (\<lambda>i. word_of_nat (n div 256 ^ i) :: byte) [0 ..< k]) 0 = n mod 256 ^ k"
proof (induction k arbitrary: n)
  case (Suc k)
  have "map (\<lambda>i. word_of_nat (n div 256 ^ i) :: byte) [0 ..< Suc k]
      = word_of_nat n # map (\<lambda>i. word_of_nat (n div 256 div 256 ^ i)) [0 ..< k]"
    by (simp add: upt_conv_Cons map_Suc_upt [symmetric] comp_def div_mult2_eq del: upt_Suc)
  then show ?case
    using Suc [of "n div 256"] by (simp add: unat_of_nat mod_mult2_eq)
qed simp

lemma get_put_ne: "n < 256 ^ k \<Longrightarrow> get_ne l (put_ne l k n) = n"
  using get_le [of n k] by (simp add: get_ne_def put_ne_def Let_def)

end
