(* ===== verification/Portal_Mode.thy ===== *)
theory Portal_Mode
  imports Store Vpn Dns_Service Netcfg Http_Types
begin

text \<open>
  \<open>internal/httpapi/portalmode.go\<close>: the pause of the protections for a captive portal.  The
  pause lives in the database as a \<open>portal_record\<close>; \<open>enter\<close>, \<open>exit\<close> and \<open>cancel\<close> are
  programs, the watch goroutine and the scout are loops whose waits are arguments: each entry
  of the list tells how one wait ends.
\<close>

definition portalModeKey :: string where "portalModeKey = ''portal_mode''"

definition vpnSummaryKey :: string where "vpnSummaryKey = ''vpn_summary''"

definition portalWindow :: time where "portalWindow = 10 * minute"

definition portalScoutFor :: time where "portalScoutFor = 90 * second"

section \<open>The record\<close>

definition portal_get :: "'d env \<Rightarrow> ('d world, portal_record option) state" where
  "portal_get E = do {
     r \<leftarrow> config E portalModeKey;
     ret (case r of
            None \<Rightarrow> None
          | Some None \<Rightarrow> None
          | Some (Some raw) \<Rightarrow>
             (case parse_portal E raw of
                None \<Rightarrow> None
              | Some rec \<Rightarrow> if \<not> pr_active rec then None else Some rec)) }"

definition save_portal_record :: "'d env \<Rightarrow> portal_record \<Rightarrow> ('d world, unit) state" where
  "save_portal_record E rec =
     (case json_portal E rec of
        None \<Rightarrow> ret ()
      | Some raw \<Rightarrow> do { _ \<leftarrow> put_config E portalModeKey raw; ret () })"

definition set_portal_note :: "string \<Rightarrow> ('d world, unit) state" where
  "set_portal_note n = modify (\<lambda>w. w\<lparr>w_note := Some n\<rparr>)"

text \<open>The kick channel holds one token: a kick into a full channel is dropped.\<close>

definition kick_portal_watch :: "('d world, unit) state" where
  "kick_portal_watch = modify (\<lambda>w. w\<lparr>w_kick := True\<rparr>)"

section \<open>Entering, leaving, cancelling\<close>

text \<open>The posture to record: what the queries report, errors read as off.\<close>

definition fresh_record :: "'d env \<Rightarrow> ('d world, portal_record) state" where
  "fresh_record E = do {
     ks \<leftarrow> kill_switch E;
     dns \<leftarrow> dns_enabled E;
     now \<leftarrow> time_now E;
     ret \<lparr>pr_active = True, pr_since = now, pr_deadline = 0, pr_url = [],
          pr_savedKS = (ks = Some True), pr_savedDNS = (dns = Some True)\<rparr> }"

definition enter_record :: "'d env \<Rightarrow> string \<Rightarrow> ('d world, portal_record) state" where
  "enter_record E url = do {
     old \<leftarrow> portal_get E;
     rec \<leftarrow> (case old of Some r \<Rightarrow> ret r | None \<Rightarrow> fresh_record E);
     now \<leftarrow> time_now E;
     let rec' = rec\<lparr>pr_deadline := now + portalWindow, pr_url := (if url \<noteq> [] then url else pr_url rec)\<rparr>
     in do {
       _ \<leftarrow> save_portal_record E rec';
       ret rec' } }"

definition relax :: "'d env \<Rightarrow> portal_record \<Rightarrow> ('d world, unit) state" where
  "relax E rec = do {
     _ \<leftarrow> vpn_down E Iface;
     _ \<leftarrow> (if pr_savedKS rec then set_kill_switch E False else ret None);
     _ \<leftarrow> (if pr_savedDNS rec then dns_disable E else ret None);
     ret () }"

definition enter_portal_mode :: "'d env \<Rightarrow> string \<Rightarrow> ('d world, unit) state" where
  "enter_portal_mode E url = do {
     rec \<leftarrow> enter_record E url;
     _ \<leftarrow> relax E rec;
     _ \<leftarrow> set_portal_note [];
     kick_portal_watch }"

definition restore :: "'d env \<Rightarrow> portal_record \<Rightarrow> ('d world, unit) state" where
  "restore E rec = do {
     raw \<leftarrow> config E vpnSummaryKey;
     _ \<leftarrow> (if raw \<noteq> None \<and> raw \<noteq> Some None then vpn_up E Iface else ret None);
     _ \<leftarrow> (if pr_savedKS rec then set_kill_switch E True else ret None);
     _ \<leftarrow> (if pr_savedDNS rec then do {
             _ \<leftarrow> dns_enable E;
             if pr_savedKS rec then set_fail_closed E True else ret None }
           else ret None);
     ret () }"

definition exit_portal_mode :: "'d env \<Rightarrow> string \<Rightarrow> ('d world, unit) state" where
  "exit_portal_mode E note = do {
     rec \<leftarrow> portal_get E;
     case rec of
       None \<Rightarrow> ret ()
     | Some r \<Rightarrow> do {
         _ \<leftarrow> restore E r;
         _ \<leftarrow> delete_config E portalModeKey;
         set_portal_note note } }"

definition cancel_portal_mode :: "'d env \<Rightarrow> string \<Rightarrow> ('d world, unit) state" where
  "cancel_portal_mode E reason = do {
     rec \<leftarrow> portal_get E;
     if rec = None then ret ()
     else do {
       _ \<leftarrow> delete_config E portalModeKey;
       set_portal_note (''portal pause canceled '' @ em_dash @ '' '' @ reason) } }"

section \<open>The watch\<close>

definition expired_note :: string where
  "expired_note = ''sign-in window expired '' @ em_dash
     @ '' protections restored (pause again if you still need the portal)''"

definition online_note :: string where
  "online_note = [CHR ''y'', CHR ''o'', CHR ''u'', CHR 0x27] @ ''re online '' @ em_dash @ '' protections restored''"

text \<open>One pass while paused, for the record the pass began with: \<^const>\<open>True\<close> when it did not
  leave the pause and goes on to wait.\<close>

definition watch_paused :: "'d env \<Rightarrow> portal_record \<Rightarrow> ('d world, bool) state" where
  "watch_paused E rec = do {
     now \<leftarrow> time_now E;
     if now > pr_deadline rec then do {
       _ \<leftarrow> exit_portal_mode E expired_note;
       ret False }
     else do {
       p \<leftarrow> probe_portal E;
       if ps_online p then do {
         _ \<leftarrow> exit_portal_mode E online_note;
         ret False }
       else do {
         _ \<leftarrow> (if ps_captive p \<and> ps_url p \<noteq> [] \<and> ps_url p \<noteq> pr_url rec
               then save_portal_record E (rec\<lparr>pr_url := ps_url p\<rparr>) else ret ());
         ret True } } }"

text \<open>One round of the scout; \<^const>\<open>True\<close> when it goes on to wait.\<close>

definition scout_round :: "'d env \<Rightarrow> time \<Rightarrow> ('d world, bool) state" where
  "scout_round E deadline = do {
     now \<leftarrow> time_now E;
     if \<not> now < deadline then ret False
     else do {
       rec \<leftarrow> portal_get E;
       if rec \<noteq> None then ret False
       else do {
         p \<leftarrow> probe_portal E;
         if ps_captive p then do { _ \<leftarrow> enter_portal_mode E (ps_url p); ret False }
         else ret (\<not> ps_online p) } } }"

text \<open>The rounds, given whether each wait between them ends by cancellation.\<close>

primrec scout_rounds :: "'d env \<Rightarrow> time \<Rightarrow> bool list \<Rightarrow> ('d world, unit) state" where
  "scout_rounds E deadline [] = ret ()"
| "scout_rounds E deadline (stop # stops) = do {
     more \<leftarrow> scout_round E deadline;
     if more \<and> \<not> stop then scout_rounds E deadline stops else ret () }"

definition portal_scout :: "'d env \<Rightarrow> bool list \<Rightarrow> ('d world, unit) state" where
  "portal_scout E stops = do {
     now \<leftarrow> time_now E;
     scout_rounds E (now + portalScoutFor) stops }"

text \<open>How a wait of the watch ends: cancelled, by a kick, or by the probe timer.\<close>

datatype wake = Cancelled | Kicked | TimerFired

definition take_kick :: "('d world, unit) state" where
  "take_kick = modify (\<lambda>w. w\<lparr>w_kick := False\<rparr>)"

text \<open>
  One turn of the loop of \<open>RunPortalWatch\<close>: the end of its wait, and the waits of the scout
  if it runs.  The result tells whether the loop goes on.  An idle watch has no timer.
\<close>

definition watch_turn :: "'d env \<Rightarrow> wake \<times> bool list \<Rightarrow> ('d world, bool) state" where
  "watch_turn E wk = do {
     rec \<leftarrow> portal_get E;
     case rec of
       None \<Rightarrow>
         (if fst wk = Cancelled then ret False
          else if fst wk = Kicked then do { _ \<leftarrow> take_kick; _ \<leftarrow> portal_scout E (snd wk); ret True }
          else ret True)
     | Some r \<Rightarrow> do {
         waits \<leftarrow> watch_paused E r;
         if \<not> waits then ret True
         else if fst wk = Cancelled then ret False
         else if fst wk = Kicked then do { _ \<leftarrow> take_kick; ret True }
         else ret True } }"

primrec run_portal_watch :: "'d env \<Rightarrow> (wake \<times> bool list) list \<Rightarrow> ('d world, unit) state" where
  "run_portal_watch E [] = ret ()"
| "run_portal_watch E (wk # wks) = do {
     more \<leftarrow> watch_turn E wk;
     if more then run_portal_watch E wks else ret () }"

section \<open>Handlers\<close>

text \<open>A duration in whole seconds, cut towards zero.\<close>

definition whole_seconds :: "time \<Rightarrow> int" where
  "whole_seconds d = (if d < 0 then - ((- d) div second) else d div second)"

definition net_portal :: "'d env \<Rightarrow> ('d world, response) state" where
  "net_portal E = do {
     p \<leftarrow> probe_portal E;
     rec \<leftarrow> portal_get E;
     pause \<leftarrow> (case rec of
        None \<Rightarrow> ret []
      | Some r \<Rightarrow> do {
          now \<leftarrow> time_now E;
          ret ((if ps_url p = [] \<and> pr_url r \<noteq> [] then [(''portalUrl'', JStr (pr_url r))] else [])
            @ [(''pause'', JObj [(''active'', JBool True),
                 (''deadline'', JStr (time_format E (pr_deadline r))),
                 (''secondsLeft'', JInt (whole_seconds (pr_deadline r - now))),
                 (''savedKS'', JBool (pr_savedKS r)), (''savedDNS'', JBool (pr_savedDNS r))])]) });
     note \<leftarrow> get_world w_note;
     ret (write_json StatusOK
       ([(''online'', JBool (ps_online p)), (''captive'', JBool (ps_captive p))]
        @ (if ps_url p \<noteq> [] then [(''portalUrl'', JStr (ps_url p))] else [])
        @ pause
        @ (case note of None \<Rightarrow> [] | Some n \<Rightarrow> if n \<noteq> [] then [(''note'', JStr n)] else []))) }"

text \<open>The body decodes to the flag \<open>active\<close>.\<close>

definition net_portal_mode :: "'d env \<Rightarrow> bool option \<Rightarrow> ('d world, response) state" where
  "net_portal_mode E req =
     (case req of
        None \<Rightarrow> ret (http_error ''bad request'' StatusBadRequest)
      | Some active \<Rightarrow> do {
          _ \<leftarrow> (if active then enter_portal_mode E []
               else exit_portal_mode E ''protections restored on request'');
          ret (write_json StatusOK [(''active'', JBool active)]) })"

section \<open>Frames\<close>

lemma keeps_portal_get [keeps_intro]:
  "keeps w_dev (portal_get E)" "keeps w_db (portal_get E)" "keeps w_stepups (portal_get E)"
  "keeps w_fwd (portal_get E)" "keeps w_image (portal_get E)" "keeps w_note (portal_get E)"
  unfolding portal_get_def by (intro keeps_intro)+

lemma keeps_portal_marks [keeps_intro]:
  "keeps w_dev (save_portal_record E r)" "keeps w_stepups (save_portal_record E r)"
  "keeps w_fwd (save_portal_record E r)" "keeps w_image (save_portal_record E r)" "keeps w_note (save_portal_record E r)"
  "keeps (\<lambda>w. db_creds (w_db w)) (save_portal_record E r)"
  "keeps w_db (set_portal_note n)" "keeps w_dev (set_portal_note n)" "keeps w_stepups (set_portal_note n)"
  "keeps w_image (set_portal_note n)"
  "keeps w_db kick_portal_watch" "keeps w_dev kick_portal_watch" "keeps w_stepups kick_portal_watch"
  "keeps w_image kick_portal_watch"
  "keeps w_db take_kick" "keeps w_dev take_kick" "keeps w_stepups take_kick" "keeps w_image take_kick"
  unfolding save_portal_record_def set_portal_note_def kick_portal_watch_def take_kick_def
  by (intro keeps_intro; simp)+

lemmas keeps_creds_device [keeps_intro] =
  keeps_vpn_ops(1-6) [THEN keeps_db_comp [where g = db_creds]]
  keeps_dns_ops(1-4) [THEN keeps_db_comp [where g = db_creds]]
  keeps_portal_get(2) [THEN keeps_db_comp [where g = db_creds]]
  keeps_portal_marks(7,11,15) [THEN keeps_db_comp [where g = db_creds]]
  keeps_probe(1) [THEN keeps_db_comp [where g = db_creds]]

lemma keeps_portal_steps [keeps_intro]:
  "keeps (\<lambda>w. db_creds (w_db w)) (enter_portal_mode E u)" "keeps (\<lambda>w. db_creds (w_db w)) (exit_portal_mode E n)"
  "keeps (\<lambda>w. db_creds (w_db w)) (cancel_portal_mode E n)"
  "keeps w_stepups (enter_portal_mode E u)" "keeps w_stepups (exit_portal_mode E n)"
  "keeps w_stepups (cancel_portal_mode E n)" "keeps w_dev (cancel_portal_mode E n)"
  unfolding enter_portal_mode_def enter_record_def fresh_record_def relax_def exit_portal_mode_def restore_def
    cancel_portal_mode_def
  by (intro keeps_intro)+

lemma keeps_portal_handlers [keeps_intro]:
  "keeps (\<lambda>w. db_creds (w_db w)) (net_portal E)" "keeps (\<lambda>w. db_creds (w_db w)) (net_portal_mode E q)"
  "keeps w_stepups (net_portal E)" "keeps w_stepups (net_portal_mode E q)" "keeps w_dev (net_portal E)"
  "keeps w_db (net_portal E)"
  unfolding net_portal_def net_portal_mode_def
  by (intro keeps_intro)+

end
