(* ===== verification/Dns_Forwarder.thy ===== *)
theory Dns_Forwarder
  imports Dns_Service
begin

unbundle bit_operations_syntax

text \<open>
  \<open>internal/dns/forwarder.go\<close>: the DoH stub.  One query is handled by \<open>dns_handle\<close>, with the
  counters of the forwarder in the world; \<open>serve_conn\<close> is the loop over a TCP connection's
  input; \<open>dial_pinned\<close> chooses the addresses a connection to the upstream may use.  The HTTP
  exchange itself is the environment's.
\<close>

definition maxMsg :: nat where "maxMsg = 4096"

section \<open>Choosing the upstream\<close>

text \<open>\<open>dialPinned\<close>: the addresses to try, in order, or its error.\<close>

definition dial_targets :: "string \<Rightarrow> err + string list" where
  "dial_targets addr =
     (case split_host_port addr of
        None \<Rightarrow> Inl ''address''
      | Some (host, port) \<Rightarrow>
         (case provider_by_hostname host of
            None \<Rightarrow> Inl (''no pinned addresses for '' @ host)
          | Some p \<Rightarrow> Inr (map (\<lambda>ip. join_host_port ip port) (pv_ips p))))"

fun dial_first :: "(string \<Rightarrow> err + 'c) \<Rightarrow> string list \<Rightarrow> err \<Rightarrow> err + 'c" where
  "dial_first dial [] last_err = Inl last_err"
| "dial_first dial (a # as) last_err =
     (case dial a of Inr c \<Rightarrow> Inr c | Inl e \<Rightarrow> dial_first dial as e)"

definition dial_pinned :: "(string \<Rightarrow> err + 'c) \<Rightarrow> string \<Rightarrow> err + 'c" where
  "dial_pinned dial addr =
     (case dial_targets addr of Inl e \<Rightarrow> Inl e | Inr ts \<Rightarrow> dial_first dial ts [])"

definition set_provider :: "string \<Rightarrow> ('d world, bool) state" where
  "set_provider key =
     (if valid_provider key then do {
        _ \<leftarrow> modify (\<lambda>w. w\<lparr>w_fwd := (w_fwd w)\<lparr>fw_provider := key\<rparr>\<rparr>);
        ret True }
      else ret False)"

definition upstream_url :: "forwarder \<Rightarrow> string" where
  "upstream_url f =
     (if fw_url f \<noteq> [] then fw_url f
      else (case provider_by_key (fw_provider f) of None \<Rightarrow> [] | Some p \<Rightarrow> pv_url p))"

section \<open>One query\<close>

text \<open>The query turned into a minimal failure answer: QR set, AA and TC cleared, RCODE 2.\<close>

definition servfail :: "bytes \<Rightarrow> bytes" where
  "servfail q =
     (let r = q[2 := (q ! 2 OR 0x80) AND NOT 0x06] in r[3 := (r ! 3 AND NOT 0x0F) OR 0x02])"

definition dns_exchange :: "'d env \<Rightarrow> bytes \<Rightarrow> ('d world, err + bytes) state" where
  "dns_exchange E q = do {
     url \<leftarrow> get_world (\<lambda>w. upstream_url (w_fwd w));
     r \<leftarrow> observe E (\<lambda>n d. doh E n d url q);
     ret (case r of
            Inl e \<Rightarrow> Inl e
          | Inr res \<Rightarrow>
             (if dr_code res \<noteq> 200 then Inl (''doh upstream: '' @ dr_status res)
              else (case dr_body res of
                      Inl e \<Rightarrow> Inl e
                    | Inr b \<Rightarrow>
                       (let body = take 65535 b in
                        if length body < 12
                        then Inl (''doh upstream: short response ('' @ dec (length body) @ '' bytes)'')
                        else Inr body)))) }"

definition dns_handle :: "'d env \<Rightarrow> bytes \<Rightarrow> ('d world, bytes option) state" where
  "dns_handle E q =
     (if length q < 12 then ret None
      else do {
        _ \<leftarrow> modify (\<lambda>w. w\<lparr>w_fwd := (w_fwd w)\<lparr>fw_queries := fw_queries (w_fwd w) + 1\<rparr>\<rparr>);
        r \<leftarrow> dns_exchange E q;
        case r of
          Inl e \<Rightarrow> do {
            _ \<leftarrow> modify (\<lambda>w. w\<lparr>w_fwd := (w_fwd w)\<lparr>fw_failures := fw_failures (w_fwd w) + 1, fw_lastErr := Some e\<rparr>\<rparr>);
            ret (Some (servfail q)) }
        | Inr resp \<Rightarrow> do {
            now \<leftarrow> time_now E;
            _ \<leftarrow> modify (\<lambda>w. w\<lparr>w_fwd := (w_fwd w)\<lparr>fw_lastOK := now div second\<rparr>\<rparr>);
            ret (Some resp) } })"

section \<open>The TCP framing\<close>

text \<open>
  The loop over one connection: a two-byte length, the query, the framed answer.  The input is
  what arrives before the connection ends or its deadline passes; the result is what is
  written.  It stops at a length of zero or above \<open>maxMsg\<close>, at truncated input, at an
  unanswered query and at a failed write.
\<close>

function serve_conn :: "'d env \<Rightarrow> bytes \<Rightarrow> ('d world, bytes) state" where
  "serve_conn E inp =
     (case inp of
        a # b # rest \<Rightarrow>
          (let n = be16 a b in
           if n = 0 \<or> n > maxMsg \<or> length rest < n then ret []
           else do {
             resp \<leftarrow> dns_handle E (take n rest);
             case resp of
               None \<Rightarrow> ret []
             | Some r \<Rightarrow>
                (if length r > 65535 then ret []
                 else do {
                   ok \<leftarrow> io_ok E;
                   if \<not> ok then ret []
                   else do {
                     more \<leftarrow> serve_conn E (drop n rest);
                     ret (put_be16 (length r) @ r @ more) } }) })
      | _ \<Rightarrow> ret [])"
  by pat_completeness auto
termination
  by (relation "measure (\<lambda>(E, inp). length inp)") auto

declare serve_conn.simps [simp del]

section \<open>Facts\<close>

lemma servfail_length [simp]: "length (servfail q) = length q"
  by (simp add: servfail_def Let_def)

lemma dns_exchange_length:
  "result (dns_exchange E q) w = Inr r \<Longrightarrow> 12 \<le> length r \<and> length r \<le> 65535"
  by (auto simp: dns_exchange_def Let_def split: sum.splits if_splits)

lemma dns_handle_length:
  "result (dns_handle E q) w = Some r \<Longrightarrow> length q \<le> 65535 \<Longrightarrow> 12 \<le> length r \<and> length r \<le> 65535"
  using dns_exchange_length
  by (fastforce simp: dns_handle_def run_branch split: sum.splits if_splits)

lemma dns_handle_answers: "result (dns_handle E q) w = None \<longleftrightarrow> length q < 12"
  by (simp add: dns_handle_def split: sum.split)

lemma keeps_exchange [keeps_intro]:
  "keeps w_db (dns_exchange E q)" "keeps w_dev (dns_exchange E q)" "keeps w_stepups (dns_exchange E q)"
  "keeps w_fwd (dns_exchange E q)" "keeps w_note (dns_exchange E q)" "keeps w_image (dns_exchange E q)"
  unfolding dns_exchange_def by (intro keeps_intro)+

lemma keeps_handle [keeps_intro]:
  "keeps w_db (dns_handle E q)" "keeps w_dev (dns_handle E q)" "keeps w_stepups (dns_handle E q)"
  "keeps w_note (dns_handle E q)" "keeps w_image (dns_handle E q)"
  unfolding dns_handle_def by (intro keeps_intro; simp add: keeps_def)+

lemma keeps_set_provider [keeps_intro]:
  "keeps w_db (set_provider k)" "keeps w_dev (set_provider k)" "keeps w_stepups (set_provider k)"
  "keeps w_note (set_provider k)" "keeps w_image (set_provider k)"
  unfolding set_provider_def by (intro keeps_intro; simp add: keeps_def)+

end
