(* ===== verification/Http_Dns.thy ===== *)
theory Http_Dns
  imports Portal_Mode Dns_Forwarder Vpn_Config Ceremonies
begin

text \<open>
  \<open>internal/httpapi/dnsops.go\<close>: the encrypted-DNS handlers, the default switched on with the
  travel network, and the pinning of VPN endpoints at import.
\<close>

definition dnsProviderKey :: string where "dnsProviderKey = ''dns_provider''"

definition dnsDefaultedKey :: string where "dnsDefaultedKey = ''dns_defaulted''"

definition provider_json :: "provider \<Rightarrow> json" where
  "provider_json p = JObj [(''key'', JStr (pv_key p)), (''label'', JStr (pv_label p))]"

definition stats_json :: "forwarder \<Rightarrow> json" where
  "stats_json f = JObj
     ([(''queries'', JInt (int (unat (fw_queries f)))), (''failures'', JInt (int (unat (fw_failures f))))]
      @ (if fw_lastOK f \<noteq> 0 then [(''lastOk'', JInt (fw_lastOK f))] else [])
      @ (case fw_lastErr f of None \<Rightarrow> [] | Some e \<Rightarrow> if e \<noteq> [] then [(''lastError'', JStr e)] else []))"

definition dns_get :: "'d env \<Rightarrow> ('d world, response) state" where
  "dns_get E = do {
     enabled \<leftarrow> dns_enabled E;
     f \<leftarrow> get_world w_fwd;
     ret (write_json StatusOK
       [(''enabled'', JBool (enabled = Some True)),
        (''provider'', JStr (fw_provider f)),
        (''providers'', JList (map provider_json providers)),
        (''stats'', stats_json f)]) }"

text \<open>Switching on: the resolver first, then the fail-closed rule when the kill switch is on.\<close>

definition dns_switch_on :: "'d env \<Rightarrow> ('d world, response option) state" where
  "dns_switch_on E = do {
     e \<leftarrow> dns_enable E;
     if e \<noteq> None then ret (Some (http_error ''could not enable encrypted DNS'' StatusBadGateway))
     else do {
       on \<leftarrow> kill_switch E;
       if on = Some True then do {
         e2 \<leftarrow> set_fail_closed E True;
         if e2 \<noteq> None
         then ret (Some (http_error ''encrypted DNS is on, but the fail-closed rule failed'' StatusBadGateway))
         else ret None }
       else ret None } }"

definition dns_switch_off :: "'d env \<Rightarrow> ('d world, response option) state" where
  "dns_switch_off E = do {
     e \<leftarrow> dns_disable E;
     ret (if e \<noteq> None then Some (http_error ''could not disable encrypted DNS'' StatusBadGateway) else None) }"

definition dns_set :: "'d env \<Rightarrow> bool option \<Rightarrow> ('d world, response) state" where
  "dns_set E req =
     (case req of
        None \<Rightarrow> ret bad_request
      | Some enabled \<Rightarrow> do {
          failed \<leftarrow> (if enabled then dns_switch_on E else dns_switch_off E);
          case failed of
            Some r \<Rightarrow> ret r
          | None \<Rightarrow> do {
              _ \<leftarrow> put_config E dnsDefaultedKey ''user'';
              _ \<leftarrow> cancel_portal_mode E ''you changed encrypted DNS manually'';
              ret (write_json StatusOK [(''enabled'', JBool enabled)]) } })"

definition dns_provider_set :: "'d env \<Rightarrow> string option \<Rightarrow> ('d world, response) state" where
  "dns_provider_set E req =
     (case req of
        None \<Rightarrow> ret (http_error ''unknown DNS provider'' StatusBadRequest)
      | Some p \<Rightarrow>
         (if \<not> valid_provider p then ret (http_error ''unknown DNS provider'' StatusBadRequest)
          else do {
            ok \<leftarrow> put_config E dnsProviderKey p;
            if \<not> ok then ret internal_error
            else do {
              _ \<leftarrow> set_provider p;
              ret (write_json StatusOK [(''provider'', JStr p)]) } }))"

definition apply_dns_default :: "'d env \<Rightarrow> ('d world, unit) state" where
  "apply_dns_default E = do {
     v \<leftarrow> config E dnsDefaultedKey;
     if v \<noteq> None \<and> v \<noteq> Some None then ret ()
     else do {
       e \<leftarrow> dns_enable E;
       if e \<noteq> None then ret ()
       else do { _ \<leftarrow> put_config E dnsDefaultedKey ''auto''; ret () } } }"

section \<open>Endpoint pinning\<close>

definition is_ipv4 :: "string \<Rightarrow> bool" where
  "is_ipv4 a = (case parse_ip a of None \<Rightarrow> False | Some ip \<Rightarrow> to4 ip \<noteq> None)"

definition pin_peer :: "'d env \<Rightarrow> peer \<Rightarrow> ('d world, peer) state" where
  "pin_peer E p =
     (if p_endpointHost p = [] \<or> parse_ip (p_endpointHost p) \<noteq> None then ret p
      else do {
        r \<leftarrow> observe E (\<lambda>n d. lookup_host E n (p_endpointHost p));
        ret (case r of
               Inl _ \<Rightarrow> p
             | Inr addrs \<Rightarrow>
                (case find is_ipv4 addrs of None \<Rightarrow> p | Some a \<Rightarrow> p\<lparr>p_endpointHost := a\<rparr>)) })"

primrec pin_peers :: "'d env \<Rightarrow> peer list \<Rightarrow> ('d world, peer list) state" where
  "pin_peers E [] = ret []"
| "pin_peers E (p # ps) = do {
     q \<leftarrow> pin_peer E p;
     qs \<leftarrow> pin_peers E ps;
     ret (q # qs) }"

definition pin_endpoints :: "'d env \<Rightarrow> vpn_config \<Rightarrow> ('d world, vpn_config) state" where
  "pin_endpoints E c = do {
     ps \<leftarrow> pin_peers E (c_peers c);
     ret (c\<lparr>c_peers := ps\<rparr>) }"

section \<open>Start-up\<close>

text \<open>\<open>New\<close>: the stored provider, when there is one, is restored; an unknown one is dropped.\<close>

definition restore_provider :: "'d env \<Rightarrow> ('d world, unit) state" where
  "restore_provider E = do {
     v \<leftarrow> config E dnsProviderKey;
     case v of
       None \<Rightarrow> ret ()
     | Some None \<Rightarrow> ret ()
     | Some (Some p) \<Rightarrow> (if p \<noteq> [] then do { _ \<leftarrow> set_provider p; ret () } else ret ()) }"

section \<open>Frames\<close>

lemma keeps_pin_peers: "(\<And>p. keeps v (pin_peer E p)) \<Longrightarrow> keeps v (pin_peers E ps)"
  by (induction ps) (simp_all add: keeps_def)

lemma keeps_pin_peer [keeps_intro]:
  "keeps w_db (pin_peer E p)" "keeps w_dev (pin_peer E p)" "keeps w_stepups (pin_peer E p)"
  unfolding pin_peer_def by (intro keeps_intro)+

lemma keeps_pin [keeps_intro]:
  "keeps w_db (pin_endpoints E c)" "keeps w_dev (pin_endpoints E c)" "keeps w_stepups (pin_endpoints E c)"
  unfolding pin_endpoints_def by (intro keeps_intro keeps_pin_peers)+

lemmas keeps_creds_dns [keeps_intro] =
  keeps_pin(1) [THEN keeps_db_comp [where g = db_creds]]
  keeps_set_provider(1) [THEN keeps_db_comp [where g = db_creds]]

lemma keeps_dns_handlers [keeps_intro]:
  "keeps (\<lambda>w. db_creds (w_db w)) (dns_get E)" "keeps (\<lambda>w. db_creds (w_db w)) (dns_set E q)"
  "keeps (\<lambda>w. db_creds (w_db w)) (dns_provider_set E k)" "keeps (\<lambda>w. db_creds (w_db w)) (apply_dns_default E)"
  "keeps w_stepups (dns_get E)" "keeps w_stepups (dns_set E q)" "keeps w_stepups (dns_provider_set E k)"
  "keeps w_stepups (apply_dns_default E)"
  "keeps w_dev (dns_provider_set E k)" "keeps w_db (dns_get E)"
  unfolding dns_get_def dns_set_def dns_switch_on_def dns_switch_off_def dns_provider_set_def apply_dns_default_def
  by (intro keeps_intro)+

end
