(* ===== verification/Oui_Data.thy ===== *)
theory Oui_Data
  imports Go_Encoding
begin

text \<open>
  \<open>internal/netcfg/oui_data.go\<close>: the generated vendor prefixes, each constant the concatenation
  of literals the source writes, and what the data is: runs of six lower-case hexadecimal digits
  in strictly ascending order, every prefix unicast and globally administered.
\<close>

definition appleOUIHex :: string where
  "appleOUIHex =
     concat [[],
       ''000393000502000a27000a95000d930010fa0011240014510016cb0017f20019e3001b63001cb3001d4f001e52001ec2'',
       ''001f5b001ff30021e900224100231200233200236c0023df00243600250000254b0025bc00260800264a0026b00026bb'',
       ''003065003ee10050e40056cd005b940061710066dc006d52007d6000812a008865008a760092350097f100a04000b362'',
       ''00c58500c61000cdfe00db7000f39f00f4b900f76f040cce04137a041552041e64042665042ec10434cf0441a504489a'',
       ''044bed0452f30454530468650469f80472950472ef0499b90499bb049d0504b5b204bc6d04bfd504d3cf04db5604e536'',
       ''04f13e04f7e408000708240b082573082cb6085d53086202086518086698086d410870450874020887c7088edc089542'',
       ''08c72908c7b508e64b08e68908f4ab08f69c08f8bc08ff440c15390c15630c19f80c2d710c30210c3b500c3e9f0c4de9'',
       ''0c51010c517e0c53b70c6ac40c6f8b0c74c20c771a0c85e10ca3b20cbc9f0cc56c0ccc5d0cd7460cdbea0ce4410ce5a1'',
       ''100020101c0c102959102fca1030251040f310417f104210107dc81093e91094bb109add109e6b109f4110a1da10a2d3'',
       ''10a4c910b58810b9c410bd3a10cee910cf0f10da6310ddb110e2c914109f14147d141a97141ba014205e142876142d4d'',
       ''1435b7145a051460cb147ae4147dda147fce14850914876a1488e6148f79148fc614946c1495ce1498771499e2149d99'',
       ''14bd6114c21314c88b14d00d14d19e14f287182032183451183eef183f70184a531855e31856c3186590187eb918810e'',
       ''189efc18a08418af6118af8f18b84218e67118e7b018e7f418ee6918f1d818f64318fab71c0d7d1c0ec21c1ac01c1dd3'',
       ''1c36bb1c3c781c57dc1c5cf21c61bf1c6a761c71251c77541c86821c8e2a1c91481c91801c9e461caba71cb3c91ce209'',
       ''1ce62b1cf64c1cf9d5200484200e2b201582201a94202df62032c62037a5203cae20463a20521d20698020768f2078cd'',
       ''2078f0207d7420845f2091df209bcd20a2e420a5cb20ab3720c9d020e2a820e87420ee2820f4d420fa85241b7a241eeb'',
       ''24240e242aea24559a245ba7245e48246d1024a07424a2e124ab8124b33924d0df24e31424f09424f67728022e280244'',
       ''280b5c282d7f2834ff2837372849e9284b5428575d285aeb286ab8286aba2877f12883c9288eec288ff628a02b28c1a0'',
       ''28c53828c70928cfda28cfe928d5b128e02c28e14c28e7cf28ea2d28ec9528ed6a28f03328f07628ff3c2c18092c1cf7'',
       ''2c1f232c200b2c326a2c33612c57ce2c61f62c76002c7cf22c81bf2c82172c95202cb43a2cbc872cbe082cc2532cca16'',
       ''2cdf682cf0a22cf0ee300916300e433010e43035ad303b7c30571430636b307ad23082163090483090ab30a03330c0ae'',
       ''30d53e30d7a130d87530d9d930e04f30e22630f7c530fe6c3408bc340e223410be34129834159e342840342b6e34318f'',
       ''34363b3442623451c9346691347c25348c5e34a39534a8eb34ab3734b1eb34c05934c38634daa134e2fd34ee1634f68d'',
       ''34f8dd34fd6a34fe773804843809fb380f4a38484c38539c3862333865b23866f03871de387f8b3888a438892c389cb2'',
       ''38b54d38c43a38c98638cada38e13d38ec0d38f9d33c06303c07543c07d73c15c23c1eb53c22fb3c2ef93c2eff3c3464'',
       ''3c39c83c3b773c4dbe3c50023c6d893c7d0a3ca6f63cab8e3cbf603cbfd73ccd363ccd403cd0f83cdd573ce0723cfb02'',
       ''40261940300440331a403cfc404d7f406c8f4070f540791140831d4089c240921a4098ad409c2840a6d940b39540b3fa'',
       ''40bc6040c71140cbc040d16040d32d40da5c40e64b40edcf40f9464400104409da4418fd441b88442a60443583444adb'',
       ''444c0c4463b64490bb449e8b44a10e44a7f444a8fc44c65d44d88444da3044e66e44e85344f09e44f21b44fb42480a28'',
       ''48262c48352b4835ab483b3848437c484baa4860bc48746e48a19548a91c48b8a348bf6b48ca6848d70548e15c48e1ca'',
       ''48e9f14c20b84c2eb44c32754c569d4c57ca4c5d6a4c6be84c74bf4c79754c7c5f4c7cd94c820c4c8d794c97cc4c9ff1'',
       ''4cab4f4cad354cb1994cb9104ccdb64cd0124ce6504ce6c0501fc65023a2503237503b7050578a507a55507ac55082d5'',
       ''50a67f50a6d850b12750bc9650de0650ead650ed3c50f26550f35150f4eb540910542696542906542a43542b8d5432c7'',
       ''5433cb544e905462e254724f549963549f1354ae2754b8db54e43a54e61b54eaa854ebe9580ad4580fa5581faa582a93'',
       ''58365358404e5855955855ca5856aa5864c458666d586b145873d8587f575893e858ad1258b03558b96558d34958e28f'',
       ''58e6ba5c09475c13ac5c13cc5c1bf45c1dd95c23c25c3e1b5c50d95c52305c52845c59485c70175c87305c8d4e5c9175'',
       ''5c95ae5c969d5c97f35c99775c9ba65cadba5cadcf5cb8b75ce91e5cf5da5cf7e65cf9386003086006e3600f6b602ed5'',
       ''6030d460334b603e5f6057c86065256069446070c0607ec9608110608246608373608b0e608c4a6092176093166095bd'',
       ''609ac160a37d60bec460c54760d03960d9c760dd7060de1860f44560f54960f81d60facd60fb4260fda660fec5640bd7'',
       ''640c9164200c6431356441e6644842645a36645aed646d2f6470336476ba649abe64a3cb64a5c364b0a664b9e864bd6d'',
       ''64c04564c75364c90564d2c464e682680927681a47682f67683036683b09683ec06844656845cc684a5f685b35685edd'',
       ''68644b6883cb68967b689c7068a59368a72968a86d68ab1e68ae2068cac468d93c68dbca68e58068ef4368efdc68fb7e'',
       ''68fef76c12706c19c06c1f8a6c3aff6c3e6d6c40086c4a856c4d736c709f6c72e76c7e676c8dc16c94f86c96cf6cab31'',
       ''6cb1336cc26b6ce5c96ce85c7011247013847014a67022fe70317f703c69703eac70480f704ca27056817062cb70700d'',
       ''7072fe7073cb7081eb708cf270968470a2b370ae2a70aed570b30670bb5b70cd6070dee270e72c70ea5a70ece470ef00'',
       ''70f08770f94a740ea47414d07415f5741bb2742917742959743174743f8e74421874428b74650c74718b7473b4747786'',
       ''748114748d08748f3c749eaf74a6cd74b58774cc4074d5e874e1b674e2f574e98778028b7831c1783a84783f4d784f43'',
       ''785ecc7864c07867d7786c1c78753e787984787b8a787e6178886d78960d789f7078a3e478a7c778ca3978d16278d75f'',
       ''78e3de78fbd878fd947c01917c04d07c11be7c24997c296f7c2aca7c3b2d7c4b267c4fcd7c50497c59b17c61307c6d62'',
       ''7c6df87c9a1d7ca1ae7cab607cc06f7cc1807cc3a17cc5377cc8df7cd1ad7cd1c37cd2da7cd62c7cecb17cf05f7cf34d'',
       ''7cfadf7cfc1680006e80045f800c67801242801d39803fd4804715804971804a148054e3805fc580657c8082238083f6'',
       ''80929f80953a80969880a99780af1980b03d80b98980be0580d1ce80d60580e65080ea9680ed2c840511840f4c842789'',
       ''842999842f5784383584416784687884788b8485068488e18489ad848c8d848e0c84943784a13484ab1a84ac1684ad8d'',
       ''84b15384b1e484d32884fcac84fcfe8810328817a8881908881e5a881fa188200d884d7c8851f28853958863df886440'',
       ''88665a8866a5886b6e886bdb887015887e9b88a47988a9b788ae0788b29188b7eb88b94588c08b88c66388cb8788d546'',
       ''88e87f88e9fe88f2ce8c006d8c08aa8c26aa8c29378c2daa8c33968c58778c7aaa8c7b9d8c7c928c82838c85908c861e'',
       ''8c8ef28c8fe98c91a48c986b8cc2468cec7b8cfaba8cfe579027e4902c099035a2903c92904cc5904de2905f7a9060f1'',
       ''90623f90724090812a90815890840d908c43908d6c909b6f909c4a90a25b90ac6d90b0ed90b21f90b79090b93190c1c6'',
       ''90cde890dd5d90e17b90ecea90fd61940bcd940c98940e5f941625942157942b68943fd6945c9a94897894942694ad23'',
       ''94b01f94bf2d94e96a94ea3294f6a394f6d69800c69801a79803d8980daf9810e8981ca2983c8c98460a98502e985aeb'',
       ''9860ca98698a989e6398a5f998b37998b8e398ca3398cf7d98d6bb98dd6098e0d998e85998f0ab98fe9498fee19c04eb'',
       ''9c1a259c207b9c28b39c293f9c35eb9c3e539c4fda9c583c9c58849c60769c648b9c760e9c79e39c84bf9c8ba09c924f'',
       ''9ca9c59cc3949cdaa89ce33f9ce65e9cf3879cf3ac9cf48e9cfa769cfc019cfc28a01828a03be3a04ea7a04ecfa05272'',
       ''a056f3a07817a0782da087bea0999ba09a8ea09d22a0a309a0b40fa0c1c5a0d1b3a0d795a0e390a0edcda0ee1aa0fbc5'',
       ''a40987a416c0a43135a44280a45e60a46706a477f3a483e7a4b197a4b805a4c337a4c361a4c6f0a4cf99a4d18ca4d1d2'',
       ''a4d23ea4d931a4e975a4f1e8a4f6e6a4f6e8a4f841a4f921a4fc14a81af1a82066a82c89a84a28a851aba85b78a85bb7'',
       ''a85c2ca85f61a860b6a8667fa87cf8a8817ea886dda88808a88e24a88fd9a8913da8968aa89c78a8abb5a8bb56a8bbcf'',
       ''a8be27a8fad8a8fe9dac007aac0775ac15f4ac1615ac1d06ac1f74ac293aac3c0bac4500ac49dbac5c2cac61eaac7f3e'',
       ''ac82f0ac86a3ac87a3ac88fdac9085ac9738acbc32acbcb5acc906accf5cacdfa1ace4b5ace6fbacfdecb01831b019c6'',
       ''b03495b035b5b03f64b0481ab065bdb067b5b0702db07219b08c75b09200b09fbab0bba9b0be83b0ca68b0d576b0de28'',
       ''b0e5efb0e5f9b0ec69b0f1d8b418d1b41974b41bb0b440a4b44bd2b45575b456e3b45976b485e1b48b19b496a5b49cdf'',
       ''b4aec1b4f0abb4f61cb4fa48b8011fb80533b8098ab8144db817c2b8211cb8220cb82aa9b8374ab83c28b841a4b844d9'',
       ''b845ebb8496db84fa7b853acb85d0ab8634db8782eb87bc5b881fab88d12b89047b8b2f8b8c111b8c75db8e60cb8e856'',
       ''b8f12ab8f6b1b8ff61bc0963bc37d3bc3bafbc4cc4bc4f2dbc52b7bc5436bc6778bc6c21bc74eabc804ebc89a7bc89c1'',
       ''bc926bbc9f58bc9fefbca5a9bca920bcb863bcbb58bcd074bce143bcec5dbcfed9c01754c01adac02c5cc04442c06394'',
       ''c06c0cc0847ac0956dc09ad0c09f42c0a53ec0a600c0b22fc0b658c0c7dbc0ccf8c0cecdc0d012c0e862c0f2fbc40b31'',
       ''c41234c41411c4168fc42ad0c42c03c435d9c4491bc4524fc45bacc4618bc48466c484fcc4910cc49880c4acaac4b301'',
       ''c4b349c4c17dc4c36bc4f445c4f7c1c81ee7c81fe8c82a14c8334bc83c85c869cdc86f1dc8806dc88550c889f3c8b1cd'',
       ''c8b5b7c8bcc8c8d083c8e0ebc8f650cc088dcc08e0cc08facc115acc20e8cc22fecc25efcc2746cc29f5cc2db7cc3f36'',
       ''cc4463cc4b04cc6023cc660acc68e0cc69facc722acc785fcc808fcc817dccbe61ccc760ccc95dccd281d0034bd011e5'',
       ''d023dbd02598d02b20d03311d03e07d03faad04d86d04f7ed058a5d06544d06b78d0817ad0880cd09282d0a637d0b324'',
       ''d0c050d0c5f3d0d23cd0d2b0d0d49fd0dad7d0e140d0e581d40f9ed4126ed42dccd42fcad446e1d45763d4619dd461da'',
       ''d463c0d468aad4909cd49a20d4a33dd4ce40d4dccdd4f46fd4fb8ed4ff1ad8004dd81c79d81d72d83062d846ced84c90'',
       ''d87475d88f76d89695d89e3fd8a25ed8bb2cd8be1fd8cf9cd8d1cbd8dc40d8de3ad8e593dc080fdc0c5cdc1057dc2b2a'',
       ''dc2b61dc3714dc415fdc45b8dc5285dc5392dc56e7dc6dbcdc71d0dc8084dc86d8dc9396dc9566dc9b9cdc9e8fdca4ca'',
       ''dca904dcb54fdcd3a2dce541dcf4cae02611e02b96e0338ee05f45e06678e06d17e0897ee0925ce0accbe0b52de0b55f'',
       ''e0b9bae0ba78e0bda0e0bfb2e0c3eae0c767e0c97ae0eb40e0f5c6e0f847e425e7e42b34e42f37e44389e450ebe45341'',
       ''e47010e47684e48b7fe490fde498d6e49a79e49adce49c67e4b16ce4b2fbe4c0fee4c63de4ce8fe4e0a6e4e4abe8040b'',
       ''e80688e81cd8e83617e84a78e85f02e87865e87f95e8802ee88152e8854be88d28e898eee8a730e8b2ace8c386e8fbe9'',
       ''e8febee8fff4ec0d51ec2651ec28d3ec2c0dec2c73ec2ce2ec3586ec42ccec4654ec7379ec8150ec852fec97a2eca907'',
       ''ecadb8ecced7ecd508ecdcaaece9d2ecff3af004e1f01898f01fc7f02475f027a0f02f4bf02fbaf040d9f05cd5f0766f'',
       ''f07807f07960f0989df099b6f099bff0a35af0b0e7f0b3ecf0b479f0c1f1f0c371f0c725f0cba1f0d1a9f0d31ff0d635'',
       ''f0d793f0dbe2f0dbf8f0dce2f0ee7af0f61cf40616f40e01f40f24f41ba1f421caf431c3f433b7f434f0f437b7f439a6'',
       ''f45293f45c89f465a6f478acf481c4f4a1a6f4a310f4afe7f4b599f4beecf4cbe7f4d488f4dbe3f4e8c7f4f15af4f951'',
       ''f4fe3ef80377f81093f81e49f81edff82793f82ae2f82d7cf83880f84288f84d89f84e73f86214f8665af86fc1f871a6'',
       ''f873dff87d76f887f1f895eaf8b1ddf8c3ccf8cb15f8d3f0f8e252f8e5cef8e94ef8f58cf8ffc2fc183cfc1d43fc253f'',
       ''fc2a9cfc315dfc47d8fc4ea4fc5557fc66cffc8827fc9ca7fc9dd2fca5c8fcaa81fcb214fcb6d8fcd848fce26cfce998'',
       ''fcfc48'',
       []]"

definition samsungOUIHex :: string where
  "samsungOUIHex =
     concat [[],
       ''0000f00002780007ab000918000dae000de50012470012fb0013770015990015b900163200166b00166c0016db0017c9'',
       ''0017d50018af001a8a001b98001c43001d25001df6001e7d001ee1001ee2001fcc001fcd00211900214c0021d10021d2'',
       ''00233900233a0023990023c20023d60023d70024540024900024910024e900253800256600256700263700265d00265f'',
       ''002b70006f640072040073e0007c2d007d3b00870100b5d000bf6100c3f400e06400e3b200f46f00fa2104180f041bba'',
       ''04292e04b1a104b42904b9e304ba8d04bdbf04cb0104d6aa04e4b604fe3108023c0808c208109308152f0821ef08373d'',
       ''083d88087808088c2c08a5df08aed608bfa008c5e108d42b08eca908ee8b08fc8808fd0e0c02bd0c14200c2fb00c323a'',
       ''0c715d0c89100c8dca0ca8a70cb3190cdfa40ce0dc1007b6101dc01029ab102b41103047103917103b591077b11089fb'',
       ''108ee010926610abc910d38a10d54210e4c210ec81140152140b9e141f781432d11449e014568e1489fd1496e5149f3c'',
       ''14a36414b48414bb6e14e01d14f42a1816c91819d6181eb018219518227e182654182666183a2d183f47184617184e16'',
       ''184ecb1854cf185bb31867b01869d418833118895b18ab1d18bfb318ce9418e2c21c232c1c3ade1c5a3e1c62b81c66aa'',
       ''1c76f21c869a1caf051caf4a1ce57f1ce61d1cf8d02013e02015de202d0720326c203b67205531205ef7206432206e9c'',
       ''20d39020d5bf20dbab240935240a3f24115324181d2424b7244b03244b81245ab52460b32468002468b024920e24a452'',
       ''24c61324c69624dbed24f0d324f40a24f5aa24fce52802d82807082827bf28395e283dc22872c628833528987b289f04'',
       ''28af4228bab528c21f28cc0128de1c28e6a92c0e3d2c15bf2c40532c44012c99752cae2b2cbaba2cda4630074d301966'',
       ''306222306a853074673096fb30ab6a30c7ae30c9cc30cbf830cda730d58730d6c934145f3423ba342d0d3431113482c5'',
       ''348a7b34aa8b34be0034c23234c3ac34e3fb34f04334f084380195380a94380b403816d1382dd1382de8384a803868a4'',
       ''386a77388a06388cef388f30389496389af638aa3c38d40b38ece43c05183c0a7a3c195e3c20f63c29833c318a3c576c'',
       ''3c5a373c62003c8bfe3ca10d3cbbfd3cdcbc3cf7a4400e854011c340163b4035e6405ef640d3ae40de2440e99b4416fa'',
       ''444e1a445ce9446d6c44783e448f1744c63c44ea3044f45948137e4827ea4844f74849c74851694861ee48794d489dd1'',
       ''48bce148c79648ef1c4c2e5e4c39464c3c164c57394c66414c66a64ca56d4cbca54cc95e4cdd314cebb04cecee5001bb'',
       ''503275503da15049b05050a45056bf5077055085695092b9509ea750a4c850b7c350c8e550ccf850f0d350f52050fc9f'',
       ''54104f54219d543ad65440ad5444a354880e5492be549b1254b80254bd7954d17d54dd4f54f20154fa3e54fcf0582071'',
       ''5879e058a63958b10f58c38b58c5cb5c0a5b5c10c55c2e595c3c275c497d5c51365c51815c5e0a5c865c5c99605ca39d'',
       ''5cac3d5cc1d75ccb995cd33d5cdc495ce8eb5cedf45cf6dc603aaf60684e606bbd6077e2607fcb608e08608f5c609578'',
       ''60a10a60a4d060af6d60b4a260c5ad60d0a960ff1264037f6407f66417cd641b2f641cae641cb0645df46466d8646cb2'',
       ''647791647bce6489f164ace064b31064b5f264b85364d0d664e7d8680571682737684898684ae9685acf6872c3687d6b'',
       ''68bfc468dfe468e7c268ebae68fcca6c006b6c2f2c6c2f8a6c55636c70cb6c83366cacc26cb7f46cc7ec6cddbc6cf373'',
       ''700971701f3c70288b702ad5704ee0705aac70b13d70ce8c70f92770fd4674190a741eb174458a745f00746dfa748b23'',
       ''749ef574eb8074f44174f67a78009e781fdb7823277825ad7833c67837167840e47846d478471d78521a78595e786089'',
       ''789ed078a87378abbb78b6fe78bdbc78c11d78c3e978d6f078e0c578f23878f7be7c0a3f7c0bc67c1c687c23027c2edd'',
       ''7c38ad7c64567c752d7c787e7c7bbf7c89567c8bb57c91227cc2257cf8547cf90e800794800d3f8018a78019708020fd'',
       ''8031f080398c804786804e70804e8180542d80549c80571980656d8075bf807b3e8086d9808abd809ff580ceb9840b2d'',
       ''84119e8419858422898425198425db842e278437d58438388451818455a5845f0484986684a46684b54184c0ef84eee4'',
       ''88299c88329b885e54887598888322889b39889f6f88a30388add288bd458c1abf8c2e728c6a3b8c71f88c77128c79f5'',
       ''8c83e18c98858ca3ec8cb0e98cb84a8cbfa68cc5d08cc8cd8cdee68ce5c08cea488cf5a39000db900628900a4890187c'',
       ''90633b9081759097f390b14490b62290eec790f1aa9401c2942ddc94350a9451039452449463d19476b7947be7948bc1'',
       ''94b10a94d77194e12994e6ba98063c980c82980d6f981dfa982d6898398e983fe8984e8a9852b19880ee98838998b08b'',
       ''98b8bc98d74298fb279c02989c25959c2a839c2e7a9c39289c3aaf9c5fb09c65b09c73b19c83069c8c6e9ca5139cd35b'',
       ''9ce0639ce6e79cf27ea00798a00bbaa01081a01b9ea02195a027b6a0562ca06090a07591a07d9ca0821fa0ac69a0b0bd'',
       ''a0b4a5a0cbfda0d05ba0d722a0d7f3a407b6a4307aa46cf1a475b9a48431a49a58a49ddda49fe7a4a490a4c69aa4d990'',
       ''a4ebd3a80600a816d0a82bb9a830bca8346aa84b4da8515ba87650a8798da87c01a88195a887b3a89fbaa8ba69a8cab9'',
       ''a8d162a8db03a8ee67a8f274ac1e92ac3613ac5322ac5a14ac5f3eac6c90ac80fbacafb9acc33aacee9eb047bfb04a6a'',
       ''b05476b064e0b06fe0b099d7b0c4e7b0c559b0d09cb0de31b0df3ab0e45cb0ec71b0f2f6b407f9b40b1db41584b41a1d'',
       ''b43a28b440dcb46293b47064b47443b479a7b49d02b4bff6b4ce40b4d5e5b4ef39b857d8b85a73b85e7bb86ce8b8a0b8'',
       ''b8a825b8b409b8bbafb8bc5bb8c68eb8d9cebc0eabbc107bbc1485bc20a4bc277abc32b2bc4486bc455bbc4760bc5274'',
       ''bc5451bc72b1bc765ebc79adbc7abfbc7e8bbc851fbc8ccdbc9307bca080bca58bbcb1f3bcb2ccbcd11fbce63fbcf730'',
       ''c01173c0174dc0238dc03d03c048e6c06599c07ad6c087ebc08997c09727c0bdc8c0bdd1c0d2ddc0d3c0c0d5e2c0dcda'',
       ''c418e9c41c07c44202c45006c4576ec45d83c462eac4731ec47764c47d9fc488e5c493d9c4ae12c4ef3dc8120bc81479'',
       ''c819f7c83870c8418ac85142c87e75c8908ac8a6efc8a823c8ba94c8bd4dc8bd69c8d7b0cc051bcc07abcc20accc2119'',
       ''cc3a61cc464ecc6ea4ccb11acce686cce9faccf826ccf9e8ccf9f0ccfe3cd003dfd004b0d0176ad01b49d022bed02544'',
       ''d03169d039fad056fbd059e4d0667bd07fa0d087e2d0b128d0c1b1d0c24ed0d003d0dfc7d0fcccd411a3d47ae2d487d8'',
       ''d48890d48a39d49dc0d4ae05d4e6b7d4e8b2d80831d80b9ad831cfd85575d857efd85b2ad868a0d868c3d87154d890e8'',
       ''d8a35cd8c4e9d8e0e1dc44b6dc6672dc69e2dc7144dc74a8dc87f8dc8983dc9deddcc49cdccce6dccf96dcdce2dcf756'',
       ''e0036be09971e09d13e0aa96e0c377e0cbeee0d083e0db10e41088e4121de432cbe440e2e458b8e458e7e45d75e47cf9'',
       ''e47dbde49282e492fbe49f7de4a430e4b021e4e0c5e4ece8e4f3c4e4f8efe4faede8039ae81132e83a12e84e84e8508b'',
       ''e85497e86dcbe87f6be89309e8aacbe8b4c8e8c913e8e5d6ec107bec1f72ec7cb6ec90c1ec9bf3ecaa25ecb550ece09b'',
       ''f0051bf008f1f025b7f03965f05a09f05b7bf065aef067b1f06bcaf0704ff0728cf08a76f0cd31f0e77ef0ee10f0f564'',
       ''f400a2f40228f409d8f40e22f42b8cf4428ff47190f47b5ef47deff49f54f4c248f4d9fbf4dd06f4f309f4fefbf8042e'',
       ''f83f51f84e58f85b6ef877b8f884f2f88f07f8d0bdf8e61af8f1e6fc0012fc039ffc1910fc1a46fc1f19fc4203fc643a'',
       ''fc6e83fc8f90fc936bfca13efca621fcaab6fcc734fcde90fcf136'',
       []]"

definition googleOUIHex :: string where
  "googleOUIHex =
     concat [[],
       ''001a1100f62004006e04c8b0088bc8089e0808b4b10cc41310d9a214223b14c14e1c53f91cf29a201f3b20338920dfb9'',
       ''20f09424058824293424952f24e50f28bd8930e04430fd3834391634c7e934ddcc3886f7388b593c286d3c31743c5ab4'',
       ''3c8d2040a44a44070b44103044bb3b48d6d54c80fb54600954674958242958cb525c337b60706c60b76e649d3870287d'',
       ''703acb7474467c2ebd7cd95c84a824883d2488541f88c344900cc890cafa9445609495a094eb2c983a1f9898fb98d293'',
       ''9c4f5fa0b15ca47733ac3eb1ac6784ace6bbb02a43b06a41b09cb2b0d5fbb0e4d5b41324b423a2b87bd4b8db38b8f4a4'',
       ''bcdf58c01c6ac82addcca7c1ccf411d43a2cd4f547d86c63d88c79d8eb46dce55be01adfe45e1be4f042e8d52bf05c77'',
       ''f072eaf0ef86f40304f4f5d8f4f5e8f80ff9f81a2bf88fcafc4116fc915d'',
       []]"

section \<open>What the data is\<close>

text \<open>
  A prefix in text: six digits, the second one a multiple of four.  \<open>pool_from\<close> checks a run of
  prefixes against the value of the one before.
\<close>

definition nibble :: "char \<Rightarrow> nat option" where
  "nibble c = (if CHR ''A'' \<le> c \<and> c \<le> CHR ''F'' then None else hex_val c)"

fun key_val :: "string \<Rightarrow> nat list option" where
  "key_val [] = Some []"
| "key_val (c # s) =
     (case nibble c of None \<Rightarrow> None | Some n \<Rightarrow> map_option (\<lambda>ns. n # ns) (key_val s))"

definition oui_key :: "string \<Rightarrow> bool" where
  "oui_key k \<longleftrightarrow> length k = 6 \<and> (\<exists>ns. key_val k = Some ns \<and> ns ! 1 mod 4 = 0)"

fun pool_from :: "nat list \<Rightarrow> string \<Rightarrow> nat list option" where
  "pool_from p [] = Some p"
| "pool_from p (a # b # c # d # e # f # r) =
     (case (nibble a, nibble b, nibble c, nibble d, nibble e, nibble f) of
        (Some a, Some b, Some c, Some d, Some e, Some f) \<Rightarrow>
          if b mod 4 = 0 \<and> p < [a, b, c, d, e, f] then pool_from [a, b, c, d, e, f] r else None
      | _ \<Rightarrow> None)"
| "pool_from p r = None"

lemma pool_from_append:
  "pool_from p xs = Some q \<Longrightarrow> pool_from p (xs @ ys) = pool_from q ys"
  by (induction p xs rule: pool_from.induct) (auto split: option.splits if_splits)

lemma pool_concat:
  "pool_from p (concat []) = Some p"
  "pool_from p x = Some q \<Longrightarrow> pool_from q (concat xs) = r \<Longrightarrow> pool_from p (concat (x # xs)) = r"
  by (simp_all add: pool_from_append)

lemma nibble_digits:
  "nibble CHR ''0'' = Some 0" "nibble CHR ''1'' = Some 1" "nibble CHR ''2'' = Some 2" "nibble CHR ''3'' = Some 3"
  "nibble CHR ''4'' = Some 4" "nibble CHR ''5'' = Some 5" "nibble CHR ''6'' = Some 6" "nibble CHR ''7'' = Some 7"
  "nibble CHR ''8'' = Some 8" "nibble CHR ''9'' = Some 9" "nibble CHR ''a'' = Some 10" "nibble CHR ''b'' = Some 11"
  "nibble CHR ''c'' = Some 12" "nibble CHR ''d'' = Some 13" "nibble CHR ''e'' = Some 14" "nibble CHR ''f'' = Some 15"
  by (simp_all add: nibble_def hex_val_def less_eq_char_def)

lemma apple_pool: "\<exists>q. pool_from [] appleOUIHex = Some q"
  unfolding appleOUIHex_def
  by (rule exI, (rule pool_concat(2), simp add: nibble_digits)+, rule pool_concat(1))

lemma samsung_pool: "\<exists>q. pool_from [] samsungOUIHex = Some q"
  unfolding samsungOUIHex_def
  by (rule exI, (rule pool_concat(2), simp add: nibble_digits)+, rule pool_concat(1))

lemma google_pool: "\<exists>q. pool_from [] googleOUIHex = Some q"
  unfolding googleOUIHex_def
  by (rule exI, (rule pool_concat(2), simp add: nibble_digits)+, rule pool_concat(1))

section \<open>Runs of prefixes\<close>

fun keys6 :: "string \<Rightarrow> string list" where
  "keys6 (a # b # c # d # e # f # r) = [a, b, c, d, e, f] # keys6 r"
| "keys6 _ = []"

lemma nibble_order:
  assumes "nibble a = Some x" "nibble b = Some y"
  shows "a < b \<longleftrightarrow> x < y" "a = b \<longleftrightarrow> x = y"
proof -
  have dec: "of_char c = (if n < 10 then n + 48 else n + 87)" "n < 16" if "nibble c = Some n" for c n
    using that by (auto simp: nibble_def hex_val_def less_eq_char_def split: if_splits)
  show "a < b \<longleftrightarrow> x < y"
    using dec [OF assms(1)] dec [OF assms(2)] by (simp add: less_char_def split: if_splits)
  have "a = b \<longleftrightarrow> of_char a = (of_char b :: nat)" by simp
  then show "a = b \<longleftrightarrow> x = y" using dec [OF assms(1)] dec [OF assms(2)] by (simp split: if_splits)
qed

lemma key_val_order:
  "key_val k = Some ns \<Longrightarrow> key_val l = Some ms \<Longrightarrow> k < l \<longleftrightarrow> ns < ms"
proof (induction k arbitrary: l ns ms)
  case Nil
  then show ?case by (cases l) (auto split: option.splits)
next
  case (Cons c k)
  then show ?case by (cases l) (auto split: option.splits simp: nibble_order)
qed

lemma pool_keys:
  assumes "pool_from p h = Some q"
  shows "concat (keys6 h) = h" "\<forall>k \<in> set (keys6 h). oui_key k" "sorted_wrt (<) (keys6 h)"
proof -
  have "concat (keys6 h) = h \<and> (\<forall>k \<in> set (keys6 h). oui_key k \<and> (\<exists>ns. key_val k = Some ns \<and> p < ns))
      \<and> sorted_wrt (<) (keys6 h)"
    using assms
  proof (induction p h rule: pool_from.induct)
    case (2 p a b c d e f r)
    then obtain v x y where v: "key_val [a, b, c, d, e, f] = Some v" "v = [x, y] @ drop 2 v" "y mod 4 = 0" "p < v"
      "pool_from v r = Some q"
      by (auto split: option.splits if_splits)
    with 2 have ih: "concat (keys6 r) = r" "sorted_wrt (<) (keys6 r)"
      "\<forall>k \<in> set (keys6 r). oui_key k \<and> (\<exists>ns. key_val k = Some ns \<and> v < ns)"
      by (auto split: option.splits if_splits)
    have "v ! 1 = y" by (subst v(2)) simp
    then have "oui_key [a, b, c, d, e, f]" using v(1,3) by (simp add: oui_key_def)
    moreover have "\<forall>k \<in> set (keys6 r). [a, b, c, d, e, f] < k"
      using ih(3) key_val_order [OF v(1)] by blast
    moreover have "\<forall>k \<in> set (keys6 r). \<exists>ns. key_val k = Some ns \<and> p < ns"
      using ih(3) v(4) by (meson order.strict_trans)
    ultimately show ?case using ih v(1,4) by auto
  qed auto
  then show "concat (keys6 h) = h" "\<forall>k \<in> set (keys6 h). oui_key k" "sorted_wrt (<) (keys6 h)" by auto
qed

lemma shipped_keys:
  "h \<in> {appleOUIHex, samsungOUIHex, googleOUIHex} \<Longrightarrow> \<exists>q. pool_from [] h = Some q"
  using apple_pool samsung_pool google_pool by auto

end
