(* ===== verification/Identity.thy ===== *)
theory Identity
  imports World Oui_Data
begin

unbundle bit_operations_syntax

text \<open>
  \<open>internal/netcfg/identity.go\<close>: the device identity, a MAC address and a DHCP host name
  generated together from a profile.  The vendor prefixes are the generated hexadecimal
  constants of \<open>oui_data.go\<close>; the source panics at start-up when they do not decode, which
  \<open>shipped_pools\<close> rules out.
\<close>

record identity =
  id_mac :: string
  id_host :: string
  id_profile :: string

record profile =
  pf_key :: string
  pf_label :: string
  pf_ouis :: "bytes list"
  pf_names :: "string list"

text \<open>Prefixes of three bytes; \<^const>\<open>None\<close> is the panic.\<close>

fun chunks3 :: "bytes \<Rightarrow> bytes list" where
  "chunks3 (a # b # c # r) = [a, b, c] # chunks3 r"
| "chunks3 _ = []"

definition decode_ouis :: "string \<Rightarrow> bytes list option" where
  "decode_ouis h =
     (case hex_decode h of
        None \<Rightarrow> None
      | Some raw \<Rightarrow> if length raw mod 3 \<noteq> 0 then None else Some (chunks3 raw))"

definition vendor_ouis :: "string \<Rightarrow> bytes list" where
  "vendor_ouis h = (case decode_ouis h of None \<Rightarrow> [] | Some l \<Rightarrow> l)"

definition profiles :: "profile list" where
  "profiles =
     [\<lparr>pf_key = ''generic'', pf_label = ''Generic randomized'', pf_ouis = [], pf_names = []\<rparr>,
      \<lparr>pf_key = ''apple'', pf_label = ''Apple iPhone'', pf_ouis = vendor_ouis appleOUIHex,
        pf_names = [''iPhone'', ''iPhone'', ''iPhone'', ''iPhones-iPhone'', ''Johns-iPhone'', ''iPhone-15'', ''iPhone-14'']\<rparr>,
      \<lparr>pf_key = ''samsung'', pf_label = ''Samsung Galaxy'', pf_ouis = vendor_ouis samsungOUIHex,
        pf_names = [''Galaxy-S24'', ''Galaxy-S24-Ultra'', ''Galaxy-S23'', ''Galaxy-S23-FE'',
          ''Galaxy-S22'', ''Galaxy-A54'', ''Galaxy-A34'', ''Galaxy-Z-Flip5'', ''Galaxy-Note20'']\<rparr>,
      \<lparr>pf_key = ''pixel'', pf_label = ''Google Pixel'', pf_ouis = vendor_ouis googleOUIHex,
        pf_names = [''Pixel-8'', ''Pixel-8-Pro'', ''Pixel-8a'', ''Pixel-7'', ''Pixel-7-Pro'',
          ''Pixel-7a'', ''Pixel-6'', ''Pixel-6a'', ''Pixel-Fold'']\<rparr>]"

definition profile_infos :: "(string \<times> string) list" where
  "profile_infos = map (\<lambda>p. (pf_key p, pf_label p)) profiles"

definition valid_profile :: "string \<Rightarrow> bool" where
  "valid_profile k \<longleftrightarrow> (\<exists>p \<in> set profiles. pf_key p = k)"

definition profile_by_key :: "string \<Rightarrow> profile" where
  "profile_by_key k = (case find (\<lambda>p. pf_key p = k) profiles of Some p \<Rightarrow> p | None \<Rightarrow> profiles ! 0)"

text \<open>The MAC bytes and the host name, from the eight random bytes.\<close>

definition identity_bytes :: "profile \<Rightarrow> bytes \<Rightarrow> bytes \<times> string" where
  "identity_bytes p raw =
     (let sel1 = unat (raw ! 0); sel2 = unat (raw ! 1); b = take 6 (drop 2 raw) in
      if pf_ouis p = [] then (b[0 := (b ! 0 OR 2) AND NOT 1], [])
      else
        (let oui = pf_ouis p ! (sel1 mod length (pf_ouis p)) in
         (oui @ drop 3 b,
          if pf_names p \<noteq> [] then pf_names p ! (sel2 mod length (pf_names p)) else [])))"

definition mac_text :: "bytes \<Rightarrow> string" where
  "mac_text b = join_with CHR '':'' (map hex2 b)"

definition generate_identity :: "'d env \<Rightarrow> string \<Rightarrow> ('d world, identity option) state" where
  "generate_identity E key = do {
     r \<leftarrow> random_bytes E 8;
     ret (case r of
            None \<Rightarrow> None
          | Some raw \<Rightarrow>
             (let p = profile_by_key key; (b, host) = identity_bytes p raw in
              Some \<lparr>id_mac = mac_text b, id_host = host, id_profile = pf_key p\<rparr>)) }"

definition random_mac :: "'d env \<Rightarrow> ('d world, string option) state" where
  "random_mac E = do { i \<leftarrow> generate_identity E ''generic''; ret (map_option id_mac i) }"

section \<open>Decoding runs of prefixes\<close>

definition oui_bytes :: "string \<Rightarrow> bytes" where
  "oui_bytes k = (case hex_decode k of None \<Rightarrow> [] | Some b \<Rightarrow> b)"

lemma low_bits: "y mod 4 = 0 \<Longrightarrow> (word_of_nat (x * 16 + y) :: byte) AND 3 = 0"
proof -
  assume "y mod 4 = 0"
  have "(x * 16 + y) AND mask 2 = (x * 16 + y) mod 4" by (simp add: take_bit_eq_mod flip: take_bit_eq_mask)
  moreover have "(x * 16 + y) mod 4 = 0" using \<open>y mod 4 = 0\<close> by presburger
  moreover have "mask 2 = (3 :: nat)" by (simp add: mask_eq_exp_minus_1)
  ultimately have "(x * 16 + y) AND 3 = 0" by simp
  then have "(of_nat ((x * 16 + y) AND 3) :: byte) = 0" by simp
  then show ?thesis by (simp only: of_nat_and_eq of_nat_numeral)
qed

lemma nibble_hex: "nibble c = Some n \<Longrightarrow> hex_val c = Some n"
  by (simp add: nibble_def split: if_splits)

text \<open>One prefix in text decodes to three bytes of a globally administered unicast address.\<close>

lemma oui_key_decodes:
  assumes "oui_key k"
  obtains a b c where "oui_bytes k = [a, b, c]" "a AND 3 = 0"
    "\<And>s. hex_decode (k @ s) = map_option (\<lambda>bs. [a, b, c] @ bs) (hex_decode s)"
proof -
  have "length k = Suc (Suc (Suc (Suc (Suc (Suc 0)))))" using assms by (simp add: oui_key_def)
  then obtain c1 c2 c3 c4 c5 c6 where k: "k = [c1, c2, c3, c4, c5, c6]"
    by (auto simp only: length_Suc_conv length_0_conv)
  from assms obtain n1 n2 n3 n4 n5 n6 where n: "nibble c1 = Some n1" "nibble c2 = Some n2" "nibble c3 = Some n3"
    "nibble c4 = Some n4" "nibble c5 = Some n5" "nibble c6 = Some n6" "n2 mod 4 = 0"
    unfolding k by (auto simp: oui_key_def split: option.splits)
  note d = n(1-6) [THEN nibble_hex]
  show thesis
  proof (rule that)
    show "oui_bytes k = [word_of_nat (n1 * 16 + n2), word_of_nat (n3 * 16 + n4), word_of_nat (n5 * 16 + n6)]"
      by (simp add: oui_bytes_def k d)
    show "(word_of_nat (n1 * 16 + n2) :: byte) AND 3 = 0" using n(7) by (rule low_bits)
    show "hex_decode (k @ s) = map_option (\<lambda>bs. [word_of_nat (n1 * 16 + n2), word_of_nat (n3 * 16 + n4), word_of_nat (n5 * 16 + n6)] @ bs) (hex_decode s)" for s
      by (simp add: k d option.map_comp comp_def)
  qed
qed

lemma decode_keys: "\<forall>k \<in> set ks. oui_key k \<Longrightarrow> decode_ouis (concat ks) = Some (map oui_bytes ks)"
proof -
  assume ks: "\<forall>k \<in> set ks. oui_key k"
  then have "hex_decode (concat ks) = Some (concat (map oui_bytes ks))"
    "length (concat (map oui_bytes ks)) mod 3 = 0" "chunks3 (concat (map oui_bytes ks)) = map oui_bytes ks"
    by (induction ks) (auto elim!: oui_key_decodes)
  then show ?thesis by (simp add: decode_ouis_def)
qed

text \<open>The pools that ship with the daemon: start-up does not panic, and each entry is usable.\<close>

lemma shipped_pools:
  assumes "h \<in> {appleOUIHex, samsungOUIHex, googleOUIHex}"
  shows "decode_ouis h = Some (vendor_ouis h)" "\<forall>u \<in> set (vendor_ouis h). length u = 3 \<and> hd u AND 3 = 0"
proof -
  obtain q where "pool_from [] h = Some q" using shipped_keys [OF assms] by blast
  note pool = pool_keys [OF this]
  have d: "decode_ouis h = Some (map oui_bytes (keys6 h))" using decode_keys [OF pool(2)] pool(1) by simp
  then show "decode_ouis h = Some (vendor_ouis h)" by (simp add: vendor_ouis_def)
  show "\<forall>u \<in> set (vendor_ouis h). length u = 3 \<and> hd u AND 3 = 0"
    using pool(2) d by (fastforce simp: vendor_ouis_def elim!: oui_key_decodes)
qed

section \<open>The generated identities\<close>

lemma chunks3_length: "u \<in> set (chunks3 bs) \<Longrightarrow> length u = 3"
  by (induction bs rule: chunks3.induct) auto

lemma vendor_ouis_length: "u \<in> set (vendor_ouis h) \<Longrightarrow> length u = 3"
  by (auto simp: vendor_ouis_def decode_ouis_def dest: chunks3_length split: option.splits if_splits)

lemma profile_by_key_in: "profile_by_key k \<in> set profiles"
proof (cases "find (\<lambda>p. pf_key p = k) profiles")
  case None
  then show ?thesis by (simp add: profile_by_key_def) (simp add: profiles_def)
next
  case (Some p)
  then have "p \<in> set profiles" by (auto simp: find_Some_iff)
  with Some show ?thesis by (simp add: profile_by_key_def)
qed

text \<open>Reading a MAC text back.\<close>

definition mac_bytes :: "string \<Rightarrow> bytes option" where
  "mac_bytes s = hex_decode (concat (split_on CHR '':'' s))"

lemma hex2_no_colon: "CHR '':'' \<notin> set (hex2 b)"
proof -
  have h: "hex_char n \<noteq> CHR '':''" if "n < 16" for n
    using hex_val_char [OF that] by (auto simp: hex_val_def less_eq_char_def)
  have "unat b div 16 < 16" using unat_byte_less [of b] by (simp add: less_mult_imp_div_less)
  then show ?thesis using h [of "unat b div 16"] h [of "unat b mod 16"] by (simp add: hex2_def)
qed

lemma mac_bytes_text: "b \<noteq> [] \<Longrightarrow> mac_bytes (mac_text b) = Some b"
proof -
  assume "b \<noteq> []"
  then have "split_on CHR '':'' (mac_text b) = map hex2 b"
    unfolding mac_text_def using hex2_no_colon by (intro split_on_join) auto
  then show ?thesis by (simp add: mac_bytes_def hex_round_trip)
qed

lemma identity_bytes_generic:
  assumes "pf_ouis p = []" "length raw = 8"
  shows "length (fst (identity_bytes p raw)) = 6" "hd (fst (identity_bytes p raw)) AND 3 = 2"
    "snd (identity_bytes p raw) = []"
proof -
  obtain x r where b: "take 6 (drop 2 raw) = x # r" "length r = 5"
  proof -
    have "length (take 6 (drop 2 raw)) = 6" using assms(2) by simp
    then show thesis using that by (cases "take 6 (drop 2 raw)") auto
  qed
  have bits: "((x OR 2) AND NOT 1) AND 3 = (2 :: byte)"
  proof -
    have "(NOT 1 AND 3 :: byte) = 2" by simp
    moreover have "(x OR 2) AND 2 = 2" by (rule bit_eqI) (auto simp: bit_simps)
    ultimately show ?thesis by (simp add: and.assoc)
  qed
  show "length (fst (identity_bytes p raw)) = 6" "hd (fst (identity_bytes p raw)) AND 3 = 2"
    "snd (identity_bytes p raw) = []"
    using assms(1) b bits by (simp_all add: identity_bytes_def Let_def)
qed

lemma take_oui: "length u = 3 \<Longrightarrow> take 3 (u @ r) = u"
  by simp

text \<open>The selector is one byte: only the first 256 prefixes of a pool can be chosen.\<close>

lemma identity_bytes_vendor:
  assumes "pf_ouis p \<noteq> []" "length raw = 8" "\<forall>u \<in> set (pf_ouis p). length u = 3"
  shows "length (fst (identity_bytes p raw)) = 6"
    "take 3 (fst (identity_bytes p raw)) \<in> set (take 256 (pf_ouis p))"
    "pf_names p \<noteq> [] \<Longrightarrow> snd (identity_bytes p raw) \<in> set (pf_names p)"
proof -
  define i where "i = unat (raw ! 0) mod length (pf_ouis p)"
  define u where "u = pf_ouis p ! i"
  have i: "i < length (pf_ouis p)" "i < 256"
    using assms(1) le_less_trans [OF mod_less_eq_dividend unat_byte_less, of "raw ! 0" "length (pf_ouis p)"]
    by (simp_all add: i_def)
  then have u: "u \<in> set (take 256 (pf_ouis p))" "length u = 3"
    using assms(3) nth_mem [OF i(1)] by (auto simp: u_def in_set_conv_nth intro!: exI [of _ i])
  have b: "fst (identity_bytes p raw) = u @ drop 3 (take 6 (drop 2 raw))"
    using assms(1) by (simp add: identity_bytes_def Let_def u_def i_def)
  show "length (fst (identity_bytes p raw)) = 6" unfolding b using u(2) assms(2) by simp
  show "take 3 (fst (identity_bytes p raw)) \<in> set (take 256 (pf_ouis p))"
    unfolding b take_oui [OF u(2)] by (rule u(1))
  show "snd (identity_bytes p raw) \<in> set (pf_names p)" if "pf_names p \<noteq> []"
    using assms(1) that by (simp add: identity_bytes_def Let_def)
qed

lemma keeps_identity [keeps_intro]:
  "keeps w_dev (generate_identity E k)" "keeps w_db (generate_identity E k)" "keeps w_stepups (generate_identity E k)"
  "keeps w_fwd (generate_identity E k)" "keeps w_note (generate_identity E k)" "keeps w_image (generate_identity E k)"
  unfolding generate_identity_def by (intro keeps_intro)+

end
