(* ===== verification/Wifi.thy ===== *)
theory Wifi
  imports Identity Uci
begin

text \<open>
  \<open>internal/netcfg/wifi.go\<close>: the travel access point, the uplink station and its identity.
  The platform's JSON outputs are decoded by the environment; the daemon's own filtering of
  them is modelled.
\<close>

definition apSection :: string where "apSection = ''mistui_ap''"

definition staSection :: string where "staSection = ''mistui_sta''"

definition uplinkNet :: string where "uplinkNet = ''wwan''"

record network =
  nw_ssid :: string
  nw_signal :: int
  nw_encryption :: string

record wifi_status =
  ws_apSsid :: string
  ws_apEnabled :: bool
  ws_uplinkSsid :: string
  ws_uplinkUp :: bool
  ws_uplinkIP :: string

definition en_dash :: string where
  "en_dash = [CHR 0xE2, CHR 0x80, CHR 0x93]"

definition valid_ssid :: "string \<Rightarrow> err option" where
  "valid_ssid s = (if length s < 1 \<or> length s > 32
     then Some (''SSID must be 1'' @ en_dash @ ''32 bytes, got '' @ dec (length s)) else None)"

definition valid_psk :: "string \<Rightarrow> err option" where
  "valid_psk k = (if length k < 8 \<or> length k > 63
     then Some (''Wi-Fi password must be 8'' @ en_dash @ ''63 characters, got '' @ dec (length k)) else None)"

text \<open>\<open>uci set wireless.section.option=value\<close>.\<close>

definition wl_set :: "string \<Rightarrow> string \<Rightarrow> string \<Rightarrow> string list" where
  "wl_set sec k v = [''uci'', ''set'', ''wireless.'' @ sec @ ''.'' @ k @ ''='' @ v]"

definition ap_cmds :: "string \<Rightarrow> string \<Rightarrow> string list list" where
  "ap_cmds ssid key =
     [[''sh'', ''-c'', ''uci -q delete wireless.default_radio0 || true''],
      wl_set ''radio0'' ''disabled'' ''0'',
      [''uci'', ''set'', ''wireless.'' @ apSection @ ''=wifi-iface''],
      wl_set apSection ''device'' ''radio0'',
      wl_set apSection ''network'' ''lan'',
      wl_set apSection ''mode'' ''ap'',
      wl_set apSection ''ssid'' ssid,
      wl_set apSection ''encryption'' ''psk2'',
      wl_set apSection ''key'' key,
      [''uci'', ''commit'', ''wireless''],
      [''wifi'', ''reload'']]"

definition set_ap :: "'d env \<Rightarrow> string \<Rightarrow> string \<Rightarrow> ('d world, err option) state" where
  "set_ap E ssid key =
     (case valid_ssid ssid of
        Some e \<Rightarrow> ret (Some e)
      | None \<Rightarrow> (case valid_psk key of
          Some e \<Rightarrow> ret (Some e)
        | None \<Rightarrow> run_all E (ap_cmds ssid key)))"

definition mac_cmds :: "identity option \<Rightarrow> string list list" where
  "mac_cmds ident =
     (if (case ident of None \<Rightarrow> True | Some i \<Rightarrow> id_mac i = [])
      then [[''sh'', ''-c'', ''uci -q delete wireless.'' @ staSection @ ''.macaddr || true'']]
      else [wl_set staSection ''macaddr'' (id_mac (the ident))])"

definition hostname_cmds :: "identity option \<Rightarrow> string list list" where
  "hostname_cmds ident =
     (if (case ident of None \<Rightarrow> True | Some i \<Rightarrow> id_host i = [])
      then [[''sh'', ''-c'', ''uci -q delete network.'' @ uplinkNet @ ''.hostname || true'']]
      else [[''uci'', ''set'', ''network.'' @ uplinkNet @ ''.hostname='' @ id_host (the ident)]])"

definition wan_script :: string where
  "wan_script =
     sh ''zone=$(uci show firewall | sed -n ~s/^firewall%.%(@zone%[[0-9]*%]%)%.name=`wan`$/%1/p~ | head -1); ''
     @ sh ''[ -n ~$zone~ ] || exit 1; ''
     @ ''uci -q get firewall.$zone.network | grep -qw '' @ uplinkNet
     @ '' || uci add_list firewall.$zone.network='' @ uplinkNet @ ''; ''
     @ ''uci commit firewall''"

definition uplink_cmds :: "string \<Rightarrow> string \<Rightarrow> identity option \<Rightarrow> string list list" where
  "uplink_cmds ssid key ident =
     [[''uci'', ''set'', ''wireless.'' @ staSection @ ''=wifi-iface''],
      wl_set staSection ''device'' ''radio0'',
      wl_set staSection ''network'' uplinkNet,
      wl_set staSection ''mode'' ''sta'',
      wl_set staSection ''ssid'' ssid,
      wl_set staSection ''encryption'' (if key \<noteq> [] then ''psk2'' else ''none'')]
     @ (if key \<noteq> [] then [wl_set staSection ''key'' key]
        else [[''sh'', ''-c'', ''uci -q delete wireless.'' @ staSection @ ''.key || true'']])
     @ mac_cmds ident
     @ [[''uci'', ''set'', ''network.'' @ uplinkNet @ ''=interface''],
        [''uci'', ''set'', ''network.'' @ uplinkNet @ ''.proto=dhcp'']]
     @ hostname_cmds ident
     @ [[''uci'', ''commit'', ''wireless''],
        [''uci'', ''commit'', ''network''],
        [''sh'', ''-c'', wan_script],
        [''/etc/init.d/network'', ''reload''],
        [''wifi'', ''reload'']]"

definition join_uplink :: "'d env \<Rightarrow> string \<Rightarrow> string \<Rightarrow> identity option \<Rightarrow> ('d world, err option) state" where
  "join_uplink E ssid key ident =
     (case valid_ssid ssid of
        Some e \<Rightarrow> ret (Some e)
      | None \<Rightarrow> (case (if key \<noteq> [] then valid_psk key else None) of
          Some e \<Rightarrow> ret (Some e)
        | None \<Rightarrow> run_all E (uplink_cmds ssid key ident)))"

text \<open>The wan script on the firewall package: \<^const>\<open>None\<close> is its exit with status 1.\<close>

definition wan_zone :: "uci_section \<Rightarrow> bool" where
  "wan_zone s \<longleftrightarrow> us_name s = [] \<and> us_type s = ''zone'' \<and> us_opts s ''name'' = [''wan'']"

definition wan_edit :: "package \<Rightarrow> package option" where
  "wan_edit fw = update_first wan_zone
     (\<lambda>s. if grep_word uplinkNet (opt_text ''network'' s) then s
          else set_opt ''network'' (us_opts s ''network'' @ [uplinkNet]) s) fw"

section \<open>Identity on a configured uplink\<close>

definition identity_cmds :: "identity \<Rightarrow> string list list" where
  "identity_cmds ident = mac_cmds (Some ident) @ hostname_cmds (Some ident)
     @ [[''uci'', ''commit'', ''wireless''], [''uci'', ''commit'', ''network''],
        [''/etc/init.d/network'', ''reload''], [''wifi'', ''reload'']]"

definition apply_sta_identity :: "'d env \<Rightarrow> identity \<Rightarrow> ('d world, err option) state" where
  "apply_sta_identity E ident = do {
     r \<leftarrow> run E [''uci'', ''-q'', ''get'', ''wireless.'' @ staSection];
     case r of
       Inl _ \<Rightarrow> ret (Some ''no uplink configured yet'')
     | Inr _ \<Rightarrow> run_all E (identity_cmds ident) }"

section \<open>Scan and status\<close>

text \<open>The first named interface of a radio that is up, in the order the map is visited.\<close>

definition up_device :: "'d env \<Rightarrow> ('d world, err + string) state" where
  "up_device E = do {
     r \<leftarrow> run E [''ubus'', ''call'', ''network.wireless'', ''status''];
     ret (case r of
            Inl e \<Rightarrow> Inl e
          | Inr out \<Rightarrow>
             (case json_radios E out of
                None \<Rightarrow> Inl ''wireless status parse''
              | Some radios \<Rightarrow>
                 (case filter (\<lambda>n. n \<noteq> []) (concat (map snd (filter fst radios))) of
                    [] \<Rightarrow> Inl (''no wireless interface is up '' @ [CHR 0xE2, CHR 0x80, CHR 0x94]
                              @ '' set the travel Wi-Fi first'')
                  | n # _ \<Rightarrow> Inr n))) }"

text \<open>At most ten more attempts, a second apart, unless the request is cancelled.\<close>

fun wait_device :: "'d env \<Rightarrow> nat \<Rightarrow> err + string \<Rightarrow> ('d world, err + string) state" where
  "wait_device E 0 r = ret r"
| "wait_device E (Suc n) r =
     (case r of
        Inr d \<Rightarrow> ret (Inr d)
      | Inl _ \<Rightarrow> do {
          stop \<leftarrow> observe E (\<lambda>k d. ctx_done E k);
          if stop then ret (Inl ''context deadline exceeded'')
          else do { r' \<leftarrow> up_device E; wait_device E n r' } })"

text \<open>Hidden networks and repeated names are dropped, the first of each name stays.\<close>

fun scan_filter :: "string set \<Rightarrow> scan_entry list \<Rightarrow> network list" where
  "scan_filter seen [] = []"
| "scan_filter seen (r # rs) =
     (if sc_ssid r = [] \<or> sc_ssid r \<in> seen then scan_filter seen rs
      else \<lparr>nw_ssid = sc_ssid r, nw_signal = sc_signal r,
             nw_encryption = (if sc_enabled r then ''psk'' else ''none'')\<rparr>
           # scan_filter (insert (sc_ssid r) seen) rs)"

text \<open>The Go quoting of a device name in the request argument, for names that need no escape.\<close>

definition scan_arg :: "string \<Rightarrow> string" where
  "scan_arg dev = sh ''{~device~:~'' @ dev @ sh ''~}''"

definition wifi_scan :: "'d env \<Rightarrow> ('d world, err + network list) state" where
  "wifi_scan E = do {
     r0 \<leftarrow> up_device E;
     r \<leftarrow> wait_device E 10 r0;
     case r of
       Inl e \<Rightarrow> ret (Inl e)
     | Inr dev \<Rightarrow> do {
         o1 \<leftarrow> run E [''ubus'', ''call'', ''iwinfo'', ''scan'', scan_arg dev];
         ret (case o1 of
                Inl e \<Rightarrow> Inl e
              | Inr out \<Rightarrow>
                 (case json_scan E out of
                    None \<Rightarrow> Inl ''scan parse''
                  | Some rs \<Rightarrow> Inr (scan_filter {} rs))) } }"

definition wifi_get_status :: "'d env \<Rightarrow> ('d world, wifi_status) state" where
  "wifi_get_status E = do {
     a \<leftarrow> run E [''uci'', ''-q'', ''get'', ''wireless.'' @ apSection @ ''.ssid''];
     s \<leftarrow> run E [''uci'', ''-q'', ''get'', ''wireless.'' @ staSection @ ''.ssid''];
     u \<leftarrow> run E [''ubus'', ''call'', ''network.interface.'' @ uplinkNet, ''status''];
     let ap = (case a of Inl _ \<Rightarrow> [] | Inr x \<Rightarrow> x);
         st = \<lparr>ws_apSsid = ap, ws_apEnabled = (ap \<noteq> []),
               ws_uplinkSsid = (case s of Inl _ \<Rightarrow> [] | Inr x \<Rightarrow> x),
               ws_uplinkUp = False, ws_uplinkIP = []\<rparr>
     in ret (case u of
               Inl _ \<Rightarrow> st
             | Inr out \<Rightarrow>
                (case json_ifstatus E out of
                   None \<Rightarrow> st
                 | Some (up, ips) \<Rightarrow>
                    st\<lparr>ws_uplinkUp := up, ws_uplinkIP := (case ips of [] \<Rightarrow> [] | ip # _ \<Rightarrow> ip)\<rparr>)) }"

lemma scan_filter_distinct:
  "distinct (map nw_ssid (scan_filter seen rs)) \<and> set (map nw_ssid (scan_filter seen rs)) \<inter> seen = {}
   \<and> set (map nw_ssid (scan_filter seen rs)) \<subseteq> set (map sc_ssid rs) - {[]}"
proof (induction seen rs rule: scan_filter.induct)
  case (2 seen r rs)
  then show ?case by (cases "sc_ssid r = [] \<or> sc_ssid r \<in> seen") auto
qed simp

lemma keeps_wait [keeps_intro]:
  assumes "keeps v (observe E (\<lambda>k d. ctx_done E k))" "keeps v (up_device E)"
  shows "keeps v (wait_device E n r)"
proof (induction n arbitrary: r)
  case (Suc n)
  show ?case unfolding wait_device.simps by (intro keeps_intro assms Suc)
qed (simp add: keeps_def)

lemma keeps_up_device [keeps_intro]:
  "keeps w_db (up_device E)" "keeps w_stepups (up_device E)" "keeps w_fwd (up_device E)"
  "keeps w_note (up_device E)" "keeps w_image (up_device E)"
  unfolding up_device_def by (intro keeps_intro)+

lemma keeps_wifi [keeps_intro]:
  "keeps w_db (set_ap E s k)" "keeps w_stepups (set_ap E s k)" "keeps w_fwd (set_ap E s k)"
  "keeps w_note (set_ap E s k)" "keeps w_image (set_ap E s k)"
  "keeps w_db (join_uplink E s k i)" "keeps w_stepups (join_uplink E s k i)" "keeps w_fwd (join_uplink E s k i)"
  "keeps w_note (join_uplink E s k i)" "keeps w_image (join_uplink E s k i)"
  "keeps w_db (apply_sta_identity E j)" "keeps w_stepups (apply_sta_identity E j)"
  "keeps w_fwd (apply_sta_identity E j)" "keeps w_note (apply_sta_identity E j)"
  "keeps w_image (apply_sta_identity E j)"
  "keeps w_db (wifi_scan E)" "keeps w_stepups (wifi_scan E)" "keeps w_fwd (wifi_scan E)"
  "keeps w_note (wifi_scan E)" "keeps w_image (wifi_scan E)"
  "keeps w_db (wifi_get_status E)" "keeps w_stepups (wifi_get_status E)" "keeps w_fwd (wifi_get_status E)"
  "keeps w_note (wifi_get_status E)" "keeps w_image (wifi_get_status E)"
  unfolding set_ap_def join_uplink_def apply_sta_identity_def wifi_scan_def wifi_get_status_def
  by (intro keeps_intro)+

end
