(* ===== verification/Http_Net.thy ===== *)
theory Http_Net
  imports Http_Dns Wifi
begin

text \<open>
  The VPN handlers of \<open>internal/httpapi/api.go\<close> and the handlers of \<open>netops.go\<close>: travel
  network, uplink, kill switch, MAC schedule and profile, and the daily rotation.  A request
  body is what it decodes to, \<^const>\<open>None\<close> when it does not.
\<close>

section \<open>Texts of the configuration errors\<close>

text \<open>The quoting of \<open>%q\<close> for printable text: a backslash before a double quote or a backslash.\<close>

definition go_quote :: "string \<Rightarrow> string" where
  "go_quote s = CHR 0x22 # concat (map (\<lambda>c. if c = CHR 0x22 \<or> c = CHR 0x5C then [CHR 0x5C, c] else [c]) s) @ [CHR 0x22]"

text \<open>The messages of \<open>ParseConfig\<close>; the reason a bad endpoint was refused for, which the
  \<open>net\<close> package words, is the argument.\<close>

fun config_error_text :: "(string \<Rightarrow> string) \<Rightarrow> config_error \<Rightarrow> string" where
  "config_error_text why (MultipleInterface n) = ''line '' @ dec n @ '': multiple [Interface] sections''"
| "config_error_text why (UnknownSection n s) = ''line '' @ dec n @ '': unknown section ['' @ s @ '']''"
| "config_error_text why (ExpectedKeyValue n) = ''line '' @ dec n @ '': expected key = value''"
| "config_error_text why (EmptyValue n k) = ''line '' @ dec n @ '': empty value for '' @ k"
| "config_error_text why (ScriptOption n k) = ''line '' @ dec n @ '': '' @ k
     @ '' is not supported (wg-quick script options don'' @ [CHR 0x27] @ ''t apply)''"
| "config_error_text why (UnknownInterfaceKey n k) = ''line '' @ dec n @ '': unknown [Interface] key '' @ go_quote k"
| "config_error_text why (BadEndpoint n v) = ''line '' @ dec n @ '': bad Endpoint '' @ go_quote v @ '': '' @ why v"
| "config_error_text why (UnknownPeerKey n k) = ''line '' @ dec n @ '': unknown [Peer] key '' @ go_quote k"
| "config_error_text why (OutsideSection n) = ''line '' @ dec n @ '': key outside any section''"
| "config_error_text why (MissingKey k) = ''missing '' @ k"
| "config_error_text why (BadKey k) = k @ '' is not a valid WireGuard key''"
| "config_error_text why NoAddress = ''[Interface] has no Address''"
| "config_error_text why (BadAddress a) = ''bad Address '' @ go_quote a"
| "config_error_text why (BadMTU m) = ''bad MTU '' @ go_quote m"
| "config_error_text why NoPeer = ''no [Peer] section''"
| "config_error_text why (PeerError i e) = ''peer '' @ dec i @ '': '' @ config_error_text why e"
| "config_error_text why NoAllowedIPs = ''no AllowedIPs''"
| "config_error_text why (BadAllowedIP a) = ''bad AllowedIPs entry '' @ go_quote a"
| "config_error_text why (BadKeepalive k) = ''bad PersistentKeepalive '' @ go_quote k"

definition error_json :: "string \<Rightarrow> (string \<times> json) list" where
  "error_json m = [(''error'', JStr m)]"

section \<open>VPN\<close>

definition vpn_import :: "'d env \<Rightarrow> (string \<Rightarrow> string) \<Rightarrow> string option \<Rightarrow> ('d world, response) state" where
  "vpn_import E why req =
     (case req of
        None \<Rightarrow> ret bad_request
      | Some text \<Rightarrow>
         (if text = [] then ret bad_request
          else (case parse_config text of
             Inl e \<Rightarrow> ret (write_json StatusUnprocessableEntity (error_json (config_error_text why e)))
           | Inr cfg \<Rightarrow> do {
               let sum = config_summary cfg in do {
               pinned \<leftarrow> pin_endpoints E cfg;
               e \<leftarrow> vpn_import_config E pinned;
               if e \<noteq> None then ret (http_error ''import failed'' StatusBadGateway)
               else do {
                 ok \<leftarrow> put_config E vpnSummaryKey (json_summary E sum);
                 if \<not> ok then ret internal_error
                 else ret (write_json StatusOK
                        [(''imported'', JBool True), (''summary'', JRaw (json_summary E sum))]) } } })))"

definition vpn_config_get :: "'d env \<Rightarrow> ('d world, response) state" where
  "vpn_config_get E = do {
     raw \<leftarrow> config E vpnSummaryKey;
     ret (case raw of
            None \<Rightarrow> internal_error
          | Some None \<Rightarrow> write_json StatusOK [(''configured'', JBool False)]
          | Some (Some s) \<Rightarrow> write_json StatusOK [(''configured'', JBool True), (''summary'', JRaw s)]) }"

definition vpn_up_handler :: "'d env \<Rightarrow> ('d world, response) state" where
  "vpn_up_handler E = do {
     e \<leftarrow> vpn_up E Iface;
     ret (if e \<noteq> None then http_error ''vpn up failed'' StatusBadGateway
          else write_json StatusOK [(''state'', JStr ''up''), (''iface'', JStr Iface)]) }"

definition vpn_down_handler :: "'d env \<Rightarrow> ('d world, response) state" where
  "vpn_down_handler E = do {
     e \<leftarrow> vpn_down E Iface;
     ret (if e \<noteq> None then http_error ''vpn down failed'' StatusBadGateway
          else write_json StatusOK [(''state'', JStr ''down''), (''iface'', JStr Iface)]) }"

definition vpn_status_handler :: "'d env \<Rightarrow> ('d world, response) state" where
  "vpn_status_handler E = do {
     r \<leftarrow> vpn_status E;
     ret (case r of
            Inl _ \<Rightarrow> write_json StatusOK [(''up'', JBool False)]
          | Inr out \<Rightarrow> write_json StatusOK [(''up'', JBool (out \<noteq> [])), (''detail'', JStr out)]) }"

section \<open>MAC policy\<close>

definition macScheduleKey :: string where "macScheduleKey = ''mac_schedule''"

definition macProfileKey :: string where "macProfileKey = ''mac_profile''"

definition macLastRollKey :: string where "macLastRollKey = ''mac_last_roll''"

definition macScheduleModes :: "string list" where "macScheduleModes = [''off'', ''on-join'', ''daily'']"

definition mac_schedule :: "'d env \<Rightarrow> ('d world, string) state" where
  "mac_schedule E = do {
     v \<leftarrow> config E macScheduleKey;
     ret (case v of
            None \<Rightarrow> ''on-join''
          | Some None \<Rightarrow> ''on-join''
          | Some (Some s) \<Rightarrow> if s \<noteq> [] then s else ''on-join'') }"

definition mac_profile :: "'d env \<Rightarrow> ('d world, string) state" where
  "mac_profile E = do {
     v \<leftarrow> config E macProfileKey;
     ret (case v of
            None \<Rightarrow> ''generic''
          | Some None \<Rightarrow> ''generic''
          | Some (Some s) \<Rightarrow> if s \<noteq> [] \<and> valid_profile s then s else ''generic'') }"

definition record_roll :: "'d env \<Rightarrow> ('d world, unit) state" where
  "record_roll E = do {
     now \<leftarrow> time_now E;
     _ \<leftarrow> put_config E macLastRollKey (time_format E now);
     ret () }"

definition identity_json :: "identity \<Rightarrow> json" where
  "identity_json i = JObj ([(''mac'', JStr (id_mac i))]
     @ (if id_host i \<noteq> [] then [(''hostname'', JStr (id_host i))] else [])
     @ [(''profile'', JStr (id_profile i))])"

definition mac_schedule_get :: "'d env \<Rightarrow> ('d world, response) state" where
  "mac_schedule_get E = do { m \<leftarrow> mac_schedule E; ret (write_json StatusOK [(''mode'', JStr m)]) }"

definition mac_schedule_set :: "'d env \<Rightarrow> string option \<Rightarrow> ('d world, response) state" where
  "mac_schedule_set E req =
     (case req of
        None \<Rightarrow> ret (http_error ''mode must be off, on-join, or daily'' StatusBadRequest)
      | Some m \<Rightarrow>
         (if m \<notin> set macScheduleModes
          then ret (http_error ''mode must be off, on-join, or daily'' StatusBadRequest)
          else do {
            ok \<leftarrow> put_config E macScheduleKey m;
            ret (if \<not> ok then internal_error else write_json StatusOK [(''mode'', JStr m)]) }))"

definition mac_profile_get :: "'d env \<Rightarrow> ('d world, response) state" where
  "mac_profile_get E = do {
     p \<leftarrow> mac_profile E;
     ret (write_json StatusOK [(''current'', JStr p),
       (''profiles'', JList (map (\<lambda>(k, l). JObj [(''key'', JStr k), (''label'', JStr l)]) profile_infos))]) }"

definition mac_profile_set :: "'d env \<Rightarrow> string option \<Rightarrow> ('d world, response) state" where
  "mac_profile_set E req =
     (case req of
        None \<Rightarrow> ret (http_error ''unknown identity profile'' StatusBadRequest)
      | Some p \<Rightarrow>
         (if \<not> valid_profile p then ret (http_error ''unknown identity profile'' StatusBadRequest)
          else do {
            ok \<leftarrow> put_config E macProfileKey p;
            ret (if \<not> ok then internal_error else write_json StatusOK [(''profile'', JStr p)]) }))"

definition roll_mac :: "'d env \<Rightarrow> ('d world, response) state" where
  "roll_mac E = do {
     p \<leftarrow> mac_profile E;
     i \<leftarrow> generate_identity E p;
     case i of
       None \<Rightarrow> ret internal_error
     | Some ident \<Rightarrow> do {
         e \<leftarrow> apply_sta_identity E ident;
         case e of
           Some m \<Rightarrow> ret (write_json StatusUnprocessableEntity (error_json m))
         | None \<Rightarrow> do {
             _ \<leftarrow> record_roll E;
             ret (write_json StatusOK [(''identity'', identity_json ident)]) } } }"

text \<open>One wake-up of the rotation loop, and the loop over its wake-ups.\<close>

definition mac_roll_due :: "'d env \<Rightarrow> ('d world, bool) state" where
  "mac_roll_due E = do {
     last \<leftarrow> config E macLastRollKey;
     case last of
       None \<Rightarrow> ret True
     | Some None \<Rightarrow> ret True
     | Some (Some s) \<Rightarrow>
        (if s = [] then ret True
         else (case time_parse E s of
                 None \<Rightarrow> ret True
               | Some t \<Rightarrow> do { now \<leftarrow> time_now E; ret (\<not> now - t < 24 * hour) })) }"

definition mac_tick :: "'d env \<Rightarrow> ('d world, unit) state" where
  "mac_tick E = do {
     m \<leftarrow> mac_schedule E;
     if m \<noteq> ''daily'' then ret ()
     else do {
       due \<leftarrow> mac_roll_due E;
       if \<not> due then ret ()
       else do {
         p \<leftarrow> mac_profile E;
         i \<leftarrow> generate_identity E p;
         case i of
           None \<Rightarrow> ret ()
         | Some ident \<Rightarrow> do {
             e \<leftarrow> apply_sta_identity E ident;
             if e \<noteq> None then ret () else record_roll E } } } }"

primrec run_mac_schedule :: "'d env \<Rightarrow> nat \<Rightarrow> ('d world, unit) state" where
  "run_mac_schedule E 0 = ret ()"
| "run_mac_schedule E (Suc n) = do { _ \<leftarrow> mac_tick E; run_mac_schedule E n }"

section \<open>Wi-Fi\<close>

definition status_json :: "wifi_status \<Rightarrow> (string \<times> json) list" where
  "status_json s =
     (if ws_apSsid s \<noteq> [] then [(''apSsid'', JStr (ws_apSsid s))] else [])
     @ [(''apEnabled'', JBool (ws_apEnabled s))]
     @ (if ws_uplinkSsid s \<noteq> [] then [(''uplinkSsid'', JStr (ws_uplinkSsid s))] else [])
     @ [(''uplinkUp'', JBool (ws_uplinkUp s))]
     @ (if ws_uplinkIP s \<noteq> [] then [(''uplinkIp'', JStr (ws_uplinkIP s))] else [])"

definition wifi_status_handler :: "'d env \<Rightarrow> ('d world, response) state" where
  "wifi_status_handler E = do { s \<leftarrow> wifi_get_status E; ret (write_json StatusOK (status_json s)) }"

definition network_json :: "network \<Rightarrow> json" where
  "network_json n = JObj [(''ssid'', JStr (nw_ssid n)), (''signal'', JInt (nw_signal n)),
     (''encryption'', JStr (nw_encryption n))]"

definition wifi_scan_handler :: "'d env \<Rightarrow> ('d world, response) state" where
  "wifi_scan_handler E = do {
     r \<leftarrow> wifi_scan E;
     ret (case r of
            Inl m \<Rightarrow> write_json StatusBadGateway (error_json m)
          | Inr ns \<Rightarrow> write_json StatusOK
              [(''networks'', if ns = [] then JNull else JList (map network_json ns))]) }"

definition wifi_set_ap :: "'d env \<Rightarrow> (string \<times> string) option \<Rightarrow> ('d world, response) state" where
  "wifi_set_ap E req =
     (case req of
        None \<Rightarrow> ret bad_request
      | Some (ssid, key) \<Rightarrow> do {
          e \<leftarrow> set_ap E ssid key;
          case e of
            Some m \<Rightarrow> ret (write_json StatusUnprocessableEntity (error_json m))
          | None \<Rightarrow> do {
              _ \<leftarrow> apply_dns_default E;
              ret (write_json StatusOK [(''apSsid'', JStr ssid)]) } })"

text \<open>The identity for a join: the outer \<^const>\<open>None\<close> is the generator's error.\<close>

definition join_identity :: "'d env \<Rightarrow> ('d world, identity option option) state" where
  "join_identity E = do {
     m \<leftarrow> mac_schedule E;
     if m = ''off'' then ret (Some None)
     else do {
       p \<leftarrow> mac_profile E;
       i \<leftarrow> generate_identity E p;
       ret (case i of None \<Rightarrow> None | Some ident \<Rightarrow> Some (Some ident)) } }"

definition wifi_join_uplink :: "'d env \<Rightarrow> (string \<times> string) option \<Rightarrow> ('d world, response) state" where
  "wifi_join_uplink E req =
     (case req of
        None \<Rightarrow> ret bad_request
      | Some (ssid, key) \<Rightarrow> do {
          ji \<leftarrow> join_identity E;
          case ji of
            None \<Rightarrow> ret internal_error
          | Some ident \<Rightarrow> do {
              e \<leftarrow> join_uplink E ssid key ident;
              case e of
                Some m \<Rightarrow> ret (write_json StatusUnprocessableEntity (error_json m))
              | None \<Rightarrow> do {
                  _ \<leftarrow> (if ident \<noteq> None then record_roll E else ret ());
                  _ \<leftarrow> kick_portal_watch;
                  ret (write_json StatusOK ([(''joining'', JStr ssid)]
                    @ (case ident of None \<Rightarrow> [] | Some i \<Rightarrow> [(''identity'', identity_json i)]))) } } })"

section \<open>Kill switch\<close>

definition kill_switch_get :: "'d env \<Rightarrow> ('d world, response) state" where
  "kill_switch_get E = do {
     r \<leftarrow> kill_switch E;
     ret (case r of
            None \<Rightarrow> http_error ''status failed'' StatusBadGateway
          | Some b \<Rightarrow> write_json StatusOK [(''enabled'', JBool b)]) }"

definition kill_switch_set :: "'d env \<Rightarrow> bool option \<Rightarrow> ('d world, response) state" where
  "kill_switch_set E req =
     (case req of
        None \<Rightarrow> ret bad_request
      | Some enabled \<Rightarrow> do {
          e \<leftarrow> set_kill_switch E enabled;
          if e \<noteq> None then ret (http_error ''kill switch change failed'' StatusBadGateway)
          else do {
            dns \<leftarrow> dns_enabled E;
            e2 \<leftarrow> (if dns = Some True then set_fail_closed E enabled else ret None);
            if e2 \<noteq> None
            then ret (http_error ''kill switch changed, but the DNS fail-closed rule failed'' StatusBadGateway)
            else do {
              _ \<leftarrow> cancel_portal_mode E ''you changed the kill switch manually'';
              ret (write_json StatusOK [(''enabled'', JBool enabled)]) } } })"

section \<open>Frames\<close>

lemmas keeps_creds_net [keeps_intro] =
  keeps_wifi(1,6,11,16,21) [THEN keeps_db_comp [where g = db_creds]]
  keeps_identity(2) [THEN keeps_db_comp [where g = db_creds]]

lemma keeps_mac [keeps_intro]:
  "keeps w_db (mac_schedule E)" "keeps w_dev (mac_schedule E)" "keeps w_stepups (mac_schedule E)"
  "keeps w_db (mac_profile E)" "keeps w_dev (mac_profile E)" "keeps w_stepups (mac_profile E)"
  "keeps w_db (join_identity E)" "keeps w_dev (join_identity E)" "keeps w_stepups (join_identity E)"
  "keeps (\<lambda>w. db_creds (w_db w)) (record_roll E)" "keeps w_dev (record_roll E)" "keeps w_stepups (record_roll E)"
  "keeps w_db (mac_roll_due E)" "keeps w_stepups (mac_roll_due E)"
  unfolding join_identity_def mac_schedule_def mac_profile_def record_roll_def mac_roll_due_def
  by (intro keeps_intro)+

lemmas keeps_creds_mac [keeps_intro] =
  keeps_mac(1,4,7,13) [THEN keeps_db_comp [where g = db_creds]]

lemma keeps_creds_handlers [keeps_intro]:
  "keeps (\<lambda>w. db_creds (w_db w)) (vpn_import E why rq)" "keeps (\<lambda>w. db_creds (w_db w)) (vpn_config_get E)"
  "keeps (\<lambda>w. db_creds (w_db w)) (vpn_up_handler E)" "keeps (\<lambda>w. db_creds (w_db w)) (vpn_down_handler E)"
  "keeps (\<lambda>w. db_creds (w_db w)) (vpn_status_handler E)"
  "keeps (\<lambda>w. db_creds (w_db w)) (mac_schedule_get E)" "keeps (\<lambda>w. db_creds (w_db w)) (mac_schedule_set E s)"
  "keeps (\<lambda>w. db_creds (w_db w)) (mac_profile_get E)" "keeps (\<lambda>w. db_creds (w_db w)) (mac_profile_set E s)"
  "keeps (\<lambda>w. db_creds (w_db w)) (roll_mac E)" "keeps (\<lambda>w. db_creds (w_db w)) (mac_tick E)"
  "keeps (\<lambda>w. db_creds (w_db w)) (wifi_status_handler E)" "keeps (\<lambda>w. db_creds (w_db w)) (wifi_scan_handler E)"
  "keeps (\<lambda>w. db_creds (w_db w)) (wifi_set_ap E p)" "keeps (\<lambda>w. db_creds (w_db w)) (wifi_join_uplink E p)"
  "keeps (\<lambda>w. db_creds (w_db w)) (kill_switch_get E)" "keeps (\<lambda>w. db_creds (w_db w)) (kill_switch_set E b)"
  unfolding vpn_import_def vpn_config_get_def vpn_up_handler_def vpn_down_handler_def vpn_status_handler_def
    mac_schedule_get_def mac_schedule_set_def mac_profile_get_def mac_profile_set_def roll_mac_def mac_tick_def
    wifi_status_handler_def wifi_scan_handler_def wifi_set_ap_def wifi_join_uplink_def kill_switch_get_def
    kill_switch_set_def
  by (intro keeps_intro)+

lemma keeps_stepups_handlers [keeps_intro]:
  "keeps w_stepups (vpn_import E why rq)" "keeps w_stepups (vpn_config_get E)"
  "keeps w_stepups (vpn_up_handler E)" "keeps w_stepups (vpn_down_handler E)" "keeps w_stepups (vpn_status_handler E)"
  "keeps w_stepups (mac_schedule_get E)" "keeps w_stepups (mac_schedule_set E s)"
  "keeps w_stepups (mac_profile_get E)" "keeps w_stepups (mac_profile_set E s)"
  "keeps w_stepups (roll_mac E)" "keeps w_stepups (mac_tick E)"
  "keeps w_stepups (wifi_status_handler E)" "keeps w_stepups (wifi_scan_handler E)"
  "keeps w_stepups (wifi_set_ap E p)" "keeps w_stepups (wifi_join_uplink E p)"
  "keeps w_stepups (kill_switch_get E)" "keeps w_stepups (kill_switch_set E b)"
  unfolding vpn_import_def vpn_config_get_def vpn_up_handler_def vpn_down_handler_def vpn_status_handler_def
    mac_schedule_get_def mac_schedule_set_def mac_profile_get_def mac_profile_set_def roll_mac_def mac_tick_def
    wifi_status_handler_def wifi_scan_handler_def wifi_set_ap_def wifi_join_uplink_def kill_switch_get_def
    kill_switch_set_def
  by (intro keeps_intro)+

end
