(* ===== verification/Maint.thy ===== *)
theory Maint
  imports World
begin

text \<open>
  \<open>internal/maint/maint.go\<close>: firmware upload, validation and flashing, factory reset, board
  information.  The pending image is a field of the world; the destructive commands are
  started detached.
\<close>

definition ImagePath :: string where "ImagePath = ''/tmp/mistui-firmware.bin''"

definition MaxImageSize :: nat where "MaxImageSize = 64 * 2 ^ 20"

definition board_info :: "'d env \<Rightarrow> ('d world, err + board) state" where
  "board_info E = do {
     r \<leftarrow> run E [''ubus'', ''call'', ''system'', ''board''];
     ret (case r of
            Inl e \<Rightarrow> Inl e
          | Inr out \<Rightarrow> (case json_board E out of None \<Rightarrow> Inl ''board parse'' | Some b \<Rightarrow> Inr b)) }"

text \<open>
  An upload as it arrives: the bytes up to the end of the body or to the error that cut it.
  \<open>MaxBytesReader\<close> turns a body above the limit into such an error.
\<close>

record upload =
  up_bytes :: bytes
  up_cut :: bool

definition max_bytes_reader :: "nat \<Rightarrow> upload \<Rightarrow> upload" where
  "max_bytes_reader limit u =
     (if length (up_bytes u) > limit then \<lparr>up_bytes = take limit (up_bytes u), up_cut = True\<rparr> else u)"

text \<open>
  \<open>SaveImage\<close>: open (truncating), copy, close; any failure after the open removes the file.
  The three outcomes are read in this order.
\<close>

definition save_image :: "'d env \<Rightarrow> upload \<Rightarrow> ('d world, nat option) state" where
  "save_image E u = do {
     opened \<leftarrow> io_ok E;
     if \<not> opened then ret None
     else do {
       wrote \<leftarrow> io_ok E;
       closed \<leftarrow> io_ok E;
       if up_cut u \<or> \<not> wrote \<or> \<not> closed then do {
         _ \<leftarrow> modify (\<lambda>w. w\<lparr>w_image := None\<rparr>);
         ret None }
       else do {
         _ \<leftarrow> modify (\<lambda>w. w\<lparr>w_image := Some (up_bytes u)\<rparr>);
         ret (Some (length (up_bytes u))) } } }"

definition image_size :: "('d world, nat) state" where
  "image_size = get_world (\<lambda>w. case w_image w of None \<Rightarrow> 0 | Some b \<Rightarrow> length b)"

definition test_image :: "'d env \<Rightarrow> ('d world, err option) state" where
  "test_image E = do {
     r \<leftarrow> run E [''sysupgrade'', ''--test'', ImagePath];
     ret (case r of Inl e \<Rightarrow> Some e | Inr _ \<Rightarrow> None) }"

definition flash_argv :: "string list" where
  "flash_argv = [''sh'', ''-c'', ''sleep 2; exec sysupgrade '' @ ImagePath]"

definition reset_argv :: "string list" where
  "reset_argv = [''sh'', ''-c'', ''sleep 2; jffs2reset -y; reboot'']"

definition flash :: "'d env \<Rightarrow> ('d world, err option) state" where
  "flash E = detach E flash_argv"

definition factory_reset :: "'d env \<Rightarrow> ('d world, err option) state" where
  "factory_reset E = detach E reset_argv"

lemma keeps_maint [keeps_intro]:
  "keeps w_db (board_info E)" "keeps w_db (save_image E u)" "keeps w_db image_size" "keeps w_db (test_image E)"
  "keeps w_db (flash E)" "keeps w_db (factory_reset E)"
  "keeps w_stepups (board_info E)" "keeps w_stepups (save_image E u)" "keeps w_stepups image_size"
  "keeps w_stepups (test_image E)" "keeps w_stepups (flash E)" "keeps w_stepups (factory_reset E)"
  "keeps w_dev (save_image E u)" "keeps w_dev image_size"
  "keeps w_image (board_info E)" "keeps w_image image_size" "keeps w_image (test_image E)"
  "keeps w_image (flash E)" "keeps w_image (factory_reset E)"
  "keeps w_fwd (board_info E)" "keeps w_fwd (save_image E u)" "keeps w_fwd image_size" "keeps w_fwd (test_image E)"
  "keeps w_fwd (flash E)" "keeps w_fwd (factory_reset E)"
  "keeps w_note (board_info E)" "keeps w_note (save_image E u)" "keeps w_note image_size" "keeps w_note (test_image E)"
  "keeps w_note (flash E)" "keeps w_note (factory_reset E)"
  unfolding board_info_def save_image_def image_size_def test_image_def flash_def factory_reset_def
  by (intro keeps_intro; simp add: keeps_def)+

text \<open>A saved image is the whole upload; a failed save leaves none behind, except when the
  file could not even be opened.\<close>

lemma save_image_result:
  "result (save_image E u) w = Some n \<Longrightarrow> w_image (final (save_image E u) w) = Some (up_bytes u)
     \<and> n = length (up_bytes u) \<and> \<not> up_cut u"
  "result (save_image E u) w = None \<Longrightarrow> w_image (final (save_image E u) w) = (if io_fault E (w_n w) then w_image w else None)"
  by (auto simp: save_image_def split: if_splits)

lemma max_bytes_limit: "\<not> up_cut (max_bytes_reader n u) \<Longrightarrow> length (up_bytes (max_bytes_reader n u)) \<le> n"
  by (auto simp: max_bytes_reader_def)

end
