(* ===== verification/Api.thy ===== *)
theory Api
  imports Http_Net Maint
begin

text \<open>
  The maintenance handlers (\<open>internal/httpapi/maintops.go\<close>), health and session state, and the
  route table of \<open>api.go\<close>: \<open>handle\<close> is what a request does, with the gates of its route.
  A request is an endpoint with its decoded body, and the session token of its cookie.
\<close>

section \<open>Maintenance\<close>

definition board_json :: "board \<Rightarrow> json" where
  "board_json b = JObj [(''model'', JStr (bd_model b)), (''boardName'', JStr (bd_board b)),
     (''release'', JStr (bd_release b)), (''target'', JStr (bd_target b))]"

definition maint_board :: "'d env \<Rightarrow> ('d world, response) state" where
  "maint_board E = do {
     r \<leftarrow> board_info E;
     case r of
       Inl _ \<Rightarrow> ret (http_error ''board info failed'' StatusBadGateway)
     | Inr b \<Rightarrow> do {
         n \<leftarrow> image_size;
         ret (write_json StatusOK [(''board'', board_json b), (''imageSize'', JInt (int n))]) } }"

definition maint_firmware_upload :: "'d env \<Rightarrow> upload \<Rightarrow> ('d world, response) state" where
  "maint_firmware_upload E u = do {
     n \<leftarrow> save_image E (max_bytes_reader MaxImageSize u);
     case n of
       None \<Rightarrow> ret (http_error ''upload failed'' StatusBadRequest)
     | Some k \<Rightarrow> do {
         e \<leftarrow> test_image E;
         ret (case e of
                Some m \<Rightarrow> write_json StatusUnprocessableEntity
                  [(''valid'', JBool False), (''size'', JInt (int k)), (''error'', JStr m)]
              | None \<Rightarrow> write_json StatusOK [(''valid'', JBool True), (''size'', JInt (int k))]) } }"

definition maint_firmware_flash :: "'d env \<Rightarrow> ('d world, response) state" where
  "maint_firmware_flash E = do {
     n \<leftarrow> image_size;
     if n = 0 then ret (http_error ''no image uploaded'' StatusConflict)
     else do {
       e \<leftarrow> test_image E;
       case e of
         Some m \<Rightarrow> ret (write_json StatusUnprocessableEntity (error_json m))
       | None \<Rightarrow> do {
           f \<leftarrow> flash E;
           ret (if f \<noteq> None then http_error ''flash failed to start'' StatusBadGateway
                else write_json StatusOK [(''flashing'', JBool True)]) } } }"

definition maint_factory_reset :: "'d env \<Rightarrow> ('d world, response) state" where
  "maint_factory_reset E = do {
     f \<leftarrow> factory_reset E;
     ret (if f \<noteq> None then http_error ''factory reset failed to start'' StatusBadGateway
          else write_json StatusOK [(''resetting'', JBool True)]) }"

section \<open>Health and session state\<close>

definition health :: "'d env \<Rightarrow> ('d world, response) state" where
  "health E = do {
     p \<leftarrow> provisioned E;
     ret (write_json StatusOK [(''ok'', JBool True), (''provisioned'', JBool p)]) }"

definition session_state :: "'d env \<Rightarrow> string \<Rightarrow> ('d world, response) state" where
  "session_state E tok = do {
     v \<leftarrow> session_valid E tok False;
     ret (write_json StatusOK [(''authenticated'', JBool v)]) }"

section \<open>Routes\<close>

datatype endpoint =
    Health | SessionState | RegisterBegin | RegisterFinish "register_req option" | LoginBegin
  | LoginFinish "login_req option" | LoginRecovery "string option" | Logout
  | StepUpBegin | StepUpFinish "login_req option" | RecoveryRegenerate
  | VpnImport "string option" | VpnConfig | VpnUp | VpnDown | VpnStatus
  | KillSwitchGet | KillSwitchSet "bool option"
  | WifiStatus | WifiScan | WifiAp "(string \<times> string) option" | WifiUplink "(string \<times> string) option"
  | NetPortal | NetPortalMode "bool option"
  | DnsGet | DnsSet "bool option" | DnsProvider "string option"
  | MacScheduleGet | MacScheduleSet "string option" | MacProfileGet | MacProfileSet "string option" | RollMac
  | MaintBoard | FirmwareUpload upload | FirmwareFlash | FactoryReset

text \<open>The handler of a route, without its gates.\<close>

definition handler :: "'d env \<Rightarrow> (string \<Rightarrow> string) \<Rightarrow> string \<Rightarrow> endpoint \<Rightarrow> ('d world, response) state" where
  "handler E why tok ep = (case ep of
     Health \<Rightarrow> health E | SessionState \<Rightarrow> session_state E tok
   | RegisterBegin \<Rightarrow> register_begin E tok | RegisterFinish rq \<Rightarrow> register_finish E tok rq
   | LoginBegin \<Rightarrow> login_begin E | LoginFinish rq \<Rightarrow> login_finish E rq
   | LoginRecovery c \<Rightarrow> login_recovery E c | Logout \<Rightarrow> logout E tok
   | StepUpBegin \<Rightarrow> step_up_begin E | StepUpFinish rq \<Rightarrow> step_up_finish E tok rq
   | RecoveryRegenerate \<Rightarrow> recovery_regenerate E
   | VpnImport t \<Rightarrow> vpn_import E why t | VpnConfig \<Rightarrow> vpn_config_get E | VpnUp \<Rightarrow> vpn_up_handler E
   | VpnDown \<Rightarrow> vpn_down_handler E | VpnStatus \<Rightarrow> vpn_status_handler E
   | KillSwitchGet \<Rightarrow> kill_switch_get E | KillSwitchSet b \<Rightarrow> kill_switch_set E b
   | WifiStatus \<Rightarrow> wifi_status_handler E | WifiScan \<Rightarrow> wifi_scan_handler E
   | WifiAp p \<Rightarrow> wifi_set_ap E p | WifiUplink p \<Rightarrow> wifi_join_uplink E p
   | NetPortal \<Rightarrow> net_portal E | NetPortalMode b \<Rightarrow> net_portal_mode E b
   | DnsGet \<Rightarrow> dns_get E | DnsSet b \<Rightarrow> dns_set E b | DnsProvider p \<Rightarrow> dns_provider_set E p
   | MacScheduleGet \<Rightarrow> mac_schedule_get E | MacScheduleSet m \<Rightarrow> mac_schedule_set E m
   | MacProfileGet \<Rightarrow> mac_profile_get E | MacProfileSet p \<Rightarrow> mac_profile_set E p
   | RollMac \<Rightarrow> roll_mac E
   | MaintBoard \<Rightarrow> maint_board E | FirmwareUpload u \<Rightarrow> maint_firmware_upload E u
   | FirmwareFlash \<Rightarrow> maint_firmware_flash E | FactoryReset \<Rightarrow> maint_factory_reset E)"

text \<open>The routes outside the session gate, and those inside the step-up gate.\<close>

fun open_route :: "endpoint \<Rightarrow> bool" where
  "open_route Health = True" | "open_route SessionState = True" | "open_route RegisterBegin = True"
| "open_route (RegisterFinish rq) = True" | "open_route LoginBegin = True"
| "open_route (LoginFinish rq) = True" | "open_route (LoginRecovery c) = True"
| "open_route Logout = True" | "open_route ep = False"

fun step_up_route :: "endpoint \<Rightarrow> bool" where
  "step_up_route RecoveryRegenerate = True" | "step_up_route FirmwareFlash = True"
| "step_up_route FactoryReset = True" | "step_up_route ep = False"

definition handle :: "'d env \<Rightarrow> (string \<Rightarrow> string) \<Rightarrow> string \<Rightarrow> endpoint \<Rightarrow> ('d world, response) state" where
  "handle E why tok ep =
     (if open_route ep then handler E why tok ep
      else if step_up_route ep then require_session E tok (require_step_up E tok (handler E why tok ep))
      else require_session E tok (handler E why tok ep))"

section \<open>Frames\<close>

lemmas keeps_creds_maint [keeps_intro] =
  keeps_maint(1-6) [THEN keeps_db_comp [where g = db_creds]]

lemma keeps_open_handlers [keeps_intro]:
  "keeps w_dev (health E)" "keeps w_dev (session_state E tok)"
  "keeps (\<lambda>w. db_creds (w_db w)) (health E)" "keeps (\<lambda>w. db_creds (w_db w)) (session_state E tok)"
  unfolding health_def session_state_def by (intro keeps_intro)+

lemma keeps_creds_auth [keeps_intro]:
  "keeps (\<lambda>w. db_creds (w_db w)) (register_begin E tok)" "keeps (\<lambda>w. db_creds (w_db w)) (login_begin E)"
  "keeps (\<lambda>w. db_creds (w_db w)) (login_finish E rq)" "keeps (\<lambda>w. db_creds (w_db w)) (login_recovery E c)"
  "keeps (\<lambda>w. db_creds (w_db w)) (recovery_regenerate E)" "keeps (\<lambda>w. db_creds (w_db w)) (step_up_begin E)"
  "keeps (\<lambda>w. db_creds (w_db w)) (step_up_finish E tok rq)"
  unfolding register_begin_def login_begin_def login_finish_def login_recovery_def recovery_check_def
    recovery_commit_def recovery_regenerate_def step_up_begin_def step_up_finish_def
  by (intro keeps_intro)+

lemma keeps_creds_maintops [keeps_intro]:
  "keeps (\<lambda>w. db_creds (w_db w)) (maint_board E)" "keeps (\<lambda>w. db_creds (w_db w)) (maint_firmware_upload E u)"
  "keeps (\<lambda>w. db_creds (w_db w)) (maint_firmware_flash E)" "keeps (\<lambda>w. db_creds (w_db w)) (maint_factory_reset E)"
  "keeps w_stepups (maint_board E)" "keeps w_stepups (maint_firmware_upload E u)"
  "keeps w_stepups (maint_firmware_flash E)" "keeps w_stepups (maint_factory_reset E)"
  unfolding maint_board_def maint_firmware_upload_def maint_firmware_flash_def maint_factory_reset_def
  by (intro keeps_intro)+

text \<open>Every handler but the end of a registration leaves the credentials alone.\<close>

lemma keeps_creds_handler:
  "\<nexists>rq. ep = RegisterFinish rq \<Longrightarrow> keeps (\<lambda>w. db_creds (w_db w)) (handler E why tok ep)"
  unfolding handler_def by (cases ep) (simp_all, (intro keeps_intro)+)

lemma open_keeps_dev: "open_route ep \<Longrightarrow> keeps w_dev (handler E why tok ep)"
  unfolding handler_def by (cases ep) (simp_all, (intro keeps_intro)+)

text \<open>Step-up credits come from the step-up ceremony alone.\<close>

lemma keeps_stepups_handler:
  "\<nexists>rq. ep = StepUpFinish rq \<Longrightarrow> keeps w_stepups (handler E why tok ep)"
  unfolding handler_def health_def session_state_def by (cases ep) (simp_all, (intro keeps_intro)+)

end
