(* ===== verification/Vpn_Config_Properties.thy ===== *)
theory Vpn_Config_Properties
  imports Vpn_Config
begin

text \<open>
  What the wg-quick parser accepts: exactly which configurations pass validation, which lines
  can occur in an accepted file, that nothing in an accepted configuration carries a line
  break or a comment character into UCI, and the round trip with the printer \<open>print_config\<close>.
\<close>

section \<open>Validation\<close>

definition wg_key :: "string \<Rightarrow> bool" where
  "wg_key s \<longleftrightarrow> (\<exists>b. b64_decode s = Some b \<and> length b = 32)"

definition valid_peer :: "peer \<Rightarrow> bool" where
  "valid_peer p \<longleftrightarrow> wg_key (p_publicKey p) \<and> (p_presharedKey p = [] \<or> wg_key (p_presharedKey p))
     \<and> p_allowedIPs p \<noteq> [] \<and> (\<forall>a \<in> set (p_allowedIPs p). parse_cidr a \<noteq> None)
     \<and> (p_keepalive p = [] \<or> int_between 0 65535 (p_keepalive p))"

definition valid_config :: "vpn_config \<Rightarrow> bool" where
  "valid_config c \<longleftrightarrow> wg_key (c_privateKey c) \<and> c_addresses c \<noteq> []
     \<and> (\<forall>a \<in> set (c_addresses c). parse_cidr a \<noteq> None \<or> parse_ip a \<noteq> None)
     \<and> (c_mtu c = [] \<or> int_between 576 9200 (c_mtu c))
     \<and> c_peers c \<noteq> [] \<and> (\<forall>p \<in> set (c_peers c). valid_peer p)"

lemma first_error_None: "first_error f xs = None \<longleftrightarrow> (\<forall>x \<in> set xs. f x = None)"
  by (induction xs) (auto split: option.split)

lemma wg_key_Nil: "\<not> wg_key []"
  by (simp add: wg_key_def b64_decode_def)

lemma check_key_None: "check_key n s True = None \<longleftrightarrow> wg_key s"
  using wg_key_Nil by (auto simp: check_key_def wg_key_def split: option.split)

text \<open>A chain of checks passes when each one does.\<close>

lemma chain_None: "(case x of None \<Rightarrow> y | Some e \<Rightarrow> Some e) = None \<longleftrightarrow> x = None \<and> y = None"
  by (cases x) simp_all

lemma guard_None: "(if b then Some e else y) = None \<longleftrightarrow> \<not> b \<and> y = None"
  "(if b then y else None) = None \<longleftrightarrow> (b \<longrightarrow> y = None)"
  by simp_all

lemma check_item_None:
  "check_allowed a = None \<longleftrightarrow> parse_cidr a \<noteq> None"
  "check_address a = None \<longleftrightarrow> parse_cidr a \<noteq> None \<or> parse_ip a \<noteq> None"
  by (auto simp: check_allowed_def check_address_def)

lemma check_peer_None: "check_peer p = None \<longleftrightarrow> valid_peer p"
  unfolding check_peer_def valid_peer_def chain_None guard_None check_key_None first_error_None check_item_None
  by blast

lemma validate_None: "validate c = None \<longleftrightarrow> valid_config c"
proof -
  have "first_error (\<lambda>(i, p). map_option (PeerError i) (check_peer p)) (enumerate 1 (c_peers c)) = None
      \<longleftrightarrow> (\<forall>p \<in> set (c_peers c). valid_peer p)"
  proof -
    have "(\<forall>x \<in> set (enumerate 1 (c_peers c)). Q (snd x)) \<longleftrightarrow> (\<forall>p \<in> set (c_peers c). Q p)" for Q
      by (metis (no_types, lifting) imageE imageI list.set_map map_snd_enumerate)
    then show ?thesis by (simp add: first_error_None case_prod_beta check_peer_None)
  qed
  then show ?thesis
    unfolding validate_def valid_config_def chain_None guard_None check_key_None
    by (simp add: first_error_None check_item_None)
qed

section \<open>What an accepted text holds\<close>

lemma set_trim_left: "set (trim_left s) \<subseteq> set s"
proof (induction s rule: trim_left.induct)
  case (1 s)
  then show ?case
    using set_drop_subset [of "space_width s" s]
    by (cases "space_width s = 0") (auto simp: trim_left.simps [of s])
qed

lemma set_rtrim_left: "set (rtrim_left s) \<subseteq> set s"
proof (induction s rule: rtrim_left.induct)
  case (1 s)
  then show ?case
    using set_drop_subset [of "rspace_width s" s]
    by (cases "rspace_width s = 0") (auto simp: rtrim_left.simps [of s])
qed

lemma set_trim_space: "set (trim_space s) \<subseteq> set s"
  unfolding trim_space_def trim_right_def
  using set_trim_left [of s] set_rtrim_left [of "rev (trim_left s)"] by auto

text \<open>Text that cannot start another line or comment.\<close>

definition one_line :: "string \<Rightarrow> bool" where
  "one_line s \<longleftrightarrow> (\<forall>x \<in> set s. x \<noteq> CHR 0x0A \<and> x \<noteq> CHR ''#'' \<and> x \<noteq> CHR '';'')"

lemma one_line_subset: "one_line s \<Longrightarrow> set t \<subseteq> set s \<Longrightarrow> one_line t"
  by (auto simp: one_line_def)

lemma one_line_strip:
  assumes "CHR 0x0A \<notin> set raw"
  shows "one_line (strip_line raw)"
proof -
  let ?l = "trim_space raw"
  have nl: "CHR 0x0A \<notin> set ?l" using assms set_trim_space [of raw] by auto
  have "one_line (before_any ?l ''#;'')"
    using nl by (auto simp: one_line_def before_any_def dest: set_takeWhileD)
  then have "one_line (trim_space (before_any ?l ''#;''))"
    using set_trim_space by (rule one_line_subset)
  moreover have "one_line ?l" if "\<not> contains_any ?l ''#;''"
    using that nl by (auto simp: one_line_def contains_any_def)
  ultimately show ?thesis by (simp add: strip_line_def Let_def)
qed

lemma one_line_cut:
  assumes "cut c s = Some (k, v)" "one_line s"
  shows "one_line (trim_space v)"
  using assms(2) by (rule one_line_subset) (use set_trim_space [of v] cut_Some [OF assms(1)] in auto)

lemma split_list_items: "x \<in> set (split_list v) \<Longrightarrow> x \<noteq> [] \<and> set x \<subseteq> set v"
proof -
  have "set y \<subseteq> set s" if "y \<in> set (split_on c s)" for c s y
    using that
  proof (induction s arbitrary: y)
    case (Cons a s)
    then show ?case by (cases "split_on c s") (fastforce split: if_splits)+
  qed simp
  then show "x \<in> set (split_list v) \<Longrightarrow> x \<noteq> [] \<and> set x \<subseteq> set v"
    using set_trim_space by (fastforce simp: split_list_def)
qed

text \<open>Every text field of a configuration.\<close>

definition peer_texts :: "peer \<Rightarrow> string set" where
  "peer_texts p = {p_publicKey p, p_presharedKey p, p_endpointHost p, p_endpointPort p, p_keepalive p}
     \<union> set (p_allowedIPs p)"

definition config_texts :: "vpn_config \<Rightarrow> string set" where
  "config_texts c = {c_privateKey c, c_mtu c} \<union> set (c_addresses c) \<union> set (c_dns c)
     \<union> \<Union> (peer_texts ` set (c_peers c))"

definition texts_ok :: "vpn_config \<Rightarrow> bool" where
  "texts_ok c \<longleftrightarrow> (\<forall>s \<in> config_texts c. one_line s)"

lemma texts_ok_iff:
  "texts_ok c \<longleftrightarrow> one_line (c_privateKey c) \<and> one_line (c_mtu c) \<and> (\<forall>s \<in> set (c_addresses c). one_line s)
     \<and> (\<forall>s \<in> set (c_dns c). one_line s) \<and> (\<forall>p \<in> set (c_peers c). \<forall>s \<in> peer_texts p. one_line s)"
  by (auto simp: texts_ok_def config_texts_def)

lemma one_line_split_list: "one_line v \<Longrightarrow> s \<in> set (split_list v) \<Longrightarrow> one_line s"
  using split_list_items one_line_subset by blast

lemma texts_ok_interface:
  assumes "interface_key ln key val c = Inr d" "one_line val" "texts_ok c"
  shows "texts_ok d"
  using assms by (auto simp: interface_key_def texts_ok_iff intro: one_line_split_list split: if_splits)

lemma set_map_last: "x \<in> set (map_last f xs) \<Longrightarrow> x \<in> set xs \<or> (\<exists>y \<in> set xs. x = f y)"
  by (auto simp: map_last_def split: if_splits dest: in_set_butlastD)

lemma texts_ok_map_last:
  assumes "texts_ok c" "\<And>p. \<forall>s \<in> peer_texts p. one_line s \<Longrightarrow> \<forall>s \<in> peer_texts (f p). one_line s"
  shows "texts_ok (c\<lparr>c_peers := map_last f (c_peers c)\<rparr>)"
proof -
  have "\<forall>s \<in> peer_texts q. one_line s" if "q \<in> set (map_last f (c_peers c))" for q
    using set_map_last [OF that] assms by (fastforce simp: texts_ok_iff)
  then show ?thesis using assms(1) by (simp add: texts_ok_iff)
qed

lemma texts_ok_peer:
  assumes "peer_key ln key val c = Inr d" "one_line val" "texts_ok c"
  shows "texts_ok d"
proof -
  have ep: "one_line h \<and> one_line pt" if "split_host_port val = Some (h, pt)" for h pt
  proof -
    have "val = h @ CHR '':'' # pt \<or> val = CHR ''['' # h @ '']:'' @ pt"
      using split_host_port_Some [OF that] by blast
    then have "set h \<subseteq> set val" "set pt \<subseteq> set val" by (elim disjE; simp add: subset_iff)+
    then show ?thesis using assms(2) one_line_subset by blast
  qed
  have "texts_ok (c\<lparr>c_peers := map_last (\<lambda>p. p\<lparr>p_publicKey := val\<rparr>) (c_peers c)\<rparr>)"
    "texts_ok (c\<lparr>c_peers := map_last (\<lambda>p. p\<lparr>p_presharedKey := val\<rparr>) (c_peers c)\<rparr>)"
    "texts_ok (c\<lparr>c_peers := map_last (\<lambda>p. p\<lparr>p_keepalive := val\<rparr>) (c_peers c)\<rparr>)"
    by (rule texts_ok_map_last [OF assms(3)], use assms(2) in \<open>auto simp: peer_texts_def\<close>)+
  moreover have "texts_ok (c\<lparr>c_peers := map_last (\<lambda>p. p\<lparr>p_allowedIPs := p_allowedIPs p @ split_list val\<rparr>) (c_peers c)\<rparr>)"
    by (rule texts_ok_map_last [OF assms(3)])
      (use one_line_split_list [OF assms(2)] in \<open>auto simp: peer_texts_def\<close>)
  moreover have "texts_ok (c\<lparr>c_peers := map_last (\<lambda>p. p\<lparr>p_endpointHost := h, p_endpointPort := pt\<rparr>) (c_peers c)\<rparr>)"
    if "split_host_port val = Some (h, pt)" for h pt
    by (rule texts_ok_map_last [OF assms(3)]) (use ep [OF that] in \<open>auto simp: peer_texts_def\<close>)
  ultimately show ?thesis
    using assms(1) by (auto simp: peer_key_def Let_def split: if_splits option.splits prod.splits)
qed

lemma texts_ok_line:
  assumes "parse_line ln raw (sec, c) = Inr (sec', d)" "CHR 0x0A \<notin> set raw" "texts_ok c"
  shows "texts_ok d"
proof -
  have one: "one_line (strip_line raw)" using assms(2) by (rule one_line_strip)
  have "texts_ok (c\<lparr>c_peers := c_peers c @ [new_peer]\<rparr>)"
    using assms(3) by (auto simp: texts_ok_iff new_peer_def peer_texts_def one_line_def)
  then show ?thesis
    using assms(1,3) texts_ok_interface texts_ok_peer one_line_cut [OF _ one]
    by (auto simp: parse_line_def header_step_def key_step_def Let_def
        split: if_splits option.splits sum.splits prod.splits)
qed

lemma texts_ok_lines:
  assumes "parse_lines n ls (sec, c) = Inr (sec', d)" "\<forall>l \<in> set ls. CHR 0x0A \<notin> set l" "texts_ok c"
  shows "texts_ok d"
  using assms
proof (induction ls arbitrary: n sec c)
  case (Cons l ls)
  then obtain s e where "parse_line n l (sec, c) = Inr (s, e)" "parse_lines (Suc n) ls (s, e) = Inr (sec', d)"
    by (auto split: sum.splits)
  then show ?case using Cons texts_ok_line by (metis list.set_intros)
qed simp

section \<open>Which lines an accepted text has\<close>

definition known_keys :: "string list" where
  "known_keys = [''privatekey'', ''address'', ''dns'', ''mtu'', ''publickey'', ''presharedkey'',
     ''allowedips'', ''endpoint'', ''persistentkeepalive'']"

definition known_line :: "string \<Rightarrow> bool" where
  "known_line raw \<longleftrightarrow>
     strip_line raw = []
   \<or> header_line (strip_line raw) \<and> section_name (strip_line raw) \<in> {''interface'', ''peer''}
   \<or> (\<exists>k v. cut CHR ''='' (strip_line raw) = Some (k, v) \<and> trim_space v \<noteq> []
        \<and> to_lower (trim_space k) \<in> set known_keys)"

lemma parse_line_known:
  assumes "parse_line n raw (sec, c) = Inr st"
  shows "known_line raw"
  using assms
  by (auto simp: parse_line_def known_line_def header_step_def key_step_def interface_key_def peer_key_def
      known_keys_def Let_def split: if_splits option.splits sum.splits prod.splits)

lemma parse_lines_known: "parse_lines n ls st = Inr st' \<Longrightarrow> l \<in> set ls \<Longrightarrow> known_line l"
proof (induction n ls st rule: parse_lines.induct)
  case (2 n x xs st)
  then show ?case using parse_line_known [of n x "fst st" "snd st"] by (auto split: sum.splits)
qed simp

section \<open>Printing and parsing back\<close>

text \<open>Printable text: ASCII without white space, comment characters or commas.\<close>

definition value_char :: "char \<Rightarrow> bool" where
  "value_char x \<longleftrightarrow> plain_char x \<and> x \<noteq> CHR ''#'' \<and> x \<noteq> CHR '';''"

definition value_text :: "string \<Rightarrow> bool" where
  "value_text s \<longleftrightarrow> s \<noteq> [] \<and> (\<forall>x \<in> set s. value_char x)"

definition item_text :: "string \<Rightarrow> bool" where
  "item_text s \<longleftrightarrow> value_text s \<and> CHR '','' \<notin> set s"

definition keyword :: "string \<Rightarrow> bool" where
  "keyword k \<longleftrightarrow> value_text k \<and> CHR ''='' \<notin> set k \<and> CHR ''['' \<notin> set k"

definition key_line :: "string \<Rightarrow> string \<Rightarrow> string" where
  "key_line k v = k @ '' = '' @ v"

definition opt_line :: "string \<Rightarrow> string \<Rightarrow> string list" where
  "opt_line k v = (if v = [] then [] else [key_line k v])"

definition list_line :: "string \<Rightarrow> string list \<Rightarrow> string list" where
  "list_line k xs = (if xs = [] then [] else [key_line k (join_with CHR '','' xs)])"

definition endpoint_line :: "string \<Rightarrow> string \<Rightarrow> string list" where
  "endpoint_line h pt = (if h = [] then [] else [key_line ''Endpoint'' (join_host_port h pt)])"

definition peer_lines :: "peer \<Rightarrow> string list" where
  "peer_lines p = [''[Peer]'', key_line ''PublicKey'' (p_publicKey p)]
     @ opt_line ''PresharedKey'' (p_presharedKey p)
     @ list_line ''AllowedIPs'' (p_allowedIPs p)
     @ endpoint_line (p_endpointHost p) (p_endpointPort p)
     @ opt_line ''PersistentKeepalive'' (p_keepalive p)"

definition config_lines :: "vpn_config \<Rightarrow> string list" where
  "config_lines c = [''[Interface]'', key_line ''PrivateKey'' (c_privateKey c)]
     @ list_line ''Address'' (c_addresses c) @ list_line ''DNS'' (c_dns c) @ opt_line ''MTU'' (c_mtu c)
     @ concat (map peer_lines (c_peers c))"

definition print_config :: "vpn_config \<Rightarrow> string" where
  "print_config c = join_with CHR 0x0A (config_lines c)"

definition host_text :: "string \<Rightarrow> string \<Rightarrow> bool" where
  "host_text h pt \<longleftrightarrow> (\<forall>x \<in> set h \<union> set pt. value_char x) \<and> (h = [] \<longrightarrow> pt = [])
     \<and> CHR ''['' \<notin> set h \<and> CHR '']'' \<notin> set h
     \<and> CHR '':'' \<notin> set pt \<and> CHR ''['' \<notin> set pt \<and> CHR '']'' \<notin> set pt"

definition printable_peer :: "peer \<Rightarrow> bool" where
  "printable_peer p \<longleftrightarrow> value_text (p_publicKey p) \<and> (\<forall>x \<in> set (p_presharedKey p). value_char x)
     \<and> (\<forall>a \<in> set (p_allowedIPs p). item_text a) \<and> host_text (p_endpointHost p) (p_endpointPort p)
     \<and> (\<forall>x \<in> set (p_keepalive p). value_char x)"

definition printable_config :: "vpn_config \<Rightarrow> bool" where
  "printable_config c \<longleftrightarrow> value_text (c_privateKey c) \<and> (\<forall>a \<in> set (c_addresses c). item_text a)
     \<and> (\<forall>a \<in> set (c_dns c). item_text a) \<and> (\<forall>x \<in> set (c_mtu c). value_char x)
     \<and> (\<forall>p \<in> set (c_peers c). printable_peer p)"

lemma value_text_tight: "value_text v \<Longrightarrow> tight v"
  by (auto simp: value_text_def value_char_def intro: tight_plain_all)

lemma trim_left_space: "trim_left (CHR '' '' # s) = trim_left s"
proof -
  have "space_width (CHR '' '' # s) = 1" by (cases s; cases "tl s") (auto simp: ascii_space_def)
  then show ?thesis by (simp add: trim_left.simps [of "CHR '' '' # s"])
qed

lemma rtrim_left_space: "rtrim_left (CHR '' '' # s) = rtrim_left s"
proof -
  have "rspace_width (CHR '' '' # s) = 1" by (cases s; cases "tl s") (auto simp: ascii_space_def)
  then show ?thesis by (simp add: rtrim_left.simps [of "CHR '' '' # s"])
qed

lemma trim_leading: "tight v \<Longrightarrow> trim_space (CHR '' '' # v) = v"
  using trim_space_tight [of v] by (simp add: trim_space_def trim_left_space)

lemma trim_trailing: "value_text k \<Longrightarrow> trim_space (k @ '' '') = k"
proof -
  assume k: "value_text k"
  then obtain a r where "k = a # r" "plain_char a" by (cases k) (auto simp: value_text_def value_char_def)
  then have "trim_left (k @ '' '') = k @ '' ''" by (simp add: trim_left.simps [of "a # r @ '' ''"] plain_head)
  moreover have "rtrim_left (rev k) = rev k"
    using value_text_tight [OF k] by (simp add: tight_def rtrim_left.simps [of "rev k"])
  ultimately show ?thesis by (simp add: trim_space_def trim_right_def rtrim_left_space)
qed

lemma strip_key_line:
  assumes "keyword k" "value_text v"
  shows "strip_line (key_line k v) = key_line k v" "key_line k v \<noteq> []" "\<not> header_line (key_line k v)"
    "cut CHR ''='' (key_line k v) = Some (k @ '' '', CHR '' '' # v)"
proof -
  obtain a r where k: "k = a # r" "plain_char a" "a \<noteq> CHR ''[''"
    using assms(1) by (cases k) (auto simp: keyword_def value_text_def value_char_def)
  have l: "key_line k v \<noteq> []" "last (key_line k v) = last v" "hd (key_line k v) = a"
    using k assms(2) by (auto simp: key_line_def value_text_def)
  have "plain_char (last v)" using assms(2) by (auto simp: value_text_def value_char_def)
  then have "tight (key_line k v)" using k l by (intro tight_plain) simp
  moreover have "\<not> contains_any (key_line k v) ''#;''"
    using assms by (auto simp: contains_any_def key_line_def keyword_def value_text_def value_char_def)
  ultimately show "strip_line (key_line k v) = key_line k v"
    by (simp add: strip_line_def trim_space_tight)
  show "key_line k v \<noteq> []" by (rule l(1))
  show "\<not> header_line (key_line k v)"
    using k by (simp add: header_line_def has_prefix_def key_line_def)
  have "CHR ''='' \<notin> set (k @ '' '')" using assms(1) by (simp add: keyword_def)
  from cut_append [OF this, of "CHR '' '' # v"]
  show "cut CHR ''='' (key_line k v) = Some (k @ '' '', CHR '' '' # v)" by (simp add: key_line_def)
qed

lemma parse_key_line:
  assumes "keyword k" "value_text v"
  shows "parse_line n (key_line k v) (sec, c) = key_step n sec (to_lower k) v c"
  using strip_key_line [OF assms] assms
  by (simp add: parse_line_def Let_def trim_trailing trim_leading value_text_tight keyword_def)

lemma split_list_join:
  assumes "xs \<noteq> []" "\<forall>x \<in> set xs. item_text x"
  shows "split_list (join_with CHR '','' xs) = xs"
proof -
  have "split_on CHR '','' (join_with CHR '','' xs) = xs"
    using assms by (intro split_on_join) (auto simp: item_text_def)
  moreover have "map trim_space xs = xs"
    using assms(2) by (intro map_idI trim_space_tight value_text_tight) (simp add: item_text_def)
  moreover have "filter (\<lambda>s. s \<noteq> []) xs = xs"
    using assms(2) by (intro filter_True) (auto simp: item_text_def value_text_def)
  ultimately show ?thesis by (simp add: split_list_def)
qed

lemma join_chars: "x \<in> set (join_with d xs) \<Longrightarrow> x = d \<or> (\<exists>y \<in> set xs. x \<in> set y)"
  by (induction d xs rule: join_with.induct) auto

lemma value_char_comma: "value_char CHR '',''"
  by code_simp

lemma value_text_join:
  assumes "xs \<noteq> []" "\<forall>x \<in> set xs. item_text x"
  shows "value_text (join_with CHR '','' xs)"
proof -
  have "value_char x" if "x \<in> set (join_with CHR '','' xs)" for x
    using join_chars [OF that] assms(2)
    by (auto simp: item_text_def value_text_def value_char_comma)
  moreover have "join_with CHR '','' xs \<noteq> []"
    using assms by (cases xs; cases "tl xs") (auto simp: item_text_def value_text_def)
  ultimately show ?thesis by (simp add: value_text_def)
qed

lemma keyword_texts:
  "keyword ''PrivateKey''" "keyword ''Address''" "keyword ''DNS''" "keyword ''MTU''"
  "keyword ''PublicKey''" "keyword ''PresharedKey''" "keyword ''AllowedIPs''" "keyword ''Endpoint''"
  "keyword ''PersistentKeepalive''"
  by code_simp+

lemma keyword_lower:
  "to_lower ''PrivateKey'' = ''privatekey''" "to_lower ''Address'' = ''address''"
  "to_lower ''DNS'' = ''dns''" "to_lower ''MTU'' = ''mtu''" "to_lower ''PublicKey'' = ''publickey''"
  "to_lower ''PresharedKey'' = ''presharedkey''" "to_lower ''AllowedIPs'' = ''allowedips''"
  "to_lower ''Endpoint'' = ''endpoint''" "to_lower ''PersistentKeepalive'' = ''persistentkeepalive''"
  by code_simp+

declare to_lower.simps [simp del]

lemma headers:
  "strip_line ''[Peer]'' = ''[Peer]''" "strip_line ''[Interface]'' = ''[Interface]''"
  "header_line ''[Peer]''" "header_line ''[Interface]''"
  "section_name ''[Peer]'' = ''peer''" "section_name ''[Interface]'' = ''interface''"
  by code_simp+

lemma parse_header_lines:
  "parse_line n ''[Peer]'' (sec, c) = Inr (''peer'', c\<lparr>c_peers := c_peers c @ [new_peer]\<rparr>)"
  "c_privateKey c = [] \<Longrightarrow> c_addresses c = [] \<Longrightarrow> parse_line n ''[Interface]'' (sec, c) = Inr (''interface'', c)"
  by (simp_all add: parse_line_def headers header_step_def)

lemma map_last_snoc [simp]: "map_last f (xs @ [x]) = xs @ [f x]"
  by (simp add: map_last_def)

text \<open>Each printed key, read back.\<close>

lemma key_steps:
  "v \<noteq> [] \<Longrightarrow> key_step n ''interface'' ''privatekey'' v c = Inr (''interface'', c\<lparr>c_privateKey := v\<rparr>)"
  "v \<noteq> [] \<Longrightarrow> key_step n ''interface'' ''mtu'' v c = Inr (''interface'', c\<lparr>c_mtu := v\<rparr>)"
  "v \<noteq> [] \<Longrightarrow> key_step n ''interface'' ''address'' v c
     = Inr (''interface'', c\<lparr>c_addresses := c_addresses c @ split_list v\<rparr>)"
  "v \<noteq> [] \<Longrightarrow> key_step n ''interface'' ''dns'' v c = Inr (''interface'', c\<lparr>c_dns := c_dns c @ split_list v\<rparr>)"
  "v \<noteq> [] \<Longrightarrow> key_step n ''peer'' ''publickey'' v c
     = Inr (''peer'', c\<lparr>c_peers := map_last (\<lambda>p. p\<lparr>p_publicKey := v\<rparr>) (c_peers c)\<rparr>)"
  "v \<noteq> [] \<Longrightarrow> key_step n ''peer'' ''presharedkey'' v c
     = Inr (''peer'', c\<lparr>c_peers := map_last (\<lambda>p. p\<lparr>p_presharedKey := v\<rparr>) (c_peers c)\<rparr>)"
  "v \<noteq> [] \<Longrightarrow> key_step n ''peer'' ''allowedips'' v c
     = Inr (''peer'', c\<lparr>c_peers := map_last (\<lambda>p. p\<lparr>p_allowedIPs := p_allowedIPs p @ split_list v\<rparr>) (c_peers c)\<rparr>)"
  "v \<noteq> [] \<Longrightarrow> split_host_port v = Some (h, pt) \<Longrightarrow> key_step n ''peer'' ''endpoint'' v c
     = Inr (''peer'', c\<lparr>c_peers := map_last (\<lambda>p. p\<lparr>p_endpointHost := h, p_endpointPort := pt\<rparr>) (c_peers c)\<rparr>)"
  "v \<noteq> [] \<Longrightarrow> key_step n ''peer'' ''persistentkeepalive'' v c
     = Inr (''peer'', c\<lparr>c_peers := map_last (\<lambda>p. p\<lparr>p_keepalive := v\<rparr>) (c_peers c)\<rparr>)"
  by (simp_all add: key_step_def interface_key_def peer_key_def Let_def)

lemma parse_opt_line:
  assumes "keyword k" "\<forall>x \<in> set v. value_char x"
    "\<And>m. v \<noteq> [] \<Longrightarrow> key_step m sec (to_lower k) v c = Inr (sec, d)" "v = [] \<Longrightarrow> d = c"
  shows "parse_lines n (opt_line k v @ ls) (sec, c) = parse_lines (n + length (opt_line k v)) ls (sec, d)"
  using assms by (auto simp: opt_line_def parse_key_line value_text_def)

lemma parse_list_line:
  assumes "keyword k" "\<forall>x \<in> set xs. item_text x"
    "\<And>m v. v \<noteq> [] \<Longrightarrow> xs \<noteq> [] \<Longrightarrow> split_list v = xs \<Longrightarrow> key_step m sec (to_lower k) v c = Inr (sec, d)"
    "xs = [] \<Longrightarrow> d = c"
  shows "parse_lines n (list_line k xs @ ls) (sec, c) = parse_lines (n + length (list_line k xs)) ls (sec, d)"
proof (cases "xs = []")
  case False
  have v: "value_text (join_with CHR '','' xs)" using False assms(2) by (rule value_text_join)
  then show ?thesis
    using False assms(1) assms(3) [of "join_with CHR '','' xs"] split_list_join [OF False assms(2)]
    by (simp add: list_line_def parse_key_line value_text_def)
qed (use assms(4) in \<open>simp add: list_line_def\<close>)

lemma value_text_endpoint:
  assumes "host_text h pt" "h \<noteq> []"
  shows "value_text (join_host_port h pt)" "split_host_port (join_host_port h pt) = Some (h, pt)"
proof -
  have "value_char CHR '':''" "value_char CHR ''[''" "value_char CHR '']''" by code_simp+
  then show "value_text (join_host_port h pt)"
    using assms by (auto simp: value_text_def join_host_port_def host_text_def)
  show "split_host_port (join_host_port h pt) = Some (h, pt)"
    using assms(1) by (intro split_join_host_port) (simp_all add: host_text_def)
qed

lemma parse_endpoint_line:
  assumes "host_text h pt" "c_peers c = ps @ [q]" "p_endpointHost q = []" "p_endpointPort q = []"
  shows "parse_lines n (endpoint_line h pt @ ls) (''peer'', c) = parse_lines (n + length (endpoint_line h pt)) ls
        (''peer'', c\<lparr>c_peers := ps @ [q\<lparr>p_endpointHost := h, p_endpointPort := pt\<rparr>]\<rparr>)"
proof (cases "h = []")
  case True
  moreover have "pt = []" using assms(1) True by (simp add: host_text_def)
  moreover have "c\<lparr>c_peers := ps @ [q\<lparr>p_endpointHost := [], p_endpointPort := []\<rparr>]\<rparr> = c"
    using assms(2-4) by (cases c; cases q) simp
  ultimately show ?thesis by (simp add: endpoint_line_def)
next
  case False
  then show ?thesis
    using value_text_endpoint [OF assms(1) False] assms(2)
    by (simp add: endpoint_line_def parse_key_line keyword_texts keyword_lower key_steps value_text_def)
qed

lemma parse_peer_lines:
  assumes "printable_peer p"
  shows "parse_lines n (peer_lines p @ ls) (sec, c)
    = parse_lines (n + length (peer_lines p)) ls (''peer'', c\<lparr>c_peers := c_peers c @ [p]\<rparr>)"
proof -
  define q0 where "q0 = new_peer\<lparr>p_publicKey := p_publicKey p\<rparr>"
  define q1 where "q1 = q0\<lparr>p_presharedKey := p_presharedKey p\<rparr>"
  define q2 where "q2 = q1\<lparr>p_allowedIPs := p_allowedIPs p\<rparr>"
  define q3 where "q3 = q2\<lparr>p_endpointHost := p_endpointHost p, p_endpointPort := p_endpointPort p\<rparr>"
  define st where "st = (\<lambda>q. c\<lparr>c_peers := c_peers c @ [q]\<rparr>)"
  note [simp] = keyword_texts keyword_lower key_steps
  have pub: "value_text (p_publicKey p)" and vals: "\<forall>x \<in> set (p_presharedKey p). value_char x"
    "\<forall>a \<in> set (p_allowedIPs p). item_text a" "host_text (p_endpointHost p) (p_endpointPort p)"
    "\<forall>x \<in> set (p_keepalive p). value_char x"
    using assms by (simp_all add: printable_peer_def)
  have "parse_lines m ([''[Peer]'', key_line ''PublicKey'' (p_publicKey p)] @ ks) (sec, c)
      = parse_lines (m + 2) ks (''peer'', st q0)" for m ks
    using pub by (simp add: parse_header_lines parse_key_line st_def q0_def value_text_def)
  moreover have "parse_lines m (opt_line ''PresharedKey'' (p_presharedKey p) @ ks) (''peer'', st q0)
      = parse_lines (m + length (opt_line ''PresharedKey'' (p_presharedKey p))) ks (''peer'', st q1)" for m ks
    using vals(1) by (intro parse_opt_line) (simp_all add: st_def q1_def q0_def new_peer_def)
  moreover have "parse_lines m (list_line ''AllowedIPs'' (p_allowedIPs p) @ ks) (''peer'', st q1)
      = parse_lines (m + length (list_line ''AllowedIPs'' (p_allowedIPs p))) ks (''peer'', st q2)" for m ks
    using vals(2) by (intro parse_list_line) (simp_all add: st_def q2_def q1_def q0_def new_peer_def)
  moreover have "parse_lines m (endpoint_line (p_endpointHost p) (p_endpointPort p) @ ks) (''peer'', st q2)
      = parse_lines (m + length (endpoint_line (p_endpointHost p) (p_endpointPort p))) ks (''peer'', st q3)" for m ks
    using vals(3) parse_endpoint_line [of "p_endpointHost p" "p_endpointPort p" "st q2" "c_peers c" q2]
    by (simp add: st_def q3_def q2_def q1_def q0_def new_peer_def)
  moreover have "parse_lines m (opt_line ''PersistentKeepalive'' (p_keepalive p) @ ks) (''peer'', st q3)
      = parse_lines (m + length (opt_line ''PersistentKeepalive'' (p_keepalive p))) ks (''peer'', st p)" for m ks
    using vals(4) by (intro parse_opt_line) (simp_all add: st_def q3_def q2_def q1_def q0_def new_peer_def)
  ultimately show ?thesis
    by (simp add: peer_lines_def st_def add.assoc)
qed

lemma parse_all_peers:
  assumes "\<forall>p \<in> set ps. printable_peer p"
  shows "\<exists>m sec'. parse_lines n (concat (map peer_lines ps)) (sec, c)
    = parse_lines m [] (sec', c\<lparr>c_peers := c_peers c @ ps\<rparr>)"
  using assms
proof (induction ps arbitrary: n sec c)
  case Nil
  then show ?case by simp
next
  case (Cons p ps)
  then show ?case
    using Cons.IH [of "n + length (peer_lines p)" "''peer''" "c\<lparr>c_peers := c_peers c @ [p]\<rparr>"]
      parse_peer_lines [of p] by simp
qed

definition no_newline :: "string \<Rightarrow> bool" where
  "no_newline s \<longleftrightarrow> CHR 0x0A \<notin> set s"

lemma value_no_newline: "\<forall>x \<in> set v. value_char x \<Longrightarrow> no_newline v"
proof -
  have "\<not> value_char CHR 0x0A" by code_simp
  then show "\<forall>x \<in> set v. value_char x \<Longrightarrow> no_newline v" by (auto simp: no_newline_def)
qed

lemma key_line_no_newline: "keyword k \<Longrightarrow> no_newline v \<Longrightarrow> no_newline (key_line k v)"
  using value_no_newline [of k] by (simp add: key_line_def no_newline_def keyword_def value_text_def)

lemma opt_line_no_newline: "keyword k \<Longrightarrow> \<forall>x \<in> set v. value_char x \<Longrightarrow> list_all no_newline (opt_line k v)"
  by (simp add: opt_line_def key_line_no_newline value_no_newline)

lemma list_line_no_newline: "keyword k \<Longrightarrow> \<forall>x \<in> set xs. item_text x \<Longrightarrow> list_all no_newline (list_line k xs)"
  using value_text_join [of xs] by (simp add: list_line_def key_line_no_newline value_no_newline value_text_def)

lemma endpoint_line_no_newline: "host_text h pt \<Longrightarrow> list_all no_newline (endpoint_line h pt)"
  using value_text_endpoint(1) [of h pt]
  by (simp add: endpoint_line_def key_line_no_newline keyword_texts value_no_newline value_text_def)

lemmas line_no_newline = key_line_no_newline value_no_newline opt_line_no_newline list_line_no_newline
  endpoint_line_no_newline

lemma peer_lines_no_newline: "printable_peer p \<Longrightarrow> list_all no_newline (peer_lines p)"
proof -
  have h: "no_newline ''[Peer]''" by code_simp
  show "printable_peer p \<Longrightarrow> list_all no_newline (peer_lines p)"
    by (simp add: peer_lines_def h line_no_newline keyword_texts printable_peer_def value_text_def)
qed

lemma list_all_concat: "\<forall>x \<in> set xs. list_all P (f x) \<Longrightarrow> list_all P (concat (map f xs))"
  by (induction xs) simp_all

lemma config_lines_no_newline: "printable_config c \<Longrightarrow> list_all no_newline (config_lines c)"
proof -
  have h: "no_newline ''[Interface]''" by code_simp
  show "printable_config c \<Longrightarrow> list_all no_newline (config_lines c)"
    by (simp add: config_lines_def h line_no_newline keyword_texts printable_config_def value_text_def
        list_all_concat peer_lines_no_newline)
qed

lemma parse_print:
  assumes "valid_config c" "printable_config c"
  shows "parse_config (print_config c) = Inr c"
proof -
  define c1 where "c1 = new_config\<lparr>c_privateKey := c_privateKey c\<rparr>"
  define c2 where "c2 = c1\<lparr>c_addresses := c_addresses c\<rparr>"
  define c3 where "c3 = c2\<lparr>c_dns := c_dns c\<rparr>"
  define c4 where "c4 = c3\<lparr>c_mtu := c_mtu c\<rparr>"
  note [simp] = keyword_texts keyword_lower key_steps
  let ?i = "''interface''"
  have vals: "value_text (c_privateKey c)" "\<forall>a \<in> set (c_addresses c). item_text a"
    "\<forall>a \<in> set (c_dns c). item_text a" "\<forall>x \<in> set (c_mtu c). value_char x"
    "\<forall>p \<in> set (c_peers c). printable_peer p"
    using assms(2) by (simp_all add: printable_config_def)
  have c4: "c4\<lparr>c_peers := c_peers c4 @ c_peers c\<rparr> = c"
    by (cases c) (simp add: c4_def c3_def c2_def c1_def new_config_def)
  have "parse_lines m ([''[Interface]'', key_line ''PrivateKey'' (c_privateKey c)] @ ks) ([], new_config)
      = parse_lines (m + 2) ks (?i, c1)" for m ks
    using vals(1) by (simp add: parse_header_lines parse_key_line c1_def new_config_def value_text_def)
  moreover have "parse_lines m (list_line ''Address'' (c_addresses c) @ ks) (?i, c1)
      = parse_lines (m + length (list_line ''Address'' (c_addresses c))) ks (?i, c2)" for m ks
    using vals(2) by (intro parse_list_line) (simp_all add: c2_def c1_def new_config_def)
  moreover have "parse_lines m (list_line ''DNS'' (c_dns c) @ ks) (?i, c2)
      = parse_lines (m + length (list_line ''DNS'' (c_dns c))) ks (?i, c3)" for m ks
    using vals(3) by (intro parse_list_line) (simp_all add: c3_def c2_def c1_def new_config_def)
  moreover have "parse_lines m (opt_line ''MTU'' (c_mtu c) @ ks) (?i, c3)
      = parse_lines (m + length (opt_line ''MTU'' (c_mtu c))) ks (?i, c4)" for m ks
    using vals(4) by (intro parse_opt_line) (simp_all add: c4_def c3_def c2_def c1_def new_config_def)
  moreover have "\<exists>sec. parse_lines k (concat (map peer_lines (c_peers c))) (?i, c4) = Inr (sec, c)" for k
    using parse_all_peers [OF vals(5), of k ?i c4] c4 by simp
  ultimately have "\<exists>sec. parse_lines 1 (config_lines c) ([], new_config) = Inr (sec, c)"
    by (simp add: config_lines_def)
  moreover have "split_on CHR 0x0A (print_config c) = config_lines c"
    unfolding print_config_def using config_lines_no_newline [OF assms(2)]
    by (intro split_on_join) (simp_all add: config_lines_def no_newline_def list_all_iff)
  ultimately show ?thesis
    using assms(1) by (simp add: parse_config_Inr validate_None)
qed

section \<open>A configuration\<close>

definition sample_config :: vpn_config where
  "sample_config = \<lparr>c_privateKey = b64std (replicate 32 1),
     c_addresses = [show_ipv4 [10, 8, 0, 2] @ CHR ''/'' # dec 24], c_dns = [], c_mtu = dec 1420,
     c_peers = [\<lparr>p_publicKey = b64std (replicate 32 2), p_presharedKey = [],
       p_allowedIPs = [show_ipv4 [0, 0, 0, 0] @ CHR ''/'' # dec 0],
       p_endpointHost = ''vpn.example.com'', p_endpointPort = ''51820'', p_keepalive = dec 25\<rparr>]\<rparr>"

lemma wg_key_b64: "length b = 32 \<Longrightarrow> wg_key (b64std b)"
  by (simp add: wg_key_def b64_decode_encode)

lemma int_between_dec: "n < 2 ^ 63 \<Longrightarrow> lo \<le> int n \<Longrightarrow> int n \<le> hi \<Longrightarrow> int_between lo hi (dec n)"
  by (simp add: int_between_def atoi_dec)

lemma sample_valid: "valid_config sample_config"
  by (simp add: sample_config_def valid_config_def valid_peer_def wg_key_b64 parse_cidr_show int_between_dec)

lemma value_char_b64: "\<forall>x \<in> set (b64std b). value_char x"
proof -
  have "list_all value_char (CHR ''='' # b64_std)" by code_simp
  then show ?thesis using b64std_chars [of b] by (auto simp: list_all_iff)
qed

lemma value_text_b64: "0 < length b \<Longrightarrow> value_text (b64std b)"
proof -
  assume "0 < length b"
  then have "b64std b \<noteq> []"
    using b64_decode_encode [of b] wg_key_Nil by (auto simp: b64_decode_def)
  then show ?thesis using value_char_b64 by (simp add: value_text_def)
qed

lemma value_char_dec: "\<forall>x \<in> set (dec n). value_char x \<and> x \<noteq> CHR '',''"
proof -
  have "list_all (\<lambda>d. value_char (digit_char d) \<and> digit_char d \<noteq> CHR '','') [0 ..< 10]" by code_simp
  then show ?thesis using dec_digits [of _ n] by (fastforce simp: list_all_iff)
qed

lemma item_text_cidr: "b \<noteq> [] \<Longrightarrow> item_text (show_ipv4 b @ CHR ''/'' # dec n)"
proof -
  have "value_char CHR ''.''" "value_char CHR ''/''" by code_simp+
  moreover have "value_char x \<and> x \<noteq> CHR '',''" if x: "x \<in> set (show_ipv4 b)" for x
  proof -
    have "x = CHR ''.'' \<or> (\<exists>y \<in> set b. x \<in> set (dec (unat y)))"
      using join_chars x unfolding show_ipv4_def by fastforce
    then show ?thesis using value_char_dec calculation(1) by auto
  qed
  ultimately show ?thesis using value_char_dec by (simp add: item_text_def value_text_def) blast
qed

lemma sample_printable: "printable_config sample_config"
proof -
  have "host_text ''vpn.example.com'' ''51820''" by code_simp
  then show ?thesis
    using value_char_dec
    by (simp add: sample_config_def printable_config_def printable_peer_def value_text_b64 item_text_cidr)
qed

lemma sample_parses: "parse_config (print_config sample_config) = Inr sample_config"
  using sample_valid sample_printable by (rule parse_print)

section \<open>The properties\<close>

text \<open>
  C23. The parser reads back every printable valid configuration: printed as a wg-quick file,
  with its optional keys left out where they are empty and IPv6 endpoints in brackets, it
  parses to the same configuration.
\<close>

theorem parse_print_config:
  assumes "valid_config c" "printable_config c"
  shows "parse_config (print_config c) = Inr c"
  using assms by (rule parse_print)

theorem parse_print_witness: "parse_config (print_config sample_config) = Inr sample_config"
  using sample_valid sample_printable by (rule parse_print_config)

text \<open>
  C11. An accepted configuration is a usable one and is safe to hand to UCI: all its keys are
  base64 of 32 bytes, every address and allowed network parses, the numbers are in range,
  there is at least one address and one peer, and no field holds a line break or a comment
  character, whatever the pasted text was.
\<close>

theorem parse_config_sound:
  assumes "parse_config text = Inr c"
  shows "valid_config c \<and> config_texts c \<subseteq> {s. one_line s}"
proof -
  from assms obtain sec where p: "parse_lines 1 (split_on CHR 0x0A text) ([], new_config) = Inr (sec, c)"
    and v: "validate c = None" by (auto simp: parse_config_Inr)
  have "texts_ok new_config"
    by (simp add: texts_ok_iff new_config_def one_line_def)
  then have "texts_ok c"
    using texts_ok_lines [OF p] split_on_parts by blast
  with v show ?thesis by (auto simp: validate_None texts_ok_def)
qed

theorem parse_config_sound_witness:
  "valid_config sample_config \<and> config_texts sample_config \<subseteq> {s. one_line s}"
  by (rule parse_config_sound [OF sample_parses])

text \<open>
  A text with a script hook is refused wherever the line stands: no line of an accepted
  text has one of the six wg-quick script keys, in any letter case.
\<close>

theorem script_hooks_refused:
  assumes "parse_config text = Inr c" "raw \<in> set (split_on CHR 0x0A text)" "\<not> header_line (strip_line raw)"
    "cut CHR ''='' (strip_line raw) = Some (k, v)"
  shows "to_lower (trim_space k) \<notin> set hook_keys \<and> to_lower (trim_space k) \<in> set known_keys \<and> trim_space v \<noteq> []"
proof -
  from assms(1) obtain sec where "parse_lines 1 (split_on CHR 0x0A text) ([], new_config) = Inr (sec, c)"
    by (auto simp: parse_config_Inr)
  then have "known_line raw" using assms(2) by (rule parse_lines_known)
  with assms(3,4) have "to_lower (trim_space k) \<in> set known_keys" "trim_space v \<noteq> []"
    by (auto simp: known_line_def)
  moreover from this(1) have "to_lower (trim_space k) \<notin> set hook_keys"
    by (auto simp: known_keys_def hook_keys_def)
  ultimately show ?thesis by blast
qed

lemma sample_line: "key_line ''PrivateKey'' (c_privateKey sample_config) \<in> set (split_on CHR 0x0A (print_config sample_config))"
proof -
  have "split_on CHR 0x0A (print_config sample_config) = config_lines sample_config"
    unfolding print_config_def using config_lines_no_newline [OF sample_printable]
    by (intro split_on_join) (simp_all add: config_lines_def no_newline_def list_all_iff)
  then show ?thesis by (simp add: config_lines_def)
qed

theorem script_hooks_witness:
  "to_lower (trim_space ''PrivateKey '') \<notin> set hook_keys \<and> to_lower (trim_space ''PrivateKey '') \<in> set known_keys
     \<and> trim_space (CHR '' '' # c_privateKey sample_config) \<noteq> []"
proof (rule script_hooks_refused [OF sample_parses sample_line])
  have v: "value_text (c_privateKey sample_config)" by (simp add: sample_config_def value_text_b64)
  show "\<not> header_line (strip_line (key_line ''PrivateKey'' (c_privateKey sample_config)))"
    "cut CHR ''='' (strip_line (key_line ''PrivateKey'' (c_privateKey sample_config)))
      = Some (''PrivateKey '', CHR '' '' # c_privateKey sample_config)"
    using strip_key_line [OF keyword_texts(1) v] by simp_all
qed

text \<open>
  The summary the API shows does not depend on any key: configurations that differ in
  private, public and pre-shared keys, keepalive and MTU only have the same summary.
\<close>

lemma summary_hides_keys:
  assumes "c_addresses c = c_addresses d" "c_dns c = c_dns d"
    "map (\<lambda>p. (p_allowedIPs p, p_endpointHost p, p_endpointPort p)) (c_peers c)
     = map (\<lambda>p. (p_allowedIPs p, p_endpointHost p, p_endpointPort p)) (c_peers d)"
  shows "config_summary c = config_summary d"
proof -
  let ?view = "\<lambda>p. (p_allowedIPs p, p_endpointHost p, p_endpointPort p)"
  have v: "map (\<lambda>p. join_host_port (p_endpointHost p) (p_endpointPort p)) (filter (\<lambda>p. p_endpointHost p \<noteq> []) xs)
      = map (\<lambda>v. join_host_port (fst (snd v)) (snd (snd v))) (filter (\<lambda>v. fst (snd v) \<noteq> []) (map ?view xs))"
    "concat (map p_allowedIPs xs) = concat (map fst (map ?view xs))" for xs :: "peer list"
    by (simp_all add: filter_map comp_def)
  show ?thesis unfolding config_summary_def v assms ..
qed

lemma summary_hides_keys_witness:
  "config_summary sample_config = config_summary (sample_config\<lparr>c_privateKey := ''x''\<rparr>)"
  by (rule summary_hides_keys) simp_all

section \<open>Two gaps\<close>

text \<open>A second \<open>[Interface]\<close> section passes when the first one set only DNS or MTU.\<close>

lemma second_interface_accepted:
  "parse_lines 1 [''[Interface]'', ''MTU = 1420'', ''[Interface]'', ''MTU = 1400''] ([], new_config)
     = Inr (''interface'', new_config\<lparr>c_mtu := ''1400''\<rparr>)"
  by code_simp

text \<open>A carriage return inside a key is skipped by the decoder and stays in the accepted text.\<close>

lemma key_with_carriage_return:
  "length b = 32 \<Longrightarrow> b64std b = x @ y \<Longrightarrow> wg_key (x @ CHR 0x0D # y)"
proof -
  assume "length b = 32" "b64std b = x @ y"
  moreover have "b64_decode (x @ CHR 0x0D # y) = b64_decode (x @ y)"
    by (simp add: b64_decode_def)
  ultimately show ?thesis using wg_key_b64 [of b] by (simp add: wg_key_def)
qed

end
