(* ===== verification/Api_Properties.thy ===== *)
theory Api_Properties
  imports Api Vpn_Config_Properties Auth_Properties
begin

text \<open>
  Properties of the API as a whole: who may change the device, the credentials and the
  firmware, what an import keeps of a configuration, and when an explicit choice of the user
  stands.
\<close>

section \<open>The gates\<close>

text \<open>A handler behind the session gate runs on the state the check left, for a live session.\<close>

lemma require_session_changes:
  assumes "f (final (require_session E tok next) w) \<noteq> f w" "keeps f (session_valid E tok True)"
  shows "session_live E tok (clock E (Suc (w_n w))) (w_db w)"
    "f (final next (final (session_valid E tok True) w)) \<noteq> f (final (session_valid E tok True) w)"
proof -
  have v: "result (session_valid E tok True) w"
    using assms by (cases "result (session_valid E tok True) w") (simp_all add: require_session_def keepsD)
  then show "session_live E tok (clock E (Suc (w_n w))) (w_db w)" by (simp add: session_valid_result)
  show "f (final next (final (session_valid E tok True) w)) \<noteq> f (final (session_valid E tok True) w)"
    using v assms by (simp add: require_session_def keepsD)
qed

lemma require_step_up_changes:
  assumes "f (final (require_step_up E tok next) w) \<noteq> f w" "keeps f (consume E StepUps tok)"
  shows "\<exists>e. w_stepups w tok = Some e \<and> clock E (w_n w) < e"
proof -
  have "result (consume E StepUps tok) w"
    using assms by (cases "result (consume E StepUps tok) w") (simp_all add: require_step_up_def keepsD)
  then show ?thesis by (simp add: consume_run ttl_consume_answer)
qed

lemma handle_gate:
  assumes "f (final (handle E why tok ep) w) \<noteq> f w" "\<not> open_route ep"
    "keeps f (session_valid E tok True)" "keeps f (consume E StepUps tok)"
  shows "session_live E tok (clock E (Suc (w_n w))) (w_db w)
    \<and> (step_up_route ep \<longrightarrow> (\<exists>e n. w_stepups w tok = Some e \<and> n > w_n w \<and> clock E n < e))"
proof -
  let ?v = "session_valid E tok True"
  have n: "w_n (final ?v w) > w_n w" if "result ?v w"
    using that by (auto simp: session_valid_def session_run run_branch bump_session_def delete_session_def
        split: option.splits prod.splits if_splits)
  show ?thesis
  proof (cases "step_up_route ep")
    case False
    with assms(1,2) have "f (final (require_session E tok (handler E why tok ep)) w) \<noteq> f w"
      by (simp add: handle_def)
    from require_session_changes(1) [OF this assms(3)] False show ?thesis by simp
  next
    case True
    with assms(1,2) have c: "f (final (require_session E tok (require_step_up E tok (handler E why tok ep))) w) \<noteq> f w"
      by (simp add: handle_def)
    have live: "session_live E tok (clock E (Suc (w_n w))) (w_db w)"
      by (rule require_session_changes(1) [OF c assms(3)])
    have v: "result ?v w"
      using c assms(3) by (cases "result ?v w") (simp_all add: require_session_def keepsD)
    have "\<exists>e. w_stepups (final ?v w) tok = Some e \<and> clock E (w_n (final ?v w)) < e"
      by (rule require_step_up_changes [OF require_session_changes(2) [OF c assms(3)] assms(4)])
    then show ?thesis using live n [OF v] by (auto simp: keepsD [OF keeps_session_valid(2)])
  qed
qed

text \<open>
  The device changes only for a live session: a request to any route that changed it came
  through the session gate with a stored session within both limits, and on the destructive
  routes also with an unexpired step-up credit of that session.
\<close>

theorem device_needs_session:
  assumes "w_dev (final (handle E why tok ep) w) \<noteq> w_dev w"
  shows "\<not> open_route ep \<and> session_live E tok (clock E (Suc (w_n w))) (w_db w)
    \<and> (step_up_route ep \<longrightarrow> (\<exists>e n. w_stepups w tok = Some e \<and> n > w_n w \<and> clock E n < e))"
proof -
  have "\<not> open_route ep"
    using assms open_keeps_dev [of ep E why tok] by (auto simp: handle_def keepsD)
  then show ?thesis
    using handle_gate [where f = w_dev, OF assms _ keeps_session_valid(1) keeps_tickets(7)] by blast
qed

text \<open>The example: the device counts the commands it is given.\<close>

definition count_env :: "nat env" where
  "count_env = sample_env (\<lambda>d c. (Inr [], Suc d)) (\<lambda>d c. (None, Suc d))"

definition stepped_up :: "nat world" where
  "stepped_up = (enrolled 0)\<lparr>w_stepups := [''tok'' \<mapsto> 100 * second], w_image := Some [1]\<rparr>"

lemma count_facts:
  "result (session_valid count_env ''tok'' b) (enrolled 0)"
  "final (session_valid count_env ''tok'' b) (enrolled 0) = (enrolled 0)\<lparr>w_n := 2\<rparr>"
  "result (session_valid count_env ''tok'' b) stepped_up"
  "final (session_valid count_env ''tok'' b) stepped_up = stepped_up\<lparr>w_n := 2\<rparr>"
  "run_cmd count_env d c = (Inr [], Suc d)" "detach_cmd count_env d c = (None, Suc d)"
  "clock count_env 2 = 2 * second" "w_dev (enrolled d) = d"
  using sample_session_valid [of "enrolled 0" 0 "\<lambda>d c. (Inr [], Suc d)" "\<lambda>d c. (None, Suc d)" b]
    sample_session_valid [of stepped_up 0 "\<lambda>d c. (Inr [], Suc d)" "\<lambda>d c. (None, Suc d)" b]
  by (simp_all add: count_env_def stepped_up_def) (simp_all add: enrolled_def challenged_def sample_world_def sample_env_def)

lemma count_up: "w_dev (final (handle count_env id ''tok'' VpnUp) stepped_up) \<noteq> w_dev stepped_up"
  by (simp add: handle_def handler_def require_session_def vpn_up_handler_def vpn_up_def run_only_def count_facts)

theorem device_needs_session_witness:
  "\<not> open_route VpnUp \<and> session_live count_env ''tok'' (clock count_env (Suc (w_n stepped_up))) (w_db stepped_up)"
  using device_needs_session [OF count_up] by blast

section \<open>Credentials\<close>


lemma register_handle:
  "db_creds (w_db (final (handle idle_env id [] (RegisterFinish (Some sample_register))) (challenged ())))
     \<noteq> db_creds (w_db (challenged ()))"
  using idle_registration by (simp add: handle_def handler_def)


section \<open>Firmware and factory reset\<close>

text \<open>
  What only a detached start can change: an observation \<open>v\<close> of the device that no ordinary
  command and no conntrack flush affects, such as the firmware it runs or whether the overlay
  was wiped.
\<close>

definition quiet :: "'d env \<Rightarrow> ('d \<Rightarrow> 'v) \<Rightarrow> bool" where
  "quiet E v \<longleftrightarrow> (\<forall>d argv. v (snd (run_cmd E d argv)) = v d)
     \<and> (case flush_ct E of None \<Rightarrow> True | Some f \<Rightarrow> \<forall>d. v (snd (f d)) = v d)"

lemma quiet_dev_all: "quiet E v \<Longrightarrow> v (snd (dev_all (run_cmd E) cs d)) = v d"
proof (induction cs arbitrary: d)
  case (Cons c cs)
  then have "v (snd (run_cmd E d c)) = v d" by (simp add: quiet_def)
  with Cons show ?case by (cases "run_cmd E d c") (auto split: sum.split)
qed simp

lemma quiet_run:
  assumes "quiet E v"
  shows "keeps (\<lambda>w. v (w_dev w)) (run E argv)" "keeps (\<lambda>w. v (w_dev w)) (run_all E cs)"
    "flush_ct E = Some f \<Longrightarrow> keeps (\<lambda>w. v (w_dev w)) (State (\<lambda>w. case f (w_dev w) of (r, d) \<Rightarrow> (r, w\<lparr>w_dev := d\<rparr>)))"
  using assms quiet_dev_all [OF assms] by (auto simp: keeps_def quiet_def case_prod_beta)

text \<open>Programs that leave the device alone leave any observation of it alone.\<close>

lemma keeps_dev_comp: "keeps w_dev m \<Longrightarrow> keeps (\<lambda>w. v (w_dev w)) m"
  by (simp add: keeps_def)

lemmas branch_keeps = keeps_bind keeps_if keeps_option keeps_sum keeps_prod keeps_let keeps_return

lemma quiet_device_ops:
  assumes "quiet E v"
  shows "keeps (\<lambda>w. v (w_dev w)) (vpn_import_config E c)" "keeps (\<lambda>w. v (w_dev w)) (vpn_up E i)"
    "keeps (\<lambda>w. v (w_dev w)) (vpn_down E i)" "keeps (\<lambda>w. v (w_dev w)) (vpn_status E)"
    "keeps (\<lambda>w. v (w_dev w)) (set_kill_switch E b)" "keeps (\<lambda>w. v (w_dev w)) (kill_switch E)"
    "keeps (\<lambda>w. v (w_dev w)) (dns_enable E)" "keeps (\<lambda>w. v (w_dev w)) (dns_disable E)"
    "keeps (\<lambda>w. v (w_dev w)) (dns_enabled E)" "keeps (\<lambda>w. v (w_dev w)) (set_fail_closed E b)"
    "keeps (\<lambda>w. v (w_dev w)) (set_ap E s k)" "keeps (\<lambda>w. v (w_dev w)) (join_uplink E s k j)"
    "keeps (\<lambda>w. v (w_dev w)) (apply_sta_identity E jd)" "keeps (\<lambda>w. v (w_dev w)) (wifi_get_status E)"
    "keeps (\<lambda>w. v (w_dev w)) (board_info E)" "keeps (\<lambda>w. v (w_dev w)) (test_image E)"
  unfolding vpn_import_config_def vpn_up_def vpn_down_def run_only_def vpn_status_def set_kill_switch_def
    kill_switch_def dns_enable_def dns_disable_def dns_enabled_def set_fail_closed_def set_ap_def join_uplink_def
    apply_sta_identity_def wifi_get_status_def board_info_def test_image_def
  by (intro branch_keeps quiet_run [OF assms] | assumption | (rule keeps_dev_comp, rule keeps_intro))+

lemma quiet_scan: "quiet E v \<Longrightarrow> keeps (\<lambda>w. v (w_dev w)) (wifi_scan E)"
proof -
  assume q: "quiet E v"
  have u: "keeps (\<lambda>w. v (w_dev w)) (up_device E)"
    unfolding up_device_def by (intro branch_keeps quiet_run [OF q])
  moreover have "keeps (\<lambda>w. v (w_dev w)) (wait_device E n r)" for n r
    by (rule keeps_wait [OF keeps_dev_comp [OF keeps_reads(34)] u])
  ultimately show ?thesis
    unfolding wifi_scan_def by (intro branch_keeps quiet_run [OF q])
qed

lemma quiet_handler:
  assumes "quiet E v" "ep \<noteq> FirmwareFlash" "ep \<noteq> FactoryReset"
  shows "keeps (\<lambda>w. v (w_dev w)) (handler E why tok ep)"
proof (cases "open_route ep \<or> ep = StepUpBegin \<or> (\<exists>rq. ep = StepUpFinish rq) \<or> ep = RecoveryRegenerate")
  case True
  then have "keeps w_dev (handler E why tok ep)"
    using open_keeps_dev by (auto simp: handler_def intro: keeps_intro)
  then show ?thesis by (rule keeps_dev_comp)
next
  case False
  note q = quiet_device_ops [OF assms(1)] quiet_scan [OF assms(1)]
  show ?thesis
    using False assms(2,3)
    unfolding handler_def vpn_import_def vpn_config_get_def vpn_up_handler_def vpn_down_handler_def
      vpn_status_handler_def mac_schedule_get_def mac_schedule_set_def mac_profile_get_def mac_profile_set_def
      roll_mac_def wifi_status_handler_def wifi_scan_handler_def wifi_set_ap_def wifi_join_uplink_def
      kill_switch_get_def kill_switch_set_def maint_board_def maint_firmware_upload_def net_portal_mode_def
      enter_portal_mode_def enter_record_def fresh_record_def relax_def exit_portal_mode_def restore_def
      dns_get_def dns_set_def dns_switch_on_def dns_switch_off_def apply_dns_default_def net_portal_def
      dns_provider_set_def
    by (cases ep) (simp_all, (intro branch_keeps q | (rule keeps_dev_comp, rule keeps_intro))+)
qed

text \<open>A flash that had an effect had an image, and the image passed the test right before.\<close>

lemma flash_tested:
  assumes "quiet E v" "v (w_dev (final (maint_firmware_flash E) w)) \<noteq> v (w_dev w)"
  shows "\<exists>img. w_image w = Some img \<and> img \<noteq> [] \<and> result (test_image E) w = None"
proof -
  have t: "v (w_dev (final (test_image E) u)) = v (w_dev u)" for u
    using keepsD [OF quiet_device_ops(16) [OF assms(1)], of u] by simp
  have n: "result image_size w \<noteq> 0"
    using assms(2) by (cases "result image_size w = 0") (simp_all add: maint_firmware_flash_def image_size_def)
  then have img: "\<exists>img. w_image w = Some img \<and> img \<noteq> []"
    by (auto simp: image_size_def split: option.splits)
  have "result (test_image E) w = None"
  proof (rule ccontr)
    assume "result (test_image E) w \<noteq> None"
    then have "final (maint_firmware_flash E) w = final (test_image E) w"
      using n by (auto simp: maint_firmware_flash_def image_size_def)
    with assms(2) t show False by simp
  qed
  with img show ?thesis by blast
qed


text \<open>The example: a device whose firmware only detached starts change.\<close>

definition flash_env :: "nat env" where
  "flash_env = sample_env (\<lambda>d c. (Inr [], d)) (\<lambda>d c. (None, Suc d))"

lemma flash_quiet: "quiet flash_env id"
  by (simp add: quiet_def flash_env_def sample_env_def)

lemma flash_facts:
  "result (session_valid flash_env ''tok'' b) stepped_up"
  "final (session_valid flash_env ''tok'' b) stepped_up = stepped_up\<lparr>w_n := 2\<rparr>"
  "run_cmd flash_env d c = (Inr [], d)" "detach_cmd flash_env d c = (None, Suc d)"
  "clock flash_env 2 = 2 * second" "w_dev stepped_up = 0" "w_image stepped_up = Some [1]"
  "w_stepups stepped_up = [''tok'' \<mapsto> 100 * second]"
  using sample_session_valid [of stepped_up 0 "\<lambda>d c. (Inr [], d)" "\<lambda>d c. (None, Suc d)" b]
  by (simp_all add: flash_env_def stepped_up_def) (simp_all add: enrolled_def challenged_def sample_world_def sample_env_def)

lemma flash_runs:
  "id (w_dev (final (handle flash_env id ''tok'' FirmwareFlash) stepped_up)) \<noteq> id (w_dev stepped_up)"
proof -
  have c: "result (consume flash_env StepUps ''tok'') (stepped_up\<lparr>w_n := 2\<rparr>)"
    by (simp add: consume_run ttl_consume_answer flash_facts second_def)
  have d: "w_dev (final (consume flash_env StepUps ''tok'') (stepped_up\<lparr>w_n := 2\<rparr>)) = 0"
    "w_image (final (consume flash_env StepUps ''tok'') (stepped_up\<lparr>w_n := 2\<rparr>)) = Some [1]"
    by (simp_all add: flash_facts keepsD [OF keeps_tickets(7)] keepsD [OF keeps_tickets(9)])
  show ?thesis
    by (simp add: handle_def handler_def require_session_def require_step_up_def maint_firmware_flash_def
        image_size_def test_image_def flash_def flash_facts c d)
qed


section \<open>Importing a VPN configuration\<close>

text \<open>What pinning may change: the host of an endpoint that is a name, to an IPv4 address.\<close>

definition pinned_peer :: "peer \<Rightarrow> peer \<Rightarrow> bool" where
  "pinned_peer p q \<longleftrightarrow> q = p \<or> p_endpointHost p \<noteq> [] \<and> parse_ip (p_endpointHost p) = None
     \<and> is_ipv4 (p_endpointHost q) \<and> q = p\<lparr>p_endpointHost := p_endpointHost q\<rparr>"

definition pinned_from :: "vpn_config \<Rightarrow> vpn_config \<Rightarrow> bool" where
  "pinned_from c d \<longleftrightarrow> d = c\<lparr>c_peers := c_peers d\<rparr> \<and> list_all2 pinned_peer (c_peers c) (c_peers d)"

lemma pin_peer_pinned: "pinned_peer p (result (pin_peer E p) w)"
  by (auto simp: pin_peer_def pinned_peer_def find_Some_iff split: sum.split option.split)

lemma pin_peers_pinned: "list_all2 pinned_peer ps (result (pin_peers E ps) w)"
  by (induction ps arbitrary: w) (simp_all add: pin_peer_pinned)

lemma pin_endpoints_pinned: "pinned_from c (result (pin_endpoints E c) w)"
  by (simp add: pin_endpoints_def pinned_from_def pin_peers_pinned)

text \<open>
  C10. An import that is answered 200 was of a configuration that passed validation; the device
  got its UCI commands, all successful, with at most endpoint names replaced by the IPv4
  address they resolve to; and the response and the database hold the summary of the pasted
  configuration and nothing else of it.  Any other answer leaves the database as it was.
\<close>

theorem vpn_import_effect:
  "(if rs_code (result (vpn_import E why rq) w) = 200
    then \<exists>t c d. rq = Some t \<and> parse_config t = Inr c \<and> pinned_from c d
       \<and> dev_all (run_cmd E) (import_cmds d) (w_dev w) = (None, w_dev (final (vpn_import E why rq) w))
       \<and> rs_body (result (vpn_import E why rq) w)
         = Json (JObj [(''imported'', JBool True), (''summary'', JRaw (json_summary E (config_summary c)))])
       \<and> w_db (final (vpn_import E why rq) w)
         = (w_db w)\<lparr>db_config := bucket_put vpnSummaryKey (json_summary E (config_summary c)) (db_config (w_db w))\<rparr>
    else w_db (final (vpn_import E why rq) w) = w_db w)"
proof -
  consider "rq = None \<or> rq = Some []" | t e where "rq = Some t" "t \<noteq> []" "parse_config t = Inl e"
    | t c where "rq = Some t" "t \<noteq> []" "parse_config t = Inr c"
    by (cases rq; cases "parse_config (the rq)") auto
  then show ?thesis
  proof cases
    case 3
    let ?p = "pin_endpoints E c"
    let ?d = "result ?p w"
    have p: "w_db (final ?p w) = w_db w" "w_dev (final ?p w) = w_dev w"
      by (simp_all add: keepsD [OF keeps_pin(1)] keepsD [OF keeps_pin(2)])
    let ?r = "dev_all (run_cmd E) (import_cmds ?d) (w_dev w)"
    have i: "result (vpn_import_config E ?d) (final ?p w) = fst ?r"
      "w_db (final (vpn_import_config E ?d) (final ?p w)) = w_db w"
      "w_dev (final (vpn_import_config E ?d) (final ?p w)) = snd ?r"
      using p by (simp_all add: vpn_import_config_def)
    show ?thesis
    proof (cases "fst ?r = None")
      case True
      then have "?r = (None, snd ?r)" by (metis prod.collapse)
      with 3 i True show ?thesis
        using pin_endpoints_pinned [of c E w]
        by (auto simp: vpn_import_def Let_def put_config_def commit_def checked_put_Some internal_error_def write_json_def
            http_error_def vpnSummaryKey_def key_ok_def max_key_size_def checked_put_def)
    next
      case False
      with 3 i show ?thesis by (auto simp: vpn_import_def Let_def)
    qed
  qed (auto simp: vpn_import_def bad_request_def)
qed

end
