(* ===== verification/Portal_Properties.thy ===== *)
theory Portal_Properties
  imports Api Auth_Properties
begin

text \<open>
  The portal machine: what a pause remembers, how long it can last, what ends it (the watch has
  its own theory), and one interleaving that brings a cancelled pause back.
\<close>

section \<open>The stored pause\<close>

definition stored_pause :: "'d env \<Rightarrow> db \<Rightarrow> portal_record option" where
  "stored_pause E d =
     (case bucket_get (db_config d) portalModeKey of
        None \<Rightarrow> None
      | Some raw \<Rightarrow>
         (case parse_portal E raw of
            None \<Rightarrow> None
          | Some rec \<Rightarrow> if \<not> pr_active rec then None else Some rec))"

text \<open>The posture a pause remembers, and since when.\<close>

definition same_posture :: "portal_record \<Rightarrow> portal_record \<Rightarrow> bool" where
  "same_posture r s \<longleftrightarrow> pr_savedKS s = pr_savedKS r \<and> pr_savedDNS s = pr_savedDNS r \<and> pr_since s = pr_since r"

definition times_fit :: "portal_record \<Rightarrow> bool" where
  "times_fit r \<longleftrightarrow> time_in_range (pr_since r) \<and> time_in_range (pr_deadline r)"

text \<open>Readings of the clock leave room for the window before the last representable year.\<close>

definition clock_roomy :: "'d env \<Rightarrow> bool" where
  "clock_roomy E \<longleftrightarrow> clock_ok E \<and> (\<forall>n. time_in_range (clock E n + portalWindow))"

lemma portal_get_run:
  "result (portal_get E) w = (if io_fault E (w_n w) then None else stored_pause E (w_db w))"
  "final (portal_get E) w = w\<lparr>w_n := Suc (w_n w)\<rparr>"
  by (simp_all add: portal_get_def config_def stored_pause_def split: option.split)

lemma put_config_run:
  assumes "no_faults E" "key_ok k"
  shows "w_db (final (put_config E k v) w) = (w_db w)\<lparr>db_config := bucket_put k v (db_config (w_db w))\<rparr>"
    "w_n (final (put_config E k v) w) = Suc (w_n w)"
  using assms by (simp_all add: put_config_def commit_def checked_put_def no_faults_def)

lemma portal_key: "key_ok portalModeKey"
  by (simp add: key_ok_def portalModeKey_def max_key_size_def)

lemma save_stored:
  assumes "no_faults E" "portal_json_ok E" "times_fit r" "pr_active r"
  shows "\<exists>u. stored_pause E (w_db (final (save_portal_record E r) w)) = Some (r\<lparr>pr_url := u\<rparr>)
    \<and> ((\<forall>c \<in> set (pr_url r). plain_char c) \<longrightarrow> u = pr_url r)"
    "w_n (final (save_portal_record E r) w) = Suc (w_n w)"
proof -
  obtain s u where s: "json_portal E r = Some s" "parse_portal E s = Some (r\<lparr>pr_url := u\<rparr>)"
    "(\<forall>c \<in> set (pr_url r). plain_char c) \<longrightarrow> u = pr_url r"
    using assms(2,3) unfolding portal_json_ok_def times_fit_def by blast
  have "stored_pause E (w_db (final (save_portal_record E r) w)) = Some (r\<lparr>pr_url := u\<rparr>)"
    using s assms(4) put_config_run [OF assms(1) portal_key, of s w]
    by (simp add: save_portal_record_def stored_pause_def bucket_laws)
  then show "\<exists>u. stored_pause E (w_db (final (save_portal_record E r) w)) = Some (r\<lparr>pr_url := u\<rparr>)
    \<and> ((\<forall>c \<in> set (pr_url r). plain_char c) \<longrightarrow> u = pr_url r)" using s(3) by blast
  show "w_n (final (save_portal_record E r) w) = Suc (w_n w)"
    using s put_config_run [OF assms(1) portal_key, of s w] by (simp add: save_portal_record_def)
qed

lemma delete_stored:
  assumes "no_faults E"
  shows "stored_pause E (w_db (final (delete_config E portalModeKey) w)) = None"
  using assms by (simp add: delete_config_def commit_def no_faults_def stored_pause_def bucket_laws)

section \<open>Clock positions\<close>

text \<open>Programs only move forward in the sequence of readings.\<close>

definition forward :: "('d world, 'a) state \<Rightarrow> bool" where
  "forward m \<longleftrightarrow> (\<forall>w. w_n w \<le> w_n (final m w))"

named_theorems forward_intro \<open>rules that show a program moves forward\<close>

lemma forward_branch [forward_intro]:
  "forward (ret x)" "forward m \<Longrightarrow> (\<And>a. forward (f a)) \<Longrightarrow> forward (m \<bind> f)"
  "(b \<Longrightarrow> forward m) \<Longrightarrow> (\<not> b \<Longrightarrow> forward n) \<Longrightarrow> forward (if b then m else n)"
  "(y = None \<Longrightarrow> forward m) \<Longrightarrow> (\<And>z. y = Some z \<Longrightarrow> forward (g z)) \<Longrightarrow> forward (case y of None \<Rightarrow> m | Some z \<Rightarrow> g z)"
  "(\<And>z. s = Inl z \<Longrightarrow> forward (h z)) \<Longrightarrow> (\<And>z. s = Inr z \<Longrightarrow> forward (k z)) \<Longrightarrow>
     forward (case s of Inl z \<Rightarrow> h z | Inr z \<Rightarrow> k z)"
  by (auto simp: forward_def split: option.split sum.split intro: order_trans)

lemma forward_ops [forward_intro]:
  "forward (time_now E)" "forward (db_view E v)" "forward (db_update E u)" "forward (run E argv)"
  "forward (run_all E cs)" "forward (observe E p)" "forward (get_world g)"
  "(\<And>w. w_n (q w) = w_n w) \<Longrightarrow> forward (modify q)"
  "(\<And>w. w_n (snd (r w)) = w_n w) \<Longrightarrow> forward (State r)"
  by (simp_all add: forward_def)

lemma forwardD: "forward m \<Longrightarrow> w_n w \<le> w_n (final m w)"
  by (simp add: forward_def)

lemma forward_portal [forward_intro]:
  "forward (portal_get E)" "forward (save_portal_record E r)" "forward (vpn_up E i)" "forward (vpn_down E i)"
  "forward (set_kill_switch E b)" "forward (kill_switch E)" "forward (dns_enable E)" "forward (dns_disable E)"
  "forward (dns_enabled E)" "forward (set_fail_closed E b)" "forward (set_portal_note n)" "forward kick_portal_watch"
  "forward take_kick" "forward (probe_portal E)" "forward (config E k)" "forward (delete_config E k)"
  unfolding portal_get_def save_portal_record_def vpn_up_def vpn_down_def run_only_def set_kill_switch_def kill_switch_def
    dns_enable_def dns_disable_def dns_enabled_def set_fail_closed_def close_upstream_def set_portal_note_def
    kick_portal_watch_def take_kick_def probe_portal_def config_def delete_config_def put_config_def
  by (intro forward_intro; simp add: case_prod_beta)+

lemma forward_machine [forward_intro]:
  "forward (enter_record E u)" "forward (relax E r)" "forward (restore E r)" "forward (fresh_record E)"
  "forward (enter_portal_mode E u)" "forward (exit_portal_mode E n)" "forward (cancel_portal_mode E n)"
  unfolding enter_portal_mode_def enter_record_def fresh_record_def relax_def exit_portal_mode_def restore_def
    cancel_portal_mode_def Let_def
  by (intro forward_intro)+

lemma clock_later: "clock_ok E \<Longrightarrow> m \<le> n \<Longrightarrow> clock E m \<le> clock E n"
  by (simp add: clock_ok_def)

section \<open>Entering\<close>

text \<open>The pause an entry stores: the old one with a new deadline, or what the queries reported.\<close>

lemma keeps_db_machine:
  "w_db (final (relax E r) w) = w_db w" "w_db (final (restore E r) w) = w_db w"
  "w_db (final (set_portal_note n) w) = w_db w" "w_db (final kick_portal_watch w) = w_db w"
  "w_db (final (fresh_record E) w) = w_db w"
  by (rule keepsD; unfold relax_def restore_def set_portal_note_def kick_portal_watch_def fresh_record_def;
      intro keeps_intro; simp)+

definition pause_fits :: "'d env \<Rightarrow> db \<Rightarrow> bool" where
  "pause_fits E d \<longleftrightarrow> (case stored_pause E d of None \<Rightarrow> True | Some r \<Rightarrow> times_fit r)"

lemma stored_active: "stored_pause E d = Some r \<Longrightarrow> pr_active r"
  by (auto simp: stored_pause_def split: option.splits if_splits)

lemma enter_stores:
  fixes E :: "'d env" and w :: "'d world" and url :: string
  assumes "no_faults E" "portal_json_ok E" "clock_roomy E" "pause_fits E (w_db w)"
  defines "u \<equiv> final (enter_record E url) w"
  obtains r n where "stored_pause E (w_db u) = Some r" "w_n w \<le> n" "n < w_n u"
    "pr_deadline r = clock E n + portalWindow" "times_fit r"
    "case stored_pause E (w_db w) of
        Some old \<Rightarrow> same_posture old r
      | None \<Rightarrow> pr_savedKS r = (result (kill_switch E) w = Some True)"
    "result (enter_record E url) w = r\<lparr>pr_url := pr_url (result (enter_record E url) w)\<rparr>"
proof -
  let ?old = "stored_pause E (w_db w)"
  let ?w1 = "w\<lparr>w_n := Suc (w_n w)\<rparr>"
  have g: "result (portal_get E) w = ?old" "final (portal_get E) w = ?w1"
    using assms(1) by (simp_all add: portal_get_run no_faults_def)
  define rec w2 where "rec = (case ?old of Some r \<Rightarrow> r | None \<Rightarrow> result (fresh_record E) ?w1)"
    and "w2 = (case ?old of Some r \<Rightarrow> ?w1 | None \<Rightarrow> final (fresh_record E) ?w1)"
  define r' where "r' = rec\<lparr>pr_deadline := clock E (w_n w2) + portalWindow,
      pr_url := (if url \<noteq> [] then url else pr_url rec)\<rparr>"
  have w2: "w_n w \<le> w_n w2"
    using forwardD [OF forward_machine(4), of ?w1 E] by (auto simp: w2_def split: option.split)
  have rec: "pr_active rec" "time_in_range (pr_since rec)"
    using assms(3,4) stored_active [of E "w_db w"]
    by (auto simp: rec_def fresh_record_def pause_fits_def times_fit_def clock_roomy_def clock_ok_def split: option.splits)
  have r': "pr_active r'" "times_fit r'"
    using rec assms(3) by (simp_all add: r'_def times_fit_def clock_roomy_def)
  have run: "result (enter_record E url) w = r'"
    "u = final (save_portal_record E r') (w2\<lparr>w_n := Suc (w_n w2)\<rparr>)"
    using g by (cases ?old; simp add: enter_record_def u_def rec_def w2_def r'_def Let_def)+
  obtain a where a: "stored_pause E (w_db u) = Some (r'\<lparr>pr_url := a\<rparr>)"
    using save_stored(1) [OF assms(1,2) r'(2,1)] run(2) by blast
  have n: "w_n w2 < w_n u" using save_stored(2) [OF assms(1,2) r'(2,1)] run(2) by simp
  show thesis
  proof (rule that [OF a w2 n])
    show "pr_deadline (r'\<lparr>pr_url := a\<rparr>) = clock E (w_n w2) + portalWindow" by (simp add: r'_def)
    show "times_fit (r'\<lparr>pr_url := a\<rparr>)" using r'(2) by (simp add: times_fit_def)
    have ks: "result (kill_switch E) ?w1 = result (kill_switch E) w"
      by (simp add: kill_switch_def)
    show "case ?old of Some old \<Rightarrow> same_posture old (r'\<lparr>pr_url := a\<rparr>)
        | None \<Rightarrow> pr_savedKS (r'\<lparr>pr_url := a\<rparr>) = (result (kill_switch E) w = Some True)"
      using ks by (auto simp: r'_def rec_def same_posture_def fresh_record_def split: option.split)
    show "result (enter_record E url) w = r'\<lparr>pr_url := a\<rparr>\<lparr>pr_url := pr_url (result (enter_record E url) w)\<rparr>"
      using run(1) by simp
  qed
qed

section \<open>One step of the machine\<close>

text \<open>
  What a step may do to the stored pause: drop it, or leave one whose deadline is at most the
  window away and, when the step began paused, whose posture is the one it began with.
\<close>

definition pause_bounded :: "'d env \<Rightarrow> 'd world \<Rightarrow> bool" where
  "pause_bounded E w \<longleftrightarrow> (case stored_pause E (w_db w) of None \<Rightarrow> True
     | Some r \<Rightarrow> times_fit r \<and> pr_deadline r \<le> clock E (w_n w) + portalWindow)"

definition pause_step :: "'d env \<Rightarrow> 'd world \<Rightarrow> 'd world \<Rightarrow> bool" where
  "pause_step E w w' \<longleftrightarrow> w_n w \<le> w_n w' \<and> pause_bounded E w'
     \<and> (case (stored_pause E (w_db w), stored_pause E (w_db w')) of
          (Some r, Some r') \<Rightarrow> same_posture r r' | _ \<Rightarrow> True)"

definition portal_env :: "'d env \<Rightarrow> bool" where
  "portal_env E \<longleftrightarrow> no_faults E \<and> portal_json_ok E \<and> clock_roomy E"

lemma portal_envD: "portal_env E \<Longrightarrow> no_faults E" "portal_env E \<Longrightarrow> portal_json_ok E"
  "portal_env E \<Longrightarrow> clock_roomy E" "portal_env E \<Longrightarrow> clock_ok E"
  by (simp_all add: portal_env_def clock_roomy_def)

lemma bounded_fits: "pause_bounded E w \<Longrightarrow> pause_fits E (w_db w)"
  by (auto simp: pause_bounded_def pause_fits_def split: option.splits)

lemma same_posture_refl [simp]: "same_posture r r"
  by (simp add: same_posture_def)

lemma same_posture_url [simp]: "same_posture r (s\<lparr>pr_url := u\<rparr>) = same_posture r s"
  by (simp add: same_posture_def)

text \<open>A step that leaves the stored pause as it is.\<close>

lemma pause_step_same:
  assumes "portal_env E" "pause_bounded E w" "w_n w \<le> w_n w'"
    "stored_pause E (w_db w') = stored_pause E (w_db w)"
  shows "pause_step E w w'"
proof -
  have "clock E (w_n w) \<le> clock E (w_n w')"
    using assms(1,3) by (simp add: portal_envD clock_later)
  with assms show ?thesis by (auto simp: pause_step_def pause_bounded_def split: option.splits)
qed

lemma pause_step_drop:
  "w_n w \<le> w_n w' \<Longrightarrow> stored_pause E (w_db w') = None \<Longrightarrow> pause_step E w w'"
  by (simp add: pause_step_def pause_bounded_def split: option.split)

lemma portal_get_plain:
  assumes "no_faults E"
  shows "result (portal_get E) w = stored_pause E (w_db w)" "w_db (final (portal_get E) w) = w_db w"
    "w_n (final (portal_get E) w) = Suc (w_n w)"
  using assms by (simp_all add: portal_get_run no_faults_def)

lemma enter_step:
  assumes "portal_env E" "pause_bounded E w"
  shows "pause_step E w (final (enter_portal_mode E url) w)"
proof -
  let ?u = "final (enter_record E url) w"
  have f: "w_n w \<le> w_n (final (enter_portal_mode E url) w)"
    by (rule forwardD [OF forward_machine(5)])
  have f': "w_n ?u \<le> w_n (final (enter_portal_mode E url) w)"
    using forwardD [OF forward_machine(2)] by (simp add: enter_portal_mode_def set_portal_note_def kick_portal_watch_def)
  have db: "w_db (final (enter_portal_mode E url) w) = w_db ?u"
    by (simp add: enter_portal_mode_def keeps_db_machine)
  obtain r n where r: "stored_pause E (w_db ?u) = Some r" "n < w_n ?u" "pr_deadline r = clock E n + portalWindow"
    "times_fit r" "case stored_pause E (w_db w) of Some old \<Rightarrow> same_posture old r
      | None \<Rightarrow> pr_savedKS r = (result (kill_switch E) w = Some True)"
    using enter_stores [OF portal_envD(1-3) bounded_fits] assms by metis
  have "clock E n \<le> clock E (w_n (final (enter_portal_mode E url) w))"
    using r(2) f' assms(1) by (intro clock_later portal_envD(4)) simp_all
  with r db f show ?thesis by (auto simp: pause_step_def pause_bounded_def split: option.splits)
qed

lemma exit_drops:
  assumes "no_faults E"
  shows "stored_pause E (w_db (final (exit_portal_mode E note) w)) = None"
  by (cases "stored_pause E (w_db w)")
    (simp_all add: exit_portal_mode_def portal_get_plain [OF assms] keeps_db_machine delete_stored [OF assms])

lemma cancel_drops:
  assumes "no_faults E"
  shows "stored_pause E (w_db (final (cancel_portal_mode E reason) w)) = None"
  by (cases "stored_pause E (w_db w)")
    (simp_all add: cancel_portal_mode_def portal_get_plain [OF assms] keeps_db_machine delete_stored [OF assms])

lemma exit_step: "portal_env E \<Longrightarrow> pause_step E w (final (exit_portal_mode E note) w)"
  by (intro pause_step_drop exit_drops forwardD forward_intro portal_envD)

lemma cancel_step: "portal_env E \<Longrightarrow> pause_step E w (final (cancel_portal_mode E note) w)"
  by (intro pause_step_drop cancel_drops forwardD forward_intro portal_envD)

text \<open>One pass of the paused watch, from the record that is stored.\<close>

lemma probe_plain: "w_db (final (probe_portal E) w) = w_db w" "w_n (final (probe_portal E) w) = Suc (w_n w)"
  by (simp_all add: probe_portal_def)

lemma watch_paused_step:
  assumes "portal_env E" "pause_bounded E w" "stored_pause E (w_db w) = Some rec"
  shows "pause_step E w (final (watch_paused E rec) w)"
proof -
  let ?w1 = "w\<lparr>w_n := Suc (w_n w)\<rparr>"
  let ?w2 = "final (probe_portal E) ?w1" and ?p = "result (probe_portal E) ?w1"
  let ?save = "ps_captive ?p \<and> ps_url ?p \<noteq> [] \<and> ps_url ?p \<noteq> pr_url rec"
  note e = portal_envD(1-4) [OF assms(1)]
  have f: "w_n w \<le> w_n (final (watch_paused E rec) w)"
    unfolding watch_paused_def by (rule forwardD) (intro forward_intro)
  consider "clock E (w_n w) > pr_deadline rec \<or> ps_online ?p" "stored_pause E (w_db (final (watch_paused E rec) w)) = None"
    | "?save" "final (watch_paused E rec) w = final (save_portal_record E (rec\<lparr>pr_url := ps_url ?p\<rparr>)) ?w2"
    | "final (watch_paused E rec) w = ?w2"
    by (cases "clock E (w_n w) > pr_deadline rec"; cases "ps_online ?p"; cases "?save")
      (simp_all add: watch_paused_def exit_drops [OF e(1)])
  then show ?thesis
  proof cases
    case 1
    with f show ?thesis by (intro pause_step_drop)
  next
    case 2
    have fit: "times_fit rec" "pr_deadline rec \<le> clock E (w_n w) + portalWindow"
      using assms(2,3) by (simp_all add: pause_bounded_def)
    let ?r = "rec\<lparr>pr_url := ps_url ?p\<rparr>"
    have "times_fit ?r" "pr_active ?r"
      using fit stored_active [OF assms(3)] by (simp_all add: times_fit_def)
    then obtain u where u: "stored_pause E (w_db (final (save_portal_record E ?r) ?w2)) = Some (?r\<lparr>pr_url := u\<rparr>)"
      using save_stored(1) [OF e(1,2)] by blast
    have "clock E (w_n w) \<le> clock E (w_n (final (watch_paused E rec) w))" using f e(4) by (rule clock_later [rotated])
    with u 2(2) assms(3) fit f show ?thesis
      by (simp add: pause_step_def pause_bounded_def times_fit_def)
  next
    case 3
    show ?thesis by (rule pause_step_same [OF assms(1,2) f]) (simp add: 3 probe_plain)
  qed
qed

text \<open>The scout: a round either enters or leaves the pause as it is.\<close>

lemma forward_scout: "forward (scout_round E d)" "forward (scout_rounds E d stops)" "forward (portal_scout E stops)"
proof -
  show r: "forward (scout_round E d)" for d
    unfolding scout_round_def by (intro forward_intro)
  show s: "forward (scout_rounds E d stops)" for d
    by (induction stops) (simp_all, (intro forward_intro r | assumption)+)
  show "forward (portal_scout E stops)"
    unfolding portal_scout_def by (intro forward_intro s)
qed

lemma bounded_same:
  "portal_env E \<Longrightarrow> pause_bounded E w \<Longrightarrow> w_n w \<le> w_n w' \<Longrightarrow> w_db w' = w_db w \<Longrightarrow> pause_bounded E w'"
  using pause_step_same [of E w w'] by (simp add: pause_step_def)

lemma scout_round_step:
  assumes "portal_env E" "pause_bounded E w"
  shows "pause_step E w (final (scout_round E d) w)"
    "result (scout_round E d) w \<Longrightarrow> w_db (final (scout_round E d) w) = w_db w"
proof -
  note e = portal_envD(1-4) [OF assms(1)]
  let ?w1 = "w\<lparr>w_n := Suc (w_n w)\<rparr>"
  let ?w2 = "final (portal_get E) ?w1"
  let ?w3 = "final (probe_portal E) ?w2" and ?p = "result (probe_portal E) ?w2"
  have f: "w_n w \<le> w_n (final (scout_round E d) w)" by (rule forwardD [OF forward_scout(1)])
  have w3: "w_n w \<le> w_n ?w3" "w_db ?w3 = w_db w"
    by (simp_all add: probe_plain portal_get_plain [OF e(1)])
  consider "w_db (final (scout_round E d) w) = w_db w"
    | "\<not> result (scout_round E d) w" "final (scout_round E d) w = final (enter_portal_mode E (ps_url ?p)) ?w3"
      "stored_pause E (w_db w) = None"
    by (cases "clock E (w_n w) < d"; cases "stored_pause E (w_db w)"; cases "ps_captive ?p")
      (simp_all add: scout_round_def portal_get_plain [OF e(1)] probe_plain)
  then show "pause_step E w (final (scout_round E d) w)"
  proof cases
    case 1
    then show ?thesis by (intro pause_step_same [OF assms f]) simp
  next
    case 2
    have "pause_bounded E ?w3" by (rule bounded_same [OF assms w3])
    from enter_step [OF assms(1) this, of "ps_url ?p"] 2 f w3 show ?thesis
      by (simp add: pause_step_def)
  qed
  show "result (scout_round E d) w \<Longrightarrow> w_db (final (scout_round E d) w) = w_db w"
    by (cases "clock E (w_n w) < d"; cases "stored_pause E (w_db w)"; cases "ps_captive ?p")
      (simp_all add: scout_round_def portal_get_plain [OF e(1)] probe_plain)
qed

lemma pause_step_after:
  assumes "pause_step E v u" "w_db v = w_db w" "w_n w \<le> w_n v"
  shows "pause_step E w u"
  using assms by (auto simp: pause_step_def)

lemma scout_rounds_step:
  assumes "portal_env E" "pause_bounded E w"
  shows "pause_step E w (final (scout_rounds E d stops) w)"
  using assms(2)
proof (induction stops arbitrary: w)
  case Nil
  then show ?case by (simp add: pause_step_same [OF assms(1)])
next
  case (Cons stop stops)
  let ?w1 = "final (scout_round E d) w"
  show ?case
  proof (cases "result (scout_round E d) w \<and> \<not> stop")
    case True
    have db: "w_db ?w1 = w_db w" and n: "w_n w \<le> w_n ?w1"
      using scout_round_step(2) [OF assms(1) Cons.prems] True forwardD [OF forward_scout(1)] by auto
    have "pause_step E ?w1 (final (scout_rounds E d stops) ?w1)"
      by (rule Cons.IH [OF bounded_same [OF assms(1) Cons.prems n db]])
    from pause_step_after [OF this db n] True show ?thesis by simp
  next
    case False
    with scout_round_step(1) [OF assms(1) Cons.prems] show ?thesis by auto
  qed
qed

lemma watch_turn_step:
  assumes "portal_env E" "pause_bounded E w"
  shows "pause_step E w (final (watch_turn E wk) w)"
proof -
  note e = portal_envD(1-4) [OF assms(1)]
  let ?w1 = "w\<lparr>w_n := Suc (w_n w)\<rparr>"
  have g: "result (portal_get E) w = stored_pause E (w_db w)" "final (portal_get E) w = ?w1"
    using portal_get_plain(1) [OF e(1)] by (simp_all add: portal_get_run(2))
  have b: "pause_bounded E v" if "w_n w \<le> w_n v" "w_db v = w_db w" for v
    using bounded_same [OF assms that] .
  have kick: "w_db (final take_kick v) = w_db v" "w_n (final take_kick v) = w_n v" for v :: "'a world"
    by (simp_all add: take_kick_def)
  show ?thesis
  proof (cases "stored_pause E (w_db w)")
    case None
    let ?w2 = "final (time_now E) (final take_kick ?w1)"
    have "pause_step E ?w2 (final (scout_rounds E t (snd wk)) ?w2)" for t
      by (rule scout_rounds_step [OF assms(1) b]) (simp_all add: kick)
    then have "pause_step E w (final (portal_scout E (snd wk)) (final take_kick ?w1))"
      using pause_step_after [of E ?w2 _ w] by (simp add: portal_scout_def kick)
    moreover have "pause_step E w ?w1" by (rule pause_step_same [OF assms]) simp_all
    ultimately show ?thesis using None g by (simp add: watch_turn_def)
  next
    case (Some r)
    have "pause_step E ?w1 (final (watch_paused E r) ?w1)"
      by (rule watch_paused_step [OF assms(1) b]) (simp_all add: Some)
    then have s: "pause_step E w (final (watch_paused E r) ?w1)"
      by (rule pause_step_after) simp_all
    then have "pause_step E w (final take_kick (final (watch_paused E r) ?w1))"
      by (auto simp: pause_step_def pause_bounded_def kick split: option.splits)
    with s Some g show ?thesis by (simp add: watch_turn_def)
  qed
qed

section \<open>Histories\<close>

text \<open>
  The program steps of the portal machine, interleaved with anything else that leaves the
  stored pause alone (every other handler, and the passing of time).
\<close>

inductive portal_step :: "'d env \<Rightarrow> 'd world \<Rightarrow> 'd world \<Rightarrow> bool" for E where
  Enter: "portal_step E w (final (enter_portal_mode E url) w)"
| Leave: "portal_step E w (final (exit_portal_mode E note) w)"
| Cancel: "portal_step E w (final (cancel_portal_mode E reason) w)"
| Turn: "portal_step E w (final (watch_turn E wk) w)"
| Other: "w_n w \<le> w_n w' \<Longrightarrow> stored_pause E (w_db w') = stored_pause E (w_db w) \<Longrightarrow> portal_step E w w'"

inductive_cases portal_stepE: "portal_step E w w'"

lemma portal_step_pause:
  assumes "portal_env E" "portal_step E w w'" "pause_bounded E w"
  shows "pause_step E w w'"
  using assms(2,3)
  by (elim portal_stepE) (simp_all add: enter_step exit_step cancel_step watch_turn_step pause_step_same assms(1))

lemma portal_history_bounded:
  assumes "portal_env E" "(portal_step E)\<^sup>*\<^sup>* w w'" "pause_bounded E w"
  shows "pause_bounded E w'"
  using assms(2,3)
proof (induction rule: rtranclp_induct)
  case (step y z)
  with portal_step_pause [OF assms(1)] show ?case by (auto simp: pause_step_def)
qed

text \<open>
  C18. The pause is bounded: in every history that begins unpaused, whoever enters, re-enters,
  probes or cancels in whatever order, a stored pause ends at most ten minutes after the present.
\<close>

theorem pause_window:
  assumes "portal_env E" "stored_pause E (w_db w) = None" "(portal_step E)\<^sup>*\<^sup>* w w'"
    "stored_pause E (w_db w') = Some r"
  shows "pr_deadline r \<le> clock E (w_n w') + portalWindow"
proof -
  have "pause_bounded E w'"
    by (rule portal_history_bounded [OF assms(1,3)]) (simp add: pause_bounded_def assms(2))
  with assms(4) show ?thesis by (simp add: pause_bounded_def)
qed

text \<open>Histories that stay paused throughout.\<close>

inductive stays_paused :: "'d env \<Rightarrow> 'd world \<Rightarrow> 'd world \<Rightarrow> bool" for E where
  Start: "stored_pause E (w_db w) \<noteq> None \<Longrightarrow> stays_paused E w w"
| Step: "stays_paused E w v \<Longrightarrow> portal_step E v u \<Longrightarrow> stored_pause E (w_db u) \<noteq> None \<Longrightarrow> stays_paused E w u"

lemma stays_paused_posture:
  assumes "portal_env E" "stays_paused E w u" "pause_bounded E w"
  shows "pause_bounded E u \<and> (\<exists>r s. stored_pause E (w_db w) = Some r \<and> stored_pause E (w_db u) = Some s
    \<and> same_posture r s)"
  using assms(2,3)
proof (induction rule: stays_paused.induct)
  case (Step w v u)
  then obtain r s where rs: "stored_pause E (w_db w) = Some r" "stored_pause E (w_db v) = Some s"
    "same_posture r s" "pause_bounded E v" by blast
  obtain t where "stored_pause E (w_db u) = Some t" using Step.hyps(3) by blast
  with rs portal_step_pause [OF assms(1) Step.hyps(2) rs(4)] show ?case
    by (auto simp: pause_step_def same_posture_def)
qed auto

text \<open>
  C13. A pause never forgets what it has to restore: however often it is re-entered, extended or
  updated with a new sign-in address, as long as it lasts it holds the posture and the start it
  had at first, never the relaxed posture it created.
\<close>

theorem pause_keeps_posture:
  assumes "portal_env E" "stays_paused E w u" "stored_pause E (w_db w) = Some r" "pause_bounded E w"
  shows "\<exists>s. stored_pause E (w_db u) = Some s \<and> pr_savedKS s = pr_savedKS r \<and> pr_savedDNS s = pr_savedDNS r
    \<and> pr_since s = pr_since r"
  using stays_paused_posture [OF assms(1,2,4)] assms(3) by (auto simp: same_posture_def)

text \<open>The example: a device that answers every command with nothing, and its first pause.\<close>

lemma sample_portal_env: "portal_env (sample_env rc det)"
  using sample_clock [of rc det] sample_portal_json [of rc det]
  by (auto simp: portal_env_def clock_roomy_def no_faults_def)
    (auto simp: sample_env_def time_in_range_def time_limit_def portalWindow_def minute_def second_def)

lemma sample_unpaused: "stored_pause E (w_db (sample_world d)) = None"
  by (simp add: stored_pause_def sample_world_def sample_db_def bucket_get_def)

definition first_pause :: "unit world" where
  "first_pause = final (enter_portal_mode idle_env ''http://portal/'') (sample_world ())"

lemma first_pause_stored:
  "pause_bounded idle_env first_pause" "\<exists>r. stored_pause idle_env (w_db first_pause) = Some r"
proof -
  have e: "portal_env idle_env" unfolding idle_env_def by (rule sample_portal_env)
  have b: "pause_bounded idle_env (sample_world ())" by (simp add: pause_bounded_def sample_unpaused)
  from enter_step [OF e b] show "pause_bounded idle_env first_pause"
    by (simp add: pause_step_def first_pause_def)
  obtain r where "stored_pause idle_env (w_db (final (enter_record idle_env ''http://portal/'') (sample_world ()))) = Some r"
    using enter_stores [OF portal_envD(1-3) bounded_fits, OF e e e b] by metis
  then show "\<exists>r. stored_pause idle_env (w_db first_pause) = Some r"
    by (simp add: first_pause_def enter_portal_mode_def keeps_db_machine)
qed

lemma idle_portal_env: "portal_env idle_env"
  unfolding idle_env_def by (rule sample_portal_env)

theorem pause_window_witness:
  "\<exists>r. stored_pause idle_env (w_db first_pause) = Some r
     \<and> pr_deadline r \<le> clock idle_env (w_n first_pause) + portalWindow"
proof -
  obtain r where r: "stored_pause idle_env (w_db first_pause) = Some r" using first_pause_stored(2) by blast
  have "portal_step idle_env (sample_world ()) first_pause" unfolding first_pause_def by (rule portal_step.Enter)
  then have "(portal_step idle_env)\<^sup>*\<^sup>* (sample_world ()) first_pause" by blast
  from pause_window [OF idle_portal_env sample_unpaused this r] r show ?thesis by blast
qed

theorem pause_keeps_posture_witness:
  "\<exists>r s. stored_pause idle_env (w_db first_pause) = Some r
     \<and> stored_pause idle_env (w_db (final (enter_portal_mode idle_env []) first_pause)) = Some s
     \<and> pr_savedKS s = pr_savedKS r \<and> pr_savedDNS s = pr_savedDNS r"
proof -
  let ?u = "final (enter_portal_mode idle_env []) first_pause"
  obtain r where r: "stored_pause idle_env (w_db first_pause) = Some r" using first_pause_stored(2) by blast
  obtain s where "stored_pause idle_env (w_db (final (enter_record idle_env []) first_pause)) = Some s"
    using enter_stores [OF portal_envD(1-3) bounded_fits, OF idle_portal_env idle_portal_env idle_portal_env first_pause_stored(1)] by metis
  then have s: "stored_pause idle_env (w_db ?u) = Some s"
    by (simp add: enter_portal_mode_def keeps_db_machine)
  have "stays_paused idle_env first_pause ?u"
    by (rule stays_paused.Step [OF stays_paused.Start portal_step.Enter]) (simp_all add: r s)
  from pause_keeps_posture [OF idle_portal_env this r first_pause_stored(1)] r show ?thesis by blast
qed

section \<open>The user's choice stands\<close>

lemma kill_switch_set_200:
  "rs_code (result (kill_switch_set E b) w) = 200 \<Longrightarrow>
   \<exists>v. final (kill_switch_set E b) w = final (cancel_portal_mode E ''you changed the kill switch manually'') v"
  by (cases b) (auto simp: kill_switch_set_def bad_request_def split: if_splits)

lemma dns_set_200:
  "rs_code (result (dns_set E b) w) = 200 \<Longrightarrow>
   \<exists>v. final (dns_set E b) w = final (cancel_portal_mode E ''you changed encrypted DNS manually'') v"
  by (cases b) (auto simp: dns_set_def bad_request_def dns_switch_on_def dns_switch_off_def split: if_splits option.splits)

text \<open>
  C19. An explicit choice ends the pause: a manual change of the kill switch or of encrypted DNS
  that is answered 200 leaves no stored pause, so nothing later restores the old posture over
  it.
\<close>

theorem manual_choice_ends_pause:
  assumes "no_faults E" "ep = KillSwitchSet b \<or> ep = DnsSet b"
    "rs_code (result (handle E why tok ep) w) = 200"
  shows "stored_pause E (w_db (final (handle E why tok ep) w)) = None"
proof -
  let ?v = "final (session_valid E tok True) w"
  have v: "result (session_valid E tok True) w"
    using assms(2,3) by (cases "result (session_valid E tok True) w") (auto simp: handle_def require_session_def)
  consider "ep = KillSwitchSet b" | "ep = DnsSet b" using assms(2) by blast
  then show ?thesis
  proof cases
    case 1
    with v assms(3) have "rs_code (result (kill_switch_set E b) ?v) = 200"
      by (simp add: handle_def handler_def require_session_def)
    from kill_switch_set_200 [OF this] 1 v cancel_drops [OF assms(1)] show ?thesis
      by (auto simp: handle_def handler_def require_session_def)
  next
    case 2
    with v assms(3) have "rs_code (result (dns_set E b) ?v) = 200"
      by (simp add: handle_def handler_def require_session_def)
    from dns_set_200 [OF this] 2 v cancel_drops [OF assms(1)] show ?thesis
      by (auto simp: handle_def handler_def require_session_def)
  qed
qed

theorem manual_choice_ends_pause_witness:
  "stored_pause idle_env (w_db (final (handle idle_env id ''tok'' (KillSwitchSet (Some True))) (enrolled ()))) = None"
proof (rule manual_choice_ends_pause [of _ "KillSwitchSet (Some True)" "Some True"])
  have s: "result (session_valid idle_env ''tok'' True) (enrolled ())"
    unfolding idle_env_def by (rule sample_session_valid(1)) (simp_all add: enrolled_def challenged_def sample_world_def)
  have c: "run_cmd idle_env d c = (Inr [], d)" "flush_ct idle_env = None" for d c
    by (simp_all add: idle_env_def sample_env_def)
  have t: "trim_space [] \<noteq> ''on''" by code_simp
  show "rs_code (result (handle idle_env id ''tok'' (KillSwitchSet (Some True))) (enrolled ())) = 200"
    by (simp add: handle_def handler_def require_session_def s kill_switch_set_def set_kill_switch_def c dns_enabled_def t)
qed (simp_all add: portal_envD(1) [OF idle_portal_env])

section \<open>What the record does not protect\<close>

text \<open>
  C39. A cancelled pause can come back: the watch reads the record, the user's choice then cancels
  the pause, and the probe, which may take seconds, finds a new sign-in address; the watch
  writes its stale record, and the pause is active again with the old posture to restore.
\<close>

theorem cancelled_pause_returns:
  fixes E :: "'d env" and w :: "'d world" and reason :: string
  assumes "portal_env E" "stored_pause E (w_db w) = Some r" "times_fit r"
  defines "w1 \<equiv> final (cancel_portal_mode E reason) (final (portal_get E) w)"
  assumes "clock E (w_n w1) \<le> pr_deadline r"
    "http_probe E (Suc (w_n w1)) (w_dev w1) = Some \<lparr>hr_status = 302, hr_location = url, hr_body = b\<rparr>"
    "url \<noteq> []" "url \<noteq> pr_url r"
  shows "result (portal_get E) w = Some r \<and> stored_pause E (w_db w1) = None
    \<and> (\<exists>s. stored_pause E (w_db (final (watch_paused E r) w1)) = Some s \<and> pr_savedKS s = pr_savedKS r
        \<and> pr_savedDNS s = pr_savedDNS r)"
proof -
  note e = portal_envD(1-4) [OF assms(1)]
  let ?r = "r\<lparr>pr_url := url\<rparr>"
  let ?v = "final (probe_portal E) (w1\<lparr>w_n := Suc (w_n w1)\<rparr>)"
  have p: "result (probe_portal E) (w1\<lparr>w_n := Suc (w_n w1)\<rparr>) = \<lparr>ps_online = False, ps_captive = True, ps_url = url\<rparr>"
    using assms(6,7) by (simp add: probe_portal_def probe_verdict_def no_status_def)
  have f: "final (watch_paused E r) w1 = final (save_portal_record E ?r) ?v"
    using assms(5,7,8) p by (simp add: watch_paused_def)
  have "times_fit ?r" "pr_active ?r"
    using assms(3) stored_active [OF assms(2)] by (simp_all add: times_fit_def)
  then obtain u where "stored_pause E (w_db (final (watch_paused E r) w1)) = Some (?r\<lparr>pr_url := u\<rparr>)"
    unfolding f using save_stored(1) [OF e(1,2)] by blast
  moreover have "stored_pause E (w_db w1) = None" unfolding w1_def by (rule cancel_drops [OF e(1)])
  ultimately show ?thesis using portal_get_plain(1) [OF e(1), of w] assms(2) by simp
qed

text \<open>The example: a stored pause, and a portal that moved.\<close>

definition moved_env :: "unit env" where
  "moved_env = idle_env\<lparr>http_probe := (\<lambda>n d. Some \<lparr>hr_status = 302, hr_location = ''http://moved/'', hr_body = []\<rparr>)\<rparr>"

definition old_record :: portal_record where
  "old_record = \<lparr>pr_active = True, pr_since = 0, pr_deadline = 600 * second, pr_url = ''http://portal/'',
     pr_savedKS = True, pr_savedDNS = True\<rparr>"

definition paused_world :: "unit world" where
  "paused_world = (sample_world ())\<lparr>w_db := sample_db\<lparr>db_config := [(portalModeKey, sample_json_portal old_record)]\<rparr>\<rparr>"

lemma moved_portal_env: "portal_env moved_env"
  using idle_portal_env
  by (simp add: portal_env_def moved_env_def clock_roomy_def clock_ok_def no_faults_def portal_json_ok_def)

lemma old_record_fits: "times_fit old_record"
  by (simp add: times_fit_def old_record_def time_in_range_def time_limit_def second_def)

lemma paused_stored: "stored_pause moved_env (w_db paused_world) = Some old_record"
proof -
  have "parse_portal moved_env (sample_json_portal old_record) = Some old_record"
    using old_record_fits sample_parse_json [of old_record]
    by (simp add: moved_env_def idle_env_def sample_env_def times_fit_def)
  then show ?thesis by (simp add: stored_pause_def paused_world_def bucket_get_def) (simp add: old_record_def)
qed

theorem cancelled_pause_returns_witness:
  "\<exists>s. stored_pause moved_env (w_db (final (watch_paused moved_env old_record)
       (final (cancel_portal_mode moved_env ''changed'') (final (portal_get moved_env) paused_world)))) = Some s
     \<and> pr_savedKS s \<and> pr_savedDNS s"
proof -
  let ?w1 = "final (cancel_portal_mode moved_env ''changed'') (final (portal_get moved_env) paused_world)"
  have f: "io_fault moved_env n = False" for n by (simp add: moved_env_def idle_env_def sample_env_def)
  have "w_n ?w1 = 3"
    by (simp add: cancel_portal_mode_def portal_get_run f paused_stored delete_config_def set_portal_note_def)
      (simp add: paused_world_def sample_world_def)
  then have "clock moved_env (w_n ?w1) \<le> pr_deadline old_record"
    by (simp add: moved_env_def idle_env_def sample_env_def old_record_def second_def)
  from cancelled_pause_returns [OF moved_portal_env paused_stored old_record_fits this, of "''http://moved/''" "[]"]
  show ?thesis by (simp add: moved_env_def old_record_def)
qed

text \<open>
  A pause whose record cannot be saved still relaxes the protections: with the database
  failing, the entry runs its relaxing steps for the posture it found, and no record is left to
  restore it from.
\<close>

lemma relaxed_without_record:
  assumes "\<forall>n. io_fault E n" "stored_pause E (w_db w) = None"
  shows "stored_pause E (w_db (final (enter_portal_mode E url) w)) = None
    \<and> (\<exists>r v. w_dev (final (enter_portal_mode E url) w) = w_dev (final (relax E r) v)
        \<and> pr_savedKS r = (result (kill_switch E) w = Some True))"
proof -
  let ?u = "final (enter_record E url) w" and ?r = "result (enter_record E url) w"
  have "w_db (final (save_portal_record E x) v) = w_db v" for x v
    using assms(1) by (simp add: save_portal_record_def put_config_def commit_def split: option.split)
  then have db: "w_db ?u = w_db w"
    using assms(1) by (simp add: enter_record_def Let_def portal_get_run keeps_db_machine)
  have ks: "result (kill_switch E) (w\<lparr>w_n := Suc (w_n w)\<rparr>) = result (kill_switch E) w"
    by (simp add: kill_switch_def)
  have "pr_savedKS ?r = (result (kill_switch E) w = Some True)"
    using assms(1) ks by (simp add: enter_record_def Let_def portal_get_run fresh_record_def)
  moreover have "w_dev (final (enter_portal_mode E url) w) = w_dev (final (relax E ?r) ?u)"
    by (simp add: enter_portal_mode_def set_portal_note_def kick_portal_watch_def)
  moreover have "w_db (final (enter_portal_mode E url) w) = w_db w"
    by (simp add: enter_portal_mode_def keeps_db_machine db)
  ultimately show ?thesis using assms(2) by auto
qed

lemma relaxed_without_record_witness:
  "stored_pause (idle_env\<lparr>io_fault := \<lambda>n. True\<rparr>)
     (w_db (final (enter_portal_mode (idle_env\<lparr>io_fault := \<lambda>n. True\<rparr>) []) (sample_world ()))) = None"
  using relaxed_without_record [of "idle_env\<lparr>io_fault := \<lambda>n. True\<rparr>" "sample_world ()" "[]"]
  by (simp add: sample_unpaused)

end
