(* ===== verification/Dns_Properties.thy ===== *)
theory Dns_Properties
  imports Dns_Forwarder Sample_Env
begin

unbundle bit_operations_syntax

text \<open>
  The DoH forwarder: the synthesized failure answer, the counters, the addresses it dials and
  the framing of TCP connections.
\<close>

section \<open>The failure answer\<close>

lemma servfail_bytes:
  assumes "12 \<le> length q"
  shows "servfail q ! 2 = (q ! 2 OR 0x80) AND NOT 0x06" "servfail q ! 3 = (q ! 3 AND NOT 0x0F) OR 0x02"
    "i \<noteq> 2 \<Longrightarrow> i \<noteq> 3 \<Longrightarrow> servfail q ! i = q ! i"
  using assms by (simp_all add: servfail_def Let_def)

lemma servfail_bits:
  fixes x y :: byte
  shows "bit ((x OR 0x80) AND NOT 0x06) 7" "\<not> bit ((x OR 0x80) AND NOT 0x06) 1" "\<not> bit ((x OR 0x80) AND NOT 0x06) 2"
    "((x OR 0x80) AND NOT 0x06) AND 0x79 = x AND 0x79"
    "((y AND NOT 0x0F) OR 0x02) AND 0x0F = 2" "((y AND NOT 0x0F) OR 0x02) AND 0xF0 = y AND 0xF0"
proof -
  have m: "(NOT 0x06 AND 0x79 :: byte) = 0x79" "(NOT 0x0F AND 0x0F :: byte) = 0" "(NOT 0x0F AND 0xF0 :: byte) = 0xF0"
    by simp_all
  show "bit ((x OR 0x80) AND NOT 0x06) 7" "\<not> bit ((x OR 0x80) AND NOT 0x06) 1" "\<not> bit ((x OR 0x80) AND NOT 0x06) 2"
    by (simp_all add: bit_simps)
  have "((x OR 0x80) AND NOT 0x06) AND 0x79 = (x OR 0x80) AND 0x79"
    by (simp only: and.assoc m)
  then show "((x OR 0x80) AND NOT 0x06) AND 0x79 = x AND 0x79"
    by (simp add: bit.conj_disj_distrib2)
  have "((y AND NOT 0x0F) OR 0x02) AND 0x0F = (y AND (NOT 0x0F AND 0x0F)) OR 0x02"
    by (simp only: bit.conj_disj_distrib2 and.assoc) simp
  then show "((y AND NOT 0x0F) OR 0x02) AND 0x0F = 2" by (simp only: m) simp
  have "((y AND NOT 0x0F) OR 0x02) AND 0xF0 = (y AND (NOT 0x0F AND 0xF0)) OR 0"
    by (simp only: bit.conj_disj_distrib2 and.assoc) simp
  then show "((y AND NOT 0x0F) OR 0x02) AND 0xF0 = y AND 0xF0" by (simp only: m) simp
qed

text \<open>
  The failure answer belongs to the query: same length, identifier, question and the rest
  of the bytes; it is marked a response with code 2, with the authoritative and truncation bits
  cleared and opcode and recursion-desired as the query had them.
\<close>

theorem servfail_correct:
  assumes "12 \<le> length q"
  shows "length (servfail q) = length q \<and> take 2 (servfail q) = take 2 q \<and> drop 4 (servfail q) = drop 4 q
    \<and> bit (servfail q ! 2) 7 \<and> \<not> bit (servfail q ! 2) 1 \<and> \<not> bit (servfail q ! 2) 2
    \<and> servfail q ! 2 AND 0x79 = q ! 2 AND 0x79
    \<and> servfail q ! 3 AND 0x0F = 2 \<and> servfail q ! 3 AND 0xF0 = q ! 3 AND 0xF0"
proof -
  have "take 2 (servfail q) = take 2 q" "drop 4 (servfail q) = drop 4 q"
    by (simp_all add: servfail_def Let_def)
  then show ?thesis using servfail_bytes(1,2) [OF assms] servfail_bits by simp
qed

theorem servfail_witness:
  "length (servfail (replicate 12 0)) = length (replicate 12 (0 :: byte))
    \<and> servfail (replicate 12 0) ! 3 AND 0x0F = 2"
  using servfail_correct [of "replicate 12 0"] by simp

section \<open>Counting\<close>

text \<open>
  Every message of at least a header's length is answered and counted once: either with the
  upstream's answer (12 to 65535 bytes), or, when the exchange failed, with the failure answer,
  one more failure and the error recorded; a shorter one is neither answered nor counted.
\<close>

theorem dns_handle_accounting:
  "(length q < 12 \<and> result (dns_handle E q) w = None \<and> final (dns_handle E q) w = w)
   \<or> (12 \<le> length q \<and> fw_queries (w_fwd (final (dns_handle E q) w)) = fw_queries (w_fwd w) + 1
      \<and> ((\<exists>r. result (dns_handle E q) w = Some r \<and> 12 \<le> length r \<and> length r \<le> 65535
            \<and> fw_failures (w_fwd (final (dns_handle E q) w)) = fw_failures (w_fwd w)
            \<and> fw_lastErr (w_fwd (final (dns_handle E q) w)) = fw_lastErr (w_fwd w))
       \<or> (\<exists>e. result (dns_handle E q) w = Some (servfail q)
            \<and> fw_failures (w_fwd (final (dns_handle E q) w)) = fw_failures (w_fwd w) + 1
            \<and> fw_lastErr (w_fwd (final (dns_handle E q) w)) = Some e)))"
proof (cases "length q < 12")
  case True
  then show ?thesis by (simp add: dns_handle_def)
next
  case False
  define w1 where "w1 = w\<lparr>w_fwd := (w_fwd w)\<lparr>fw_queries := fw_queries (w_fwd w) + 1\<rparr>\<rparr>"
  have keep: "w_fwd (final (dns_exchange E q) w1) = w_fwd w1" by (rule keepsD) (intro keeps_intro)
  show ?thesis
  proof (cases "result (dns_exchange E q) w1")
    case (Inl e)
    then show ?thesis using False keep by (simp add: dns_handle_def w1_def)
  next
    case (Inr r)
    with dns_exchange_length [OF Inr] show ?thesis
      using False keep by (simp add: dns_handle_def w1_def)
  qed
qed

section \<open>The addresses dialed\<close>

definition dialed :: "err + string list \<Rightarrow> string list" where
  "dialed r = (case r of Inl _ \<Rightarrow> [] | Inr ts \<Rightarrow> ts)"

text \<open>
  The forwarder never needs a name: every address it may dial, for whatever URL host, is a
  literal IP address of a curated resolver, in the list the fail-closed rule rejects.
\<close>

lemma dials_only_pinned:
  "list_all (\<lambda>t. \<exists>ip \<in> set all_resolver_ips. \<exists>port. t = join_host_port ip port \<and> to4 (the (parse_ip ip)) \<noteq> None)
     (dialed (dial_targets addr))"
proof -
  have lit: "\<forall>ip \<in> set all_resolver_ips. to4 (the (parse_ip ip)) \<noteq> None" by code_simp
  show ?thesis
  proof (cases "dial_targets addr")
    case (Inr ts)
    then obtain h p pv where "split_host_port addr = Some (h, p)" "provider_by_hostname h = Some pv" "ts = map (\<lambda>ip. join_host_port ip p) (pv_ips pv)"
      by (auto simp: dial_targets_def split: option.splits)
    with provider_ips_listed lit show ?thesis
      using provider_by_hostname_in Inr by (fastforce simp: dialed_def list_all_iff)
  qed (simp add: dialed_def)
qed

section \<open>Framing\<close>

definition frame :: "bytes \<Rightarrow> bytes" where
  "frame m = put_be16 (length m) @ m"

text \<open>The client's reading of a framed stream.\<close>

function unframe :: "bytes \<Rightarrow> bytes list option" where
  "unframe s =
     (case s of
        [] \<Rightarrow> Some []
      | a # b # r \<Rightarrow>
          (let n = be16 a b in
           if length r < n then None else map_option (\<lambda>ms. take n r # ms) (unframe (drop n r)))
      | _ \<Rightarrow> None)"
  by pat_completeness auto
termination
  by (relation "measure length") auto

declare unframe.simps [simp del]

lemma be16_put: "n < 65536 \<Longrightarrow> put_be16 n = [a, b] \<Longrightarrow> be16 a b = n"
  using be16_split by (auto simp: put_be16_def)

lemma frame_Cons: "length m < 65536 \<Longrightarrow> \<exists>a b. frame m = a # b # m \<and> be16 a b = length m"
  by (simp add: frame_def put_be16_def be16_split)

lemma unframe_frame: "length m < 65536 \<Longrightarrow> unframe (frame m @ s) = map_option (\<lambda>ms. m # ms) (unframe s)"
proof -
  assume "length m < 65536"
  then obtain a b where "frame m = a # b # m" "be16 a b = length m" using frame_Cons by blast
  then show ?thesis by (subst unframe.simps) simp
qed

text \<open>The reference: the query handler applied to one message after the other.\<close>

primrec answer_each :: "'d env \<Rightarrow> bytes list \<Rightarrow> ('d world, bytes list) state" where
  "answer_each E [] = ret []"
| "answer_each E (q # qs) = do {
     r \<leftarrow> dns_handle E q;
     _ \<leftarrow> io_ok E;
     rs \<leftarrow> answer_each E qs;
     ret (the r # rs) }"

lemma serve_conn_frame:
  assumes "no_faults E" "12 \<le> length q" "length q \<le> maxMsg" "result (dns_handle E q) w = Some r"
  defines "v \<equiv> final (io_ok E) (final (dns_handle E q) w)"
  shows "result (serve_conn E (frame q @ s)) w = frame r @ result (serve_conn E s) v"
    "final (serve_conn E (frame q @ s)) w = final (serve_conn E s) v"
proof -
  obtain a b where q: "frame q = a # b # q" "be16 a b = length q"
    using frame_Cons [of q] assms(3) by (auto simp: maxMsg_def)
  have r: "length r \<le> 65535" using dns_handle_length [OF assms(4)] assms(3) by (simp add: maxMsg_def)
  have ne: "q \<noteq> []" using assms(2) by auto
  show "result (serve_conn E (frame q @ s)) w = frame r @ result (serve_conn E s) v"
    by (subst serve_conn.simps) (use q r assms ne in \<open>auto simp: Let_def no_faults_def frame_def v_def\<close>)
  show "final (serve_conn E (frame q @ s)) w = final (serve_conn E s) v"
    by (subst serve_conn.simps) (use q r assms ne in \<open>auto simp: Let_def no_faults_def frame_def v_def\<close>)
qed

text \<open>
  C33. A pipelined TCP connection is the query handler applied message by message: for framed
  queries of legal size the loop over the connection's bytes does what the handler does to each
  query in turn, writes exactly its answers, framed and in order, and a client reads them back.
\<close>

theorem tcp_framing:
  assumes "no_faults E" "\<forall>q \<in> set qs. 12 \<le> length q \<and> length q \<le> maxMsg"
  shows "result (serve_conn E (concat (map frame qs))) w = concat (map frame (result (answer_each E qs) w))
    \<and> final (serve_conn E (concat (map frame qs))) w = final (answer_each E qs) w
    \<and> unframe (result (serve_conn E (concat (map frame qs))) w) = Some (result (answer_each E qs) w)"
  using assms(2)
proof (induction qs arbitrary: w)
  case Nil
  have "serve_conn E [] = ret []" by (subst serve_conn.simps) simp
  then show ?case by (simp add: unframe.simps [of "[]"])
next
  case (Cons q qs)
  then have q: "12 \<le> length q" "length q \<le> maxMsg" by auto
  then obtain r where r: "result (dns_handle E q) w = Some r"
    using dns_handle_answers [of E q w] by fastforce
  have len: "length r < 65536" using dns_handle_length [OF r] q(2) by (simp add: maxMsg_def)
  let ?v = "final (io_ok E) (final (dns_handle E q) w)"
  have ih: "result (serve_conn E (concat (map frame qs))) ?v = concat (map frame (result (answer_each E qs) ?v))"
    "final (serve_conn E (concat (map frame qs))) ?v = final (answer_each E qs) ?v"
    "unframe (concat (map frame (result (answer_each E qs) ?v))) = Some (result (answer_each E qs) ?v)"
    using Cons.IH [of ?v] Cons.prems by auto
  have a: "result (answer_each E (q # qs)) w = r # result (answer_each E qs) ?v"
    "final (answer_each E (q # qs)) w = final (answer_each E qs) ?v"
    using r by simp_all
  have s: "result (serve_conn E (concat (map frame (q # qs)))) w = frame r @ concat (map frame (result (answer_each E qs) ?v))"
    "final (serve_conn E (concat (map frame (q # qs)))) w = final (answer_each E qs) ?v"
    using serve_conn_frame [OF assms(1) q r, of "concat (map frame qs)"] ih(1,2) by simp_all
  show ?case unfolding s a using ih(3) len by (simp add: unframe_frame)
qed

theorem tcp_framing_witness:
  "unframe (result (serve_conn idle_env (concat (map frame [replicate 12 0, replicate 20 1]))) (sample_world ()))
    = Some (result (answer_each idle_env [replicate 12 0, replicate 20 1]) (sample_world ()))"
proof -
  have n: "no_faults idle_env" by (simp add: no_faults_def idle_env_def sample_env_def)
  have "\<forall>q \<in> set [replicate 12 0, replicate 20 (1 :: byte)]. 12 \<le> length q \<and> length q \<le> maxMsg"
    by (simp add: maxMsg_def)
  then show ?thesis by (rule tcp_framing [OF n, THEN conjunct2, THEN conjunct2])
qed

end
