(* ===== verification/Certgen.thy ===== *)
theory Certgen
  imports World
begin

text \<open>
  \<open>internal/certgen/certgen.go\<close>: the device CA and the TLS leaf.  The state is the four PEM
  files of the TLS directory and a counter; what the standard library does (keys, X.509, PEM)
  and the outcome of each file operation are fields of \<open>pki\<close>.  Keys are numbers, a public key
  is the number of its private key.
\<close>

record tls_dir =
  td_n :: nat
  td_cert :: "bytes option"
  td_key :: "bytes option"
  td_ca :: "bytes option"
  td_cakey :: "bytes option"

text \<open>The fields of a certificate the source sets or reads, and the key that signed it.\<close>

datatype key_usage = CertSign | DigitalSignature

record cert =
  ct_serial :: nat
  ct_subject :: string
  ct_usage :: key_usage
  ct_serverAuth :: bool
  ct_maxPathZero :: bool
  ct_constraintCritical :: bool
  ct_isCA :: bool
  ct_notBefore :: time
  ct_notAfter :: time
  ct_dns :: "string list"
  ct_permitted :: "string list"
  ct_pub :: nat
  ct_signer :: nat

text \<open>A file write succeeds, fails to open the file, or fails after truncating it.\<close>

datatype write_outcome = Written | NotOpened | Torn

record pki =
  pk_now :: "nat \<Rightarrow> time"
  pk_mkdir :: "nat \<Rightarrow> bool"
  pk_write :: "nat \<Rightarrow> write_outcome"
  pk_genkey :: "nat \<Rightarrow> nat option"
  pk_serial :: "nat \<Rightarrow> nat option"
  pk_sign :: "cert \<Rightarrow> bytes option"
  pk_parse :: "bytes \<Rightarrow> cert option"
  pk_marshal :: "nat \<Rightarrow> bytes option"
  pk_parse_key :: "bytes \<Rightarrow> nat option"
  pk_pem :: "string \<Rightarrow> bytes \<Rightarrow> bytes"
  pk_unpem :: "bytes \<Rightarrow> (string \<times> bytes) option"
  pk_verify_host :: "cert \<Rightarrow> string \<Rightarrow> bool"

definition day :: time where "day = 24 * hour"

definition caValidity :: time where "caValidity = 10 * 365 * day"

definition leafValidity :: time where "leafValidity = 800 * day"

definition renewBefore :: time where "renewBefore = 90 * day"

section \<open>Files\<close>

definition tick :: "(nat \<Rightarrow> 'a) \<Rightarrow> (tls_dir, 'a) state" where
  "tick f = State (\<lambda>s. (f (td_n s), s\<lparr>td_n := Suc (td_n s)\<rparr>))"

definition files :: "(tls_dir \<Rightarrow> 'a) \<Rightarrow> (tls_dir, 'a) state" where
  "files f = State (\<lambda>s. (f s, s))"

text \<open>\<open>readPEM\<close>: the first block, when it has the type asked for.\<close>

definition read_pem :: "pki \<Rightarrow> string \<Rightarrow> bytes option \<Rightarrow> bytes option" where
  "read_pem P typ file =
     (case file of
        None \<Rightarrow> None
      | Some b \<Rightarrow>
         (case pk_unpem P b of
            None \<Rightarrow> None
          | Some (t, der) \<Rightarrow> if t \<noteq> typ then None else Some der))"

definition read_cert :: "pki \<Rightarrow> bytes option \<Rightarrow> cert option" where
  "read_cert P file =
     (case read_pem P ''CERTIFICATE'' file of None \<Rightarrow> None | Some der \<Rightarrow> pk_parse P der)"

text \<open>\<open>writePEM\<close> through the updater of one file.\<close>

definition write_pem ::
  "pki \<Rightarrow> (bytes option \<Rightarrow> tls_dir \<Rightarrow> tls_dir) \<Rightarrow> string \<Rightarrow> bytes \<Rightarrow> (tls_dir, bool) state" where
  "write_pem P upd typ der = do {
     r \<leftarrow> tick (pk_write P);
     case r of
       Written \<Rightarrow> do { _ \<leftarrow> State (\<lambda>s. ((), upd (Some (pk_pem P typ der)) s)); ret True }
     | NotOpened \<Rightarrow> ret False
     | Torn \<Rightarrow> do { _ \<leftarrow> State (\<lambda>s. ((), upd (Some []) s)); ret False } }"

definition put_cert :: "bytes option \<Rightarrow> tls_dir \<Rightarrow> tls_dir" where "put_cert b s = s\<lparr>td_cert := b\<rparr>"

definition put_key :: "bytes option \<Rightarrow> tls_dir \<Rightarrow> tls_dir" where "put_key b s = s\<lparr>td_key := b\<rparr>"

definition put_ca :: "bytes option \<Rightarrow> tls_dir \<Rightarrow> tls_dir" where "put_ca b s = s\<lparr>td_ca := b\<rparr>"

definition put_cakey :: "bytes option \<Rightarrow> tls_dir \<Rightarrow> tls_dir" where "put_cakey b s = s\<lparr>td_cakey := b\<rparr>"

section \<open>The CA\<close>

definition load_ca :: "pki \<Rightarrow> (tls_dir, (cert \<times> nat) option) state" where
  "load_ca P = do {
     c \<leftarrow> files (\<lambda>s. read_cert P (td_ca s));
     k \<leftarrow> files (\<lambda>s. read_pem P ''EC PRIVATE KEY'' (td_cakey s));
     case (c, k) of
       (Some ca, Some der) \<Rightarrow>
         (case pk_parse_key P der of
            None \<Rightarrow> ret None
          | Some key \<Rightarrow>
             (if \<not> ct_isCA ca then ret None
              else do {
                now \<leftarrow> tick (pk_now P);
                ret (if now > ct_notAfter ca - renewBefore then None else Some (ca, key)) }))
     | _ \<Rightarrow> ret None }"

definition ca_template :: "string \<Rightarrow> nat \<Rightarrow> time \<Rightarrow> nat \<Rightarrow> cert" where
  "ca_template host serial now key =
     \<lparr>ct_serial = serial, ct_subject = ''MistUI Device CA ('' @ host @ '')'', ct_usage = CertSign,
      ct_serverAuth = False, ct_maxPathZero = True, ct_constraintCritical = True, ct_isCA = True, ct_notBefore = now - hour,
      ct_notAfter = now + caValidity, ct_dns = [], ct_permitted = [host], ct_pub = key, ct_signer = key\<rparr>"

text \<open>Both \<open>createCA\<close> and \<open>createLeaf\<close>: sign, marshal the key, write the certificate, then the key.\<close>

definition issue ::
  "pki \<Rightarrow> (bytes option \<Rightarrow> tls_dir \<Rightarrow> tls_dir) \<Rightarrow> (bytes option \<Rightarrow> tls_dir \<Rightarrow> tls_dir) \<Rightarrow>
   (nat \<Rightarrow> time \<Rightarrow> nat \<Rightarrow> cert) \<Rightarrow> (tls_dir, (bytes \<times> nat) option) state" where
  "issue P put_c put_k template = do {
     g \<leftarrow> tick (pk_genkey P);
     case g of
       None \<Rightarrow> ret None
     | Some key \<Rightarrow> do {
         sn \<leftarrow> tick (pk_serial P);
         case sn of
           None \<Rightarrow> ret None
         | Some serial \<Rightarrow> do {
           now \<leftarrow> tick (pk_now P);
           case (pk_sign P (template serial now key), pk_marshal P key) of
             (Some der, Some kder) \<Rightarrow> do {
               ok1 \<leftarrow> write_pem P put_c ''CERTIFICATE'' der;
               if \<not> ok1 then ret None
               else do {
                 ok2 \<leftarrow> write_pem P put_k ''EC PRIVATE KEY'' kder;
                 ret (if ok2 then Some (der, key) else None) } }
           | _ \<Rightarrow> ret None } } }"

definition create_ca :: "pki \<Rightarrow> string \<Rightarrow> (tls_dir, (cert \<times> nat) option) state" where
  "create_ca P host = do {
     r \<leftarrow> issue P put_ca put_cakey (ca_template host);
     ret (case r of
            None \<Rightarrow> None
          | Some (der, key) \<Rightarrow> map_option (\<lambda>c. (c, key)) (pk_parse P der)) }"

section \<open>The leaf\<close>

definition leaf_usable :: "pki \<Rightarrow> string \<Rightarrow> (tls_dir, bool) state" where
  "leaf_usable P host = do {
     k \<leftarrow> files td_key;
     if k = None then ret False
     else do {
       c \<leftarrow> files (\<lambda>s. read_cert P (td_cert s));
       case c of
         None \<Rightarrow> ret False
       | Some leaf \<Rightarrow>
          (if \<not> pk_verify_host P leaf host then ret False
           else do {
             now \<leftarrow> tick (pk_now P);
             ret (now < ct_notAfter leaf - renewBefore) }) } }"

definition leaf_template :: "string \<Rightarrow> nat \<Rightarrow> nat \<Rightarrow> time \<Rightarrow> nat \<Rightarrow> cert" where
  "leaf_template host caKey serial now key =
     \<lparr>ct_serial = serial, ct_subject = host, ct_usage = DigitalSignature, ct_serverAuth = True,
      ct_maxPathZero = False, ct_constraintCritical = False, ct_isCA = False, ct_notBefore = now - hour, ct_notAfter = now + leafValidity,
      ct_dns = [host], ct_permitted = [], ct_pub = key, ct_signer = caKey\<rparr>"

definition create_leaf :: "pki \<Rightarrow> string \<Rightarrow> nat \<Rightarrow> (tls_dir, bool) state" where
  "create_leaf P host caKey = do {
     r \<leftarrow> issue P put_cert put_key (leaf_template host caKey);
     ret (r \<noteq> None) }"

text \<open>\<open>os.Remove\<close> of the old leaf, its errors dropped.\<close>

definition remove_leaf :: "pki \<Rightarrow> (tls_dir, unit) state" where
  "remove_leaf P = do {
     a \<leftarrow> tick (pk_mkdir P);
     _ \<leftarrow> State (\<lambda>s. ((), if a then put_cert None s else s));
     b \<leftarrow> tick (pk_mkdir P);
     State (\<lambda>s. ((), if b then put_key None s else s)) }"

definition ensure_material :: "pki \<Rightarrow> string \<Rightarrow> (tls_dir, bool) state" where
  "ensure_material P host = do {
     made \<leftarrow> tick (pk_mkdir P);
     if \<not> made then ret False
     else do {
       old \<leftarrow> load_ca P;
       ca \<leftarrow> (case old of
                Some c \<Rightarrow> ret (Some c)
              | None \<Rightarrow> do {
                  new \<leftarrow> create_ca P host;
                  case new of
                    None \<Rightarrow> ret None
                  | Some c \<Rightarrow> do { _ \<leftarrow> remove_leaf P; ret (Some c) } });
       case ca of
         None \<Rightarrow> ret False
       | Some (c, caKey) \<Rightarrow> do {
           usable \<leftarrow> leaf_usable P host;
           if usable then ret True else create_leaf P host caKey } } }"

section \<open>The standard library's behaviour\<close>

text \<open>
  Documented behaviour of \<open>encoding/pem\<close>, \<open>crypto/x509\<close> and the key codec for a host that is a
  DNS name: what was encoded decodes to the same, a certificate parses to the template it was
  made from, and a leaf whose only name is the host verifies for it.
\<close>

definition pki_ok :: "pki \<Rightarrow> string \<Rightarrow> bool" where
  "pki_ok P host \<longleftrightarrow>
     (\<forall>t b. pk_unpem P (pk_pem P t b) = Some (t, b))
   \<and> (\<forall>c der. pk_sign P c = Some der \<longrightarrow> pk_parse P der = Some c)
   \<and> (\<forall>k der. pk_marshal P k = Some der \<longrightarrow> pk_parse_key P der = Some k)
   \<and> (\<forall>c. ct_dns c = [host] \<longrightarrow> pk_verify_host P c host)"

text \<open>A DNS name constraint covers the domain and everything below it, in any case of letters.\<close>

definition permits :: "string \<Rightarrow> string \<Rightarrow> bool" where
  "permits d host \<longleftrightarrow> to_lower host = to_lower d \<or> suffix (CHR ''.'' # to_lower d) (to_lower host)"

definition pki_healthy :: "pki \<Rightarrow> bool" where
  "pki_healthy P \<longleftrightarrow> (\<forall>n. pk_mkdir P n \<and> pk_write P n = Written \<and> pk_genkey P n \<noteq> None \<and> pk_serial P n \<noteq> None)
     \<and> (\<forall>c. pk_sign P c \<noteq> None) \<and> (\<forall>k. pk_marshal P k \<noteq> None)"

text \<open>The serving pair matches, and a client that trusts the CA accepts the leaf for the host.\<close>

definition pair_matches :: "pki \<Rightarrow> tls_dir \<Rightarrow> bool" where
  "pair_matches P s \<longleftrightarrow> (\<exists>c der. read_cert P (td_cert s) = Some c
     \<and> read_pem P ''EC PRIVATE KEY'' (td_key s) = Some der \<and> pk_parse_key P der = Some (ct_pub c))"

definition chain_ok :: "pki \<Rightarrow> string \<Rightarrow> tls_dir \<Rightarrow> bool" where
  "chain_ok P host s \<longleftrightarrow> (\<exists>c ca. read_cert P (td_cert s) = Some c \<and> read_cert P (td_ca s) = Some ca
     \<and> ct_isCA ca \<and> ct_signer c = ct_pub ca \<and> pk_verify_host P c host
     \<and> list_ex (\<lambda>d. permits d host) (ct_permitted ca))"

lemma tick_run [simp]:
  "result (tick f) s = f (td_n s)" "final (tick f) s = s\<lparr>td_n := Suc (td_n s)\<rparr>"
  "result (files g) s = g s" "final (files g) s = s"
  by (simp_all add: tick_def files_def)

end
