(* ===== verification/Sample_Pki.thy ===== *)
theory Sample_Pki
  imports Certgen Go_Encoding
begin

text \<open>
  A concrete \<open>pki\<close> on which the hypotheses of the certificate properties are shown to hold:
  a private key is its number in unary, a certificate its fields one after the other, PEM the
  type and the content.  Nothing here models the program.
\<close>

definition enc_nat :: "nat \<Rightarrow> bytes" where "enc_nat n = replicate n 1 @ [0]"

definition dec_nat :: "bytes \<Rightarrow> nat \<times> bytes" where
  "dec_nat b = (length (takeWhile (\<lambda>x. x = 1) b), tl (dropWhile (\<lambda>x. x = 1) b))"

lemma dec_enc_nat [simp]: "dec_nat (enc_nat n @ r) = (n, r)"
  by (induction n) (simp_all add: enc_nat_def dec_nat_def)

definition enc_int :: "int \<Rightarrow> bytes" where "enc_int i = enc_nat (nat i) @ enc_nat (nat (- i))"

definition dec_int :: "bytes \<Rightarrow> int \<times> bytes" where
  "dec_int b = (case dec_nat b of (p, r) \<Rightarrow> case dec_nat r of (n, r') \<Rightarrow> (int p - int n, r'))"

lemma dec_enc_int [simp]: "dec_int (enc_int i @ r) = (i, r)"
  by (simp add: enc_int_def dec_int_def)

definition enc_str :: "string \<Rightarrow> bytes" where "enc_str s = enc_nat (length s) @ bytes_of s"

definition dec_str :: "bytes \<Rightarrow> string \<times> bytes" where
  "dec_str b = (case dec_nat b of (n, r) \<Rightarrow> (string_of (take n r), drop n r))"

lemma dec_enc_str [simp]: "dec_str (enc_str s @ r) = (s, r)"
  by (simp add: enc_str_def dec_str_def)

fun enc_strs :: "string list \<Rightarrow> bytes" where
  "enc_strs [] = []"
| "enc_strs (s # ss) = enc_str s @ enc_strs ss"

fun dec_strs :: "nat \<Rightarrow> bytes \<Rightarrow> string list \<times> bytes" where
  "dec_strs 0 b = ([], b)"
| "dec_strs (Suc n) b = (case dec_str b of (s, r) \<Rightarrow> case dec_strs n r of (ss, r') \<Rightarrow> (s # ss, r'))"

lemma dec_enc_strs [simp]: "dec_strs (length ss) (enc_strs ss @ r) = (ss, r)"
  by (induction ss) simp_all

definition enc_list :: "string list \<Rightarrow> bytes" where "enc_list ss = enc_nat (length ss) @ enc_strs ss"

definition dec_list :: "bytes \<Rightarrow> string list \<times> bytes" where
  "dec_list b = (case dec_nat b of (n, r) \<Rightarrow> dec_strs n r)"

lemma dec_enc_list [simp]: "dec_list (enc_list ss @ r) = (ss, r)"
  by (simp add: enc_list_def dec_list_def)

definition enc_flag :: "bool \<Rightarrow> bytes" where "enc_flag b = enc_nat (if b then 1 else 0)"

lemma dec_enc_flag [simp]: "dec_nat (enc_flag b @ r) = (if b then 1 else 0, r)"
  by (simp add: enc_flag_def)

definition enc_cert :: "cert \<Rightarrow> bytes" where
  "enc_cert c = enc_nat (ct_serial c) @ enc_nat (if ct_usage c = CertSign then 1 else 0)
     @ enc_flag (ct_serverAuth c) @ enc_flag (ct_maxPathZero c) @ enc_flag (ct_constraintCritical c)
     @ enc_str (ct_subject c) @ enc_nat (if ct_isCA c then 1 else 0) @ enc_int (ct_notBefore c)
     @ enc_int (ct_notAfter c) @ enc_list (ct_dns c) @ enc_list (ct_permitted c) @ enc_nat (ct_pub c)
     @ enc_nat (ct_signer c)"

definition dec_cert :: "bytes \<Rightarrow> cert" where
  "dec_cert b =
     (case dec_nat b of (sn, a1) \<Rightarrow> case dec_nat a1 of (u, a2) \<Rightarrow> case dec_nat a2 of (sa, a3) \<Rightarrow>
      case dec_nat a3 of (mp, a4) \<Rightarrow> case dec_nat a4 of (cc, a5) \<Rightarrow> case dec_str a5 of (s, b1) \<Rightarrow> case dec_nat b1 of (a, b2) \<Rightarrow> case dec_int b2 of (nb, b3) \<Rightarrow>
      case dec_int b3 of (na, b4) \<Rightarrow> case dec_list b4 of (d, b5) \<Rightarrow> case dec_list b5 of (p, b6) \<Rightarrow>
      case dec_nat b6 of (k, b7) \<Rightarrow>
        \<lparr>ct_serial = sn, ct_subject = s, ct_usage = (if u = 1 then CertSign else DigitalSignature),
         ct_serverAuth = (sa = 1), ct_maxPathZero = (mp = 1), ct_constraintCritical = (cc = 1), ct_isCA = (a = 1), ct_notBefore = nb, ct_notAfter = na, ct_dns = d,
         ct_permitted = p, ct_pub = k, ct_signer = fst (dec_nat b7)\<rparr>)"

lemma dec_enc_nat_end [simp]: "dec_nat (enc_nat n) = (n, [])"
  using dec_enc_nat [of n "[]"] by simp

lemma dec_enc_cert [simp]: "dec_cert (enc_cert c) = c"
  by (cases "ct_usage c") (simp_all add: enc_cert_def dec_cert_def)

definition sample_pki :: pki where
  "sample_pki = \<lparr>pk_now = (\<lambda>n. 0), pk_mkdir = (\<lambda>n. True), pk_write = (\<lambda>n. Written),
     pk_genkey = Some, pk_serial = Some, pk_sign = (\<lambda>c. Some (enc_cert c)),
     pk_parse = (\<lambda>b. Some (dec_cert b)), pk_marshal = (\<lambda>k. Some (enc_nat k)),
     pk_parse_key = (\<lambda>b. Some (fst (dec_nat b))), pk_pem = (\<lambda>t b. enc_str t @ b),
     pk_unpem = (\<lambda>b. Some (dec_str b)), pk_verify_host = (\<lambda>c h. h \<in> set (ct_dns c))\<rparr>"

lemma sample_pki_ok: "pki_ok sample_pki host" and sample_pki_healthy: "pki_healthy sample_pki"
  by (simp_all add: pki_ok_def pki_healthy_def sample_pki_def)

text \<open>An empty directory; one with a CA for another name; one torn between two writes.\<close>

definition empty_tls :: tls_dir where
  "empty_tls = \<lparr>td_n = 0, td_cert = None, td_key = None, td_ca = None, td_cakey = None\<rparr>"

definition old_ca :: cert where "old_ca = ca_template ''old.lan'' 1 0 7"

definition old_tls :: tls_dir where
  "old_tls = empty_tls\<lparr>td_ca := Some (pk_pem sample_pki ''CERTIFICATE'' (enc_cert old_ca)),
     td_cakey := Some (pk_pem sample_pki ''EC PRIVATE KEY'' (enc_nat 7))\<rparr>"

definition torn_leaf :: cert where "torn_leaf = leaf_template ''mist.lan'' 7 2 0 9"

definition torn_tls :: tls_dir where
  "torn_tls = old_tls\<lparr>td_cert := Some (pk_pem sample_pki ''CERTIFICATE'' (enc_cert torn_leaf)),
     td_key := Some (pk_pem sample_pki ''EC PRIVATE KEY'' (enc_nat 8))\<rparr>"

lemma old_not_permitted: "\<not> list_ex (\<lambda>d. permits d ''mist.lan'') (ct_permitted old_ca)"
proof -
  have "to_lower ''mist.lan'' = ''mist.lan''" "to_lower ''old.lan'' = ''old.lan''" by code_simp+
  then show ?thesis by (simp add: old_ca_def ca_template_def permits_def suffix_def)
qed

lemma sample_times: "(0::time) < caValidity - renewBefore" "(0::time) < leafValidity - renewBefore"
  by (simp_all add: caValidity_def leafValidity_def renewBefore_def day_def hour_def minute_def second_def)

lemma sample_load:
  assumes "td_ca s = td_ca old_tls" "td_cakey s = td_cakey old_tls"
  shows "result (load_ca sample_pki) s = Some (old_ca, 7)"
  using assms sample_times(1)
  by (simp add: load_ca_def read_cert_def read_pem_def old_tls_def sample_pki_def old_ca_def ca_template_def)

lemma torn_facts:
  "td_key torn_tls = Some (pk_pem sample_pki ''EC PRIVATE KEY'' (enc_nat 8))"
  "read_cert sample_pki (td_cert torn_tls) = Some torn_leaf" "pk_verify_host sample_pki torn_leaf ''mist.lan''"
  "pk_now sample_pki n < ct_notAfter torn_leaf - renewBefore" "\<not> pair_matches sample_pki torn_tls"
  "td_ca torn_tls = td_ca old_tls" "td_cakey torn_tls = td_cakey old_tls" "pk_mkdir sample_pki n"
  using sample_times(2)
  by (simp_all add: torn_tls_def torn_leaf_def leaf_template_def sample_pki_def read_cert_def read_pem_def
      pair_matches_def)

end
