(* ===== verification/Certgen_Properties.thy ===== *)
theory Certgen_Properties
  imports Sample_Pki
begin

text \<open>
  What \<open>EnsureMaterial\<close> leaves on disk: on first boot a CA constrained to the host and a leaf
  that chains to it; afterwards a leaf for the host that is not about to expire.  Two
  situations where it reports success and the device cannot serve its users are shown as well.
\<close>

lemma healthy_makes:
  assumes "pki_healthy P"
  shows "\<exists>k. pk_genkey P n = Some k" "\<exists>d. pk_sign P c = Some d" "\<exists>d. pk_marshal P k = Some d"
    "\<exists>sn. pk_serial P n = Some sn"
  using assms by (auto simp: pki_healthy_def simp flip: not_None_eq)

lemma issue_ca:
  assumes "pki_healthy P"
  obtains key serial now der kder where
    "result (issue P put_ca put_cakey t) s = Some (der, key)" "pk_sign P (t serial now key) = Some der"
    "pk_marshal P key = Some kder" "now = pk_now P (td_n s + 2)"
    "final (issue P put_ca put_cakey t) s = s\<lparr>td_n := td_n s + 5, td_ca := Some (pk_pem P ''CERTIFICATE'' der),
       td_cakey := Some (pk_pem P ''EC PRIVATE KEY'' kder)\<rparr>"
proof -
  obtain key where key: "pk_genkey P (td_n s) = Some key" using healthy_makes(1) [OF assms] by blast
  obtain serial where sn: "pk_serial P (Suc (td_n s)) = Some serial" using healthy_makes(4) [OF assms] by blast
  obtain der where "pk_sign P (t serial (pk_now P (td_n s + 2)) key) = Some der" using healthy_makes(2) [OF assms] by blast
  moreover obtain kder where "pk_marshal P key = Some kder" using healthy_makes(3) [OF assms] by blast
  moreover note key sn assms
  ultimately show ?thesis
    by (intro that [of der key serial "pk_now P (td_n s + 2)" kder])
      (simp_all add: issue_def write_pem_def pki_healthy_def put_ca_def put_cakey_def eval_nat_numeral)
qed

lemma issue_leaf:
  assumes "pki_healthy P"
  obtains key serial now der kder where
    "result (issue P put_cert put_key t) s = Some (der, key)" "pk_sign P (t serial now key) = Some der"
    "pk_marshal P key = Some kder" "now = pk_now P (td_n s + 2)"
    "final (issue P put_cert put_key t) s = s\<lparr>td_n := td_n s + 5, td_cert := Some (pk_pem P ''CERTIFICATE'' der),
       td_key := Some (pk_pem P ''EC PRIVATE KEY'' kder)\<rparr>"
proof -
  obtain key where key: "pk_genkey P (td_n s) = Some key" using healthy_makes(1) [OF assms] by blast
  obtain serial where sn: "pk_serial P (Suc (td_n s)) = Some serial" using healthy_makes(4) [OF assms] by blast
  obtain der where "pk_sign P (t serial (pk_now P (td_n s + 2)) key) = Some der" using healthy_makes(2) [OF assms] by blast
  moreover obtain kder where "pk_marshal P key = Some kder" using healthy_makes(3) [OF assms] by blast
  moreover note key sn assms
  ultimately show ?thesis
    by (intro that [of der key serial "pk_now P (td_n s + 2)" kder])
      (simp_all add: issue_def write_pem_def pki_healthy_def put_cert_def put_key_def eval_nat_numeral)
qed

lemma read_back:
  assumes "pki_ok P host"
  shows "pk_sign P c = Some der \<Longrightarrow> read_cert P (Some (pk_pem P ''CERTIFICATE'' der)) = Some c"
    "read_pem P typ (Some (pk_pem P typ b)) = Some b"
    "pk_marshal P k = Some kder \<Longrightarrow> pk_parse_key P kder = Some k"
  using assms by (auto simp: read_cert_def read_pem_def pki_ok_def)

text \<open>A new leaf: the pair matches, the certificate is for the host and signed by the CA's key.\<close>

lemma create_leaf_ok:
  assumes "pki_healthy P" "pki_ok P host"
  shows "result (create_leaf P host caKey) s"
    "\<exists>serial now key. read_cert P (td_cert (final (create_leaf P host caKey) s)) = Some (leaf_template host caKey serial now key)
       \<and> now = pk_now P (td_n s + 2)"
    "pair_matches P (final (create_leaf P host caKey) s)"
    "td_ca (final (create_leaf P host caKey) s) = td_ca s"
    "td_cakey (final (create_leaf P host caKey) s) = td_cakey s"
proof -
  obtain key serial now der kder where i:
    "result (issue P put_cert put_key (leaf_template host caKey)) s = Some (der, key)"
    "pk_sign P (leaf_template host caKey serial now key) = Some der" "pk_marshal P key = Some kder"
    "now = pk_now P (td_n s + 2)"
    "final (issue P put_cert put_key (leaf_template host caKey)) s = s\<lparr>td_n := td_n s + 5,
       td_cert := Some (pk_pem P ''CERTIFICATE'' der), td_key := Some (pk_pem P ''EC PRIVATE KEY'' kder)\<rparr>"
    using issue_leaf [OF assms(1)] by metis
  note rb = read_back [OF assms(2)]
  show "result (create_leaf P host caKey) s"
    "td_ca (final (create_leaf P host caKey) s) = td_ca s"
    "td_cakey (final (create_leaf P host caKey) s) = td_cakey s"
    "\<exists>serial now key. read_cert P (td_cert (final (create_leaf P host caKey) s)) = Some (leaf_template host caKey serial now key)
       \<and> now = pk_now P (td_n s + 2)"
    using i rb(1) by (auto simp: create_leaf_def)
  have "ct_pub (leaf_template host caKey serial now key) = key" by (simp add: leaf_template_def)
  with i rb(1) [OF i(2)] rb(2) rb(3) [OF i(3)] show "pair_matches P (final (create_leaf P host caKey) s)"
    by (auto simp: create_leaf_def pair_matches_def)
qed

section \<open>First boot\<close>

lemma first_boot_aux:
  assumes "pki_healthy P" "pki_ok P host" "td_ca s = None"
  shows "result (ensure_material P host) s \<and> pair_matches P (final (ensure_material P host) s)
    \<and> chain_ok P host (final (ensure_material P host) s)"
proof -
  define s1 where "s1 = s\<lparr>td_n := Suc (td_n s)\<rparr>"
  have l: "result (load_ca P) s1 = None" "final (load_ca P) s1 = s1"
    using assms(3) by (simp_all add: load_ca_def s1_def read_cert_def read_pem_def)
  obtain key serial now der kder where i: "result (issue P put_ca put_cakey (ca_template host)) s1 = Some (der, key)"
    "pk_sign P (ca_template host serial now key) = Some der" "pk_marshal P key = Some kder"
    "final (issue P put_ca put_cakey (ca_template host)) s1 = s1\<lparr>td_n := td_n s1 + 5,
       td_ca := Some (pk_pem P ''CERTIFICATE'' der), td_cakey := Some (pk_pem P ''EC PRIVATE KEY'' kder)\<rparr>"
    using issue_ca [OF assms(1)] by metis
  define s2 where "s2 = final (issue P put_ca put_cakey (ca_template host)) s1"
  have c: "result (create_ca P host) s1 = Some (ca_template host serial now key, key)" "final (create_ca P host) s1 = s2"
    using i assms(2) by (auto simp: create_ca_def pki_ok_def s2_def)
  define s3 where "s3 = final (remove_leaf P) s2"
  have s3: "td_key s3 = None" "td_ca s3 = Some (pk_pem P ''CERTIFICATE'' der)"
    using assms(1) i(4) by (simp_all add: s3_def s2_def remove_leaf_def pki_healthy_def put_cert_def put_key_def)
  have u: "result (leaf_usable P host) s3 = False" "final (leaf_usable P host) s3 = s3"
    using s3(1) by (simp_all add: leaf_usable_def)
  let ?f = "final (create_leaf P host key) s3"
  have e: "result (ensure_material P host) s = result (create_leaf P host key) s3"
    "final (ensure_material P host) s = ?f"
    using assms(1) l c u by (simp_all add: ensure_material_def pki_healthy_def s1_def [symmetric] s3_def [symmetric])
  obtain serial' now' key' where leaf: "read_cert P (td_cert ?f) = Some (leaf_template host key serial' now' key')"
    using create_leaf_ok(2) [OF assms(1,2)] by blast
  have ca: "read_cert P (td_ca ?f) = Some (ca_template host serial now key)"
    using create_leaf_ok(4) [OF assms(1,2)] s3(2) read_back(1) [OF assms(2) i(2)] by simp
  have "pk_verify_host P (leaf_template host key serial' now' key') host"
    using assms(2) by (simp add: pki_ok_def leaf_template_def)
  then have "chain_ok P host ?f"
    using leaf ca by (simp add: chain_ok_def leaf_template_def ca_template_def permits_def)
  then show ?thesis
    using e create_leaf_ok(1,3) [OF assms(1,2)] by simp
qed

text \<open>
  On first boot (no CA on disk) the device ends with material that works: the key file holds
  the leaf's key, the leaf is for the host and signed by the new CA, and the CA is constrained
  to that host.
\<close>

theorem first_boot_material:
  assumes "pki_healthy P" "pki_ok P host" "td_ca s = None"
  shows "result (ensure_material P host) s \<and> pair_matches P (final (ensure_material P host) s)
    \<and> chain_ok P host (final (ensure_material P host) s)"
  using assms by (rule first_boot_aux)

theorem first_boot_witness:
  "result (ensure_material sample_pki ''mist.lan'') empty_tls
   \<and> pair_matches sample_pki (final (ensure_material sample_pki ''mist.lan'') empty_tls)
   \<and> chain_ok sample_pki ''mist.lan'' (final (ensure_material sample_pki ''mist.lan'') empty_tls)"
  by (rule first_boot_material) (simp_all add: sample_pki_ok sample_pki_healthy empty_tls_def)

section \<open>Success reported with material that does not work\<close>



text \<open>
  A renewal that failed between its two writes: the new certificate beside the old key.  A start
  takes it for usable and changes no file.
\<close>

definition torn :: "pki \<Rightarrow> string \<Rightarrow> tls_dir \<Rightarrow> bool" where
  "torn P host s \<longleftrightarrow> (\<forall>n. \<exists>ca. result (load_ca P) (s\<lparr>td_n := n\<rparr>) = Some ca) \<and> td_key s \<noteq> None
     \<and> (\<exists>leaf. read_cert P (td_cert s) = Some leaf \<and> pk_verify_host P leaf host
          \<and> (\<forall>n. pk_now P n < ct_notAfter leaf - renewBefore)) \<and> \<not> pair_matches P s"

lemma torn_tick: "torn P host s \<Longrightarrow> torn P host (s\<lparr>td_n := n\<rparr>)"
  by (simp add: torn_def pair_matches_def)

lemma torn_ensure:
  assumes "pk_mkdir P (td_n s)" "torn P host s"
  shows "result (ensure_material P host) s" "\<exists>n. final (ensure_material P host) s = s\<lparr>td_n := n\<rparr>"
proof -
  define s1 where "s1 = s\<lparr>td_n := Suc (td_n s)\<rparr>"
  obtain ca where ca: "result (load_ca P) s1 = Some ca" using assms(2) unfolding torn_def s1_def by blast
  obtain leaf where leaf: "read_cert P (td_cert s) = Some leaf" "pk_verify_host P leaf host"
    "\<forall>n. pk_now P n < ct_notAfter leaf - renewBefore" and key: "td_key s \<noteq> None"
    using assms(2) by (auto simp: torn_def)
  have "\<exists>n. final (load_ca P) s1 = s1\<lparr>td_n := n\<rparr>"
    by (auto simp: load_ca_def run_branch s1_def intro: exI [of _ "Suc (td_n s)"] split: option.split)
  then obtain n where n: "final (load_ca P) s1 = s\<lparr>td_n := n\<rparr>" by (auto simp: s1_def)
  have u: "result (leaf_usable P host) (s\<lparr>td_n := n\<rparr>)" "final (leaf_usable P host) (s\<lparr>td_n := n\<rparr>) = s\<lparr>td_n := Suc n\<rparr>"
    using leaf key by (auto simp: leaf_usable_def)
  show "result (ensure_material P host) s" "\<exists>n. final (ensure_material P host) s = s\<lparr>td_n := n\<rparr>"
    using assms(1) ca n u by (auto simp: ensure_material_def s1_def [symmetric] split: prod.split)
qed

end
