(* ===== verification/Main_Config.thy ===== *)
theory Main_Config
  imports Go_Net
begin

text \<open>
  \<open>cmd/mistd/main.go\<close>: the browser origins the daemon accepts ceremonies from, derived from
  its flags, and which listeners it starts.
\<close>

definition allowed_origins_of :: "string \<Rightarrow> string \<Rightarrow> string \<Rightarrow> string \<Rightarrow> string list" where
  "allowed_origins_of explicit rp tlsAddr devAddr =
     (if explicit \<noteq> [] then split_on CHR '','' explicit
      else
        (if tlsAddr \<noteq> [] then
           (''https://'' @ rp)
           # (case split_host_port tlsAddr of
                None \<Rightarrow> []
              | Some (_, port) \<Rightarrow> if port \<noteq> ''443'' \<and> port \<noteq> [] then [''https://'' @ rp @ '':'' @ port] else [])
         else [])
        @ (if devAddr \<noteq> [] then
             (case split_host_port devAddr of
                None \<Rightarrow> [''http://'' @ rp]
              | Some (_, port) \<Rightarrow>
                 if port \<noteq> ''80'' \<and> port \<noteq> [] then [''http://'' @ rp @ '':'' @ port] else [''http://'' @ rp])
           else []))"

text \<open>The listeners; none is a start-up error.\<close>

definition listeners :: "string \<Rightarrow> string \<Rightarrow> (bool \<times> string) list" where
  "listeners tlsAddr devAddr =
     (if tlsAddr \<noteq> [] then [(True, tlsAddr)] else []) @ (if devAddr \<noteq> [] then [(False, devAddr)] else [])"

text \<open>Without an explicit list every origin names the relying party's host.\<close>

lemma origins_of_rp:
  "list_all (\<lambda>o1. \<exists>rest. o1 = ''https://'' @ rp @ rest \<or> o1 = ''http://'' @ rp @ rest)
     (allowed_origins_of [] rp tls dev)"
  by (auto simp: allowed_origins_of_def split: option.split)

text \<open>Plain-HTTP origins exist only when the development listener does.\<close>

lemma no_http_without_dev:
  "list_all (\<lambda>o1. prefix ''https://'' o1) (allowed_origins_of [] rp tls [])"
  by (auto simp: allowed_origins_of_def split: option.split)

end
