(* ===== verification/Router.thy ===== *)
theory Router
  imports Vpn Dns_Service Wifi
begin

text \<open>
  The OpenWRT side, as far as the daemon uses it: the commands whose argument vectors the
  source builds, as a datatype with their text (\<open>argv_of\<close>), and their documented effect on the
  configuration (\<open>exec\<close>).  A router has the configuration being edited, the committed one and
  the one each service runs with.  The locale \<open>uci_tools\<close> is the interface the daemon's
  operations rest on: a command that succeeds has its effect.  It is interpreted on a machine
  that reads the argument vectors back.
\<close>

section \<open>Configuration and services\<close>

record router =
  rt_work :: "string \<Rightarrow> package"
  rt_saved :: "string \<Rightarrow> package"
  rt_live :: "string \<Rightarrow> package"
  rt_up :: "string list"
  rt_reloads :: "string \<Rightarrow> bool"

datatype cmd =
    SetOpt string selector string string
  | SetSection string string string
  | AddList string selector string string
  | AddSection string string
  | Commit string
  | DeleteSection string string
  | DeleteOpt string selector string
  | DelList string selector string string
  | DeleteAll string string
  | Service string string
  | WifiReload
  | IfUp string
  | IfDown string
  | KsOn | KsOff | KsQuery | ZoneScript | WanScript
  | DnsQuery string

text \<open>The dotted path of a section or an option, and the texts of the commands.\<close>

definition opt_path :: "string \<Rightarrow> selector \<Rightarrow> string \<Rightarrow> string" where
  "opt_path p s k = join_with CHR ''.'' [p, sel_text s, k]"

definition sec_path :: "string \<Rightarrow> string \<Rightarrow> string" where
  "sec_path p n = join_with CHR ''.'' [p, n]"

definition shell :: "string \<Rightarrow> string list" where
  "shell s = [''sh'', ''-c'', s]"

fun argv_of :: "cmd \<Rightarrow> string list" where
  "argv_of (SetOpt p s k v) = [''uci'', ''set'', opt_path p s k @ ''='' @ v]"
| "argv_of (SetSection p n t) = [''uci'', ''set'', sec_path p n @ ''='' @ t]"
| "argv_of (AddList p s k v) = [''uci'', ''add_list'', opt_path p s k @ ''='' @ v]"
| "argv_of (AddSection p t) = [''uci'', ''add'', p, t]"
| "argv_of (Commit p) = [''uci'', ''commit'', p]"
| "argv_of (DeleteSection p n) = shell (''uci -q delete '' @ sec_path p n @ '' || true'')"
| "argv_of (DeleteOpt p s k) = shell (''uci -q delete '' @ opt_path p s k @ '' || true'')"
| "argv_of (DelList p s k v) = shell (sh ''uci -q del_list `'' @ opt_path p s k @ ''='' @ v @ sh ''` || true'')"
| "argv_of (DeleteAll p t) = shell (''while uci -q delete '' @ p @ ''.@'' @ t @ ''[0]; do :; done'')"
| "argv_of (Service s a) = [''/etc/init.d/'' @ s, a]"
| "argv_of WifiReload = [''wifi'', ''reload'']"
| "argv_of (IfUp i) = [''ifup'', i]"
| "argv_of (IfDown i) = [''ifdown'', i]"
| "argv_of KsOn = shell ks_on_script"
| "argv_of KsOff = shell ks_off_script"
| "argv_of KsQuery = shell ks_query_script"
| "argv_of ZoneScript = shell zone_script"
| "argv_of WanScript = shell wan_script"
| "argv_of (DnsQuery spec) = shell (enabled_script spec)"

section \<open>Effects\<close>

definition edit :: "string \<Rightarrow> (package \<Rightarrow> package option) \<Rightarrow> router \<Rightarrow> router option" where
  "edit p f r = map_option (\<lambda>q. r\<lparr>rt_work := (rt_work r)(p := q)\<rparr>) (f (rt_work r p))"

definition commit_pkg :: "string \<Rightarrow> router \<Rightarrow> router" where
  "commit_pkg p r = r\<lparr>rt_saved := (rt_saved r)(p := rt_work r p)\<rparr>"

text \<open>A service that reloads runs with the committed package it reads.\<close>

definition package_of :: "string \<Rightarrow> string" where
  "package_of s = (if s = ''dnsmasq'' then ''dhcp'' else s)"

definition reload :: "string \<Rightarrow> router \<Rightarrow> router option" where
  "reload p r = (if rt_reloads r p then Some (r\<lparr>rt_live := (rt_live r)(p := rt_saved r p)\<rparr>) else None)"

text \<open>A reload whose failure the script does not report.\<close>

definition try_reload :: "string \<Rightarrow> router \<Rightarrow> router" where
  "try_reload p r = (case reload p r of None \<Rightarrow> r | Some r' \<Rightarrow> r')"

definition work_to :: "string \<Rightarrow> package \<Rightarrow> router \<Rightarrow> router" where
  "work_to p q r = r\<lparr>rt_work := (rt_work r)(p := q)\<rparr>"

text \<open>\<open>SetKillSwitch\<close> on ends in \<open>|| true\<close>: a failed commit or reload is not reported.\<close>

definition exec_ks_on :: "router \<Rightarrow> router" where
  "exec_ks_on r = (case ks_on_loop False (rt_work r ''firewall'') of (changed, fw) \<Rightarrow>
     if changed then try_reload ''firewall'' (commit_pkg ''firewall'' (work_to ''firewall'' fw r)) else r)"

definition exec_ks_off :: "router \<Rightarrow> router option" where
  "exec_ks_off r = (case ks_off_edit (rt_work r ''firewall'') of (changed, fw) \<Rightarrow>
     if changed then reload ''firewall'' (commit_pkg ''firewall'' (work_to ''firewall'' fw r)) else Some r)"

definition exec_zone :: "router \<Rightarrow> router" where
  "exec_zone r = (case zone_edit (rt_work r ''firewall'') of (changed, fw) \<Rightarrow>
     if changed then commit_pkg ''firewall'' (work_to ''firewall'' fw r) else r)"

definition exec_wan :: "router \<Rightarrow> router option" where
  "exec_wan r = (case wan_edit (rt_work r ''firewall'') of
     None \<Rightarrow> None | Some fw \<Rightarrow> Some (commit_pkg ''firewall'' (work_to ''firewall'' fw r)))"

fun exec :: "cmd \<Rightarrow> router \<Rightarrow> router option" where
  "exec (SetOpt p s k v) r = edit p (update_sel s (set_opt k [v])) r"
| "exec (SetSection p n t) r = edit p (\<lambda>q. Some (put_section n t q)) r"
| "exec (AddList p s k v) r = edit p (update_sel s (\<lambda>x. set_opt k (us_opts x k @ [v]) x)) r"
| "exec (AddSection p t) r = edit p (\<lambda>q. Some (add_section t q)) r"
| "exec (Commit p) r = Some (commit_pkg p r)"
| "exec (DeleteSection p n) r = edit p (\<lambda>q. Some (del_section n q)) r"
| "exec (DeleteOpt p s k) r = edit p (\<lambda>q. Some (case update_sel s (set_opt k []) q of None \<Rightarrow> q | Some q' \<Rightarrow> q')) r"
| "exec (DelList p s k v) r = edit p (\<lambda>q. Some (case update_sel s (\<lambda>x. set_opt k (filter (\<lambda>y. y \<noteq> v) (us_opts x k)) x) q of
     None \<Rightarrow> q | Some q' \<Rightarrow> q')) r"
| "exec (DeleteAll p t) r = edit p (\<lambda>q. Some (filter (\<lambda>x. us_type x \<noteq> t) q)) r"
| "exec (Service s a) r = reload (package_of s) r"
| "exec WifiReload r = reload ''wireless'' r"
| "exec (IfUp i) r = Some (r\<lparr>rt_up := List.insert i (rt_up r)\<rparr>)"
| "exec (IfDown i) r = Some (r\<lparr>rt_up := removeAll i (rt_up r)\<rparr>)"
| "exec KsOn r = Some (exec_ks_on r)"
| "exec KsOff r = exec_ks_off r"
| "exec KsQuery r = Some r"
| "exec ZoneScript r = Some (exec_zone r)"
| "exec WanScript r = exec_wan r"
| "exec (DnsQuery spec) r = Some r"

text \<open>What the queries print.\<close>

definition dns_points_at :: "string \<Rightarrow> package \<Rightarrow> bool" where
  "dns_points_at spec dhcp = (case find_sel (First ''dnsmasq'') dhcp of
     None \<Rightarrow> False | Some s \<Rightarrow> us_opts s ''server'' \<noteq> [] \<and> sublist spec (opt_text ''server'' s))"

fun answer :: "cmd \<Rightarrow> router \<Rightarrow> string option" where
  "answer KsQuery r = Some (ks_query_text (rt_work r ''firewall''))"
| "answer (DnsQuery spec) r = Some (if dns_points_at spec (rt_work r ''dhcp'') then ''on'' else ''off'')"
| "answer c r = None"

fun exec_all :: "cmd list \<Rightarrow> router \<Rightarrow> router option" where
  "exec_all [] r = Some r"
| "exec_all (c # cs) r = (case exec c r of None \<Rightarrow> None | Some r' \<Rightarrow> exec_all cs r')"

text \<open>Which commands are meant: plain names wherever the text has separators.\<close>

definition ident_char :: "char \<Rightarrow> bool" where
  "ident_char c \<longleftrightarrow> word_char c \<or> c = CHR ''-''"

definition ident :: "string \<Rightarrow> bool" where
  "ident s \<longleftrightarrow> s \<noteq> [] \<and> list_all ident_char s"

fun sel_ok :: "selector \<Rightarrow> bool" where
  "sel_ok (Named n) = ident n" | "sel_ok (First t) = ident t" | "sel_ok (Last t) = ident t"

fun cmd_ok :: "cmd \<Rightarrow> bool" where
  "cmd_ok (SetOpt p s k v) = (ident p \<and> sel_ok s \<and> ident k \<and> v \<noteq> [])"
| "cmd_ok (SetSection p n t) = (ident p \<and> ident n)"
| "cmd_ok (AddList p s k v) = (ident p \<and> sel_ok s \<and> ident k \<and> v \<noteq> [])"
| "cmd_ok (DeleteSection p n) = (ident p \<and> ident n)"
| "cmd_ok (DeleteOpt p s k) = (ident p \<and> sel_ok s \<and> ident k)"
| "cmd_ok (DelList p s k v) = (ident p \<and> sel_ok s \<and> ident k \<and> CHR 0x27 \<notin> set v)"
| "cmd_ok (DeleteAll p t) = (ident p \<and> ident t)"
| "cmd_ok (DnsQuery spec) = (CHR 0x27 \<notin> set spec)"
| "cmd_ok c = True"

section \<open>Reading the commands back\<close>

text \<open>The text between a fixed beginning and a fixed end.\<close>

definition between :: "string \<Rightarrow> string \<Rightarrow> string \<Rightarrow> string option" where
  "between a b s = (if has_prefix s a \<and> has_suffix s b \<and> length a + length b \<le> length s
     then Some (take (length s - length a - length b) (drop (length a) s)) else None)"

lemma between_append: "between a b (a @ x @ b) = Some x"
  by (simp add: between_def has_prefix_def has_suffix_def suffix_append suffix_appendI)

fun parse_sel :: "string \<Rightarrow> selector" where
  "parse_sel s = (case between ''@'' ''[0]'' s of Some t \<Rightarrow> First t | None \<Rightarrow>
     (case between ''@'' ''[-1]'' s of Some t \<Rightarrow> Last t | None \<Rightarrow> Named s))"

fun decode_path :: "string list \<Rightarrow> (string \<Rightarrow> string \<Rightarrow> cmd) \<Rightarrow> (string \<Rightarrow> selector \<Rightarrow> string \<Rightarrow> cmd) \<Rightarrow> cmd option" where
  "decode_path [p, n] sec opt = Some (sec p n)"
| "decode_path [p, s, k] sec opt = Some (opt p (parse_sel s) k)"
| "decode_path xs sec opt = None"

definition decode_set :: "string \<Rightarrow> cmd option" where
  "decode_set s = (case cut CHR ''='' s of None \<Rightarrow> None | Some (path, v) \<Rightarrow>
     decode_path (split_on CHR ''.'' path) (\<lambda>p n. SetSection p n v) (\<lambda>p s k. SetOpt p s k v))"

definition decode_add_list :: "string \<Rightarrow> cmd option" where
  "decode_add_list s = (case cut CHR ''='' s of None \<Rightarrow> None | Some (path, v) \<Rightarrow>
     (case split_on CHR ''.'' path of [p, s, k] \<Rightarrow> Some (AddList p (parse_sel s) k v) | _ \<Rightarrow> None))"

definition decode_del_list :: "string \<Rightarrow> cmd option" where
  "decode_del_list s = (case cut CHR ''='' s of None \<Rightarrow> None | Some (path, v) \<Rightarrow>
     (case split_on CHR ''.'' path of [p, s, k] \<Rightarrow> Some (DelList p (parse_sel s) k v) | _ \<Rightarrow> None))"

definition decode_delete :: "string \<Rightarrow> cmd option" where
  "decode_delete s = decode_path (split_on CHR ''.'' s) DeleteSection DeleteOpt"

definition decode_all :: "string \<Rightarrow> cmd option" where
  "decode_all s = (case cut CHR ''.'' s of None \<Rightarrow> None | Some (p, t) \<Rightarrow> Some (DeleteAll p (tl t)))"

definition query_head :: string where
  "query_head = sh ''uci -q get `dhcp.@dnsmasq[0].server` | grep -qF `''"

definition query_tail :: string where
  "query_tail = sh ''` && echo on || echo off''"

text \<open>The scripts told apart by how they begin and end; the fixed ones by their whole text.\<close>

definition decode_script :: "string \<Rightarrow> cmd option" where
  "decode_script s =
     (if s = ks_on_script then Some KsOn else if s = ks_off_script then Some KsOff
      else if s = ks_query_script then Some KsQuery else if s = zone_script then Some ZoneScript
      else if s = wan_script then Some WanScript
      else (case between query_head query_tail s of Some x \<Rightarrow> Some (DnsQuery x)
        | None \<Rightarrow> (case between ''uci -q delete '' '' || true'' s of Some x \<Rightarrow> decode_delete x
        | None \<Rightarrow> (case between (sh ''uci -q del_list `'') (sh ''` || true'') s of Some x \<Rightarrow> decode_del_list x
        | None \<Rightarrow> (case between ''while uci -q delete '' ''[0]; do :; done'' s of Some x \<Rightarrow> decode_all x
        | None \<Rightarrow> None)))))"

fun decode :: "string list \<Rightarrow> cmd option" where
  "decode [a, b] = (if a = ''wifi'' \<and> b = ''reload'' then Some WifiReload
     else if a = ''ifup'' then Some (IfUp b) else if a = ''ifdown'' then Some (IfDown b)
     else map_option (\<lambda>s. Service s b) (between ''/etc/init.d/'' [] a))"
| "decode [a, b, c] = (if a = ''uci'' then
       (if b = ''set'' then decode_set c else if b = ''add_list'' then decode_add_list c
        else if b = ''commit'' then Some (Commit c) else None)
     else if a = ''sh'' \<and> b = ''-c'' then decode_script c else None)"
| "decode [a, b, c, d] = (if a = ''uci'' \<and> b = ''add'' then Some (AddSection c d) else None)"
| "decode _ = None"

lemma ident_safe: "ident s \<Longrightarrow> c \<in> {CHR ''.'', CHR ''='', CHR ''@''} \<Longrightarrow> c \<notin> set s"
  by (auto simp: ident_def ident_char_def word_char_def list_all_iff less_eq_char_def)

lemma sel_text_safe: "sel_ok s \<Longrightarrow> c \<in> {CHR ''.'', CHR ''=''} \<Longrightarrow> c \<notin> set (sel_text s)"
  using ident_safe by (cases s) auto


text \<open>The parts of a command read back.\<close>

lemma between_other: "\<not> prefix a s \<Longrightarrow> between a b s = None"
  by (simp add: between_def has_prefix_def)

lemma parse_sel_text: "sel_ok s \<Longrightarrow> parse_sel (sel_text s) = s"
proof (cases s)
  case (Named n)
  assume "sel_ok s"
  with Named have "CHR ''@'' \<notin> set n" using ident_safe by simp
  then have "\<not> prefix ''@'' n" by (cases n) auto
  with Named show ?thesis by (simp add: between_other)
next
  case (First t)
  then show ?thesis using between_append [of "''@''" "''[0]''" t] by simp
next
  case (Last t)
  have "\<not> suffix ''[0]'' (''@'' @ t @ ''[-1]'')"
    by (auto simp: suffix_def append_eq_append_conv2 append_eq_Cons_conv Cons_eq_append_conv)
  with Last show ?thesis using between_append [of "''@''" "''[-1]''" t]
    by (simp add: between_def [of _ "''[0]''"] has_suffix_def)
qed

lemma split_path:
  "ident p \<Longrightarrow> sel_ok s \<Longrightarrow> ident k \<Longrightarrow> split_on CHR ''.'' (opt_path p s k) = [p, sel_text s, k]"
  "ident p \<Longrightarrow> ident n \<Longrightarrow> split_on CHR ''.'' (sec_path p n) = [p, n]"
  unfolding opt_path_def sec_path_def by (subst split_on_join; use ident_safe sel_text_safe in force)+

lemma cut_path:
  "ident p \<Longrightarrow> sel_ok s \<Longrightarrow> ident k \<Longrightarrow> cut CHR ''='' (opt_path p s k @ CHR ''='' # v) = Some (opt_path p s k, v)"
  "ident p \<Longrightarrow> ident n \<Longrightarrow> cut CHR ''='' (sec_path p n @ CHR ''='' # v) = Some (sec_path p n, v)"
  by (rule cut_append; use ident_safe sel_text_safe in \<open>fastforce simp: opt_path_def sec_path_def\<close>)+

text \<open>The scripts differ in their first characters.\<close>

lemma script_heads:
  "take 5 ks_on_script = ''chang''" "take 5 ks_off_script = ''have=''" "take 5 ks_query_script = ''for s''"
  "take 5 zone_script = ''uci s''" "take 5 wan_script = ''zone=''"
  by (simp_all add: ks_on_script_def ks_off_script_def ks_query_script_def zone_script_def wan_script_def sh_def)

lemma decode_script_fixed:
  "decode_script ks_on_script = Some KsOn" "decode_script ks_off_script = Some KsOff"
  "decode_script ks_query_script = Some KsQuery" "decode_script zone_script = Some ZoneScript"
  "decode_script wan_script = Some WanScript"
  using script_heads by (auto simp: decode_script_def)

lemma decode_script_other:
  assumes "take 5 s \<notin> {''chang'', ''have='', ''for s'', ''uci s'', ''zone=''}"
  shows "decode_script s =
    (case between query_head query_tail s of Some x \<Rightarrow> Some (DnsQuery x)
     | None \<Rightarrow> (case between ''uci -q delete '' '' || true'' s of Some x \<Rightarrow> decode_delete x
     | None \<Rightarrow> (case between (sh ''uci -q del_list `'') (sh ''` || true'') s of Some x \<Rightarrow> decode_del_list x
     | None \<Rightarrow> (case between ''while uci -q delete '' ''[0]; do :; done'' s of Some x \<Rightarrow> decode_all x
     | None \<Rightarrow> None))))"
proof -
  have "s \<notin> {ks_on_script, ks_off_script, ks_query_script, zone_script, wan_script}"
    using assms script_heads by auto
  then show ?thesis by (simp add: decode_script_def)
qed

lemma decode_delete_script: "decode_script (''uci -q delete '' @ x @ '' || true'') = decode_delete x"
proof -
  have "\<not> prefix query_head (''uci -q delete '' @ x @ '' || true'')" by (simp add: query_head_def sh_def)
  then show ?thesis
    using between_append [of "''uci -q delete ''" "'' || true''" x] by (simp add: decode_script_other between_other)
qed

lemma decode_del_list_script:
  "decode_script (sh ''uci -q del_list `'' @ x @ sh ''` || true'') = decode_del_list x"
proof -
  let ?s = "sh ''uci -q del_list `'' @ x @ sh ''` || true''"
  have "\<not> prefix query_head ?s" "\<not> prefix ''uci -q delete '' ?s" "take 5 ?s = ''uci -''"
    by (simp_all add: query_head_def sh_def)
  then show ?thesis using between_append [of "sh ''uci -q del_list `''" "sh ''` || true''" x]
    by (simp add: decode_script_other between_other)
qed

lemma decode_all_script:
  "decode_script (''while uci -q delete '' @ x @ ''[0]; do :; done'') = decode_all x"
proof -
  let ?s = "''while uci -q delete '' @ x @ ''[0]; do :; done''"
  have "\<not> prefix query_head ?s" "\<not> prefix ''uci -q delete '' ?s" "\<not> prefix (sh ''uci -q del_list `'') ?s"
    by (simp_all add: query_head_def sh_def)
  then show ?thesis using between_append [of "''while uci -q delete ''" "''[0]; do :; done''" x]
    by (simp add: decode_script_other between_other)
qed

lemma decode_query_script: "decode_script (enabled_script x) = Some (DnsQuery x)"
proof -
  have e: "enabled_script x = query_head @ x @ query_tail"
    by (simp add: enabled_script_def query_head_def query_tail_def)
  have "take 5 (query_head @ x @ query_tail) = ''uci -''" by (simp add: query_head_def sh_def)
  then show ?thesis by (simp add: e decode_script_other between_append)
qed

text \<open>Every command the daemon means is read back from its argument vector.\<close>

lemma decode_argv: "cmd_ok c \<Longrightarrow> decode (argv_of c) = Some c"
proof (cases c)
  case (DeleteSection p n)
  assume "cmd_ok c"
  with DeleteSection show ?thesis
    using decode_delete_script [of "sec_path p n"] by (simp add: shell_def decode_delete_def split_path)
next
  case (DeleteOpt p s k)
  assume "cmd_ok c"
  with DeleteOpt show ?thesis
    using decode_delete_script [of "opt_path p s k"]
    by (simp add: shell_def decode_delete_def split_path parse_sel_text del: parse_sel.simps)
next
  case (DelList p s k v)
  assume "cmd_ok c"
  with DelList show ?thesis
    using decode_del_list_script [of "opt_path p s k @ ''='' @ v"]
    by (simp add: shell_def decode_del_list_def split_path cut_path parse_sel_text del: parse_sel.simps)
next
  case (DeleteAll p t)
  assume "cmd_ok c"
  with DeleteAll have "cut CHR ''.'' (p @ CHR ''.'' # CHR ''@'' # t) = Some (p, CHR ''@'' # t)"
    by (intro cut_append) (simp add: ident_safe)
  with DeleteAll show ?thesis
    using decode_all_script [of "p @ ''.@'' @ t"] by (simp add: shell_def decode_all_def)
next
  case (Service s a)
  then show ?thesis using between_append [of "''/etc/init.d/''" "[]" s] by simp
qed (auto simp: shell_def decode_script_fixed decode_query_script decode_set_def decode_add_list_def
  split_path cut_path parse_sel_text simp del: parse_sel.simps)

text \<open>
  A router that reads argument vectors: what it does not know, or cannot do, is an error.
\<close>

definition uci_run :: "router \<Rightarrow> string list \<Rightarrow> (err + string) \<times> router" where
  "uci_run r argv =
     (case decode argv of
        None \<Rightarrow> (Inl ''not found'', r)
      | Some c \<Rightarrow> (case exec c r of
          None \<Rightarrow> (Inl ''exit status 1'', r)
        | Some r' \<Rightarrow> (Inr (case answer c r of None \<Rightarrow> [] | Some a \<Rightarrow> a), r')))"

lemma uci_run_argv: "cmd_ok c \<Longrightarrow> uci_run r (argv_of c) =
    (case exec c r of None \<Rightarrow> (Inl ''exit status 1'', r)
     | Some r' \<Rightarrow> (Inr (case answer c r of None \<Rightarrow> [] | Some a \<Rightarrow> a), r'))"
  by (simp add: uci_run_def decode_argv)

section \<open>The interface\<close>

locale uci_tools =
  fixes run :: "'d \<Rightarrow> string list \<Rightarrow> (err + string) \<times> 'd"
    and view :: "'d \<Rightarrow> router"
  assumes effect: "cmd_ok c \<Longrightarrow> run d (argv_of c) = (Inr out, d') \<Longrightarrow> exec c (view d) = Some (view d')"
    and reply: "cmd_ok c \<Longrightarrow> run d (argv_of c) = (Inr out, d') \<Longrightarrow> answer c (view d) = Some a \<Longrightarrow> out = a"
begin

text \<open>A list of commands that all succeeded had their effects in order.\<close>

lemma all_effect:
  "list_all cmd_ok cs \<Longrightarrow> dev_all run (map argv_of cs) d = (None, d') \<Longrightarrow> exec_all cs (view d) = Some (view d')"
proof (induction cs arbitrary: d)
  case (Cons c cs)
  obtain r e where r: "run d (argv_of c) = (r, e)" by (cases "run d (argv_of c)")
  with Cons.prems(2) obtain out where out: "r = Inr out" by (cases r) auto
  then have "exec c (view d) = Some (view e)" using effect [of c d out e] Cons.prems(1) r by simp
  with Cons r out show ?case by simp
qed simp

end

text \<open>Tools that also do what they can: a command whose effect is defined succeeds.\<close>

locale reliable_tools = uci_tools +
  assumes reliable: "cmd_ok c \<Longrightarrow> exec c (view d) \<noteq> None \<Longrightarrow> \<exists>out d'. run d (argv_of c) = (Inr out, d')"
begin

lemma all_succeed:
  "list_all cmd_ok cs \<Longrightarrow> exec_all cs (view d) = Some r \<Longrightarrow>
   \<exists>d'. dev_all run (map argv_of cs) d = (None, d') \<and> view d' = r"
proof (induction cs arbitrary: d)
  case (Cons c cs)
  then obtain r1 where r1: "exec c (view d) = Some r1" "exec_all cs r1 = Some r" by (auto split: option.splits)
  then obtain out e where e: "run d (argv_of c) = (Inr out, e)" using reliable [of c d] Cons.prems(1) by auto
  then have "view e = r1" using effect [of c d out e] r1(1) Cons.prems(1) by simp
  with Cons r1 e show ?case by simp
qed simp

lemma one_succeeds:
  assumes "cmd_ok c" "exec c (view d) = Some r"
  shows "\<exists>out d'. run d (argv_of c) = (Inr out, d') \<and> view d' = r \<and> (\<forall>a. answer c (view d) = Some a \<longrightarrow> out = a)"
proof -
  from assms reliable [of c d] obtain out e where e: "run d (argv_of c) = (Inr out, e)" by auto
  with assms effect [OF assms(1) e] reply [OF assms(1) e] show ?thesis by auto
qed

end

section \<open>The reference router meets the interface\<close>

interpretation tools: uci_tools uci_run "\<lambda>r. r"
  by unfold_locales (auto simp: uci_run_argv split: option.splits)

interpretation machine: reliable_tools uci_run "\<lambda>r. r"
  by unfold_locales (auto simp: uci_run_argv split: option.splits)

end
