(* ===== verification/Router_Ops.thy ===== *)
theory Router_Ops
  imports Router Dns_Forwarder
begin

text \<open>
  The command lists of the DNS service as operations on a router, what each list leaves there,
  and the same for the kill switch.  \<open>section_with\<close> is what writing a table of options
  makes of a named section; the three firewall rules and the redirect of encrypted DNS, and the
  fail-closed rule, are such tables.
\<close>

section \<open>Lists of commands\<close>

lemma exec_all_append:
  "exec_all (cs @ ds) r = (case exec_all cs r of None \<Rightarrow> None | Some r' \<Rightarrow> exec_all ds r')"
  by (induction cs arbitrary: r) (auto split: option.split)

lemma work_to_simps [simp]:
  "rt_work (work_to p q r) = (rt_work r)(p := q)" "rt_saved (work_to p q r) = rt_saved r"
  "rt_live (work_to p q r) = rt_live r" "rt_reloads (work_to p q r) = rt_reloads r"
  "rt_up (work_to p q r) = rt_up r" "work_to p q (work_to p q' r) = work_to p q r"
  by (simp_all add: work_to_def)

lemma work_to_same [simp]: "work_to p (rt_work r p) r = r"
  by (simp add: work_to_def)

lemma edit_work: "edit p f r = map_option (\<lambda>q. work_to p q r) (f (rt_work r p))"
  by (simp add: edit_def work_to_def)

lemma commit_simps [simp]:
  "rt_work (commit_pkg p r) = rt_work r" "rt_saved (commit_pkg p r) = (rt_saved r)(p := rt_work r p)"
  "rt_live (commit_pkg p r) = rt_live r" "rt_reloads (commit_pkg p r) = rt_reloads r"
  by (simp_all add: commit_pkg_def)

section \<open>Writing a section\<close>

text \<open>The commands that make a named section of a type and set a table of options in it.\<close>

definition write_ops :: "string \<Rightarrow> string \<Rightarrow> (string \<times> string) list \<Rightarrow> cmd list" where
  "write_ops p n kvs = map (\<lambda>(k, v). SetOpt p (Named n) k v) kvs"

definition section_ops :: "string \<Rightarrow> string \<Rightarrow> string \<Rightarrow> (string \<times> string) list \<Rightarrow> cmd list" where
  "section_ops p n t kvs = SetSection p n t # write_ops p n kvs"

definition with_opts :: "(string \<times> string) list \<Rightarrow> uci_section \<Rightarrow> uci_section" where
  "with_opts kvs s = fold (\<lambda>(k, v). set_opt k [v]) kvs s"

definition section_with :: "string \<Rightarrow> string \<Rightarrow> (string \<times> string) list \<Rightarrow> package \<Rightarrow> uci_section" where
  "section_with n t kvs q =
     with_opts kvs (case named n q of None \<Rightarrow> new_section n t | Some s \<Rightarrow> s\<lparr>us_type := t\<rparr>)"

lemma with_opts_simps [simp]:
  "us_name (with_opts kvs s) = us_name s" "us_type (with_opts kvs s) = us_type s"
  by (induction kvs arbitrary: s) (auto simp: with_opts_def)

text \<open>An option is the table's, when it has one for it (each key once), and the old one otherwise.\<close>

lemma with_opts_opt:
  "distinct (map fst kvs) \<Longrightarrow>
   us_opts (with_opts kvs s) k = (case map_of kvs k of Some v \<Rightarrow> [v] | None \<Rightarrow> us_opts s k)"
proof (induction kvs arbitrary: s)
  case (Cons kv kvs)
  obtain j v where kv: "kv = (j, v)" by force
  from Cons.prems have "j = k \<Longrightarrow> map_of kvs k = None" by (simp add: kv map_of_eq_None_iff)
  with Cons kv show ?case by (auto simp: with_opts_def split: option.split)
qed (simp add: with_opts_def)

text \<open>Two packages that agree apart from one named section.\<close>

definition same_but :: "string set \<Rightarrow> package \<Rightarrow> package \<Rightarrow> bool" where
  "same_but ns p q \<longleftrightarrow> filter (\<lambda>s. us_name s \<notin> ns) p = filter (\<lambda>s. us_name s \<notin> ns) q"

lemma same_but_refl [simp]: "same_but ns p p"
  by (simp add: same_but_def)

lemma same_but_mono:
  assumes "same_but ms p q" "ms \<subseteq> ns"
  shows "same_but ns p q"
proof -
  have "filter (\<lambda>s. us_name s \<notin> ns) p = filter (\<lambda>s. us_name s \<notin> ns) (filter (\<lambda>s. us_name s \<notin> ms) p)" for p
    using assms(2) by (auto intro: filter_cong)
  then show ?thesis using assms(1) unfolding same_but_def by metis
qed

lemma same_but_trans: "same_but ns p q \<Longrightarrow> same_but ns q r \<Longrightarrow> same_but ns p r"
  by (simp add: same_but_def)

lemma same_but_named: "same_but ns p q \<Longrightarrow> n \<notin> ns \<Longrightarrow> named n p = named n q"
proof -
  assume a: "same_but ns p q" "n \<notin> ns"
  have "named n p = named n (filter (\<lambda>s. us_name s \<notin> ns) p)" for p
    using a(2) by (induction p) (auto simp: named_def)
  with a(1) show ?thesis by (metis same_but_def)
qed

lemma same_but_update:
  "update_first (\<lambda>s. us_name s = n) f p = Some q \<Longrightarrow> (\<And>s. us_name (f s) = us_name s) \<Longrightarrow> same_but {n} p q"
  by (induction p arbitrary: q) (auto simp: same_but_def split: if_splits)

lemma same_but_put: "same_but {n} p (put_section n t p)"
  using same_but_update [of n "\<lambda>s. s\<lparr>us_type := t\<rparr>" p]
  by (auto simp: put_section_def split: option.split) (simp add: same_but_def)

lemma same_but_del: "same_but {n} p (del_section n p)"
  by (simp add: same_but_def del_section_def)

text \<open>The forwardings the kill switch looks for are anonymous.\<close>

lemma same_but_lan_wan:
  assumes "same_but ns p q" "[] \<notin> ns"
  shows "filter lan_wan p = filter lan_wan q"
proof -
  have "filter lan_wan p = filter lan_wan (filter (\<lambda>s. us_name s \<notin> ns) p)" for p
    using assms(2) by (auto simp: lan_wan_def intro: filter_cong)
  then show ?thesis using assms(1) by (metis same_but_def)
qed

text \<open>An edit of a section that is there.\<close>

lemma named_step:
  assumes "named n p = Some s" "\<And>x. us_name (f x) = us_name x"
  obtains q where "update_first (\<lambda>x. us_name x = n) f p = Some q" "named n q = Some (f s)" "same_but {n} p q"
proof -
  obtain q where q: "update_first (\<lambda>x. us_name x = n) f p = Some q"
    using assms(1) by (metis named_update_None option.distinct(1) option.exhaust)
  then show ?thesis using that named_update [OF q assms(2), of n] same_but_update [OF q assms(2)] assms(1) by simp
qed

lemma write_ops_exec:
  "named n (rt_work r p) = Some s \<Longrightarrow>
   \<exists>q. exec_all (write_ops p n kvs) r = Some (work_to p q r) \<and> named n q = Some (with_opts kvs s)
     \<and> same_but {n} (rt_work r p) q"
proof (induction kvs arbitrary: r s)
  case Nil
  then show ?case by (intro exI [of _ "rt_work r p"]) (simp add: write_ops_def with_opts_def)
next
  case (Cons kv kvs)
  obtain k v where kv: "kv = (k, v)" by force
  obtain q1 where q1: "update_first (\<lambda>s. us_name s = n) (set_opt k [v]) (rt_work r p) = Some q1"
    and n1: "named n q1 = Some (set_opt k [v] s)" and b1: "same_but {n} (rt_work r p) q1"
    by (rule named_step [OF Cons.prems, of "set_opt k [v]"]) simp_all
  from Cons.IH [of "work_to p q1 r" "set_opt k [v] s"] n1 obtain q where
    "exec_all (write_ops p n kvs) (work_to p q1 r) = Some (work_to p q r)"
    "named n q = Some (with_opts kvs (set_opt k [v] s))" "same_but {n} q1 q" by auto
  then show ?case using q1 b1 same_but_trans [OF b1]
    by (intro exI [of _ q]) (simp add: write_ops_def kv edit_work with_opts_def)
qed

lemma section_ops_exec:
  "\<exists>q. exec_all (section_ops p n t kvs) r = Some (work_to p q r)
     \<and> named n q = Some (section_with n t kvs (rt_work r p)) \<and> same_but {n} (rt_work r p) q"
proof -
  let ?r = "work_to p (put_section n t (rt_work r p)) r"
  let ?s = "case named n (rt_work r p) of None \<Rightarrow> new_section n t | Some s \<Rightarrow> s\<lparr>us_type := t\<rparr>"
  have "named n (rt_work ?r p) = Some ?s" by (simp add: named_put)
  from write_ops_exec [of n ?r p ?s kvs, OF this] obtain q where
    "exec_all (write_ops p n kvs) ?r = Some (work_to p q r)" "named n q = Some (with_opts kvs ?s)"
    "same_but {n} (put_section n t (rt_work r p)) q" by auto
  then show ?thesis using same_but_trans [OF same_but_put]
    by (intro exI [of _ q]) (auto simp: section_ops_def edit_work section_with_def)
qed

text \<open>Several sections one after the other.\<close>

lemma sections_exec:
  "distinct (map fst ss) \<Longrightarrow>
   \<exists>q. exec_all (concat (map (\<lambda>(n, t, kvs). section_ops p n t kvs) ss)) r = Some (work_to p q r)
     \<and> (\<forall>(n, t, kvs) \<in> set ss. named n q = Some (section_with n t kvs (rt_work r p)))
     \<and> same_but (fst ` set ss) (rt_work r p) q"
proof (induction ss arbitrary: r)
  case Nil
  then show ?case by (intro exI [of _ "rt_work r p"]) simp
next
  case (Cons x ss)
  obtain n t kvs where x: "x = (n, t, kvs)" by (cases x)
  obtain q1 where q1: "exec_all (section_ops p n t kvs) r = Some (work_to p q1 r)"
    "named n q1 = Some (section_with n t kvs (rt_work r p))" "same_but {n} (rt_work r p) q1"
    using section_ops_exec by blast
  from Cons.IH [of "work_to p q1 r"] Cons.prems obtain q where
    q: "exec_all (concat (map (\<lambda>(n, t, kvs). section_ops p n t kvs) ss)) (work_to p q1 r) = Some (work_to p q r)"
    "\<forall>(n, t, kvs) \<in> set ss. named n q = Some (section_with n t kvs q1)" "same_but (fst ` set ss) q1 q"
    by auto
  have nn: "n \<notin> fst ` set ss" using Cons.prems by (simp add: x)
  have "section_with m t' kvs' q1 = section_with m t' kvs' (rt_work r p)" if "(m, t', kvs') \<in> set ss" for m t' kvs'
  proof -
    have "m \<noteq> n" using that nn by force
    then show ?thesis using same_but_named [OF q1(3), of m] by (simp add: section_with_def)
  qed
  moreover have "named n q = Some (section_with n t kvs (rt_work r p))"
    using same_but_named [OF q(3) nn] q1(2) by simp
  moreover have "same_but (fst ` set (x # ss)) (rt_work r p) q"
    by (rule same_but_trans [OF same_but_mono [OF q1(3)] same_but_mono [OF q(3)]]) (auto simp: x)
  ultimately show ?case using q(1,2) q1(1)
    by (intro exI [of _ q]) (auto simp: x exec_all_append)
qed

section \<open>Encrypted DNS\<close>

definition dns_tables :: "(string \<times> string \<times> (string \<times> string) list) list" where
  "dns_tables =
     [(''mistui_dns_out'', ''rule'',
        [(''name'', ''mistui-dns53-out''), (''dest'', ''wan''), (''proto'', ''tcp udp''), (''dest_port'', ''53''),
         (''target'', ''REJECT'')]),
      (''mistui_dns_fwd'', ''rule'',
        [(''name'', ''mistui-dns53-fwd''), (''src'', ''lan''), (''dest'', ''wan''), (''proto'', ''tcp udp''),
         (''dest_port'', ''53''), (''target'', ''REJECT'')]),
      (''mistui_dns_hijack'', ''redirect'',
        [(''name'', ''mistui-dns-hijack''), (''src'', ''lan''), (''proto'', ''tcp udp''), (''src_dport'', ''53''),
         (''target'', ''DNAT'')])]"

definition point_ops :: "string \<Rightarrow> cmd list" where
  "point_ops spec =
     [SetOpt ''dhcp'' (First ''dnsmasq'') ''noresolv'' ''1'', DelList ''dhcp'' (First ''dnsmasq'') ''server'' spec,
      AddList ''dhcp'' (First ''dnsmasq'') ''server'' spec, Commit ''dhcp'']"

definition settle_ops :: "cmd list" where
  "settle_ops = [Commit ''firewall'', Service ''dnsmasq'' ''restart'', Service ''firewall'' ''reload'']"

definition dns_enable_ops :: "string \<Rightarrow> cmd list" where
  "dns_enable_ops spec =
     point_ops spec @ concat (map (\<lambda>(n, t, kvs). section_ops ''firewall'' n t kvs) dns_tables) @ settle_ops"

definition unpoint_ops :: "string \<Rightarrow> cmd list" where
  "unpoint_ops spec =
     [DeleteOpt ''dhcp'' (First ''dnsmasq'') ''noresolv'', DelList ''dhcp'' (First ''dnsmasq'') ''server'' spec,
      Commit ''dhcp'']"

definition dns_disable_ops :: "string \<Rightarrow> cmd list" where
  "dns_disable_ops spec =
     unpoint_ops spec @ map (DeleteSection ''firewall'')
       [''mistui_dns_out'', ''mistui_dns_fwd'', ''mistui_dns_hijack'', ''mistui_dns_ks''] @ settle_ops"

definition ks_table :: "(string \<times> string) list" where
  "ks_table = [(''name'', ''mistui-doh-failclosed''), (''dest'', ''wan''), (''proto'', ''tcp''), (''dest_port'', ''443'')]"

definition fail_closed_ops :: "cmd list" where
  "fail_closed_ops =
     section_ops ''firewall'' ''mistui_dns_ks'' ''rule'' ks_table
     @ [DeleteOpt ''firewall'' (Named ''mistui_dns_ks'') ''dest_ip'']
     @ map (AddList ''firewall'' (Named ''mistui_dns_ks'') ''dest_ip'') all_resolver_ips
     @ [SetOpt ''firewall'' (Named ''mistui_dns_ks'') ''target'' ''REJECT'', Commit ''firewall'',
        Service ''firewall'' ''reload'']"

text \<open>The argument vectors the source builds are these.\<close>

lemmas ops_text = section_ops_def write_ops_def opt_path_def sec_path_def shell_def fw_set_def fw_delete_def del_server_def

lemma dns_enable_text: "dns_enable_cmds spec = map argv_of (dns_enable_ops spec)"
  by (simp add: dns_enable_cmds_def dns_enable_ops_def point_ops_def settle_ops_def dns_tables_def ops_text sh_def)

lemma dns_disable_text: "dns_disable_cmds spec = map argv_of (dns_disable_ops spec)"
  by (simp add: dns_disable_cmds_def dns_disable_ops_def unpoint_ops_def settle_ops_def ops_text sh_def)

lemma fail_closed_text: "fail_closed_on_cmds = map argv_of fail_closed_ops"
  by (simp add: fail_closed_on_cmds_def fail_closed_ops_def ks_table_def ops_text comp_def)

lemma ident_names:
  "ident ''firewall''" "ident ''dhcp''" "ident ''dnsmasq''" "ident ''server''" "ident ''noresolv''" "ident ''dest_ip''"
  "ident ''mistui_dns_out''" "ident ''mistui_dns_fwd''" "ident ''mistui_dns_hijack''" "ident ''mistui_dns_ks''"
  "ident ''name''" "ident ''src''" "ident ''dest''" "ident ''proto''" "ident ''dest_port''" "ident ''src_dport''"
  "ident ''target''"
  by (simp_all add: ident_def ident_char_def word_char_def less_eq_char_def)

lemma dns_ops_ok:
  "spec \<noteq> [] \<Longrightarrow> CHR 0x27 \<notin> set spec \<Longrightarrow> list_all cmd_ok (dns_enable_ops spec)"
  "CHR 0x27 \<notin> set spec \<Longrightarrow> list_all cmd_ok (dns_disable_ops spec)"
  "list_all cmd_ok fail_closed_ops"
  by (simp_all add: dns_enable_ops_def dns_disable_ops_def fail_closed_ops_def point_ops_def unpoint_ops_def
      settle_ops_def dns_tables_def ks_table_def section_ops_def write_ops_def ident_names all_resolver_ips_def providers_def)

section \<open>What the lists leave\<close>

lemma update_first_comp:
  "update_first P f p = Some q \<Longrightarrow> (\<And>x. P (f x) = P x) \<Longrightarrow> update_first P g q = update_first P (\<lambda>x. g (f x)) p"
  by (induction p arbitrary: q) (auto split: if_splits)

text \<open>The dnsmasq section of \<open>dhcp\<close> with and without the forwarder as its only source.\<close>

definition pointed :: "string \<Rightarrow> uci_section \<Rightarrow> uci_section" where
  "pointed spec s = set_opt ''server'' (filter (\<lambda>y. y \<noteq> spec) (us_opts s ''server'') @ [spec]) (set_opt ''noresolv'' [''1''] s)"

definition unpointed :: "string \<Rightarrow> uci_section \<Rightarrow> uci_section" where
  "unpointed spec s = set_opt ''server'' (filter (\<lambda>y. y \<noteq> spec) (us_opts s ''server'')) (set_opt ''noresolv'' [] s)"

abbreviation dnsmasq_update :: "(uci_section \<Rightarrow> uci_section) \<Rightarrow> package \<Rightarrow> package option" where
  "dnsmasq_update f \<equiv> update_first (\<lambda>s. us_type s = ''dnsmasq'') f"

lemma update_first_None: "update_first P f p = None \<longleftrightarrow> (\<forall>x \<in> set p. \<not> P x)"
  by (induction p) auto

lemma update_first_defined: "update_first P f p = Some q \<Longrightarrow> \<exists>q'. update_first P g p = Some q'"
  using update_first_None [of P f p] update_first_None [of P g p] by (cases "update_first P g p") auto

lemma set_opt_twice [simp]: "set_opt k a (set_opt k b s) = set_opt k a s"
  by (simp add: set_opt_def)

lemma point_exec:
  "exec_all (point_ops spec) r = map_option (\<lambda>d. commit_pkg ''dhcp'' (work_to ''dhcp'' d r))
     (dnsmasq_update (pointed spec) (rt_work r ''dhcp''))"
proof (cases "dnsmasq_update (set_opt ''noresolv'' [''1'']) (rt_work r ''dhcp'')")
  case None
  then have "dnsmasq_update (pointed spec) (rt_work r ''dhcp'') = None" by (simp add: update_first_None)
  with None show ?thesis by (simp add: point_ops_def edit_work)
next
  case (Some d1)
  let ?del = "\<lambda>x. set_opt ''server'' (filter (\<lambda>y. y \<noteq> spec) (us_opts x ''server'')) x"
  note c1 = update_first_comp [OF Some]
  have d2: "dnsmasq_update ?del d1 = dnsmasq_update (\<lambda>x. ?del (set_opt ''noresolv'' [''1''] x)) (rt_work r ''dhcp'')"
    by (rule c1) simp
  obtain d2' where s2: "dnsmasq_update ?del d1 = Some d2'" unfolding d2 using update_first_defined [OF Some] by blast
  let ?add = "\<lambda>x. set_opt ''server'' (us_opts x ''server'' @ [spec]) x"
  have "dnsmasq_update ?add d2' = dnsmasq_update (\<lambda>x. ?add (?del (set_opt ''noresolv'' [''1''] x))) (rt_work r ''dhcp'')"
    using s2 unfolding d2 by (rule update_first_comp) simp
  also have "(\<lambda>x. ?add (?del (set_opt ''noresolv'' [''1''] x))) = pointed spec"
    by (rule ext) (simp add: pointed_def)
  finally show ?thesis using Some s2
    by (cases "dnsmasq_update (pointed spec) (rt_work r ''dhcp'')"; simp add: point_ops_def edit_work)
qed

lemma unpoint_exec:
  "exec_all (unpoint_ops spec) r = Some (commit_pkg ''dhcp'' (work_to ''dhcp''
     (case dnsmasq_update (unpointed spec) (rt_work r ''dhcp'') of None \<Rightarrow> rt_work r ''dhcp'' | Some d \<Rightarrow> d) r))"
proof (cases "dnsmasq_update (set_opt ''noresolv'' []) (rt_work r ''dhcp'')")
  case None
  then have "dnsmasq_update f (rt_work r ''dhcp'') = None" for f by (simp add: update_first_None)
  then show ?thesis by (simp add: unpoint_ops_def edit_work)
next
  case (Some d1)
  let ?del = "\<lambda>x. set_opt ''server'' (filter (\<lambda>y. y \<noteq> spec) (us_opts x ''server'')) x"
  have "dnsmasq_update ?del d1 = dnsmasq_update (\<lambda>x. ?del (set_opt ''noresolv'' [] x)) (rt_work r ''dhcp'')"
    by (rule update_first_comp [OF Some]) simp
  also have "(\<lambda>x. ?del (set_opt ''noresolv'' [] x)) = unpointed spec"
    by (rule ext) (simp add: unpointed_def)
  finally have e: "dnsmasq_update ?del d1 = dnsmasq_update (unpointed spec) (rt_work r ''dhcp'')" .
  moreover obtain d where "dnsmasq_update (unpointed spec) (rt_work r ''dhcp'') = Some d"
    using update_first_defined [OF Some] by blast
  ultimately show ?thesis using Some by (simp add: unpoint_ops_def edit_work)
qed

text \<open>A router whose \<open>dhcp\<close> and \<open>firewall\<close> packages are edited, committed and running.\<close>

definition settled :: "package \<Rightarrow> package \<Rightarrow> router \<Rightarrow> router" where
  "settled d q r = r\<lparr>rt_work := (rt_work r)(''dhcp'' := d, ''firewall'' := q),
     rt_saved := (rt_saved r)(''dhcp'' := d, ''firewall'' := q), rt_live := (rt_live r)(''dhcp'' := d, ''firewall'' := q)\<rparr>"

definition reloads_dns :: "router \<Rightarrow> bool" where
  "reloads_dns r \<longleftrightarrow> rt_reloads r ''dhcp'' \<and> rt_reloads r ''firewall''"

lemma settled_simps [simp]:
  "rt_work (settled d q r) ''dhcp'' = d" "rt_work (settled d q r) ''firewall'' = q"
  "rt_saved (settled d q r) ''dhcp'' = d" "rt_saved (settled d q r) ''firewall'' = q"
  "rt_live (settled d q r) ''dhcp'' = d" "rt_live (settled d q r) ''firewall'' = q"
  "rt_reloads (settled d q r) = rt_reloads r" "rt_up (settled d q r) = rt_up r"
  by (simp_all add: settled_def)

lemma settle_exec:
  "exec_all settle_ops (work_to ''firewall'' q (commit_pkg ''dhcp'' (work_to ''dhcp'' d r))) =
     (if reloads_dns r then Some (settled d q r) else None)"
  by (simp add: settle_ops_def package_of_def reload_def commit_pkg_def work_to_def reloads_dns_def settled_def
      fun_upd_twist)

definition dns_written :: "package \<Rightarrow> package \<Rightarrow> bool" where
  "dns_written p q \<longleftrightarrow> (\<forall>(n, t, kvs) \<in> set dns_tables. named n q = Some (section_with n t kvs p))
     \<and> same_but (fst ` set dns_tables) p q"

lemma dns_enable_exec:
  "\<exists>q. dns_written (rt_work r ''firewall'') q \<and>
     exec_all (dns_enable_ops spec) r =
       (case dnsmasq_update (pointed spec) (rt_work r ''dhcp'') of
          None \<Rightarrow> None | Some d \<Rightarrow> if reloads_dns r then Some (settled d q r) else None)"
proof (cases "dnsmasq_update (pointed spec) (rt_work r ''dhcp'')")
  case None
  have "distinct (map fst dns_tables)" by (simp add: dns_tables_def)
  from sections_exec [OF this, of "''firewall''" r] obtain q where "dns_written (rt_work r ''firewall'') q"
    unfolding dns_written_def by blast
  with None show ?thesis by (auto simp: dns_enable_ops_def exec_all_append point_exec)
next
  case (Some d)
  let ?r = "commit_pkg ''dhcp'' (work_to ''dhcp'' d r)"
  have "distinct (map fst dns_tables)" by (simp add: dns_tables_def)
  from sections_exec [OF this, of "''firewall''" ?r] obtain q where
    q: "exec_all (concat (map (\<lambda>(n, t, kvs). section_ops ''firewall'' n t kvs) dns_tables)) ?r = Some (work_to ''firewall'' q ?r)"
    "dns_written (rt_work ?r ''firewall'') q"
    unfolding dns_written_def by blast
  then show ?thesis
    by (intro exI [of _ q]) (simp add: Some dns_enable_ops_def exec_all_append point_exec settle_exec)
qed

definition ks_rule_names :: "string list" where
  "ks_rule_names = [''mistui_dns_out'', ''mistui_dns_fwd'', ''mistui_dns_hijack'', ''mistui_dns_ks'']"

lemma delete_exec:
  "exec_all (map (DeleteSection p) ns) r = Some (work_to p (fold del_section ns (rt_work r p)) r)"
  by (induction ns arbitrary: r) (simp_all add: edit_work)

lemma del_sections: "fold del_section ns p = filter (\<lambda>s. us_name s \<notin> set ns) p"
  by (induction ns arbitrary: p) (simp_all add: del_section_def conj_commute)

lemma dns_disable_exec:
  "exec_all (dns_disable_ops spec) r =
     (if reloads_dns r then Some (settled
        (case dnsmasq_update (unpointed spec) (rt_work r ''dhcp'') of None \<Rightarrow> rt_work r ''dhcp'' | Some d \<Rightarrow> d)
        (filter (\<lambda>s. us_name s \<notin> set ks_rule_names) (rt_work r ''firewall'')) r) else None)"
  using delete_exec [of "''firewall''" ks_rule_names]
  by (simp add: dns_disable_ops_def exec_all_append unpoint_exec settle_exec ks_rule_names_def [symmetric] del_sections
      del: list.map)

text \<open>The fail-closed rule.\<close>

definition fail_closed_section :: "package \<Rightarrow> uci_section" where
  "fail_closed_section p = set_opt ''target'' [''REJECT''] (set_opt ''dest_ip'' all_resolver_ips
     (section_with ''mistui_dns_ks'' ''rule'' ks_table p))"

definition fail_closed_written :: "package \<Rightarrow> package \<Rightarrow> bool" where
  "fail_closed_written p q \<longleftrightarrow> named ''mistui_dns_ks'' q = Some (fail_closed_section p) \<and> same_but {''mistui_dns_ks''} p q"

lemma add_list_exec:
  "named n (rt_work r p) = Some s \<Longrightarrow>
   \<exists>q. exec_all (map (AddList p (Named n) k) vs) r = Some (work_to p q r)
     \<and> named n q = Some (set_opt k (us_opts s k @ vs) s) \<and> same_but {n} (rt_work r p) q"
proof (induction vs arbitrary: r s)
  case Nil
  then show ?case by (intro exI [of _ "rt_work r p"]) (simp add: set_opt_def)
next
  case (Cons v vs)
  obtain q1 where q1: "update_first (\<lambda>x. us_name x = n) (\<lambda>x. set_opt k (us_opts x k @ [v]) x) (rt_work r p) = Some q1"
    and n1: "named n q1 = Some (set_opt k (us_opts s k @ [v]) s)" and b1: "same_but {n} (rt_work r p) q1"
    by (rule named_step [OF Cons.prems, of "\<lambda>x. set_opt k (us_opts x k @ [v]) x"]) simp_all
  from Cons.IH [of "work_to p q1 r"] n1 obtain q where
    "exec_all (map (AddList p (Named n) k) vs) (work_to p q1 r) = Some (work_to p q r)"
    "named n q = Some (set_opt k (us_opts s k @ v # vs) s)" "same_but {n} q1 q" by auto
  then show ?case using q1 same_but_trans [OF b1] by (intro exI [of _ q]) (simp add: edit_work)
qed

lemma fail_closed_exec:
  "\<exists>q. fail_closed_written (rt_work r ''firewall'') q \<and>
     exec_all fail_closed_ops r = (if rt_reloads r ''firewall'' then
        Some (r\<lparr>rt_work := (rt_work r)(''firewall'' := q), rt_saved := (rt_saved r)(''firewall'' := q),
                 rt_live := (rt_live r)(''firewall'' := q)\<rparr>) else None)"
proof -
  let ?n = "''mistui_dns_ks''" and ?p = "rt_work r ''firewall''"
  let ?s = "section_with ?n ''rule'' ks_table ?p"
  obtain q1 where q1: "exec_all (section_ops ''firewall'' ?n ''rule'' ks_table) r = Some (work_to ''firewall'' q1 r)"
    "named ?n q1 = Some ?s" "same_but {?n} ?p q1"
    using section_ops_exec by blast
  obtain q2 where q2: "update_first (\<lambda>x. us_name x = ?n) (set_opt ''dest_ip'' []) q1 = Some q2"
    "named ?n q2 = Some (set_opt ''dest_ip'' [] ?s)" "same_but {?n} q1 q2"
    by (rule named_step [OF q1(2), of "set_opt ''dest_ip'' []"]) simp_all
  have "named ?n (rt_work (work_to ''firewall'' q2 r) ''firewall'') = Some (set_opt ''dest_ip'' [] ?s)" using q2(2) by simp
  from add_list_exec [OF this, of "''dest_ip''" all_resolver_ips] obtain q3 where
    q3: "exec_all (map (AddList ''firewall'' (Named ?n) ''dest_ip'') all_resolver_ips) (work_to ''firewall'' q2 r)
      = Some (work_to ''firewall'' q3 r)"
    "named ?n q3 = Some (set_opt ''dest_ip'' all_resolver_ips ?s)" "same_but {?n} q2 q3" by auto
  obtain q4 where q4: "update_first (\<lambda>x. us_name x = ?n) (set_opt ''target'' [''REJECT'']) q3 = Some q4"
    "named ?n q4 = Some (fail_closed_section ?p)" "same_but {?n} q3 q4"
    unfolding fail_closed_section_def by (rule named_step [OF q3(2), of "set_opt ''target'' [''REJECT'']"]) simp_all
  have "fail_closed_written ?p q4"
    using q4(2) same_but_trans [OF q1(3) same_but_trans [OF q2(3) same_but_trans [OF q3(3) q4(3)]]]
    by (simp add: fail_closed_written_def)
  then show ?thesis using q1(1) q2(1) q3(1) q4(1)
    by (intro exI [of _ q4])
      (simp add: fail_closed_ops_def exec_all_append edit_work package_of_def reload_def commit_pkg_def work_to_def)
qed

text \<open>The kill switch.\<close>

lemma ks_on_exec:
  "exec_ks_on r =
     (if \<exists>s \<in> set (rt_work r ''firewall''). lan_wan s then
        try_reload ''firewall'' (commit_pkg ''firewall'' (work_to ''firewall''
          (filter (\<lambda>s. \<not> lan_wan s) (rt_work r ''firewall'')) r))
      else r)"
  by (simp add: exec_ks_on_def ks_on_loop_result)

lemma try_reload_simps [simp]:
  "rt_work (try_reload p r) = rt_work r" "rt_saved (try_reload p r) = rt_saved r"
  "rt_reloads (try_reload p r) = rt_reloads r" "rt_up (try_reload p r) = rt_up r"
  "rt_live (try_reload p r) = (if rt_reloads r p then (rt_live r)(p := rt_saved r p) else rt_live r)"
  by (simp_all add: try_reload_def reload_def)

end
