(* ===== verification/Router_Properties.thy ===== *)
theory Router_Properties
  imports Router_Ops Portal_Properties
begin

text \<open>
  What the operations mean on a router whose tools behave as documented: the kill switch closes
  the direct path (and what happens when the firewall does not reload), encrypted DNS blocks
  plain DNS and points dnsmasq at the forwarder, and the fail-closed rule covers every address
  the forwarder dials.
\<close>

section \<open>The operations on a view of the device\<close>

text \<open>A conntrack flush changes the connection table, not the configuration.\<close>

definition flush_harmless :: "'d env \<Rightarrow> ('d \<Rightarrow> router) \<Rightarrow> bool" where
  "flush_harmless E view \<longleftrightarrow> (\<forall>f d. flush_ct E = Some f \<longrightarrow> view (snd (f d)) = view d)"

definition no_direct :: "package \<Rightarrow> bool" where
  "no_direct fw \<longleftrightarrow> filter lan_wan fw = []"

lemma no_direct_alt: "no_direct fw \<longleftrightarrow> (\<forall>s \<in> set fw. \<not> lan_wan s)"
  by (simp add: no_direct_def filter_empty_conv)

lemma ks_query_on: "ks_query_text fw = ''on'' \<longleftrightarrow> no_direct fw"
  by (auto simp: ks_query_text_def no_direct_alt)

text \<open>The specification the daemon hands to dnsmasq can stand in a quoted script.\<close>

definition spec_ok :: "string \<Rightarrow> bool" where
  "spec_ok spec \<longleftrightarrow> spec \<noteq> [] \<and> CHR 0x27 \<notin> set spec"

context uci_tools
begin

lemma list_effect:
  assumes "run_cmd E = run" "list_all cmd_ok cs" "result (run_all E (map argv_of cs)) w = None"
  shows "exec_all cs (view (w_dev w)) = Some (view (w_dev (final (run_all E (map argv_of cs)) w)))"
proof (rule all_effect [OF assms(2)])
  show "dev_all run (map argv_of cs) (w_dev w) = (None, w_dev (final (run_all E (map argv_of cs)) w))"
    using assms(1,3) by (cases "dev_all run (map argv_of cs) (w_dev w)") simp
qed

lemma run_effect:
  assumes "run_cmd E = run" "cmd_ok c" "result (World.run E (argv_of c)) w = Inr out"
  shows "exec c (view (w_dev w)) = Some (view (w_dev (final (World.run E (argv_of c)) w)))"
    "answer c (view (w_dev w)) = Some a \<Longrightarrow> out = a"
  using assms effect [OF assms(2), of "w_dev w" out] reply [OF assms(2), of "w_dev w" out]
  by (cases "run (w_dev w) (argv_of c)"; simp)+

lemma ks_query_sound:
  assumes "run_cmd E = run" "result (kill_switch E) w = Some b"
  shows "b = no_direct (rt_work (view (w_dev w)) ''firewall'')"
proof -
  obtain out where o: "result (World.run E (argv_of KsQuery)) w = Inr out" "b = (out = ''on'')"
    using assms by (auto simp: kill_switch_def shell_def split: sum.splits)
  from run_effect(2) [OF assms(1) _ o(1)] have "out = ks_query_text (rt_work (view (w_dev w)) ''firewall'')" by simp
  then show ?thesis using o(2) by (simp add: ks_query_on)
qed

lemma ks_on_effect:
  assumes "run_cmd E = run" "flush_harmless E view" "result (set_kill_switch E True) w = None"
  shows "view (w_dev (final (set_kill_switch E True) w)) = exec_ks_on (view (w_dev w))"
proof -
  obtain out where o: "result (World.run E (argv_of KsOn)) w = Inr out"
    using assms(3) by (auto simp: set_kill_switch_def shell_def split: sum.splits)
  from run_effect(1) [OF assms(1) _ o]
  have "view (w_dev (final (World.run E (argv_of KsOn)) w)) = exec_ks_on (view (w_dev w))" by simp
  then show ?thesis using o assms(2)
    by (auto simp: set_kill_switch_def shell_def flush_harmless_def case_prod_beta split: option.split)
qed

lemma dns_query_sound:
  assumes "run_cmd E = run" "spec_ok (server_spec (fw_addr (w_fwd w)))" "result (dns_enabled E) w = Some b"
  shows "b = dns_points_at (server_spec (fw_addr (w_fwd w))) (rt_work (view (w_dev w)) ''dhcp'')"
proof -
  let ?spec = "server_spec (fw_addr (w_fwd w))"
  obtain out where o: "result (World.run E (argv_of (DnsQuery ?spec))) w = Inr out" "b = (trim_space out = ''on'')"
    using assms(3) by (auto simp: dns_enabled_def shell_def split: sum.splits)
  have "cmd_ok (DnsQuery ?spec)" using assms(2) by (simp add: spec_ok_def)
  from run_effect(2) [OF assms(1) this o(1)]
  have "out = (if dns_points_at ?spec (rt_work (view (w_dev w)) ''dhcp'') then ''on'' else ''off'')" by simp
  moreover have "trim_space ''on'' = ''on''" "trim_space ''off'' = ''off''"
    by (rule trim_space_tight, rule tight_plain_all; simp add: plain_char_def)+
  ultimately show ?thesis using o(2) by (simp split: if_splits)
qed

end

section \<open>The kill switch\<close>


text \<open>The example: a router with a lan-to-wan forwarding and a dnsmasq section.\<close>

definition direct :: uci_section where
  "direct = set_opt ''dest'' [''wan''] (set_opt ''src'' [''lan''] (new_section [] ''forwarding''))"

definition sample_packages :: "string \<Rightarrow> package" where
  "sample_packages = (\<lambda>p. if p = ''firewall'' then [direct] else if p = ''dhcp'' then [new_section [] ''dnsmasq''] else [])"

definition sample_router :: "bool \<Rightarrow> router" where
  "sample_router ok = \<lparr>rt_work = sample_packages, rt_saved = sample_packages, rt_live = sample_packages, rt_up = [],
     rt_reloads = (\<lambda>p. ok)\<rparr>"

definition router_env :: "router env" where
  "router_env = sample_env uci_run (\<lambda>d c. (None, d))"

lemma direct_lan_wan: "lan_wan direct"
  by (simp add: lan_wan_def direct_def opt_text_def)

lemma router_env_simps [simp]: "run_cmd router_env = uci_run" "flush_ct router_env = None"
  by (simp_all add: router_env_def sample_env_def)

lemma sample_router_simps [simp]:
  "rt_work (sample_router b) ''firewall'' = [direct]" "rt_live (sample_router b) ''firewall'' = [direct]"
  "rt_work (sample_router b) ''dhcp'' = [new_section [] ''dnsmasq'']" "rt_reloads (sample_router b) p = b"
  by (simp_all add: sample_router_def sample_packages_def)

lemma router_env_tools: "uci_tools (run_cmd router_env) (\<lambda>r. r)" "reliable_tools (run_cmd router_env) (\<lambda>r. r)"
  by (simp_all add: tools.uci_tools_axioms machine.reliable_tools_axioms)

lemma sample_ks_result: "result (set_kill_switch router_env True) (sample_world (sample_router b)) = None"
proof -
  have "fst (uci_run (sample_router b) (argv_of KsOn)) = Inr []" by (simp add: uci_run_argv del: argv_of.simps)
  then show ?thesis by (simp add: set_kill_switch_def shell_def sample_world_def)
qed




section \<open>Encrypted DNS\<close>

text \<open>What a rule of the firewall means: rules by their options, with nothing that narrows them.\<close>

definition narrowing :: "string list" where
  "narrowing = [''src_ip'', ''src_mac'', ''src_port'', ''icmp_type'', ''ipset'', ''mark'', ''family'', ''limit'',
     ''limit_burst'', ''device'', ''direction'', ''extra'', ''enabled'', ''start_date'', ''stop_date'', ''start_time'',
     ''stop_time'', ''weekdays'', ''monthdays'', ''utc_time'', ''helper'', ''dscp'']"

definition covers_proto :: "string \<Rightarrow> uci_section \<Rightarrow> bool" where
  "covers_proto proto s \<longleftrightarrow> proto \<in> set (split_on CHR '' '' (opt_text ''proto'' s))"

definition rejects :: "package \<Rightarrow> string list \<Rightarrow> string \<Rightarrow> string \<Rightarrow> string \<Rightarrow> bool" where
  "rejects fw src proto port ip \<longleftrightarrow> (\<exists>s \<in> set fw. us_type s = ''rule'' \<and> us_opts s ''target'' = [''REJECT'']
     \<and> us_opts s ''src'' = src \<and> us_opts s ''dest'' = [''wan''] \<and> covers_proto proto s
     \<and> us_opts s ''dest_port'' = [port] \<and> (us_opts s ''dest_ip'' = [] \<or> ip \<in> set (us_opts s ''dest_ip''))
     \<and> list_all (\<lambda>k. us_opts s k = []) narrowing)"

definition hijacks :: "package \<Rightarrow> string \<Rightarrow> bool" where
  "hijacks fw proto \<longleftrightarrow> (\<exists>s \<in> set fw. us_type s = ''redirect'' \<and> us_opts s ''target'' = [''DNAT'']
     \<and> us_opts s ''src'' = [''lan''] \<and> us_opts s ''src_dport'' = [''53''] \<and> covers_proto proto s
     \<and> us_opts s ''dest_ip'' = [] \<and> list_all (\<lambda>k. us_opts s k = []) narrowing)"

text \<open>dnsmasq reads no other resolver's addresses and has the forwarder as its server.\<close>

definition points_at :: "package \<Rightarrow> string \<Rightarrow> bool" where
  "points_at dhcp spec \<longleftrightarrow> (case find_sel (First ''dnsmasq'') dhcp of
     None \<Rightarrow> False | Some s \<Rightarrow> us_opts s ''noresolv'' = [''1''] \<and> spec \<in> set (us_opts s ''server''))"

text \<open>The daemon's own sections, where they exist, hold no option the daemon does not write.\<close>

definition bare :: "(string \<times> string) list \<Rightarrow> string list \<Rightarrow> uci_section \<Rightarrow> bool" where
  "bare kvs ks s \<longleftrightarrow> list_all (\<lambda>k. k \<in> fst ` set kvs \<or> us_opts s k = []) ks"

definition rule_keys :: "string list" where
  "rule_keys = [''src'', ''dest_ip''] @ narrowing"

definition own_sections_bare :: "package \<Rightarrow> bool" where
  "own_sections_bare fw \<longleftrightarrow> list_all (\<lambda>(n, t, kvs). case named n fw of None \<Rightarrow> True | Some s \<Rightarrow> bare kvs rule_keys s)
     ((''mistui_dns_ks'', ''rule'', (''dest_ip'', []) # ks_table) # dns_tables)"

lemma section_with_opt:
  "distinct (map fst kvs) \<Longrightarrow> us_opts (section_with n t kvs q) k = (case map_of kvs k of Some v \<Rightarrow> [v]
     | None \<Rightarrow> (case named n q of None \<Rightarrow> [] | Some s \<Rightarrow> us_opts s k))"
  by (simp add: section_with_def with_opts_opt split: option.split)

lemma section_with_bare:
  assumes "distinct (map fst kvs)" "case named n q of None \<Rightarrow> True | Some s \<Rightarrow> bare kvs ks s" "k \<in> set ks"
    "k \<notin> fst ` set kvs"
  shows "us_opts (section_with n t kvs q) k = []"
proof -
  have "map_of kvs k = None" using assms(4) by (simp add: map_of_eq_None_iff)
  then show ?thesis using assms by (auto simp: section_with_opt bare_def list_all_iff split: option.splits)
qed

lemma section_with_type [simp]: "us_type (section_with n t kvs q) = t"
  by (simp add: section_with_def split: option.split)

lemma named_in: "named n q = Some s \<Longrightarrow> s \<in> set q"
  by (auto simp: named_def find_Some_iff)

lemma covers_both: "us_opts s ''proto'' = [''tcp udp''] \<Longrightarrow> covers_proto ''tcp'' s \<and> covers_proto ''udp'' s"
  by (simp add: covers_proto_def opt_text_def)

lemma written_rules:
  assumes "dns_written p q" "own_sections_bare p" "proto \<in> {''tcp'', ''udp''}"
  shows "rejects q [] proto ''53'' ip" "rejects q [''lan''] proto ''53'' ip" "hijacks q proto"
proof -
  have b: "case named n p of None \<Rightarrow> True | Some s \<Rightarrow> bare kvs rule_keys s" if "(n, t, kvs) \<in> set dns_tables" for n t kvs
    using assms(2) that by (fastforce simp: own_sections_bare_def list_all_iff)
  have w: "section_with n t kvs p \<in> set q" if "(n, t, kvs) \<in> set dns_tables" for n t kvs
    using assms(1) that by (fastforce simp: dns_written_def intro: named_in)
  have z: "us_opts (section_with n t kvs p) k = []"
    if "(n, t, kvs) \<in> set dns_tables" "k \<in> set rule_keys" "k \<notin> fst ` set kvs" for n t kvs k
  proof (rule section_with_bare [OF _ b [OF that(1)] that(2,3)])
    show "distinct (map fst kvs)" using that(1) by (auto simp: dns_tables_def)
  qed
  let ?out = "section_with ''mistui_dns_out'' ''rule'' (snd (snd (dns_tables ! 0))) p"
  have o: "(''mistui_dns_out'', ''rule'', snd (snd (dns_tables ! 0))) \<in> set dns_tables" by (simp add: dns_tables_def)
  show "rejects q [] proto ''53'' ip" unfolding rejects_def
    using w [OF o] z [OF o] assms(3) covers_both [of ?out]
    by (intro bexI [of _ ?out]) (auto simp: section_with_opt dns_tables_def rule_keys_def narrowing_def)
  let ?fwd = "section_with ''mistui_dns_fwd'' ''rule'' (snd (snd (dns_tables ! 1))) p"
  have f: "(''mistui_dns_fwd'', ''rule'', snd (snd (dns_tables ! 1))) \<in> set dns_tables" by (simp add: dns_tables_def)
  show "rejects q [''lan''] proto ''53'' ip" unfolding rejects_def
    using w [OF f] z [OF f] assms(3) covers_both [of ?fwd]
    by (intro bexI [of _ ?fwd]) (auto simp: section_with_opt dns_tables_def rule_keys_def narrowing_def)
  let ?hi = "section_with ''mistui_dns_hijack'' ''redirect'' (snd (snd (dns_tables ! 2))) p"
  have h: "(''mistui_dns_hijack'', ''redirect'', snd (snd (dns_tables ! 2))) \<in> set dns_tables" by (simp add: dns_tables_def)
  show "hijacks q proto" unfolding hijacks_def
    using w [OF h] z [OF h] assms(3) covers_both [of ?hi]
    by (intro bexI [of _ ?hi]) (auto simp: section_with_opt dns_tables_def rule_keys_def narrowing_def)
qed

lemma update_first_find:
  "update_first P f p = Some q \<Longrightarrow> (\<And>x. P (f x) = P x) \<Longrightarrow> \<exists>s. find P p = Some s \<and> find P q = Some (f s)"
  by (induction p arbitrary: q) (auto split: if_splits)

lemma opt_text_last: "sublist v (join_with CHR '' '' (vs @ [v]))"
proof -
  have "\<exists>a. join_with CHR '' '' (vs @ [v]) = a @ v"
  proof (induction vs)
    case (Cons x xs)
    then obtain a where "join_with CHR '' '' (xs @ [v]) = a @ v" by blast
    then show ?case by (cases "xs @ [v]") (auto intro: exI [of _ "x @ CHR '' '' # a"])
  qed simp
  then show ?thesis by (auto intro: sublist_append_rightI)
qed

lemma pointed_points:
  assumes "dnsmasq_update (pointed spec) p = Some d"
  shows "points_at d spec" "dns_points_at spec d"
  using update_first_find [OF assms] opt_text_last
  by (auto simp: points_at_def dns_points_at_def pointed_def opt_text_def)

context uci_tools
begin

lemma dns_enable_effect:
  assumes "run_cmd E = run" "spec_ok (server_spec (fw_addr (w_fwd w)))" "result (dns_enable E) w = None"
  obtains d q where "dnsmasq_update (pointed (server_spec (fw_addr (w_fwd w)))) (rt_work (view (w_dev w)) ''dhcp'') = Some d"
    "dns_written (rt_work (view (w_dev w)) ''firewall'') q"
    "view (w_dev (final (dns_enable E) w)) = settled d q (view (w_dev w))"
proof -
  let ?spec = "server_spec (fw_addr (w_fwd w))" and ?r = "view (w_dev w)"
  have e: "result (dns_enable E) w = result (run_all E (map argv_of (dns_enable_ops ?spec))) w"
    "final (dns_enable E) w = final (run_all E (map argv_of (dns_enable_ops ?spec))) w"
    by (simp_all add: dns_enable_def dns_enable_text)
  have ok: "list_all cmd_ok (dns_enable_ops ?spec)" using assms(2) by (simp add: spec_ok_def dns_ops_ok)
  have "exec_all (dns_enable_ops ?spec) ?r = Some (view (w_dev (final (dns_enable E) w)))"
    unfolding e by (rule list_effect [OF assms(1) ok]) (use assms(3) e in simp)
  with dns_enable_exec [of ?r ?spec] that show ?thesis by (auto split: option.splits if_splits)
qed

lemma fail_closed_effect:
  assumes "run_cmd E = run" "result (set_fail_closed E True) w = None"
  obtains q where "fail_closed_written (rt_work (view (w_dev w)) ''firewall'') q"
    "rt_live (view (w_dev (final (set_fail_closed E True) w))) ''firewall'' = q"
    "rt_work (view (w_dev (final (set_fail_closed E True) w))) = (rt_work (view (w_dev w)))(''firewall'' := q)"
proof -
  let ?r = "view (w_dev w)" and ?m = "run_all E (map argv_of fail_closed_ops)"
  have s: "result ?m w = None" "w_dev (final (set_fail_closed E True) w) = w_dev (final ?m w)"
    using assms(2) by (auto simp: set_fail_closed_def fail_closed_text close_upstream_def split: option.splits)
  have "exec_all fail_closed_ops ?r = Some (view (w_dev (final ?m w)))"
    by (rule list_effect [OF assms(1) dns_ops_ok(3) s(1)])
  with fail_closed_exec [of ?r] obtain q where q: "fail_closed_written (rt_work ?r ''firewall'') q"
    "view (w_dev (final ?m w)) = ?r\<lparr>rt_work := (rt_work ?r)(''firewall'' := q), rt_saved := (rt_saved ?r)(''firewall'' := q),
       rt_live := (rt_live ?r)(''firewall'' := q)\<rparr>"
    by (auto split: if_splits)
  show ?thesis by (rule that [OF q(1)]) (simp_all add: s(2) q(2) del: run_all_run)
qed

end

text \<open>
  C17. Encrypted DNS takes effect: when enabling it succeeds, the running firewall rejects plain
  DNS to the wan from the router itself and from the lan and redirects what the lan asks others
  to the router, for both protocols and every address, dnsmasq runs with the forwarder as a
  server and without the resolvers of the uplink, and a later query can only answer that it is
  on.
\<close>

theorem dns_enable_takes_effect:
  fixes E :: "'d env" and w :: "'d world" and view :: "'d \<Rightarrow> router"
  defines "w' \<equiv> final (dns_enable E) w" and "spec \<equiv> server_spec (fw_addr (w_fwd w))"
  assumes "uci_tools (run_cmd E) view" "spec_ok spec" "result (dns_enable E) w = None"
    "own_sections_bare (rt_work (view (w_dev w)) ''firewall'')" "proto \<in> {''tcp'', ''udp''}"
  shows "rejects (rt_live (view (w_dev w')) ''firewall'') [] proto ''53'' ip
    \<and> rejects (rt_live (view (w_dev w')) ''firewall'') [''lan''] proto ''53'' ip
    \<and> hijacks (rt_live (view (w_dev w')) ''firewall'') proto
    \<and> points_at (rt_live (view (w_dev w')) ''dhcp'') spec
    \<and> result (dns_enabled E) w' \<in> {None, Some True}"
proof -
  note tools = assms(3)
  obtain d q where dq: "dnsmasq_update (pointed spec) (rt_work (view (w_dev w)) ''dhcp'') = Some d"
    "dns_written (rt_work (view (w_dev w)) ''firewall'') q" "view (w_dev w') = settled d q (view (w_dev w))"
    using uci_tools.dns_enable_effect [OF tools refl, of w] assms(4,5) unfolding w'_def spec_def by blast
  have "fw_addr (w_fwd w') = fw_addr (w_fwd w)"
    unfolding w'_def using keepsD [OF keeps_dns_ops(21) [of E], of w] by simp
  then have "result (dns_enabled E) w' \<in> {None, Some True}"
    using uci_tools.dns_query_sound [OF tools refl, of w'] assms(4) pointed_points(2) [OF dq(1)] dq(3)
    by (cases "result (dns_enabled E) w'") (auto simp: spec_def)
  with written_rules [OF dq(2) assms(6,7)] pointed_points(1) [OF dq(1)] show ?thesis by (simp add: dq(3))
qed

text \<open>Tools that work: the lists succeed, and the effects are those above.\<close>

context reliable_tools
begin

lemma list_succeeds:
  assumes "run_cmd E = run" "list_all cmd_ok cs" "exec_all cs (view (w_dev w)) = Some r"
  shows "result (run_all E (map argv_of cs)) w = None" "view (w_dev (final (run_all E (map argv_of cs)) w)) = r"
  using all_succeed [OF assms(2,3)] assms(1) by auto

lemma dns_enable_succeeds:
  assumes "run_cmd E = run" "spec_ok (server_spec (fw_addr (w_fwd w)))" "reloads_dns (view (w_dev w))"
    "\<exists>s \<in> set (rt_work (view (w_dev w)) ''dhcp''). us_type s = ''dnsmasq''"
  shows "result (dns_enable E) w = None"
proof -
  let ?spec = "server_spec (fw_addr (w_fwd w))"
  have "dnsmasq_update (pointed ?spec) (rt_work (view (w_dev w)) ''dhcp'') \<noteq> None"
    using assms(4) by (auto simp: update_first_None)
  then obtain r where "exec_all (dns_enable_ops ?spec) (view (w_dev w)) = Some r"
    using dns_enable_exec [of "view (w_dev w)" ?spec] assms(3) by auto
  then show ?thesis using list_succeeds(1) [OF assms(1) dns_ops_ok(1)] assms(2)
    by (simp add: dns_enable_def dns_enable_text spec_ok_def del: run_all_run)
qed

lemma fail_closed_succeeds:
  assumes "run_cmd E = run" "rt_reloads (view (w_dev w)) ''firewall''"
  shows "result (set_fail_closed E True) w = None"
proof -
  obtain r where "exec_all fail_closed_ops (view (w_dev w)) = Some r"
    using fail_closed_exec [of "view (w_dev w)"] assms(2) by auto
  then show ?thesis using list_succeeds(1) [OF assms(1) dns_ops_ok(3)]
    by (simp add: set_fail_closed_def fail_closed_text del: run_all_run)
qed

end

lemma sample_spec: "server_spec (fw_addr (w_fwd (sample_world d))) = ''127.0.0.1#5335''"
  by (simp add: sample_world_def sample_fwd_def server_spec_def) code_simp

lemma sample_dns_result: "result (dns_enable router_env) (sample_world (sample_router True)) = None"
proof (rule reliable_tools.dns_enable_succeeds [OF router_env_tools(2) refl])
  show "spec_ok (server_spec (fw_addr (w_fwd (sample_world (sample_router True)))))"
    by (simp add: sample_spec spec_ok_def)
qed (simp_all add: sample_world_def reloads_dns_def)

lemma sample_bare: "own_sections_bare (rt_work (sample_router b) ''firewall'')"
  by (simp add: own_sections_bare_def dns_tables_def named_def direct_def)

theorem dns_enable_witness:
  "rejects (rt_live (w_dev (final (dns_enable router_env) (sample_world (sample_router True)))) ''firewall'')
     [''lan''] ''udp'' ''53'' ''8.8.8.8''"
  using dns_enable_takes_effect [OF router_env_tools(1), of "sample_world (sample_router True)" "''udp''" "''8.8.8.8''"]
    sample_dns_result sample_bare [of True] by (simp add: sample_spec spec_ok_def) (simp add: sample_world_def)

text \<open>
  C14. Fail-closed name resolution leaves no way round: once the rule is set, every address the
  forwarder can dial for an upstream on the HTTPS port is one the running firewall rejects from
  the router to the wan; the rules of the direct path and of plain DNS stay as they were.
\<close>

theorem fail_closed_covers_dials:
  fixes E :: "'d env" and w :: "'d world" and view :: "'d \<Rightarrow> router"
  defines "fw \<equiv> rt_work (view (w_dev w)) ''firewall''"
    and "fw' \<equiv> rt_live (view (w_dev (final (set_fail_closed E True) w))) ''firewall''"
  assumes "uci_tools (run_cmd E) view" "result (set_fail_closed E True) w = None" "own_sections_bare fw"
    "split_host_port addr = Some (host, ''443'')" "dial_targets addr = Inr ts" "t \<in> set ts"
  shows "(\<exists>ip. t = join_host_port ip ''443'' \<and> rejects fw' [] ''tcp'' ''443'' ip)
    \<and> filter lan_wan fw' = filter lan_wan fw \<and> same_but {''mistui_dns_ks''} fw fw'"
proof -
  obtain q where "fail_closed_written fw q" "fw' = q"
    using uci_tools.fail_closed_effect [OF assms(3) refl assms(4)] unfolding fw_def fw'_def by metis
  then have q: "named ''mistui_dns_ks'' fw' = Some (fail_closed_section fw)" "same_but {''mistui_dns_ks''} fw fw'"
    by (simp_all add: fail_closed_written_def)
  obtain p where p: "p \<in> set providers" "ts = map (\<lambda>ip. join_host_port ip ''443'') (pv_ips p)"
    using assms(6,7) provider_by_hostname_in by (auto simp: dial_targets_def split: option.splits)
  then obtain ip where ip: "t = join_host_port ip ''443''" "ip \<in> set all_resolver_ips"
    using assms(8) provider_ips_listed [OF p(1)] by auto
  have b: "case named ''mistui_dns_ks'' fw of None \<Rightarrow> True | Some s \<Rightarrow> bare ((''dest_ip'', []) # ks_table) rule_keys s"
    using assms(5) by (simp add: own_sections_bare_def)
  have "rejects fw' [] ''tcp'' ''443'' ip"
    unfolding rejects_def
  proof (rule bexI [of _ "fail_closed_section fw"])
    show "fail_closed_section fw \<in> set fw'" by (rule named_in [OF q(1)])
    show "us_type (fail_closed_section fw) = ''rule'' \<and> us_opts (fail_closed_section fw) ''target'' = [''REJECT''] \<and>
      us_opts (fail_closed_section fw) ''src'' = [] \<and> us_opts (fail_closed_section fw) ''dest'' = [''wan''] \<and>
      covers_proto ''tcp'' (fail_closed_section fw) \<and> us_opts (fail_closed_section fw) ''dest_port'' = [''443''] \<and>
      (us_opts (fail_closed_section fw) ''dest_ip'' = [] \<or> ip \<in> set (us_opts (fail_closed_section fw) ''dest_ip'')) \<and>
      list_all (\<lambda>k. us_opts (fail_closed_section fw) k = []) narrowing"
      using b ip(2)
      by (auto simp: fail_closed_section_def section_with_opt ks_table_def covers_proto_def opt_text_def bare_def
          rule_keys_def narrowing_def split: option.splits)
  qed
  with ip(1) q(2) same_but_lan_wan [OF q(2)] show ?thesis by auto
qed

theorem fail_closed_witness:
  "rejects (rt_live (w_dev (final (set_fail_closed router_env True) (sample_world (sample_router True)))) ''firewall'')
     [] ''tcp'' ''443'' ''9.9.9.9''"
proof -
  let ?w = "sample_world (sample_router True)"
  have s: "result (set_fail_closed router_env True) ?w = None"
    by (rule reliable_tools.fail_closed_succeeds [OF router_env_tools(2) refl]) (simp add: sample_world_def)
  have b: "own_sections_bare (rt_work (w_dev ?w) ''firewall'')" using sample_bare by (simp add: sample_world_def)
  have a: "split_host_port ''dns.quad9.net:443'' = Some (''dns.quad9.net'', ''443'')"
    "dial_targets ''dns.quad9.net:443'' = Inr [''9.9.9.9:443'', ''149.112.112.112:443'']"
    by code_simp+
  from fail_closed_covers_dials [OF router_env_tools(1) s b a, of "''9.9.9.9:443''"] obtain ip where
    "''9.9.9.9:443'' = join_host_port ip ''443''"
    "rejects (rt_live (w_dev (final (set_fail_closed router_env True) ?w)) ''firewall'') [] ''tcp'' ''443'' ip" by auto
  moreover have "ip = ''9.9.9.9''"
  proof -
    have j: "''9.9.9.9:443'' = join_host_port ''9.9.9.9'' ''443''" by code_simp
    have "join_host_port ip ''443'' = ''9.9.9.9:443''" using calculation(1) by simp
    then show ?thesis by (auto simp: join_host_port_def append_eq_Cons_conv Cons_eq_append_conv split: if_splits)
  qed
  ultimately show ?thesis by simp
qed

end
