(* ===== verification/Router_Pause.thy ===== *)
theory Router_Pause
  imports Router_Properties
begin

text \<open>
  The pause of the portal machine on a router: what each of its operations does to the posture
  (the direct forwardings and the source of name resolution), and the round trip of an entry
  and an exit.
\<close>

section \<open>The operations of a pause\<close>

text \<open>The services restart and the \<open>dhcp\<close> package has its dnsmasq section.\<close>

definition ready :: "router \<Rightarrow> bool" where
  "ready r \<longleftrightarrow> reloads_dns r \<and> (\<exists>s \<in> set (rt_work r ''dhcp''). us_type s = ''dnsmasq'')"

lemma update_first_types:
  "update_first P f p = Some q \<Longrightarrow> (\<And>x. us_type (f x) = us_type x) \<Longrightarrow> map us_type q = map us_type p"
  by (induction p arbitrary: q) (auto split: if_splits)

lemma has_type_map: "(\<exists>s \<in> set p. us_type s = t) \<longleftrightarrow> t \<in> set (map us_type p)"
  by auto

lemma pointed_type [simp]: "us_type (pointed spec s) = us_type s" "us_type (unpointed spec s) = us_type s"
  by (simp_all add: pointed_def unpointed_def)

lemma ks_names_direct: "filter lan_wan (filter (\<lambda>s. us_name s \<notin> set ks_rule_names) q) = filter lan_wan q"
  by (auto simp: lan_wan_def ks_rule_names_def intro: filter_cong)

lemma ready_D: "ready r \<Longrightarrow> rt_reloads r ''firewall''" "ready r \<Longrightarrow> reloads_dns r"
  by (simp_all add: ready_def reloads_dns_def)

lemma ready_settled:
  "ready r \<Longrightarrow> map us_type d = map us_type (rt_work r ''dhcp'') \<Longrightarrow> ready (settled d q r)"
  by (simp add: ready_def has_type_map reloads_dns_def)

lemma fwd_vpn [simp]:
  "w_fwd (final (set_kill_switch E b) w) = w_fwd w" "w_fwd (final (vpn_up E i) w) = w_fwd w"
  "w_fwd (final (vpn_down E i) w) = w_fwd w"
  by (rule keepsD, intro keeps_intro)+

lemma ready_up [simp]: "ready (r\<lparr>rt_up := x\<rparr>) = ready r"
  by (simp add: ready_def reloads_dns_def)

lemma ks_on_facts:
  assumes "ready r"
  shows "ready (exec_ks_on r)" "no_direct (rt_work (exec_ks_on r) ''firewall'')"
    "rt_work (exec_ks_on r) ''dhcp'' = rt_work r ''dhcp''"
    "\<not> no_direct (rt_work r ''firewall'') \<or> rt_live r ''firewall'' = rt_work r ''firewall'' \<Longrightarrow>
       no_direct (rt_live (exec_ks_on r) ''firewall'')"
  using assms by (auto simp: ks_on_exec ready_def reloads_dns_def no_direct_alt)

lemma ks_off_facts:
  assumes "ready r"
  obtains r' where "exec_ks_off r = Some r'" "ready r'" "\<not> no_direct (rt_work r' ''firewall'')"
    "rt_work r' ''dhcp'' = rt_work r ''dhcp''"
proof (cases "\<exists>s \<in> set (rt_work r ''firewall''). lan_wan s")
  case True
  then show ?thesis using that [of r] assms by (auto simp: exec_ks_off_def ks_off_edit_def no_direct_alt)
next
  case False
  have "lan_wan (set_opt ''dest'' [''wan''] (set_opt ''src'' [''lan''] (new_section [] ''forwarding'')))"
    by (simp add: lan_wan_def opt_text_def)
  then show ?thesis using that False assms
    by (auto simp: exec_ks_off_def ks_off_edit_def no_direct_alt reload_def ready_def reloads_dns_def)
qed

context reliable_tools
begin

lemma run_succeeds:
  assumes "run_cmd E = run" "cmd_ok c" "exec c (view (w_dev w)) = Some r"
  obtains out where "result (World.run E (argv_of c)) w = Inr out" "view (w_dev (final (World.run E (argv_of c)) w)) = r"
    "\<forall>a. answer c (view (w_dev w)) = Some a \<longrightarrow> out = a"
  using one_succeeds [OF assms(2,3)] assms(1) by auto

lemma vpn_link:
  assumes "run_cmd E = run"
  shows "view (w_dev (final (vpn_up E i) w)) = (view (w_dev w))\<lparr>rt_up := List.insert i (rt_up (view (w_dev w)))\<rparr>"
    "view (w_dev (final (vpn_down E i) w)) = (view (w_dev w))\<lparr>rt_up := removeAll i (rt_up (view (w_dev w)))\<rparr>"
proof -
  obtain out where "result (World.run E (argv_of (IfUp i))) w = Inr out"
    "view (w_dev (final (World.run E (argv_of (IfUp i))) w)) = (view (w_dev w))\<lparr>rt_up := List.insert i (rt_up (view (w_dev w)))\<rparr>"
    by (rule run_succeeds [OF assms, of "IfUp i" w]) auto
  then show "view (w_dev (final (vpn_up E i) w)) = (view (w_dev w))\<lparr>rt_up := List.insert i (rt_up (view (w_dev w)))\<rparr>"
    by (simp add: vpn_up_def run_only_def)
  obtain out where "result (World.run E (argv_of (IfDown i))) w = Inr out"
    "view (w_dev (final (World.run E (argv_of (IfDown i))) w)) = (view (w_dev w))\<lparr>rt_up := removeAll i (rt_up (view (w_dev w)))\<rparr>"
    by (rule run_succeeds [OF assms, of "IfDown i" w]) auto
  then show "view (w_dev (final (vpn_down E i) w)) = (view (w_dev w))\<lparr>rt_up := removeAll i (rt_up (view (w_dev w)))\<rparr>"
    by (simp add: vpn_down_def run_only_def)
qed

lemma ks_query:
  assumes "run_cmd E = run"
  shows "result (kill_switch E) w = Some (no_direct (rt_work (view (w_dev w)) ''firewall''))"
    "view (w_dev (final (kill_switch E) w)) = view (w_dev w)"
proof -
  obtain out where o: "result (World.run E (argv_of KsQuery)) w = Inr out"
    "view (w_dev (final (World.run E (argv_of KsQuery)) w)) = view (w_dev w)"
    "out = ks_query_text (rt_work (view (w_dev w)) ''firewall'')"
    by (rule run_succeeds [OF assms, of KsQuery w]) auto
  then show "result (kill_switch E) w = Some (no_direct (rt_work (view (w_dev w)) ''firewall''))"
    "view (w_dev (final (kill_switch E) w)) = view (w_dev w)"
    by (simp_all add: kill_switch_def shell_def ks_query_on)
qed

lemma dns_query:
  assumes "run_cmd E = run" "spec_ok (server_spec (fw_addr (w_fwd w)))"
  shows "result (dns_enabled E) w = Some (dns_points_at (server_spec (fw_addr (w_fwd w))) (rt_work (view (w_dev w)) ''dhcp''))"
    "view (w_dev (final (dns_enabled E) w)) = view (w_dev w)"
proof -
  let ?c = "DnsQuery (server_spec (fw_addr (w_fwd w)))"
  obtain out where o: "result (World.run E (argv_of ?c)) w = Inr out"
    "view (w_dev (final (World.run E (argv_of ?c)) w)) = view (w_dev w)"
    using run_succeeds [OF assms(1), of ?c w] assms(2) by (auto simp: spec_ok_def)
  then obtain b where b: "result (dns_enabled E) w = Some b" by (simp add: dns_enabled_def shell_def)
  with dns_query_sound [OF assms(1,2) b]
  show "result (dns_enabled E) w = Some (dns_points_at (server_spec (fw_addr (w_fwd w))) (rt_work (view (w_dev w)) ''dhcp''))"
    by simp
  show "view (w_dev (final (dns_enabled E) w)) = view (w_dev w)"
    using o(2) by (simp add: dns_enabled_def shell_def)
qed

lemma ks_on:
  assumes "run_cmd E = run" "flush_harmless E view"
  shows "view (w_dev (final (set_kill_switch E True) w)) = exec_ks_on (view (w_dev w))"
proof -
  obtain out where "result (World.run E (argv_of KsOn)) w = Inr out"
    "view (w_dev (final (World.run E (argv_of KsOn)) w)) = exec_ks_on (view (w_dev w))"
    by (rule run_succeeds [OF assms(1), of KsOn w]) auto
  then show ?thesis using assms(2)
    by (auto simp: set_kill_switch_def shell_def flush_harmless_def case_prod_beta split: option.split)
qed

lemma ks_off:
  assumes "run_cmd E = run" "exec_ks_off (view (w_dev w)) = Some r"
  shows "view (w_dev (final (set_kill_switch E False) w)) = r"
proof -
  obtain out where "result (World.run E (argv_of KsOff)) w = Inr out" "view (w_dev (final (World.run E (argv_of KsOff)) w)) = r"
    by (rule run_succeeds [OF assms(1), of KsOff w]) (use assms(2) in auto)
  then show ?thesis by (simp add: set_kill_switch_def shell_def)
qed

lemma dns_off:
  assumes "run_cmd E = run" "spec_ok (server_spec (fw_addr (w_fwd w)))" "ready (view (w_dev w))"
  defines "r' \<equiv> view (w_dev (final (dns_disable E) w))"
  shows "ready r'" "no_direct (rt_work r' ''firewall'') = no_direct (rt_work (view (w_dev w)) ''firewall'')"
proof -
  let ?spec = "server_spec (fw_addr (w_fwd w))" and ?r = "view (w_dev w)"
  let ?d = "case dnsmasq_update (unpointed ?spec) (rt_work ?r ''dhcp'') of None \<Rightarrow> rt_work ?r ''dhcp'' | Some d \<Rightarrow> d"
  have "exec_all (dns_disable_ops ?spec) ?r =
      Some (settled ?d (filter (\<lambda>s. us_name s \<notin> set ks_rule_names) (rt_work ?r ''firewall'')) ?r)"
    using assms(3) by (simp add: dns_disable_exec ready_D)
  from list_succeeds(2) [OF assms(1) dns_ops_ok(2) this] assms(2)
  have r: "r' = settled ?d (filter (\<lambda>s. us_name s \<notin> set ks_rule_names) (rt_work ?r ''firewall'')) ?r"
    by (simp add: r'_def dns_disable_def dns_disable_text spec_ok_def del: run_all_run)
  have "map us_type ?d = map us_type (rt_work ?r ''dhcp'')"
    by (auto split: option.split intro: update_first_types)
  then show "ready r'" unfolding r by (rule ready_settled [OF assms(3)])
  show "no_direct (rt_work r' ''firewall'') = no_direct (rt_work ?r ''firewall'')"
    by (simp add: r no_direct_def ks_names_direct del: filter_filter)
qed

lemma dns_on:
  assumes "run_cmd E = run" "spec_ok (server_spec (fw_addr (w_fwd w)))" "ready (view (w_dev w))"
  defines "r' \<equiv> view (w_dev (final (dns_enable E) w))"
  shows "ready r'" "no_direct (rt_work r' ''firewall'') = no_direct (rt_work (view (w_dev w)) ''firewall'')"
    "dns_points_at (server_spec (fw_addr (w_fwd w))) (rt_work r' ''dhcp'')" "rt_live r' ''firewall'' = rt_work r' ''firewall''"
proof -
  have "result (dns_enable E) w = None"
    using dns_enable_succeeds [OF assms(1,2)] assms(3) by (simp add: ready_def)
  then obtain d q where dq: "dnsmasq_update (pointed (server_spec (fw_addr (w_fwd w)))) (rt_work (view (w_dev w)) ''dhcp'') = Some d"
    "dns_written (rt_work (view (w_dev w)) ''firewall'') q" "r' = settled d q (view (w_dev w))"
    using dns_enable_effect [OF assms(1,2)] unfolding r'_def by blast
  show "ready r'" unfolding dq(3) by (rule ready_settled [OF assms(3) update_first_types [OF dq(1)]]) simp
  have "same_but (fst ` set dns_tables) (rt_work (view (w_dev w)) ''firewall'') q" "[] \<notin> fst ` set dns_tables"
    using dq(2) by (simp_all add: dns_written_def dns_tables_def)
  from same_but_lan_wan [OF this]
  show "no_direct (rt_work r' ''firewall'') = no_direct (rt_work (view (w_dev w)) ''firewall'')"
    by (simp add: dq(3) no_direct_def)
  show "dns_points_at (server_spec (fw_addr (w_fwd w))) (rt_work r' ''dhcp'')"
    using pointed_points(2) [OF dq(1)] by (simp add: dq(3))
  show "rt_live r' ''firewall'' = rt_work r' ''firewall''" by (simp add: dq(3))
qed

lemma fail_closed_on:
  assumes "run_cmd E = run" "ready (view (w_dev w))"
  defines "r' \<equiv> view (w_dev (final (set_fail_closed E True) w))"
  shows "no_direct (rt_work r' ''firewall'') = no_direct (rt_work (view (w_dev w)) ''firewall'')"
    "rt_work r' ''dhcp'' = rt_work (view (w_dev w)) ''dhcp''" "rt_live r' ''firewall'' = rt_work r' ''firewall''"
proof -
  have "result (set_fail_closed E True) w = None"
    using fail_closed_succeeds [OF assms(1)] assms(2) by (simp add: ready_D)
  from fail_closed_effect [OF assms(1) this] obtain q where q: "fail_closed_written (rt_work (view (w_dev w)) ''firewall'') q"
    "rt_live r' ''firewall'' = q" "rt_work r' = (rt_work (view (w_dev w)))(''firewall'' := q)"
    unfolding r'_def by blast
  show "no_direct (rt_work r' ''firewall'') = no_direct (rt_work (view (w_dev w)) ''firewall'')"
    using same_but_lan_wan [of "{''mistui_dns_ks''}" "rt_work (view (w_dev w)) ''firewall''" q] q by (simp add: fail_closed_written_def no_direct_def)
  show "rt_work r' ''dhcp'' = rt_work (view (w_dev w)) ''dhcp''" "rt_live r' ''firewall'' = rt_work r' ''firewall''"
    by (simp_all add: q)
qed

lemma relax_posture:
  fixes rec :: portal_record
  assumes "run_cmd E = run" "spec_ok (server_spec (fw_addr (w_fwd w)))" "ready (view (w_dev w))"
  defines "r \<equiv> view (w_dev w)" and "r' \<equiv> view (w_dev (final (relax E rec) w))"
  shows "ready r'" "no_direct (rt_work r' ''firewall'') = (\<not> pr_savedKS rec \<and> no_direct (rt_work r ''firewall''))"
    "\<not> pr_savedDNS rec \<Longrightarrow> rt_work r' ''dhcp'' = rt_work r ''dhcp''"
proof -
  let ?w1 = "final (vpn_down E Iface) w"
  let ?w2 = "if pr_savedKS rec then final (set_kill_switch E False) ?w1 else ?w1"
  have fin: "final (relax E rec) w = (if pr_savedDNS rec then final (dns_disable E) ?w2 else ?w2)"
    by (simp add: relax_def run_branch)
  have fw: "w_fwd ?w2 = w_fwd w" by simp
  have r1: "ready (view (w_dev ?w1))" "rt_work (view (w_dev ?w1)) = rt_work r"
    using assms(3) by (simp_all add: vpn_link [OF assms(1)] r_def)
  have r2: "ready (view (w_dev ?w2))" "rt_work (view (w_dev ?w2)) ''dhcp'' = rt_work r ''dhcp''"
    "no_direct (rt_work (view (w_dev ?w2)) ''firewall'') = (\<not> pr_savedKS rec \<and> no_direct (rt_work r ''firewall''))"
  proof -
    obtain s where s: "exec_ks_off (view (w_dev ?w1)) = Some s" "ready s" "\<not> no_direct (rt_work s ''firewall'')"
      "rt_work s ''dhcp'' = rt_work r ''dhcp''"
      using ks_off_facts [OF r1(1)] r1(2) by metis
    have "view (w_dev (final (set_kill_switch E False) ?w1)) = s" by (rule ks_off [OF assms(1) s(1)])
    with s r1 show "ready (view (w_dev ?w2))" "rt_work (view (w_dev ?w2)) ''dhcp'' = rt_work r ''dhcp''"
      "no_direct (rt_work (view (w_dev ?w2)) ''firewall'') = (\<not> pr_savedKS rec \<and> no_direct (rt_work r ''firewall''))"
      by auto
  qed
  have "spec_ok (server_spec (fw_addr (w_fwd ?w2)))" using assms(2) by (simp only: fw)
  from dns_off [OF assms(1) this r2(1)] r2
  show "ready r'" "no_direct (rt_work r' ''firewall'') = (\<not> pr_savedKS rec \<and> no_direct (rt_work r ''firewall''))"
    "\<not> pr_savedDNS rec \<Longrightarrow> rt_work r' ''dhcp'' = rt_work r ''dhcp''"
    unfolding r'_def fin by auto
qed

lemma restore_posture:
  fixes rec :: portal_record
  assumes "run_cmd E = run" "flush_harmless E view" "spec_ok (server_spec (fw_addr (w_fwd w)))" "ready (view (w_dev w))"
  defines "r \<equiv> view (w_dev w)" and "r' \<equiv> view (w_dev (final (restore E rec) w))"
  shows "no_direct (rt_work r' ''firewall'') = (pr_savedKS rec \<or> no_direct (rt_work r ''firewall''))"
    "pr_savedKS rec \<Longrightarrow> \<not> no_direct (rt_work r ''firewall'') \<or> rt_live r ''firewall'' = rt_work r ''firewall'' \<Longrightarrow> no_direct (rt_live r' ''firewall'')"
    "pr_savedDNS rec \<Longrightarrow> dns_points_at (server_spec (fw_addr (w_fwd w))) (rt_work r' ''dhcp'')"
    "\<not> pr_savedDNS rec \<Longrightarrow> rt_work r' ''dhcp'' = rt_work r ''dhcp''"
proof -
  let ?w0 = "final (config E vpnSummaryKey) w"
  let ?up = "result (config E vpnSummaryKey) w \<noteq> None \<and> result (config E vpnSummaryKey) w \<noteq> Some None"
  define w1 where "w1 = (if ?up then final (vpn_up E Iface) ?w0 else ?w0)"
  define w2 where "w2 = (if pr_savedKS rec then final (set_kill_switch E True) w1 else w1)"
  define w3 where "w3 = (if pr_savedDNS rec then final (dns_enable E) w2 else w2)"
  have fin: "final (restore E rec) w = (if pr_savedDNS rec \<and> pr_savedKS rec then final (set_fail_closed E True) w3 else w3)"
    by (simp add: restore_def run_branch w1_def w2_def w3_def)
  have c: "w_dev ?w0 = w_dev w" "w_fwd ?w0 = w_fwd w" by (simp_all add: config_def)
  have fw: "w_fwd w2 = w_fwd w" by (simp add: w1_def w2_def c)
  have r1: "ready (view (w_dev w1))" "rt_work (view (w_dev w1)) = rt_work r" "rt_live (view (w_dev w1)) = rt_live r"
    using assms(4) by (auto simp: vpn_link [OF assms(1)] r_def w1_def c)
  have r2: "ready (view (w_dev w2))" "rt_work (view (w_dev w2)) ''dhcp'' = rt_work r ''dhcp''"
    "no_direct (rt_work (view (w_dev w2)) ''firewall'') = (pr_savedKS rec \<or> no_direct (rt_work r ''firewall''))"
    "pr_savedKS rec \<Longrightarrow> \<not> no_direct (rt_work r ''firewall'') \<or> rt_live r ''firewall'' = rt_work r ''firewall'' \<Longrightarrow> no_direct (rt_live (view (w_dev w2)) ''firewall'')"
    using ks_on [OF assms(1,2), of w1] ks_on_facts [OF r1(1)] r1 by (auto simp: w2_def)
  have s2: "spec_ok (server_spec (fw_addr (w_fwd w2)))" using assms(3) by (simp only: fw)
  note d = dns_on [OF assms(1) s2 r2(1)]
  have r3: "ready (view (w_dev w3))"
    "no_direct (rt_work (view (w_dev w3)) ''firewall'') = (pr_savedKS rec \<or> no_direct (rt_work r ''firewall''))"
    "pr_savedKS rec \<Longrightarrow> \<not> no_direct (rt_work r ''firewall'') \<or> rt_live r ''firewall'' = rt_work r ''firewall'' \<Longrightarrow> no_direct (rt_live (view (w_dev w3)) ''firewall'')"
    "pr_savedDNS rec \<Longrightarrow> dns_points_at (server_spec (fw_addr (w_fwd w))) (rt_work (view (w_dev w3)) ''dhcp'')"
    "\<not> pr_savedDNS rec \<Longrightarrow> rt_work (view (w_dev w3)) ''dhcp'' = rt_work r ''dhcp''"
    using d r2 by (auto simp: w3_def fw)
  note f = fail_closed_on [OF assms(1) r3(1)]
  show "no_direct (rt_work r' ''firewall'') = (pr_savedKS rec \<or> no_direct (rt_work r ''firewall''))"
    "pr_savedKS rec \<Longrightarrow> \<not> no_direct (rt_work r ''firewall'') \<or> rt_live r ''firewall'' = rt_work r ''firewall'' \<Longrightarrow> no_direct (rt_live r' ''firewall'')"
    "pr_savedDNS rec \<Longrightarrow> dns_points_at (server_spec (fw_addr (w_fwd w))) (rt_work r' ''dhcp'')"
    "\<not> pr_savedDNS rec \<Longrightarrow> rt_work r' ''dhcp'' = rt_work r ''dhcp''"
    unfolding r'_def fin using f r3 by auto
qed

end

section \<open>The round trip\<close>

lemma enter_record_fresh:
  fixes E :: "'d env" and w :: "'d world" and url :: string
  assumes "portal_env E" "stored_pause E (w_db w) = None"
  defines "v \<equiv> final (kill_switch E) (w\<lparr>w_n := Suc (w_n w)\<rparr>)" and "u \<equiv> final (enter_record E url) w"
  obtains r where "stored_pause E (w_db u) = Some r" "pr_savedKS r = (result (kill_switch E) w = Some True)"
    "pr_savedDNS r = (result (dns_enabled E) v = Some True)" "w_dev u = w_dev (final (dns_enabled E) v)"
    "w_fwd u = w_fwd w" "pr_savedKS (result (enter_record E url) w) = pr_savedKS r"
    "pr_savedDNS (result (enter_record E url) w) = pr_savedDNS r"
proof -
  have e: "no_faults E" "portal_json_ok E" "clock_roomy E" using assms(1) by (simp_all add: portal_env_def)
  have "pause_fits E (w_db w)" by (simp add: pause_fits_def assms(2))
  from enter_stores [OF e this, of url] obtain r where r: "stored_pause E (w_db u) = Some r"
    "pr_savedKS r = (result (kill_switch E) w = Some True)"
    "result (enter_record E url) w = r\<lparr>pr_url := pr_url (result (enter_record E url) w)\<rparr>"
    using assms(2) unfolding u_def by auto
  have g: "result (portal_get E) w = None" "final (portal_get E) w = w\<lparr>w_n := Suc (w_n w)\<rparr>"
    using portal_get_plain(1) [OF e(1)] assms(2) by (simp_all add: portal_get_run(2))
  have k: "w_dev (final (save_portal_record E x) y) = w_dev y" "w_fwd (final (save_portal_record E x) y) = w_fwd y" for x y
    by (simp_all add: save_portal_record_def put_config_def split: option.split)
  have p: "pr_savedKS (result (enter_record E url) w) = pr_savedKS r"
    "pr_savedDNS (result (enter_record E url) w) = pr_savedDNS r"
    by (subst r(3); simp)+
  have "pr_savedDNS (result (enter_record E url) w) = (result (dns_enabled E) v = Some True)"
    by (simp add: enter_record_def g fresh_record_def Let_def v_def)
  moreover have "w_dev u = w_dev (final (dns_enabled E) v)"
    by (simp add: u_def enter_record_def g fresh_record_def Let_def v_def k)
  moreover have "w_fwd u = w_fwd w"
    by (simp add: u_def enter_record_def g fresh_record_def Let_def k dns_enabled_def kill_switch_def)
  ultimately show ?thesis using that r(1,2) p by simp
qed

lemma fwd_relax [simp]: "w_fwd (final (relax E r) w) = w_fwd w"
  by (simp add: relax_def run_branch dns_disable_def)

lemma fwd_restore [simp]: "fw_addr (w_fwd (final (restore E r) w)) = fw_addr (w_fwd w)"
proof -
  have "fw_addr (w_fwd (final (set_fail_closed E b) v)) = fw_addr (w_fwd v)" for b v
    by (simp add: set_fail_closed_def close_upstream_def run_branch split: option.split)
  moreover have "w_fwd (final (config E k) v) = w_fwd v" for k v by (simp add: config_def)
  ultimately show ?thesis by (simp add: restore_def run_branch dns_enable_def)
qed

text \<open>What an entry records, and the posture it leaves.\<close>

lemma enter_posture:
  fixes E :: "'d env" and w :: "'d world" and view :: "'d \<Rightarrow> router" and url :: string
  assumes "portal_env E" "reliable_tools (run_cmd E) view" "stored_pause E (w_db w) = None"
    "spec_ok (server_spec (fw_addr (w_fwd w)))" "ready (view (w_dev w))"
  defines "w1 \<equiv> final (enter_portal_mode E url) w"
  obtains r where "stored_pause E (w_db w1) = Some r" "w_fwd w1 = w_fwd w" "ready (view (w_dev w1))"
    "pr_savedKS r = no_direct (rt_work (view (w_dev w)) ''firewall'')"
    "pr_savedDNS r = dns_points_at (server_spec (fw_addr (w_fwd w))) (rt_work (view (w_dev w)) ''dhcp'')"
    "\<not> no_direct (rt_work (view (w_dev w1)) ''firewall'')"
    "\<not> pr_savedDNS r \<longrightarrow> rt_work (view (w_dev w1)) ''dhcp'' = rt_work (view (w_dev w)) ''dhcp''"
proof -
  note tools = assms(2)
  note ks = reliable_tools.ks_query [OF tools refl] and dn = reliable_tools.dns_query [OF tools refl]
  let ?v = "final (kill_switch E) (w\<lparr>w_n := Suc (w_n w)\<rparr>)" and ?u = "final (enter_record E url) w"
  obtain r where r: "stored_pause E (w_db ?u) = Some r" "pr_savedKS r = (result (kill_switch E) w = Some True)"
    "pr_savedDNS r = (result (dns_enabled E) ?v = Some True)" "w_dev ?u = w_dev (final (dns_enabled E) ?v)"
    "w_fwd ?u = w_fwd w" "pr_savedKS (result (enter_record E url) w) = pr_savedKS r"
    "pr_savedDNS (result (enter_record E url) w) = pr_savedDNS r"
    by (rule enter_record_fresh [OF assms(1,3)])
  have v: "view (w_dev ?v) = view (w_dev w)" "w_fwd ?v = w_fwd w" by (simp_all add: ks) (simp add: kill_switch_def)
  have s: "spec_ok (server_spec (fw_addr (w_fwd ?v)))" "spec_ok (server_spec (fw_addr (w_fwd ?u)))"
    using assms(4) by (simp_all only: v r(5))
  have u: "view (w_dev ?u) = view (w_dev w)" using dn(2) [OF s(1)] v r(4) by simp
  then have "ready (view (w_dev ?u))" using assms(5) by simp
  note x = reliable_tools.relax_posture [OF tools refl s(2) this, of "result (enter_record E url) w"]
  have w1: "w_dev w1 = w_dev (final (relax E (result (enter_record E url) w)) ?u)" "w_fwd w1 = w_fwd w" "w_db w1 = w_db ?u"
    by (simp_all add: w1_def enter_portal_mode_def set_portal_note_def kick_portal_watch_def r(5) keeps_db_machine)
  show thesis
  proof (rule that)
    show p: "pr_savedKS r = no_direct (rt_work (view (w_dev w)) ''firewall'')"
      "pr_savedDNS r = dns_points_at (server_spec (fw_addr (w_fwd w))) (rt_work (view (w_dev w)) ''dhcp'')"
      using r(2,3) ks(1) [of w] dn(1) [OF s(1)] by (simp_all add: v)
    show "\<not> no_direct (rt_work (view (w_dev w1)) ''firewall'')" using x(2) p(1) by (simp add: w1 u r(6))
    show "\<not> pr_savedDNS r \<longrightarrow> rt_work (view (w_dev w1)) ''dhcp'' = rt_work (view (w_dev w)) ''dhcp''"
      using x(3) by (simp add: w1 u r(7))
  qed (use r(1) x(1) w1 in simp_all)
qed

text \<open>
  C7. A pause gives back the posture it found: on a router whose tools do what they document,
  an entry and a later exit leave the kill switch and encrypted DNS as the queries reported
  them before; and when the switch was on, it is off during the pause, and afterwards the
  running firewall has no direct forwarding again.
\<close>

theorem pause_round_trip:
  fixes E :: "'d env" and w :: "'d world" and view :: "'d \<Rightarrow> router" and url reason :: string
  defines "w1 \<equiv> final (enter_portal_mode E url) w"
  defines "w2 \<equiv> final (exit_portal_mode E reason) w1"
  assumes "portal_env E" "reliable_tools (run_cmd E) view" "flush_harmless E view"
    "stored_pause E (w_db w) = None" "spec_ok (server_spec (fw_addr (w_fwd w)))" "ready (view (w_dev w))"
  shows "result (kill_switch E) w2 = result (kill_switch E) w \<and> result (dns_enabled E) w2 = result (dns_enabled E) w
    \<and> (result (kill_switch E) w = Some True \<longrightarrow> result (kill_switch E) w1 = Some False
        \<and> no_direct (rt_live (view (w_dev w2)) ''firewall''))"
proof -
  note ks = reliable_tools.ks_query [OF assms(4) refl] and dn = reliable_tools.dns_query [OF assms(4) refl]
  let ?spec = "server_spec (fw_addr (w_fwd w))" and ?w1 = "w1\<lparr>w_n := Suc (w_n w1)\<rparr>"
  let ?r = "view (w_dev w)" and ?r1 = "view (w_dev w1)" and ?r2 = "view (w_dev w2)"
  obtain r where r: "stored_pause E (w_db w1) = Some r" "w_fwd w1 = w_fwd w" "ready ?r1"
    "pr_savedKS r = no_direct (rt_work ?r ''firewall'')" "pr_savedDNS r = dns_points_at ?spec (rt_work ?r ''dhcp'')"
    "\<not> no_direct (rt_work ?r1 ''firewall'')" "\<not> pr_savedDNS r \<longrightarrow> rt_work ?r1 ''dhcp'' = rt_work ?r ''dhcp''"
    unfolding w1_def by (rule enter_posture [OF assms(3,4,6-8), of url])
  have w2: "w_dev w2 = w_dev (final (restore E r) ?w1)" "fw_addr (w_fwd w2) = fw_addr (w_fwd w)"
    using r(1,2) portal_get_plain(1) [OF portal_envD(1) [OF assms(3)], of w1]
    by (simp_all add: w2_def exit_portal_mode_def portal_get_run(2) set_portal_note_def delete_config_def)
  have "spec_ok (server_spec (fw_addr (w_fwd ?w1)))" "ready (view (w_dev ?w1))" using assms(7) r(2,3) by simp_all
  note y = reliable_tools.restore_posture [OF assms(4) refl assms(5) this, of r]
  have k2: "no_direct (rt_work ?r2 ''firewall'') = no_direct (rt_work ?r ''firewall'')" using y(1) r(4,6) by (simp add: w2)
  have d2: "dns_points_at ?spec (rt_work ?r2 ''dhcp'') = dns_points_at ?spec (rt_work ?r ''dhcp'')"
    using y(3,4) r(2,5,7) by (cases "pr_savedDNS r") (simp_all add: w2)
  have live: "no_direct (rt_live ?r2 ''firewall'')" if "no_direct (rt_work ?r ''firewall'')"
    using y(2) r(4,6) that by (simp add: w2)
  have "result (dns_enabled E) w2 = result (dns_enabled E) w"
    using dn(1) [of w2] dn(1) [of w] assms(7) d2 by (simp add: w2(2))
  then show ?thesis using k2 live r(6) by (simp add: ks)
qed

text \<open>The example: the sample router with its kill switch set.\<close>

definition closed_router :: router where
  "closed_router = sample_router True\<lparr>rt_work := sample_packages(''firewall'' := []),
     rt_live := sample_packages(''firewall'' := [])\<rparr>"

lemma closed_sample:
  "portal_env router_env" "spec_ok (server_spec (fw_addr (w_fwd (sample_world closed_router))))"
  "ready (w_dev (sample_world closed_router))" "result (kill_switch router_env) (sample_world closed_router) = Some True"
proof -
  let ?w = "sample_world closed_router"
  show "portal_env router_env" unfolding router_env_def by (rule sample_portal_env)
  show "spec_ok (server_spec (fw_addr (w_fwd ?w)))" by (simp add: sample_spec spec_ok_def)
  show "ready (w_dev ?w)"
    by (simp add: sample_world_def closed_router_def ready_def reloads_dns_def sample_packages_def)
  show "result (kill_switch router_env) ?w = Some True"
    using reliable_tools.ks_query(1) [OF router_env_tools(2) refl, of ?w]
    by (simp add: sample_world_def closed_router_def no_direct_def)
qed

theorem pause_round_trip_witness:
  "result (kill_switch router_env) (final (enter_portal_mode router_env []) (sample_world closed_router)) = Some False
   \<and> result (kill_switch router_env) (final (exit_portal_mode router_env [])
       (final (enter_portal_mode router_env []) (sample_world closed_router))) = Some True"
proof -
  have f: "flush_harmless router_env (\<lambda>r. r)" by (simp add: flush_harmless_def)
  show ?thesis
    using pause_round_trip [OF closed_sample(1) router_env_tools(2) f sample_unpaused closed_sample(2,3), of "[]" "[]"]
      closed_sample(4) by simp
qed

end
