(* ===== verification/Router_Import.thy ===== *)
theory Router_Import
  imports Router_Properties Vpn_Config_Properties
begin

text \<open>
  The import of a VPN configuration on a router: the commands append an interface section and
  one section per peer to the network package, after the earlier ones of both kinds are gone.
  \<open>read_config\<close> is the abstraction, what the tunnel reads from the package; the property is
  that it reads the imported configuration.
\<close>

section \<open>The commands\<close>

abbreviation set_iface :: "string \<Rightarrow> string \<Rightarrow> cmd" where
  "set_iface k v \<equiv> SetOpt ''network'' (Named Iface) k v"

abbreviation add_iface :: "string \<Rightarrow> string \<Rightarrow> cmd" where
  "add_iface k v \<equiv> AddList ''network'' (Named Iface) k v"

abbreviation set_peer :: "string \<Rightarrow> string \<Rightarrow> cmd" where
  "set_peer k v \<equiv> SetOpt ''network'' (Last peer_type) k v"

abbreviation add_peer :: "string \<Rightarrow> string \<Rightarrow> cmd" where
  "add_peer k v \<equiv> AddList ''network'' (Last peer_type) k v"

definition import_peer_ops :: "peer \<Rightarrow> cmd list" where
  "import_peer_ops p =
     [AddSection ''network'' peer_type, set_peer ''public_key'' (p_publicKey p)]
     @ (if p_presharedKey p \<noteq> [] then [set_peer ''preshared_key'' (p_presharedKey p)] else [])
     @ map (add_peer ''allowed_ips'') (p_allowedIPs p)
     @ [set_peer ''route_allowed_ips'' ''1'']
     @ (if p_endpointHost p \<noteq> [] then
          [set_peer ''endpoint_host'' (p_endpointHost p), set_peer ''endpoint_port'' (p_endpointPort p)] else [])
     @ (if p_keepalive p \<noteq> [] then [set_peer ''persistent_keepalive'' (p_keepalive p)] else [])"

definition import_iface_ops :: "vpn_config \<Rightarrow> cmd list" where
  "import_iface_ops c =
     [DeleteAll ''network'' peer_type, DeleteSection ''network'' Iface, SetSection ''network'' Iface ''interface'',
      set_iface ''proto'' ''wireguard'', set_iface ''auto'' ''0'', set_iface ''private_key'' (c_privateKey c)]
     @ map (add_iface ''addresses'') (c_addresses c) @ map (add_iface ''dns'') (c_dns c)
     @ (if c_mtu c \<noteq> [] then [set_iface ''mtu'' (c_mtu c)] else [])"

definition import_ops :: "vpn_config \<Rightarrow> cmd list" where
  "import_ops c = import_iface_ops c @ concat (map import_peer_ops (c_peers c))
     @ [Commit ''network'', ZoneScript, Service ''network'' ''reload'']"

lemma import_peer_text: "import_peer_cmds p = map argv_of (import_peer_ops p)"
  by (simp add: import_peer_cmds_def import_peer_ops_def peer_set_def peer_type_def Iface_def ops_text)

lemma import_text: "import_cmds c = map argv_of (import_ops c)"
  by (simp add: import_cmds_def import_ops_def import_iface_ops_def import_peer_text [abs_def] peer_type_def Iface_def ops_text
      map_concat comp_def)

text \<open>No text that would make the tool delete an option instead of setting it.\<close>

definition storable_peer :: "peer \<Rightarrow> bool" where
  "storable_peer p \<longleftrightarrow> p_publicKey p \<noteq> [] \<and> [] \<notin> set (p_allowedIPs p) \<and> (p_endpointHost p = [] \<longleftrightarrow> p_endpointPort p = [])"

definition storable :: "vpn_config \<Rightarrow> bool" where
  "storable c \<longleftrightarrow> c_privateKey c \<noteq> [] \<and> [] \<notin> set (c_addresses c) \<and> [] \<notin> set (c_dns c)
     \<and> list_all storable_peer (c_peers c)"

lemma network_names:
  "ident ''network''" "ident Iface" "ident peer_type" "ident ''proto''" "ident ''auto''" "ident ''private_key''"
  "ident ''addresses''" "ident ''dns''" "ident ''mtu''" "ident ''public_key''" "ident ''preshared_key''"
  "ident ''allowed_ips''" "ident ''route_allowed_ips''" "ident ''endpoint_host''" "ident ''endpoint_port''"
  "ident ''persistent_keepalive''"
  by (simp_all add: ident_def ident_char_def word_char_def less_eq_char_def Iface_def peer_type_def)

lemma import_peer_ok: "storable_peer p \<Longrightarrow> list_all cmd_ok (import_peer_ops p)"
  by (auto simp: import_peer_ops_def storable_peer_def network_names list_all_iff)

lemma import_ok: "storable c \<Longrightarrow> list_all cmd_ok (import_ops c)"
  using import_peer_ok by (auto simp: import_ops_def import_iface_ops_def storable_def network_names list_all_iff)

section \<open>Appending a section and filling it\<close>

definition iface_section :: "vpn_config \<Rightarrow> uci_section" where
  "iface_section c = (let s = set_opt ''dns'' (c_dns c) (set_opt ''addresses'' (c_addresses c)
       (set_opt ''private_key'' [c_privateKey c] (set_opt ''auto'' [''0''] (set_opt ''proto'' [''wireguard'']
         (new_section Iface ''interface''))))) in
     if c_mtu c \<noteq> [] then set_opt ''mtu'' [c_mtu c] s else s)"

definition peer_section :: "peer \<Rightarrow> uci_section" where
  "peer_section p =
     (let k = (if p_presharedKey p \<noteq> [] then set_opt ''preshared_key'' [p_presharedKey p] else id)
                (set_opt ''public_key'' [p_publicKey p] (new_section [] peer_type));
          a = set_opt ''route_allowed_ips'' [''1''] (set_opt ''allowed_ips'' (p_allowedIPs p) k);
          e = (if p_endpointHost p \<noteq> [] then set_opt ''endpoint_port'' [p_endpointPort p]
                 (set_opt ''endpoint_host'' [p_endpointHost p] a) else a)
      in (if p_keepalive p \<noteq> [] then set_opt ''persistent_keepalive'' [p_keepalive p] e else e))"

text \<open>A selector that picks the last section of a package.\<close>

definition picks_last :: "selector \<Rightarrow> package \<Rightarrow> uci_section \<Rightarrow> bool" where
  "picks_last x q s \<longleftrightarrow> (case x of Named n \<Rightarrow> us_name s = n \<and> n \<notin> us_name ` set q | First t \<Rightarrow> False | Last t \<Rightarrow> us_type s = t)"

lemma picks_last_set_opt [simp]: "picks_last x q (set_opt k vs s) = picks_last x q s"
  by (simp add: picks_last_def split: selector.split)

lemma update_picked: "picks_last x q s \<Longrightarrow> update_sel x f (q @ [s]) = Some (q @ [f s])"
proof (cases x)
  case (Named n)
  assume "picks_last x q s"
  then show ?thesis unfolding Named by (induction q) (auto simp: picks_last_def)
qed (simp_all add: picks_last_def update_last_def)

lemma exec_set_last:
  "rt_work r p = q @ [s] \<Longrightarrow> picks_last x q s \<Longrightarrow>
   exec_all (SetOpt p x k v # cs) r = exec_all cs (work_to p (q @ [set_opt k [v] s]) r)"
  by (simp add: edit_work update_picked)

lemma exec_add_last:
  "rt_work r p = q @ [s] \<Longrightarrow> picks_last x q s \<Longrightarrow>
   exec_all (map (AddList p x k) vs @ cs) r = exec_all cs (work_to p (q @ [set_opt k (us_opts s k @ vs) s]) r)"
proof (induction vs arbitrary: r s)
  case Nil
  then have "work_to p (q @ [set_opt k (us_opts s k) s]) r = r" by (metis set_opt_def fun_upd_triv append_Nil2
    uci_section.surjective uci_section.update_convs(3) work_to_same)
  then show ?case by simp
next
  case (Cons v vs)
  from Cons.IH [of "work_to p (q @ [set_opt k (us_opts s k @ [v]) s]) r" "set_opt k (us_opts s k @ [v]) s"] Cons.prems
  show ?case by (simp add: edit_work update_picked)
qed

lemma same_opt: "us_opts s k = v \<Longrightarrow> set_opt k v s = s"
  by (cases s) (auto simp: set_opt_def)

lemma peer_ops_exec:
  "exec_all (import_peer_ops p @ cs) r =
     exec_all cs (work_to ''network'' (rt_work r ''network'' @ [peer_section p]) r)"
proof -
  let ?q = "rt_work r ''network''"
  have pick: "picks_last (Last peer_type) ?q (new_section [] peer_type)" by (simp add: picks_last_def)
  have add: "exec_all (AddSection ''network'' peer_type # ds) r
      = exec_all ds (work_to ''network'' (?q @ [new_section [] peer_type]) r)" for ds
    by (simp add: edit_work add_section_def)
  have set_last: "exec_all (set_peer k v # ds) (work_to ''network'' (?q @ [s]) r)
      = exec_all ds (work_to ''network'' (?q @ [set_opt k [v] s]) r)" if "picks_last (Last peer_type) ?q s" for k v s ds
    using exec_set_last [of "work_to ''network'' (?q @ [s]) r" "''network''" ?q s] that by simp
  have add_last: "exec_all (map (add_peer k) vs @ ds) (work_to ''network'' (?q @ [s]) r)
      = exec_all ds (work_to ''network'' (?q @ [set_opt k (us_opts s k @ vs) s]) r)"
    if "picks_last (Last peer_type) ?q s" for k vs s ds
    using exec_add_last [of "work_to ''network'' (?q @ [s]) r" "''network''" ?q s] that by simp
  show ?thesis
    using pick by (simp del: exec_all.simps add: import_peer_ops_def peer_section_def add set_last add_last Let_def)
qed

lemma peers_exec:
  "exec_all (concat (map import_peer_ops ps) @ cs) r =
     exec_all cs (work_to ''network'' (rt_work r ''network'' @ map peer_section ps) r)"
  by (induction ps arbitrary: r) (simp_all add: peer_ops_exec)

text \<open>What is left of the network package: everything but the earlier tunnel.\<close>

definition other_sections :: "package \<Rightarrow> package" where
  "other_sections q = filter (\<lambda>s. us_type s \<noteq> peer_type \<and> us_name s \<noteq> Iface) q"

lemma iface_exec:
  "exec_all (import_iface_ops c @ cs) r =
     exec_all cs (work_to ''network'' (other_sections (rt_work r ''network'') @ [iface_section c]) r)"
proof -
  let ?q = "other_sections (rt_work r ''network'')"
  have none: "update_first (\<lambda>s. us_name s = Iface) f ?q = None" for f
    by (simp add: update_first_None other_sections_def)
  have pick: "picks_last (Named Iface) ?q (new_section Iface ''interface'')"
    by (auto simp: picks_last_def other_sections_def)
  have start: "exec_all (DeleteAll ''network'' peer_type # DeleteSection ''network'' Iface
        # SetSection ''network'' Iface ''interface'' # ds) r
      = exec_all ds (work_to ''network'' (?q @ [new_section Iface ''interface'']) r)" for ds
    using none by (simp add: edit_work put_section_def del_section_def other_sections_def)
  have set_last: "exec_all (set_iface k v # ds) (work_to ''network'' (?q @ [s]) r)
      = exec_all ds (work_to ''network'' (?q @ [set_opt k [v] s]) r)" if "picks_last (Named Iface) ?q s" for k v s ds
    using exec_set_last [of "work_to ''network'' (?q @ [s]) r" "''network''" ?q s] that by simp
  have add_last: "exec_all (map (add_iface k) vs @ ds) (work_to ''network'' (?q @ [s]) r)
      = exec_all ds (work_to ''network'' (?q @ [set_opt k (us_opts s k @ vs) s]) r)"
    if "picks_last (Named Iface) ?q s" for k vs s ds
    using exec_add_last [of "work_to ''network'' (?q @ [s]) r" "''network''" ?q s] that by simp
  show ?thesis
    using pick by (simp del: exec_all.simps add: import_iface_ops_def iface_section_def start set_last add_last Let_def)
qed

lemma import_exec:
  "exec_all (import_ops c) r =
     (let net = other_sections (rt_work r ''network'') @ [iface_section c] @ map peer_section (c_peers c) in
      reload ''network'' (exec_zone (commit_pkg ''network'' (work_to ''network'' net r))))"
  by (simp del: exec_all.simps add: import_ops_def iface_exec peers_exec Let_def)
    (simp add: package_of_def split: option.split)

section \<open>Reading the configuration back\<close>

definition opt1 :: "string \<Rightarrow> uci_section \<Rightarrow> string" where
  "opt1 k s = (case us_opts s k of [] \<Rightarrow> [] | v # vs \<Rightarrow> v)"

definition read_peer :: "uci_section \<Rightarrow> peer" where
  "read_peer s = \<lparr>p_publicKey = opt1 ''public_key'' s, p_presharedKey = opt1 ''preshared_key'' s,
     p_allowedIPs = us_opts s ''allowed_ips'', p_endpointHost = opt1 ''endpoint_host'' s,
     p_endpointPort = opt1 ''endpoint_port'' s, p_keepalive = opt1 ''persistent_keepalive'' s\<rparr>"

definition read_config :: "package \<Rightarrow> vpn_config option" where
  "read_config q = (case named Iface q of None \<Rightarrow> None
     | Some s \<Rightarrow> Some \<lparr>c_privateKey = opt1 ''private_key'' s, c_addresses = us_opts s ''addresses'',
         c_dns = us_opts s ''dns'', c_mtu = opt1 ''mtu'' s,
         c_peers = map read_peer (filter (\<lambda>s. us_type s = peer_type) q)\<rparr>)"

lemma peer_section_simps [simp]: "us_type (peer_section p) = peer_type" "us_name (peer_section p) = []"
  by (simp_all add: peer_section_def Let_def)

lemma iface_section_simps [simp]: "us_type (iface_section c) = ''interface''" "us_name (iface_section c) = Iface"
  by (simp_all add: iface_section_def Let_def)

lemma read_peer_section: "storable_peer p \<Longrightarrow> read_peer (peer_section p) = p"
  by (cases p) (auto simp: read_peer_def peer_section_def Let_def opt1_def storable_peer_def split: if_splits)

lemma read_imported:
  assumes "storable c"
  shows "read_config (other_sections q @ [iface_section c] @ map peer_section (c_peers c)) = Some c"
proof -
  have n: "named Iface (other_sections q) = None" by (auto simp: named_def find_None_iff other_sections_def)
  have "map (\<lambda>p. read_peer (peer_section p)) (c_peers c) = c_peers c"
    using assms by (intro map_idI read_peer_section) (auto simp: storable_def list_all_iff)
  moreover have "filter (\<lambda>s. us_type s = peer_type) (other_sections q) = []"
    by (auto simp: other_sections_def filter_empty_conv)
  moreover have "opt1 ''private_key'' (iface_section c) = c_privateKey c" "us_opts (iface_section c) ''addresses'' = c_addresses c"
    "us_opts (iface_section c) ''dns'' = c_dns c" "opt1 ''mtu'' (iface_section c) = c_mtu c"
    by (simp_all add: iface_section_def Let_def opt1_def)
  moreover have "named Iface (iface_section c # map peer_section (c_peers c)) = Some (iface_section c)"
    by (simp add: named_def)
  ultimately show ?thesis
    using n by (simp add: read_config_def named_append comp_def) (simp add: peer_type_def)
qed

section \<open>The import\<close>

lemma texts_not_empty: "parse_cidr [] = None" "parse_ip [] = None"
  by code_simp+

lemma valid_storable:
  assumes "valid_config c" "[] \<notin> set (c_dns c)"
    "list_all (\<lambda>p. p_endpointHost p = [] \<longleftrightarrow> p_endpointPort p = []) (c_peers c)"
  shows "storable c"
  using assms wg_key_Nil texts_not_empty
  by (fastforce simp: storable_def storable_peer_def valid_config_def valid_peer_def list_all_iff)

lemma zone_effect:
  "filter lan_wan (rt_work (exec_zone r) ''firewall'') = filter lan_wan (rt_work r ''firewall'')"
  "\<exists>z \<in> set (rt_work (exec_zone r) ''firewall''). us_opts z ''name'' \<noteq> [] \<and> hd (us_opts z ''name'') = ''vpn''"
  "rt_saved (exec_zone r) ''network'' = rt_saved r ''network''" "rt_reloads (exec_zone r) = rt_reloads r"
  by (auto simp: exec_zone_def zone_edit_def lan_wan_def vpn_zone_def opt_text_def)

lemma other_imported [simp]:
  "other_sections (other_sections q @ iface_section c # map peer_section ps) = other_sections q"
  by (auto simp: other_sections_def filter_empty_conv)


lemma sample_import: "result (vpn_import_config router_env sample_config) (sample_world (sample_router True)) = None"
proof -
  have "list_all cmd_ok (import_ops sample_config)"
    by (rule import_ok [OF valid_storable [OF sample_valid]]) (simp_all add: sample_config_def)
  moreover obtain r where "exec_all (import_ops sample_config) (w_dev (sample_world (sample_router True))) = Some r"
    by (simp add: import_exec Let_def reload_def zone_effect(4) sample_world_def)
  ultimately show ?thesis
    using reliable_tools.list_succeeds(1) [OF router_env_tools(2) refl]
    by (simp add: vpn_import_config_def import_text del: run_all_run)
qed


end
