(* ===== verification/Router_Wifi.thy ===== *)
theory Router_Wifi
  imports Router_Properties
begin

text \<open>
  Joining an uplink on a router: the station section, the identity it carries and the uplink's
  network, with nothing left of an earlier network's password or identity.
\<close>

section \<open>The commands\<close>

text \<open>An option that is written when there is a value and deleted when there is none.\<close>

definition put_opt :: "string \<Rightarrow> string \<Rightarrow> string \<Rightarrow> string \<Rightarrow> cmd" where
  "put_opt p n k v = (if v \<noteq> [] then SetOpt p (Named n) k v else DeleteOpt p (Named n) k)"

definition mac_of :: "identity option \<Rightarrow> string" where
  "mac_of i = (case i of None \<Rightarrow> [] | Some j \<Rightarrow> id_mac j)"

definition host_of :: "identity option \<Rightarrow> string" where
  "host_of i = (case i of None \<Rightarrow> [] | Some j \<Rightarrow> id_host j)"

definition sta_table :: "string \<Rightarrow> string \<Rightarrow> (string \<times> string) list" where
  "sta_table ssid key = [(''device'', ''radio0''), (''network'', uplinkNet), (''mode'', ''sta''), (''ssid'', ssid),
     (''encryption'', if key \<noteq> [] then ''psk2'' else ''none'')]"

definition uplink_ops :: "string \<Rightarrow> string \<Rightarrow> identity option \<Rightarrow> cmd list" where
  "uplink_ops ssid key i =
     section_ops ''wireless'' staSection ''wifi-iface'' (sta_table ssid key)
     @ [put_opt ''wireless'' staSection ''key'' key, put_opt ''wireless'' staSection ''macaddr'' (mac_of i)]
     @ section_ops ''network'' uplinkNet ''interface'' [(''proto'', ''dhcp'')]
     @ [put_opt ''network'' uplinkNet ''hostname'' (host_of i), Commit ''wireless'', Commit ''network'', WanScript,
        Service ''network'' ''reload'', WifiReload]"

lemma uplink_text: "uplink_cmds ssid key i = map argv_of (uplink_ops ssid key i)"
  by (simp add: uplink_cmds_def uplink_ops_def sta_table_def put_opt_def mac_cmds_def hostname_cmds_def mac_of_def
      host_of_def wl_set_def staSection_def uplinkNet_def ops_text split: option.split)

lemma wifi_names:
  "ident ''wireless''" "ident ''network''" "ident staSection" "ident uplinkNet" "ident ''device''" "ident ''mode''"
  "ident ''ssid''" "ident ''encryption''" "ident ''key''" "ident ''macaddr''" "ident ''hostname''" "ident ''proto''"
  by (simp_all add: ident_def ident_char_def word_char_def less_eq_char_def staSection_def uplinkNet_def)

lemma uplink_ok: "ssid \<noteq> [] \<Longrightarrow> list_all cmd_ok (uplink_ops ssid key i)"
  by (simp add: uplink_ops_def section_ops_def write_ops_def sta_table_def put_opt_def wifi_names)
    (simp add: uplinkNet_def)

section \<open>What they leave\<close>

text \<open>The value of such an option.\<close>

definition opt_value :: "string \<Rightarrow> string list" where
  "opt_value v = (if v = [] then [] else [v])"

lemma put_opt_exec:
  assumes "named n p = Some s"
  shows "\<exists>q. (\<forall>cs r. rt_work r pk = p \<longrightarrow> exec_all (put_opt pk n k v # cs) r = exec_all cs (work_to pk q r))
    \<and> named n q = Some (set_opt k (opt_value v) s) \<and> same_but {n} p q"
proof -
  obtain q where "update_first (\<lambda>x. us_name x = n) (set_opt k (opt_value v)) p = Some q"
    "named n q = Some (set_opt k (opt_value v) s)" "same_but {n} p q"
    by (rule named_step [OF assms, of "set_opt k (opt_value v)"]) simp_all
  then show ?thesis by (intro exI [of _ q]) (auto simp: put_opt_def edit_work opt_value_def)
qed

lemma section_opts_exec:
  "\<exists>q. (\<forall>cs. exec_all (section_ops p n t kvs @ cs) r = exec_all cs (work_to p q r))
     \<and> named n q = Some (section_with n t kvs (rt_work r p)) \<and> same_but {n} (rt_work r p) q"
  using section_ops_exec [of p n t kvs r] by (auto simp: exec_all_append)

text \<open>The station and the uplink's network, as written.\<close>

definition sta_section :: "string \<Rightarrow> string \<Rightarrow> identity option \<Rightarrow> package \<Rightarrow> uci_section" where
  "sta_section ssid key i q = set_opt ''macaddr'' (opt_value (mac_of i)) (set_opt ''key'' (opt_value key)
     (section_with staSection ''wifi-iface'' (sta_table ssid key) q))"

definition wwan_section :: "identity option \<Rightarrow> package \<Rightarrow> uci_section" where
  "wwan_section i q = set_opt ''hostname'' (opt_value (host_of i)) (section_with uplinkNet ''interface'' [(''proto'', ''dhcp'')] q)"

lemma uplink_exec:
  assumes "exec_all (uplink_ops ssid key i) r = Some r'"
  shows "named staSection (rt_live r' ''wireless'') = Some (sta_section ssid key i (rt_work r ''wireless''))
    \<and> same_but {staSection} (rt_work r ''wireless'') (rt_live r' ''wireless'')
    \<and> named uplinkNet (rt_live r' ''network'') = Some (wwan_section i (rt_work r ''network''))
    \<and> same_but {uplinkNet} (rt_work r ''network'') (rt_live r' ''network'')
    \<and> wan_edit (rt_work r ''firewall'') = Some (rt_work r' ''firewall'')"
proof -
  let ?w = "rt_work r ''wireless''" and ?n = "rt_work r ''network''"
  obtain q1 where q1: "\<forall>cs. exec_all (section_ops ''wireless'' staSection ''wifi-iface'' (sta_table ssid key) @ cs) r
      = exec_all cs (work_to ''wireless'' q1 r)"
    "named staSection q1 = Some (section_with staSection ''wifi-iface'' (sta_table ssid key) ?w)" "same_but {staSection} ?w q1"
    using section_opts_exec [of "''wireless''" staSection "''wifi-iface''" "sta_table ssid key" r] by blast
  obtain q2 where q2: "\<forall>cs r. rt_work r ''wireless'' = q1 \<longrightarrow>
      exec_all (put_opt ''wireless'' staSection ''key'' key # cs) r = exec_all cs (work_to ''wireless'' q2 r)"
    "named staSection q2 = Some (set_opt ''key'' (opt_value key)
      (section_with staSection ''wifi-iface'' (sta_table ssid key) ?w))" "same_but {staSection} q1 q2"
    using put_opt_exec [OF q1(2)] by blast
  obtain q3 where q3: "\<forall>cs r. rt_work r ''wireless'' = q2 \<longrightarrow>
      exec_all (put_opt ''wireless'' staSection ''macaddr'' (mac_of i) # cs) r = exec_all cs (work_to ''wireless'' q3 r)"
    "named staSection q3 = Some (sta_section ssid key i ?w)" "same_but {staSection} q2 q3"
    unfolding sta_section_def using put_opt_exec [OF q2(2)] by blast
  let ?r3 = "work_to ''wireless'' q3 r"
  obtain n1 where n1: "\<forall>cs. exec_all (section_ops ''network'' uplinkNet ''interface'' [(''proto'', ''dhcp'')] @ cs) ?r3
      = exec_all cs (work_to ''network'' n1 ?r3)"
    "named uplinkNet n1 = Some (section_with uplinkNet ''interface'' [(''proto'', ''dhcp'')] ?n)" "same_but {uplinkNet} ?n n1"
    using section_opts_exec [of "''network''" uplinkNet "''interface''" "[(''proto'', ''dhcp'')]" ?r3] by auto
  obtain n2 where n2: "\<forall>cs r. rt_work r ''network'' = n1 \<longrightarrow>
      exec_all (put_opt ''network'' uplinkNet ''hostname'' (host_of i) # cs) r = exec_all cs (work_to ''network'' n2 r)"
    "named uplinkNet n2 = Some (wwan_section i ?n)" "same_but {uplinkNet} n1 n2"
    unfolding wwan_section_def using put_opt_exec [OF n1(2)] by blast
  have s: "same_but {staSection} (rt_work r ''wireless'') q3" "same_but {uplinkNet} (rt_work r ''network'') n2"
    using same_but_trans [OF q1(3) same_but_trans [OF q2(3) q3(3)]] same_but_trans [OF n1(3) n2(3)] by simp_all
  have "exec_all (uplink_ops ssid key i) r = exec_all [Commit ''wireless'', Commit ''network'', WanScript,
        Service ''network'' ''reload'', WifiReload] (work_to ''network'' n2 ?r3)"
    using q1(1) q2(1) q3(1) n1(1) n2(1) by (simp del: exec_all.simps add: uplink_ops_def)
  then have "exec_all [Commit ''wireless'', Commit ''network'', WanScript, Service ''network'' ''reload'', WifiReload]
      (work_to ''network'' n2 ?r3) = Some r'" using assms by simp
  then have "rt_live r' ''wireless'' = q3" "rt_live r' ''network'' = n2" "wan_edit (rt_work r ''firewall'') = Some (rt_work r' ''firewall'')"
    by (auto simp: exec_wan_def package_of_def reload_def split: option.splits if_splits)
  then show ?thesis using q3(2) n2(2) s by simp
qed

section \<open>Joining\<close>

lemma join_with_last: "join_with CHR '' '' (vs @ [v]) = (if vs = [] then v else join_with CHR '' '' vs @ CHR '' '' # v)"
proof (induction vs)
  case (Cons x vs)
  then show ?case by (cases vs) auto
qed simp

lemma split_on_tail: "split_on c (x @ c # w) = split_on c x @ split_on c w"
proof (induction x)
  case (Cons a x)
  then show ?case by (cases "split_on c x") auto
qed simp

lemma grep_added: "grep_word uplinkNet (join_with CHR '' '' (vs @ [uplinkNet]))"
proof -
  let ?f = "\<lambda>c. if word_char c then c else CHR '' ''"
  have w: "map ?f uplinkNet = uplinkNet" "split_on CHR '' '' uplinkNet = [uplinkNet]"
    by (simp_all add: uplinkNet_def word_char_def less_eq_char_def)
  have "\<not> word_char CHR '' ''" by (simp add: word_char_def less_eq_char_def)
  then show ?thesis
    by (cases "vs = []") (simp_all add: grep_word_def words_of_def join_with_last split_on_tail w)
qed

definition with_uplink :: "uci_section \<Rightarrow> uci_section" where
  "with_uplink s = (if grep_word uplinkNet (opt_text ''network'' s) then s
     else set_opt ''network'' (us_opts s ''network'' @ [uplinkNet]) s)"

lemma wan_edit_zone:
  assumes "wan_edit p = Some q"
  shows "\<exists>z \<in> set q. wan_zone z \<and> grep_word uplinkNet (opt_text ''network'' z)"
proof -
  have u: "update_first wan_zone with_uplink p = Some q"
    using assms by (simp add: wan_edit_def with_uplink_def [abs_def])
  have z: "wan_zone (with_uplink x) = wan_zone x" for x by (simp add: wan_zone_def with_uplink_def)
  from update_first_find [OF u z] obtain s where s: "find wan_zone q = Some (with_uplink s)" by blast
  have "grep_word uplinkNet (opt_text ''network'' (with_uplink s))"
    using grep_added by (simp add: with_uplink_def opt_text_def)
  moreover have "with_uplink s \<in> set q" "wan_zone (with_uplink s)" using s by (auto simp: find_Some_iff)
  ultimately show ?thesis by blast
qed

lemma join_uplink_run:
  "result (join_uplink E ssid key i) w = None \<Longrightarrow> valid_ssid ssid = None \<and> (key = [] \<or> valid_psk key = None)
     \<and> result (run_all E (uplink_cmds ssid key i)) w = None
     \<and> final (join_uplink E ssid key i) w = final (run_all E (uplink_cmds ssid key i)) w"
  by (auto simp: join_uplink_def split: option.splits if_splits)

text \<open>
  C28. Joining a network leaves exactly that network: a join that succeeds was of a name and a
  password within their bounds, the running station carries them with the identity of this join,
  an open network leaves no earlier password and a join without identity no earlier address or
  host name, and the firewall's wan zone holds the uplink.
\<close>

theorem uplink_takes_effect:
  fixes E :: "'d env" and w :: "'d world" and view :: "'d \<Rightarrow> router" and ssid key :: string and i :: "identity option"
  defines "r' \<equiv> view (w_dev (final (join_uplink E ssid key i) w))"
  assumes "uci_tools (run_cmd E) view" "result (join_uplink E ssid key i) w = None"
  shows "length ssid \<in> {1..32} \<and> length key \<in> {0} \<union> {8..63}
    \<and> (\<exists>s. named staSection (rt_live r' ''wireless'') = Some s \<and> us_type s = ''wifi-iface''
        \<and> us_opts s ''mode'' = [''sta''] \<and> us_opts s ''network'' = [uplinkNet] \<and> us_opts s ''ssid'' = [ssid]
        \<and> us_opts s ''encryption'' = [if key = [] then ''none'' else ''psk2''] \<and> us_opts s ''key'' = opt_value key
        \<and> us_opts s ''macaddr'' = opt_value (mac_of i))
    \<and> (\<exists>n. named uplinkNet (rt_live r' ''network'') = Some n \<and> us_opts n ''proto'' = [''dhcp'']
        \<and> us_opts n ''hostname'' = opt_value (host_of i))
    \<and> (\<exists>z \<in> set (rt_work r' ''firewall''). wan_zone z \<and> grep_word uplinkNet (opt_text ''network'' z))"
proof -
  note j = join_uplink_run [OF assms(3)]
  have l: "length ssid \<in> {1..32}" "length key \<in> {0} \<union> {8..63}"
    using j by (auto simp: valid_ssid_def valid_psk_def Suc_le_eq split: if_splits)
  then have ok: "list_all cmd_ok (uplink_ops ssid key i)" by (intro uplink_ok) auto
  have "exec_all (uplink_ops ssid key i) (view (w_dev w)) = Some r'"
    using uci_tools.list_effect [OF assms(2) refl ok, of w] j by (simp add: r'_def uplink_text del: run_all_run)
  note e = uplink_exec [OF this]
  have d: "distinct (map fst (sta_table ssid key))" by (simp add: sta_table_def)
  show ?thesis
    using e l wan_edit_zone [of "rt_work (view (w_dev w)) ''firewall''" "rt_work r' ''firewall''"]
    by (simp add: sta_section_def wwan_section_def section_with_opt [OF d] section_with_opt) (simp add: sta_table_def)
qed

text \<open>The example: an open network, on a router with a wan zone.\<close>

definition zoned_router :: router where
  "zoned_router = sample_router True\<lparr>rt_work := sample_packages(''firewall'' :=
     [set_opt ''name'' [''wan''] (new_section [] ''zone'')])\<rparr>"

lemma zoned_join: "\<exists>r. exec_all (uplink_ops ''hotel'' [] None) zoned_router = Some r"
proof -
  have "\<not> Option.is_none (exec_all (uplink_ops ''hotel'' [] None) zoned_router)" by code_simp
  then show ?thesis by (cases "exec_all (uplink_ops ''hotel'' [] None) zoned_router") auto
qed

theorem uplink_takes_effect_witness:
  "\<exists>s. named staSection (rt_live (w_dev (final (join_uplink router_env ''hotel'' [] None) (sample_world zoned_router)))
     ''wireless'') = Some s \<and> us_opts s ''key'' = []"
proof -
  obtain r where "exec_all (uplink_ops ''hotel'' [] None) (w_dev (sample_world zoned_router)) = Some r"
    using zoned_join by (auto simp: sample_world_def)
  then have "result (run_all router_env (uplink_cmds ''hotel'' [] None)) (sample_world zoned_router) = None"
    unfolding uplink_text by (intro reliable_tools.list_succeeds(1) [OF router_env_tools(2) refl uplink_ok]) simp_all
  then have "result (join_uplink router_env ''hotel'' [] None) (sample_world zoned_router) = None"
    by (simp add: join_uplink_def valid_ssid_def)
  from uplink_takes_effect [OF router_env_tools(1) this] show ?thesis by (auto simp: opt_value_def)
qed

end
