(* ===== verification/Net_Properties.thy ===== *)
theory Net_Properties
  imports Auth_Properties Http_Net
begin

text \<open>
  The network identity: what a generated identity is, and how far apart the daily rotations are.
\<close>

section \<open>Identity\<close>

lemma and_bit0: "x AND 3 = (2 :: byte) \<Longrightarrow> x AND 1 = 0 \<and> x AND 2 = 2" "x AND 3 = (0 :: byte) \<Longrightarrow> x AND 1 = 0 \<and> x AND 2 = 0"
proof -
  have e: "x AND 1 = (x AND 3) AND 1" "x AND 2 = (x AND 3) AND 2" by (simp_all add: and.assoc)
  show "x AND 3 = (2 :: byte) \<Longrightarrow> x AND 1 = 0 \<and> x AND 2 = 2" unfolding e by simp
  show "x AND 3 = (0 :: byte) \<Longrightarrow> x AND 1 = 0 \<and> x AND 2 = 0" unfolding e by simp
qed

text \<open>The profiles a key selects, and the pools of the vendor profiles.\<close>

lemma shipped_nonempty:
  assumes "h \<in> {appleOUIHex, samsungOUIHex, googleOUIHex}"
  shows "vendor_ouis h \<noteq> []"
proof -
  obtain q where q: "pool_from [] h = Some q" using shipped_keys [OF assms] by blast
  have "h \<noteq> []" using assms unfolding appleOUIHex_def samsungOUIHex_def googleOUIHex_def by auto
  then have "keys6 h \<noteq> []" using pool_keys(1) [OF q] by auto
  then show ?thesis using decode_keys [OF pool_keys(2) [OF q]] pool_keys(1) [OF q] by (simp add: vendor_ouis_def)
qed

lemma vendor_profile:
  assumes "key \<in> {''apple'', ''samsung'', ''pixel''}"
  shows "pf_key (profile_by_key key) = key" "pf_ouis (profile_by_key key) \<noteq> []" "pf_names (profile_by_key key) \<noteq> []"
    "\<forall>u \<in> set (pf_ouis (profile_by_key key)). length u = 3 \<and> hd u AND 3 = 0"
proof -
  have p: "pf_key (profile_by_key key) = key \<and> pf_names (profile_by_key key) \<noteq> []
      \<and> (\<exists>h \<in> {appleOUIHex, samsungOUIHex, googleOUIHex}. pf_ouis (profile_by_key key) = vendor_ouis h)"
    using assms by (elim insertE) (simp_all add: profile_by_key_def profiles_def)
  then show "pf_key (profile_by_key key) = key" "pf_ouis (profile_by_key key) \<noteq> []" "pf_names (profile_by_key key) \<noteq> []"
    "\<forall>u \<in> set (pf_ouis (profile_by_key key)). length u = 3 \<and> hd u AND 3 = 0"
    using shipped_nonempty shipped_pools(2) by metis+
qed

lemma generic_profile:
  assumes "key \<notin> {''apple'', ''samsung'', ''pixel''}"
  shows "pf_key (profile_by_key key) = ''generic'' \<and> pf_ouis (profile_by_key key) = []"
proof -
  have "''apple'' \<noteq> key" "''samsung'' \<noteq> key" "''pixel'' \<noteq> key" using assms by auto
  then show ?thesis by (simp add: profile_by_key_def profiles_def)
qed

text \<open>
  C30. A generated identity is one a network accepts and fits its profile: the MAC text is six
  bytes of a unicast address; a vendor's key gives one of the first 256 prefixes the daemon
  ships for it, a globally administered address, and one of its host names, every other key a
  locally administered address and no host name.
\<close>

theorem generated_identity:
  assumes "rand_ok E" "result (generate_identity E key) w = Some i"
  shows "\<exists>b. mac_bytes (id_mac i) = Some b \<and> length b = 6 \<and> hd b AND 1 = 0
    \<and> (if key \<in> {''apple'', ''samsung'', ''pixel''}
       then id_profile i = key \<and> hd b AND 2 = 0 \<and> take 3 b \<in> set (take 256 (pf_ouis (profile_by_key key)))
         \<and> id_host i \<in> set (pf_names (profile_by_key key))
       else id_profile i = ''generic'' \<and> hd b AND 2 = 2 \<and> id_host i = [])"
proof -
  let ?p = "profile_by_key key"
  obtain raw where raw: "rand_read E (w_n w) 8 = Some raw" "length raw = 8"
    using assms(1) unfolding rand_ok_def by metis
  let ?b = "fst (identity_bytes ?p raw)"
  have i: "id_mac i = mac_text ?b" "id_host i = snd (identity_bytes ?p raw)" "id_profile i = pf_key ?p"
    using assms(2) raw(1) by (auto simp: generate_identity_def Let_def split: prod.splits)
  show ?thesis
  proof (cases "key \<in> {''apple'', ''samsung'', ''pixel''}")
    case False
    note g = identity_bytes_generic [OF generic_profile [OF False, THEN conjunct2] raw(2)]
    then have "mac_bytes (mac_text ?b) = Some ?b" by (intro mac_bytes_text) auto
    moreover note and_bit0(1) [OF g(2)] generic_profile [OF False]
    ultimately show ?thesis using g False i by (intro exI [of _ ?b]) simp
  next
    case True
    note pool = vendor_profile [OF True]
    have len: "length ?b = 6" and t: "take 3 ?b \<in> set (take 256 (pf_ouis ?p))" and n: "snd (identity_bytes ?p raw) \<in> set (pf_names ?p)"
      using identity_bytes_vendor [OF pool(2) raw(2)] pool(3,4) by auto
    have "take 3 ?b \<in> set (pf_ouis ?p)" using t in_set_takeD by fast
    moreover have "hd ?b = hd (take 3 ?b)" using len by (cases ?b) auto
    ultimately have "hd ?b AND 3 = 0" using pool(4) by metis
    moreover have "mac_bytes (mac_text ?b) = Some ?b" using len by (intro mac_bytes_text) auto
    ultimately show ?thesis using len t n True i pool(1) and_bit0(2) by (intro exI [of _ ?b]) simp
  qed
qed

theorem generated_identity_witness:
  "\<exists>i b. result (generate_identity idle_env ''pixel'') (sample_world ()) = Some i
     \<and> mac_bytes (id_mac i) = Some b \<and> hd b AND 2 = 0 \<and> id_host i \<in> set (pf_names (profile_by_key ''pixel''))"
proof -
  have r: "rand_ok idle_env" using sample_ok(3) by (simp add: rand_ok_def)
  obtain raw where "rand_read idle_env (w_n (sample_world ())) 8 = Some raw" using r unfolding rand_ok_def by metis
  then obtain i where i: "result (generate_identity idle_env ''pixel'') (sample_world ()) = Some i"
    by (simp add: generate_identity_def Let_def case_prod_beta)
  from generated_identity [OF r this] i show ?thesis by auto
qed

section \<open>The daily rotation\<close>

abbreviation last_roll :: "'d world \<Rightarrow> string option" where
  "last_roll w \<equiv> bucket_get (db_config (w_db w)) macLastRollKey"

lemma config_plain:
  "no_faults E \<Longrightarrow> result (config E k) w = Some (bucket_get (db_config (w_db w)) k)"
  "final (config E k) w = w\<lparr>w_n := Suc (w_n w)\<rparr>"
  by (simp_all add: config_def no_faults_def)

text \<open>What decides a wake-up: the reading of the clock that the last roll is compared with.\<close>

lemma roll_due_run:
  assumes "no_faults E"
  shows "result (mac_roll_due E) w = (case last_roll w of None \<Rightarrow> True | Some s \<Rightarrow> s = [] \<or>
      (case time_parse E s of None \<Rightarrow> True | Some t \<Rightarrow> \<not> clock E (Suc (w_n w)) - t < 24 * hour))"
    "w_dev (final (mac_roll_due E) w) = w_dev w" "w_db (final (mac_roll_due E) w) = w_db w"
    "w_n (final (mac_roll_due E) w) \<in> {Suc (w_n w), Suc (Suc (w_n w))}"
  using assms by (auto simp: mac_roll_due_def config_plain split: option.splits)

lemma schedule_run:
  "w_dev (final (mac_schedule E) w) = w_dev w" "w_db (final (mac_schedule E) w) = w_db w"
  "w_n (final (mac_schedule E) w) = Suc (w_n w)" "w_dev (final (mac_profile E) w) = w_dev w"
  "w_db (final (mac_profile E) w) = w_db w" "w_n (final (mac_profile E) w) = Suc (w_n w)"
  by (simp_all add: mac_schedule_def mac_profile_def config_plain)

lemma identity_run:
  "w_dev (final (generate_identity E p) w) = w_dev w" "w_db (final (generate_identity E p) w) = w_db w"
  "w_n (final (generate_identity E p) w) = Suc (w_n w)"
  by (simp_all add: generate_identity_def)

lemma apply_run: "w_db (final (apply_sta_identity E i) w) = w_db w" "w_n (final (apply_sta_identity E i) w) = w_n w"
  by (simp_all add: apply_sta_identity_def split: sum.split)

lemma record_run:
  assumes "no_faults E"
  shows "last_roll (final (record_roll E) w) = Some (time_format E (clock E (w_n w)))"
    "w_n (final (record_roll E) w) = Suc (Suc (w_n w))"
  using assms
  by (simp_all add: record_roll_def put_config_def commit_def checked_put_def no_faults_def bucket_laws macLastRollKey_def
      key_ok_def max_key_size_def)

text \<open>A wake-up that does anything was due, and one that records a roll records the present.\<close>

lemma mac_tick_run:
  fixes E :: "'d env" and w :: "'d world"
  assumes "no_faults E"
  defines "w1 \<equiv> final (mac_schedule E) w" and "w' \<equiv> final (mac_tick E) w"
  shows "w_dev w' \<noteq> w_dev w \<or> w_db w' \<noteq> w_db w \<Longrightarrow> result (mac_roll_due E) w1 \<and> result (mac_schedule E) w = ''daily''"
    "w_db w' \<noteq> w_db w \<Longrightarrow> \<exists>m. w_n w \<le> m \<and> m < w_n w' \<and> last_roll w' = Some (time_format E (clock E m))"
    "result (mac_roll_due E) w1 \<Longrightarrow> result (mac_schedule E) w = ''daily'' \<Longrightarrow> Suc (Suc (w_n w)) < w_n w'"
proof -
  let ?w2 = "final (mac_roll_due E) w1"
  let ?w3 = "final (mac_profile E) ?w2"
  let ?i = "result (generate_identity E (result (mac_profile E) ?w2)) ?w3"
  let ?w4 = "final (generate_identity E (result (mac_profile E) ?w2)) ?w3"
  have w': "w' = (if result (mac_schedule E) w \<noteq> ''daily'' then w1 else if \<not> result (mac_roll_due E) w1 then ?w2
      else (case ?i of None \<Rightarrow> ?w4 | Some i \<Rightarrow>
        if result (apply_sta_identity E i) ?w4 \<noteq> None then final (apply_sta_identity E i) ?w4
        else final (record_roll E) (final (apply_sta_identity E i) ?w4)))"
    by (simp add: w'_def w1_def mac_tick_def run_branch split: option.split)
  have n: "w_n w < w_n ?w4" "Suc (Suc (w_n w)) < w_n ?w4"
    using roll_due_run(4) [OF assms(1), of w1] by (auto simp: w1_def schedule_run identity_run)
  note runs = roll_due_run(2,3) [OF assms(1)] schedule_run identity_run apply_run record_run [OF assms(1)]
  show "result (mac_roll_due E) w1 \<and> result (mac_schedule E) w = ''daily''" if "w_dev w' \<noteq> w_dev w \<or> w_db w' \<noteq> w_db w"
    using that by (auto simp: w' runs w1_def split: if_splits)
  show "\<exists>m. w_n w \<le> m \<and> m < w_n w' \<and> last_roll w' = Some (time_format E (clock E m))" if "w_db w' \<noteq> w_db w"
  proof (cases ?i)
    case (Some i)
    with that have "w' = final (record_roll E) (final (apply_sta_identity E i) ?w4)"
      by (auto simp: w' runs w1_def split: if_splits)
    then show ?thesis using n(1) by (intro exI [of _ "w_n ?w4"]) (simp add: runs)
  qed (use that in \<open>auto simp: w' runs w1_def split: if_splits\<close>)
  show "Suc (Suc (w_n w)) < w_n w'" if "result (mac_roll_due E) w1" "result (mac_schedule E) w = ''daily''"
    using that n(2) by (cases ?i) (auto simp: w' runs)
qed

text \<open>
  C29. Daily means daily: after a wake-up that recorded a roll, no later wake-up touches the
  device until a day later, to the second, as long as the record of that roll stands.
\<close>

theorem daily_rolls_apart:
  fixes E :: "'d env" and w v :: "'d world"
  defines "w' \<equiv> final (mac_tick E) w" and "v' \<equiv> final (mac_tick E) v"
  assumes "no_faults E" "rfc3339_ok E" "clock_ok E" "\<not> (\<exists>n. time_format E (clock E n) = [])"
    "w_db w' \<noteq> w_db w" "last_roll v = last_roll w'" "w_dev v' \<noteq> w_dev v"
  shows "\<exists>m n. w_n w \<le> m \<and> m < w_n w' \<and> w_n v \<le> n \<and> n < w_n v' \<and> clock E m + 24 * hour - second < clock E n"
proof -
  obtain m where m: "w_n w \<le> m" "m < w_n w'" "last_roll w' = Some (time_format E (clock E m))"
    using mac_tick_run(2) [OF assms(3), of w] assms(7) unfolding w'_def by blast
  have due: "result (mac_roll_due E) (final (mac_schedule E) v)" "result (mac_schedule E) v = ''daily''"
    using mac_tick_run(1) [OF assms(3), of v] assms(9) unfolding v'_def by blast+
  let ?n = "Suc (Suc (w_n v))"
  have "time_in_range (clock E m)" using assms(5) by (simp add: clock_ok_def)
  then have "time_parse E (time_format E (clock E m)) = Some (whole_second (clock E m))"
    using assms(4) by (simp add: rfc3339_ok_def)
  moreover have "last_roll (final (mac_schedule E) v) = Some (time_format E (clock E m))"
    using assms(8) m(3) by (simp add: schedule_run)
  ultimately have "\<not> clock E ?n - whole_second (clock E m) < 24 * hour"
    using due(1) assms(6) by (simp add: roll_due_run(1) [OF assms(3)] schedule_run)
  then have "clock E m + 24 * hour - second < clock E ?n" using whole_second_gt [of "clock E m"] by linarith
  moreover have "?n < w_n v'" unfolding v'_def using due by (rule mac_tick_run(3) [OF assms(3)])
  ultimately show ?thesis using m(1,2) by (intro exI [of _ m] exI [of _ ?n]) simp
qed

text \<open>The example: a device that counts its commands, and two wake-ups more than a day apart.\<close>

definition roll_env :: "nat env" where
  "roll_env = (sample_env (\<lambda>d c. (Inr [], Suc d)) (\<lambda>d c. (None, d)))
     \<lparr>time_format := \<lambda>t. CHR ''z'' # replicate (nat (t div second)) CHR ''i'',
      time_parse := \<lambda>s. Some (int (length s - 1) * second)\<rparr>"

definition roll_world :: "nat world" where
  "roll_world = (sample_world 0)\<lparr>w_db := sample_db\<lparr>db_config := [(macScheduleKey, ''daily'')]\<rparr>\<rparr>"

lemma count_all: "dev_all (\<lambda>d c. (Inr [], Suc d)) cs d = (None, d + length cs)"
  by (induction cs arbitrary: d) simp_all

lemma roll_env_ok: "no_faults roll_env" "rfc3339_ok roll_env" "clock_ok roll_env"
  "\<not> (\<exists>n. time_format roll_env (clock roll_env n) = [])"
proof -
  show "no_faults roll_env" "clock_ok roll_env"
    using sample_ok(2) sample_clock by (simp_all add: roll_env_def no_faults_def clock_ok_def)
  show "rfc3339_ok roll_env"
    by (auto simp: rfc3339_ok_def roll_env_def time_in_range_def whole_second_def second_def)
qed (simp add: roll_env_def)

lemma roll_tick:
  assumes "result (mac_schedule roll_env) u = ''daily''" "result (mac_roll_due roll_env) (final (mac_schedule roll_env) u)"
  shows "w_dev u < w_dev (final (mac_tick roll_env) u)" "last_roll (final (mac_tick roll_env) u) \<noteq> None"
    "w_n (final (mac_tick roll_env) u) \<le> w_n u + 7"
proof -
  let ?u2 = "final (mac_roll_due roll_env) (final (mac_schedule roll_env) u)"
  let ?p = "result (mac_profile roll_env) ?u2" and ?u3 = "final (mac_profile roll_env) ?u2"
  have r: "run_cmd roll_env = (\<lambda>d c. (Inr [], Suc d))" "rand_read roll_env n 8 \<noteq> None" for n
    by (simp_all add: roll_env_def sample_env_def)
  obtain i where i: "result (generate_identity roll_env ?p) ?u3 = Some i"
    using r(2) [of "w_n ?u3"] by (auto simp: generate_identity_def Let_def case_prod_beta)
  let ?u4 = "final (generate_identity roll_env ?p) ?u3"
  have a: "result (apply_sta_identity roll_env i) ?u4 = None" "w_dev ?u4 < w_dev (final (apply_sta_identity roll_env i) ?u4)"
    by (simp_all add: apply_sta_identity_def r(1) count_all)
  have f: "final (mac_tick roll_env) u = final (record_roll roll_env) (final (apply_sta_identity roll_env i) ?u4)"
    using assms i a(1) by (simp add: mac_tick_def)
  have "w_dev (final (record_roll roll_env) x) = w_dev x" for x by (simp add: record_roll_def put_config_def)
  with f a(2) show "w_dev u < w_dev (final (mac_tick roll_env) u)"
    using roll_due_run(2) [OF roll_env_ok(1)] by (simp add: schedule_run identity_run)
  show "last_roll (final (mac_tick roll_env) u) \<noteq> None" by (simp add: f record_run [OF roll_env_ok(1)])
  show "w_n (final (mac_tick roll_env) u) \<le> w_n u + 7"
    using roll_due_run(4) [OF roll_env_ok(1), of "final (mac_schedule roll_env) u"]
    by (auto simp: f record_run [OF roll_env_ok(1)] apply_run identity_run schedule_run)
qed

lemma roll_schedule:
  "bucket_get (db_config (w_db u)) macScheduleKey = Some ''daily'' \<Longrightarrow> result (mac_schedule roll_env) u = ''daily''"
  by (simp add: mac_schedule_def config_plain roll_env_ok)

theorem daily_rolls_apart_witness:
  "\<exists>m n. clock roll_env m + 24 * hour - second < clock roll_env n"
proof -
  let ?w' = "final (mac_tick roll_env) roll_world"
  have s: "bucket_get (db_config (w_db roll_world)) macScheduleKey = Some ''daily''" "last_roll roll_world = None"
    by (simp_all add: roll_world_def sample_db_def bucket_get_def macScheduleKey_def macLastRollKey_def)
  have "result (mac_roll_due roll_env) (final (mac_schedule roll_env) roll_world)"
    using s(2) by (simp add: roll_due_run(1) [OF roll_env_ok(1)] schedule_run)
  note first = roll_tick [OF roll_schedule [OF s(1)] this]
  have db: "w_db ?w' \<noteq> w_db roll_world" using first(2) s(2) by auto
  obtain m where m: "m < w_n ?w'" "last_roll ?w' = Some (time_format roll_env (clock roll_env m))"
    using mac_tick_run(2) [OF roll_env_ok(1) db] by blast
  define stamp where "stamp = time_format roll_env (clock roll_env m)"
  have "m < 7" using m(1) first(3) by (simp add: roll_world_def sample_world_def)
  then have p: "time_parse roll_env stamp = Some t \<Longrightarrow> t \<le> 7 * second" "stamp \<noteq> []" for t
    by (simp_all add: stamp_def roll_env_def sample_env_def second_def)
  obtain v :: "nat world" where v: "w_n v = 90000" "bucket_get (db_config (w_db v)) macScheduleKey = Some ''daily''" "last_roll v = Some stamp"
    by (rule that [of "roll_world\<lparr>w_n := 90000, w_db := sample_db\<lparr>db_config := [(macLastRollKey, stamp), (macScheduleKey, ''daily'')]\<rparr>\<rparr>"])
      (simp_all add: bucket_get_def macScheduleKey_def macLastRollKey_def)
  have "clock roll_env (Suc (Suc 90000)) = 90002 * second" by (simp add: roll_env_def sample_env_def)
  then have "result (mac_roll_due roll_env) (final (mac_schedule roll_env) v)"
    using v p by (auto simp: roll_due_run(1) [OF roll_env_ok(1)] schedule_run hour_def minute_def second_def split: option.split)
  note second_roll = roll_tick(1) [OF roll_schedule [OF v(2)] this]
  have "last_roll v = last_roll ?w'" "w_dev (final (mac_tick roll_env) v) \<noteq> w_dev v"
    using v(3) m(2) second_roll by (simp_all add: stamp_def)
  from daily_rolls_apart [OF roll_env_ok db this] show ?thesis by blast
qed

end
