(* ===== verification/Portal_Watch.thy ===== *)
theory Portal_Watch
  imports Portal_Properties
begin

text \<open>
  The watch of a pause and the scout after a join, as loops: the watch, left alone, ends every
  pause, and the scout stops by itself when its time is over.
\<close>

section \<open>One turn\<close>

text \<open>
  A turn after the deadline, or with the device online, restores the saved posture on the device
  as it is then and removes the record.
\<close>

lemma turn_ends_pause:
  assumes "portal_env E" "stored_pause E (w_db w) = Some r"
    "pr_deadline r < clock E (Suc (w_n w)) \<or> ps_online (probe_verdict (http_probe E (w_n w + 2) (w_dev w)))"
  shows "stored_pause E (w_db (final (watch_turn E wk) w)) = None \<and> result (watch_turn E wk) w
    \<and> (\<exists>v. w_dev v = w_dev w \<and> w_db v = w_db w \<and> w_fwd v = w_fwd w
        \<and> w_dev (final (watch_turn E wk) w) = w_dev (final (restore E r) v))"
proof -
  note e = portal_envD(1-4) [OF assms(1)]
  let ?w1 = "w\<lparr>w_n := Suc (w_n w)\<rparr>"
  have g: "result (portal_get E) w = Some r" "final (portal_get E) w = ?w1"
    using portal_get_plain(1) [OF e(1)] assms(2) by (simp_all add: portal_get_run(2))
  have ex: "\<exists>v'. w_dev v' = w_dev w \<and> w_db v' = w_db w \<and> w_fwd v' = w_fwd w
      \<and> w_dev (final (exit_portal_mode E nt) v) = w_dev (final (restore E r) v')"
    if "w_dev v = w_dev w" "w_db v = w_db w" "w_fwd v = w_fwd w" for v nt
  proof (intro exI conjI)
    show "w_dev (final (exit_portal_mode E nt) v) = w_dev (final (restore E r) (v\<lparr>w_n := Suc (w_n v)\<rparr>))"
      using that assms(2) portal_get_plain(1) [OF e(1), of v]
      by (simp add: exit_portal_mode_def portal_get_run(2) set_portal_note_def delete_config_def)
  qed (use that in simp_all)
  consider "pr_deadline r < clock E (Suc (w_n w))"
    | "\<not> pr_deadline r < clock E (Suc (w_n w))" "ps_online (result (probe_portal E) (?w1\<lparr>w_n := Suc (Suc (w_n w))\<rparr>))"
    using assms(3) by (fastforce simp: probe_portal_def eval_nat_numeral)
  then show ?thesis
  proof cases
    case 1
    have "\<exists>v. w_dev v = w_dev w \<and> w_db v = w_db w \<and> w_fwd v = w_fwd w
        \<and> w_dev (final (exit_portal_mode E expired_note) (?w1\<lparr>w_n := Suc (Suc (w_n w))\<rparr>)) = w_dev (final (restore E r) v)"
      by (rule ex) simp_all
    with 1 g show ?thesis by (simp add: watch_turn_def watch_paused_def exit_drops [OF e(1)])
  next
    case 2
    let ?v = "final (probe_portal E) (?w1\<lparr>w_n := Suc (Suc (w_n w))\<rparr>)"
    have "\<exists>v. w_dev v = w_dev w \<and> w_db v = w_db w \<and> w_fwd v = w_fwd w
        \<and> w_dev (final (exit_portal_mode E online_note) ?v) = w_dev (final (restore E r) v)"
      by (rule ex) (simp_all add: probe_portal_def)
    with 2 g show ?thesis by (simp add: watch_turn_def watch_paused_def exit_drops [OF e(1)])
  qed
qed

text \<open>A turn that does not end the pause leaves the device and all of the record but the address.\<close>

lemma turn_waits:
  assumes "portal_env E" "stored_pause E (w_db w) = Some r" "times_fit r" "fst wk \<noteq> Cancelled"
    "\<not> pr_deadline r < clock E (Suc (w_n w))" "\<not> ps_online (probe_verdict (http_probe E (w_n w + 2) (w_dev w)))"
  shows "result (watch_turn E wk) w \<and> w_dev (final (watch_turn E wk) w) = w_dev w
    \<and> w_n w < w_n (final (watch_turn E wk) w)
    \<and> (\<exists>u. stored_pause E (w_db (final (watch_turn E wk) w)) = Some (r\<lparr>pr_url := u\<rparr>))"
proof -
  note e = portal_envD(1-4) [OF assms(1)]
  let ?w1 = "w\<lparr>w_n := Suc (w_n w)\<rparr>"
  let ?w2 = "?w1\<lparr>w_n := Suc (Suc (w_n w))\<rparr>"
  let ?p = "result (probe_portal E) ?w2" and ?w3 = "final (probe_portal E) ?w2"
  let ?r = "r\<lparr>pr_url := ps_url ?p\<rparr>" and ?save = "ps_captive ?p \<and> ps_url ?p \<noteq> [] \<and> ps_url ?p \<noteq> pr_url r"
  have g: "result (portal_get E) w = Some r" "final (portal_get E) w = ?w1"
    using portal_get_plain(1) [OF e(1)] assms(2) by (simp_all add: portal_get_run(2))
  have off: "\<not> ps_online ?p" using assms(6) by (simp add: probe_portal_def eval_nat_numeral)
  have kick: "w_db (final take_kick v) = w_db v" "w_n (final take_kick v) = w_n v" "w_dev (final take_kick v) = w_dev v"
    for v :: "'a world" by (simp_all add: take_kick_def)
  let ?v = "if ?save then final (save_portal_record E ?r) ?w3 else ?w3"
  have paused: "final (watch_paused E r) ?w1 = ?v" "result (watch_paused E r) ?w1"
    using assms(5) off by (simp_all add: watch_paused_def)
  have turn: "result (watch_turn E wk) w" "final (watch_turn E wk) w = (if fst wk = Kicked then final take_kick ?v else ?v)"
    using g paused assms(4) by (simp_all add: watch_turn_def)
  have fit: "times_fit ?r" "pr_active ?r" using assms(3) stored_active [OF assms(2)] by (simp_all add: times_fit_def)
  obtain a where a: "stored_pause E (w_db (final (save_portal_record E ?r) ?w3)) = Some (?r\<lparr>pr_url := a\<rparr>)"
    using save_stored(1) [OF e(1,2) fit] by blast
  have n: "w_n w < w_n ?v" "w_dev ?v = w_dev w"
    using save_stored(2) [OF e(1,2) fit, of ?w3]
    by (simp_all add: probe_portal_def save_portal_record_def put_config_def split: option.split)
  have "\<exists>u. stored_pause E (w_db ?v) = Some (r\<lparr>pr_url := u\<rparr>)"
  proof (cases ?save)
    case True
    with a show ?thesis by auto
  next
    case False
    then have "stored_pause E (w_db ?v) = Some (r\<lparr>pr_url := pr_url r\<rparr>)" using assms(2) by (auto simp: probe_portal_def)
    then show ?thesis by blast
  qed
  with turn n show ?thesis by (simp add: kick)
qed

section \<open>The watch\<close>

text \<open>
  C6. The watch ends every pause: left alone and not cancelled, within as many turns as there
  are readings of the clock up to the deadline it reaches a point where no pause is stored and
  the device is as the restore of the recorded posture leaves it; until then it has not touched
  the device.
\<close>

theorem watch_ends_pause:
  assumes "portal_env E" "stored_pause E (w_db w) = Some r" "times_fit r" "pr_deadline r < clock E (w_n w + k)"
    "k < length wks" "Cancelled \<notin> fst ` set wks"
  shows "\<exists>j v s. j \<le> length wks \<and> stored_pause E (w_db (final (run_portal_watch E (take j wks)) w)) = None
    \<and> w_dev v = w_dev w \<and> same_posture r s
    \<and> w_dev (final (run_portal_watch E (take j wks)) w) = w_dev (final (restore E s) v)"
  using assms(2-)
proof (induction k arbitrary: w r wks)
  case 0
  then obtain wk ws where wks: "wks = wk # ws" by (cases wks) auto
  have "clock E (w_n w) \<le> clock E (Suc (w_n w))" by (rule clock_later [OF portal_envD(4) [OF assms(1)]]) simp
  then have "pr_deadline r < clock E (Suc (w_n w))" using 0(3) by simp
  from turn_ends_pause [OF assms(1) 0(1) disjI1 [OF this], of wk] obtain v where
    "stored_pause E (w_db (final (watch_turn E wk) w)) = None" "result (watch_turn E wk) w" "w_dev v = w_dev w"
    "w_dev (final (watch_turn E wk) w) = w_dev (final (restore E r) v)" by blast
  then show ?case unfolding wks by (intro exI [of _ 1] exI [of _ v] exI [of _ r]) simp
next
  case (Suc k)
  then obtain wk ws where wks: "wks = wk # ws" by (cases wks) auto
  let ?w = "final (watch_turn E wk) w"
  show ?case
  proof (cases "pr_deadline r < clock E (Suc (w_n w)) \<or> ps_online (probe_verdict (http_probe E (w_n w + 2) (w_dev w)))")
    case True
    from turn_ends_pause [OF assms(1) Suc.prems(1) True, of wk] obtain v where
      "stored_pause E (w_db (final (watch_turn E wk) w)) = None" "result (watch_turn E wk) w" "w_dev v = w_dev w"
      "w_dev (final (watch_turn E wk) w) = w_dev (final (restore E r) v)" by blast
    then show ?thesis unfolding wks by (intro exI [of _ 1] exI [of _ v] exI [of _ r]) simp
  next
    case False
    have "fst wk \<noteq> Cancelled" using Suc.prems(5) wks by auto
    with False turn_waits [OF assms(1) Suc.prems(1,2)] obtain u where
      u: "result (watch_turn E wk) w" "w_dev ?w = w_dev w" "w_n w < w_n ?w"
        "stored_pause E (w_db ?w) = Some (r\<lparr>pr_url := u\<rparr>)" by blast
    have "clock E (w_n w + Suc k) \<le> clock E (w_n ?w + k)"
      using u(3) by (intro clock_later [OF portal_envD(4) [OF assms(1)]]) simp
    then have "pr_deadline (r\<lparr>pr_url := u\<rparr>) < clock E (w_n ?w + k)" using Suc.prems(3) by simp
    moreover have "times_fit (r\<lparr>pr_url := u\<rparr>)" using Suc.prems(2) by (simp add: times_fit_def)
    ultimately obtain j v s where j: "j \<le> length ws"
      "stored_pause E (w_db (final (run_portal_watch E (take j ws)) ?w)) = None" "w_dev v = w_dev ?w"
      "same_posture (r\<lparr>pr_url := u\<rparr>) s"
      "w_dev (final (run_portal_watch E (take j ws)) ?w) = w_dev (final (restore E s) v)"
      using Suc.IH [OF u(4), of ws] Suc.prems(4,5) wks by auto
    then show ?thesis using u(1,2) unfolding wks
      by (intro exI [of _ "Suc j"] exI [of _ v] exI [of _ s]) (simp add: same_posture_def)
  qed
qed

text \<open>The example: a first pause, and the watch for as long as its window lasts.\<close>

lemma first_pause_n: "w_n first_pause = 4"
proof -
  have faults: "io_fault idle_env n = False" "run_cmd idle_env d c = (Inr [], d)" for n d c
    by (simp_all add: idle_env_def sample_env_def)
  have g: "result (portal_get idle_env) (sample_world ()) = None"
    "w_n (final (portal_get idle_env) (sample_world ())) = 1"
    by (simp_all add: portal_get_run sample_unpaused faults) (simp add: sample_world_def)
  have "\<exists>s. json_portal idle_env x = Some s" for x by (simp add: idle_env_def sample_env_def)
  then have s: "w_n (final (save_portal_record idle_env x) v) = Suc (w_n v)" for x and v :: "unit world"
    using put_config_run(2) [OF portal_envD(1) [OF idle_portal_env] portal_key]
    by (auto simp: save_portal_record_def split: option.split)
  have f: "w_n (final (fresh_record idle_env) v) = Suc (w_n v)" for v :: "unit world"
    by (simp add: fresh_record_def kill_switch_def dns_enabled_def)
  have r: "w_n (final (relax idle_env x) v) = w_n v" for x and v :: "unit world"
    by (simp add: relax_def vpn_down_def run_only_def set_kill_switch_def dns_disable_def faults)
  show ?thesis
    by (simp add: first_pause_def enter_portal_mode_def enter_record_def g s f r Let_def set_portal_note_def kick_portal_watch_def)
qed

theorem watch_ends_pause_witness:
  "\<exists>wks. stored_pause idle_env (w_db first_pause) \<noteq> None
     \<and> stored_pause idle_env (w_db (final (run_portal_watch idle_env wks) first_pause)) = None"
proof -
  obtain r where r: "stored_pause idle_env (w_db first_pause) = Some r" using first_pause_stored(2) by blast
  have fit: "times_fit r" "pr_deadline r \<le> clock idle_env 4 + portalWindow"
    using first_pause_stored(1) r by (simp_all add: pause_bounded_def first_pause_n)
  moreover have "clock idle_env 4 + portalWindow < clock idle_env (w_n first_pause + 5000)"
    by (simp add: first_pause_n idle_env_def sample_env_def portalWindow_def minute_def second_def)
  ultimately have "pr_deadline r < clock idle_env (w_n first_pause + 5000)" by simp
  from watch_ends_pause [OF idle_portal_env r fit(1) this, of "replicate 5001 (TimerFired, [])"] r
  show ?thesis by auto
qed

section \<open>The scout\<close>

lemma scout_round_reads: "w_n w < w_n (final (scout_round E d) w)"
proof -
  have f: "forward (if clock E (w_n w) < d then do {
       rec \<leftarrow> portal_get E;
       if rec \<noteq> None then ret False
       else do {
         p \<leftarrow> probe_portal E;
         if ps_captive p then do { _ \<leftarrow> enter_portal_mode E (ps_url p); ret False }
         else ret (\<not> ps_online p) } } else ret False)"
    by (intro forward_intro)
  have "w_n (w\<lparr>w_n := Suc (w_n w)\<rparr>) \<le> w_n (final (scout_round E d) w)"
    using forwardD [OF f, of "w\<lparr>w_n := Suc (w_n w)\<rparr>"] by (simp add: scout_round_def split: if_splits)
  then show ?thesis by simp
qed

lemma scout_rounds_stop:
  assumes "clock_ok E" "d \<le> clock E (w_n w + n)" "n < length stops"
  shows "run_state (scout_rounds E d (stops @ further)) w = run_state (scout_rounds E d stops) w"
  using assms(2,3)
proof (induction n arbitrary: w stops)
  case 0
  then obtain s ss where s: "stops = s # ss" by (cases stops) auto
  have "\<not> result (scout_round E d) w" using 0 by (simp add: scout_round_def)
  then show ?case by (simp add: s run_state_final_result)
next
  case (Suc n)
  then obtain s ss where s: "stops = s # ss" by (cases stops) auto
  let ?w = "final (scout_round E d) w"
  have "clock E (w_n w + Suc n) \<le> clock E (w_n ?w + n)"
    using scout_round_reads [of w E d] by (intro clock_later [OF assms(1)]) simp
  then have "run_state (scout_rounds E d (ss @ further)) ?w = run_state (scout_rounds E d ss) ?w"
    using Suc.prems s by (intro Suc.IH) simp_all
  then show ?case by (simp add: s run_state_final_result)
qed

text \<open>
  The scout stops by itself: when its ninety seconds pass within \<open>k\<close> readings of the clock,
  \<open>k\<close> waits are enough, and what further waits would bring changes neither what it does nor
  what it leaves.
\<close>

theorem scout_stops:
  assumes "clock_ok E" "clock E (w_n w) + portalScoutFor \<le> clock E (w_n w + k)" "k \<le> length stops"
  shows "run_state (portal_scout E (stops @ further)) w = run_state (portal_scout E stops) w"
proof -
  have "0 < k"
  proof (rule ccontr)
    assume "\<not> 0 < k"
    with assms(2) show False by (simp add: portalScoutFor_def second_def)
  qed
  then obtain n where k: "k = Suc n" by (cases k) auto
  have "run_state (scout_rounds E (clock E (w_n w) + portalScoutFor) (stops @ further)) (w\<lparr>w_n := Suc (w_n w)\<rparr>)
      = run_state (scout_rounds E (clock E (w_n w) + portalScoutFor) stops) (w\<lparr>w_n := Suc (w_n w)\<rparr>)"
    using assms(2,3) k by (intro scout_rounds_stop [OF assms(1), of _ _ n]) simp_all
  then show ?thesis by (simp add: portal_scout_def run_state_final_result)
qed

theorem scout_stops_witness:
  "run_state (portal_scout idle_env (replicate 100 False @ [True])) (sample_world ())
     = run_state (portal_scout idle_env (replicate 100 False)) (sample_world ())"
proof (rule scout_stops [of _ _ 100])
  show "clock_ok idle_env" using portal_envD(4) [OF idle_portal_env] .
  show "clock idle_env (w_n (sample_world ())) + portalScoutFor \<le> clock idle_env (w_n (sample_world ()) + 100)"
    by (simp add: idle_env_def sample_env_def sample_world_def portalScoutFor_def second_def)
qed simp

end
