(* ===== verification/Router_Restart.thy ===== *)
theory Router_Restart
  imports Router_Pause Portal_Watch
begin

text \<open>
  Power loss during a pause: the database keeps the record written before the first relaxing
  command, the router comes up with its committed configuration, and the watch of the new process
  brings the posture back.
\<close>

section \<open>A restart\<close>

text \<open>The router after a boot: uncommitted edits are gone, every service runs what was committed.\<close>

definition booted :: "router \<Rightarrow> router" where
  "booted r = r\<lparr>rt_work := rt_saved r, rt_live := rt_saved r, rt_up := []\<rparr>"

lemma fwd_watch: "fw_addr (w_fwd (final (watch_turn E wk) w)) = fw_addr (w_fwd w)"
proof -
  have get: "w_fwd (final (portal_get E) v) = w_fwd v" for v by (rule keepsD, intro keeps_intro)
  have save: "w_fwd (final (save_portal_record E r) v) = w_fwd v" for r v by (rule keepsD, intro keeps_intro)
  have probe: "w_fwd (final (probe_portal E) v) = w_fwd v" for v by (simp add: probe_portal_def)
  have exit: "fw_addr (w_fwd (final (exit_portal_mode E n) v)) = fw_addr (w_fwd v)" for n v
    by (simp add: exit_portal_mode_def run_branch get set_portal_note_def delete_config_def split: option.split)
  have enter: "fw_addr (w_fwd (final (enter_portal_mode E u) v)) = fw_addr (w_fwd v)" for u v
    by (simp add: enter_portal_mode_def enter_record_def fresh_record_def Let_def run_branch get save set_portal_note_def
        kick_portal_watch_def kill_switch_def dns_enabled_def split: option.split)
  have round: "fw_addr (w_fwd (final (scout_round E d) v)) = fw_addr (w_fwd v)" for d v
    by (simp add: scout_round_def run_branch get probe enter)
  have rounds: "fw_addr (w_fwd (final (scout_rounds E d ss) v)) = fw_addr (w_fwd v)" for d ss v
    by (induction ss arbitrary: v) (simp_all add: run_branch round)
  show ?thesis
    by (simp add: watch_turn_def watch_paused_def run_branch get save probe exit portal_scout_def rounds take_kick_def
        split: option.split)
qed

text \<open>
  C12. A power loss while a pause is being entered or is in force does not cost the protections:
  whatever part of the relaxing commands had been carried out and committed, the first turn of
  the watch after the deadline, in a new process on the booted router, removes the pause and
  brings back the kill switch (in the running firewall too) and encrypted DNS, if they were on
  when the pause was recorded.
\<close>

theorem power_loss_restores:
  fixes E :: "'d env" and w v :: "'d world" and view :: "'d \<Rightarrow> router" and url :: string and d :: router and wk :: "wake \<times> bool list"
  defines "u \<equiv> final (enter_record E url) w" and "v' \<equiv> final (watch_turn E wk) v"
  assumes "portal_env E" "reliable_tools (run_cmd E) view" "flush_harmless E view"
    "stored_pause E (w_db w) = None" "spec_ok (server_spec (fw_addr (w_fwd w)))"
    "w_db v = w_db u" "view (w_dev v) = booted d" "ready (booted d)" "fw_addr (w_fwd v) = fw_addr (w_fwd w)"
    "clock E (w_n u) + portalWindow < clock E (Suc (w_n v))"
  shows "stored_pause E (w_db v') = None
    \<and> (result (kill_switch E) w = Some True \<longrightarrow> result (kill_switch E) v' = Some True
        \<and> no_direct (rt_live (view (w_dev v')) ''firewall''))
    \<and> (result (dns_enabled E) w = Some True \<longrightarrow> result (dns_enabled E) v' = Some True)"
proof -
  note tools = assms(4)
  note ks = reliable_tools.ks_query [OF tools refl] and dn = reliable_tools.dns_query [OF tools refl]
  let ?k = "final (kill_switch E) (w\<lparr>w_n := Suc (w_n w)\<rparr>)" and ?spec = "server_spec (fw_addr (w_fwd w))"
  obtain r where r: "stored_pause E (w_db u) = Some r" "pr_savedKS r = (result (kill_switch E) w = Some True)"
    "pr_savedDNS r = (result (dns_enabled E) ?k = Some True)"
    unfolding u_def by (rule enter_record_fresh [OF assms(3,6)])
  have k: "view (w_dev ?k) = view (w_dev w)" "w_fwd ?k = w_fwd w" by (simp_all add: ks) (simp add: kill_switch_def)
  have "result (dns_enabled E) ?k = result (dns_enabled E) w"
    using dn(1) [of ?k] dn(1) [of w] assms(7) by (simp add: k)
  then have saved: "pr_savedDNS r = (result (dns_enabled E) w = Some True)" using r(3) by simp
  obtain r' n where "stored_pause E (w_db u) = Some r'" "n < w_n u" "pr_deadline r' = clock E n + portalWindow"
  proof -
    have "pause_fits E (w_db w)" by (simp add: pause_fits_def assms(6))
    from enter_stores [OF portal_envD(1-3) [OF assms(3)] this, of url] that show thesis unfolding u_def by metis
  qed
  moreover have "clock E n \<le> clock E (w_n u)" if "n < w_n u" for n
    by (rule clock_later [OF portal_envD(4) [OF assms(3)]]) (use that in simp)
  ultimately have "pr_deadline r \<le> clock E (w_n u) + portalWindow" using r(1) by auto
  then have "pr_deadline r < clock E (Suc (w_n v))" using assms(12) by linarith
  moreover have "stored_pause E (w_db v) = Some r" using r(1) assms(8) by simp
  ultimately obtain x where x: "stored_pause E (w_db v') = None" "w_dev x = w_dev v" "w_fwd x = w_fwd v"
    "w_dev v' = w_dev (final (restore E r) x)"
    using turn_ends_pause [OF assms(3), of v r wk] unfolding v'_def by blast
  have pre: "spec_ok (server_spec (fw_addr (w_fwd x)))" "ready (view (w_dev x))"
    using assms(7,9-11) x(2,3) by simp_all
  note y = reliable_tools.restore_posture [OF tools refl assms(5) pre, of r]
  have f: "fw_addr (w_fwd v') = fw_addr (w_fwd w)" using assms(11) by (simp add: v'_def fwd_watch)
  have live: "rt_live (view (w_dev x)) ''firewall'' = rt_work (view (w_dev x)) ''firewall''"
    using assms(9) by (simp add: x(2) booted_def)
  have "no_direct (rt_work (view (w_dev v')) ''firewall'')" "no_direct (rt_live (view (w_dev v')) ''firewall'')" if "pr_savedKS r"
    using y(1,2) that live by (simp_all add: x(4))
  moreover have "dns_points_at ?spec (rt_work (view (w_dev v')) ''dhcp'')" if "pr_savedDNS r"
    using y(3) that by (simp add: x(3,4) assms(11))
  moreover have "result (dns_enabled E) v' = Some (dns_points_at ?spec (rt_work (view (w_dev v')) ''dhcp''))"
    using dn(1) [of v'] assms(7) by (simp add: f)
  ultimately show ?thesis using x(1) r(2) saved ks(1) [of v'] by simp
qed

text \<open>The example: the power fails once the direct forwarding is committed, and comes back an hour later.\<close>

lemma enter_record_n:
  assumes "no_faults E" "\<And>x. \<exists>s. json_portal E x = Some s" "stored_pause E (w_db w) = None"
  shows "w_n (final (enter_record E url) w) = w_n w + 4"
proof -
  have g: "result (portal_get E) w = None" "w_n (final (portal_get E) w) = Suc (w_n w)"
    using portal_get_plain(1) [OF assms(1)] assms(3) by (simp_all add: portal_get_run(2))
  have s: "w_n (final (save_portal_record E x) v) = Suc (w_n v)" for x v
    using put_config_run(2) [OF assms(1) portal_key] assms(2) [of x] by (auto simp: save_portal_record_def)
  have f: "w_n (final (fresh_record E) v) = Suc (w_n v)" for v
    by (simp add: fresh_record_def kill_switch_def dns_enabled_def)
  show ?thesis by (simp add: enter_record_def g s f Let_def)
qed

definition after_power_loss :: "router world" where
  "after_power_loss = (sample_world (booted (sample_router True)))\<lparr>w_n := 5000,
     w_db := w_db (final (enter_record router_env []) (sample_world closed_router))\<rparr>"

theorem power_loss_restores_witness:
  "result (kill_switch router_env) after_power_loss = Some False
   \<and> result (kill_switch router_env) (final (watch_turn router_env (TimerFired, [])) after_power_loss) = Some True
   \<and> no_direct (rt_live (w_dev (final (watch_turn router_env (TimerFired, [])) after_power_loss)) ''firewall'')"
proof -
  let ?w = "sample_world closed_router" and ?v = after_power_loss
  let ?u = "final (enter_record router_env []) ?w"
  note e = closed_sample(1) and s = closed_sample(2)
  have f: "flush_harmless router_env (\<lambda>r. r)" by (simp add: flush_harmless_def)
  have k: "result (kill_switch router_env) ?w = Some True" "result (kill_switch router_env) ?v = Some False"
    using closed_sample(4) reliable_tools.ks_query(1) [OF router_env_tools(2) refl, of ?v] direct_lan_wan
    by (simp_all add: sample_world_def no_direct_def after_power_loss_def booted_def sample_router_def sample_packages_def)
  have v: "w_db ?v = w_db ?u" "w_dev ?v = booted (sample_router True)" "fw_addr (w_fwd ?v) = fw_addr (w_fwd ?w)"
    by (simp_all add: after_power_loss_def) (simp_all add: sample_world_def)
  have r: "ready (booted (sample_router True))"
    by (simp add: booted_def ready_def reloads_dns_def sample_router_def sample_packages_def)
  have "\<exists>t. json_portal router_env x = Some t" for x by (simp add: router_env_def sample_env_def)
  then have "w_n ?u = 4"
    using enter_record_n [OF portal_envD(1) [OF e] _ sample_unpaused] by (simp add: sample_world_def)
  then have "clock router_env (w_n ?u) + portalWindow < clock router_env (Suc (w_n ?v))"
    by (simp add: router_env_def sample_env_def after_power_loss_def portalWindow_def minute_def second_def)
  from power_loss_restores [OF e router_env_tools(2) f sample_unpaused s v(1,2) r v(3) this] k show ?thesis by blast
qed

end
