(* ===== verification/Http_Serve.thy ===== *)
theory Http_Serve
  imports Api
begin

text \<open>
  The routing of \<open>internal/httpapi/api.go\<close>: a raw request (method, path as sent, cookies, body)
  goes through the root multiplexer to the API's, to the CA download or to the static files.
  The multiplexers are those of \<open>net/http\<close>, modelled as far as the two route tables use them:
  literal segments compared after percent-decoding, \<open>GET\<close> patterns that also serve \<open>HEAD\<close>, the
  redirect to the cleaned path, and 405 apart from 404.
\<close>

section \<open>Requests\<close>

text \<open>The views of a body: what \<open>encoding/json\<close> makes of it for each request type of the handlers.\<close>

record bodies =
  bo_register :: "register_req option"
  bo_login :: "login_req option"
  bo_string :: "string \<Rightarrow> string option"
  bo_bool :: "string \<Rightarrow> bool option"
  bo_wifi :: "(string \<times> string) option"
  bo_upload :: upload

record request =
  rq_method :: string
  rq_path :: string
  rq_cookies :: "(string \<times> string) list"
  rq_body :: bodies

definition sessionCookie :: string where "sessionCookie = ''mistui_session''"

definition session_token :: "request \<Rightarrow> string" where
  "session_token r = (case map_of (rq_cookies r) sessionCookie of Some v \<Rightarrow> v | None \<Rightarrow> [])"

section \<open>Paths\<close>

text \<open>\<open>path.Clean\<close> of a rooted path, by segments: the reversed segments kept so far.\<close>

fun clean_segments :: "string list \<Rightarrow> string list \<Rightarrow> string list" where
  "clean_segments kept [] = rev kept"
| "clean_segments kept (s # ss) =
     (if s = [] \<or> s = ''.'' then clean_segments kept ss
      else if s = ''..'' then clean_segments (tl kept) ss
      else clean_segments (s # kept) ss)"

definition clean_path :: "string \<Rightarrow> string" where
  "clean_path p =
     (if p = [] then ''/''
      else
        (let rooted = (if hd p = CHR ''/'' then p else CHR ''/'' # p);
             np = CHR ''/'' # join_with CHR ''/'' (clean_segments [] (split_on CHR ''/'' (tl rooted))) in
         if last p = CHR ''/'' \<and> np \<noteq> ''/'' then np @ ''/'' else np))"

text \<open>\<open>url.PathUnescape\<close> of one segment; a segment that is not well escaped stands for itself.\<close>

fun unescape :: "string \<Rightarrow> string option" where
  "unescape [] = Some []"
| "unescape (c # s) =
     (if c = CHR ''%'' then
        (case s of
           a # b # r \<Rightarrow>
             (case (hex_val a, hex_val b) of
                (Some x, Some y) \<Rightarrow> map_option (\<lambda>u. char_of (x * 16 + y) # u) (unescape r)
              | _ \<Rightarrow> None)
         | _ \<Rightarrow> None)
      else map_option (\<lambda>u. c # u) (unescape s))"

definition segment :: "string \<Rightarrow> string" where
  "segment s = (case unescape s of Some u \<Rightarrow> u | None \<Rightarrow> s)"

definition segments :: "string \<Rightarrow> string list" where
  "segments p = map segment (split_on CHR ''/'' (tl p))"

section \<open>The route table\<close>

datatype gate = Open | Session | StepUp

type_synonym route = "(string \<times> string) \<times> gate \<times> (bodies \<Rightarrow> endpoint)"

definition routes :: "route list" where
  "routes =
     [((''GET'', ''/api/health''), Open, \<lambda>b. Health),
      ((''GET'', ''/api/session''), Open, \<lambda>b. SessionState),
      ((''POST'', ''/api/register/begin''), Open, \<lambda>b. RegisterBegin),
      ((''POST'', ''/api/register/finish''), Open, \<lambda>b. RegisterFinish (bo_register b)),
      ((''POST'', ''/api/login/begin''), Open, \<lambda>b. LoginBegin),
      ((''POST'', ''/api/login/finish''), Open, \<lambda>b. LoginFinish (bo_login b)),
      ((''POST'', ''/api/login/recovery''), Open, \<lambda>b. LoginRecovery (bo_string b ''code'')),
      ((''POST'', ''/api/logout''), Open, \<lambda>b. Logout),
      ((''POST'', ''/api/stepup/begin''), Session, \<lambda>b. StepUpBegin),
      ((''POST'', ''/api/stepup/finish''), Session, \<lambda>b. StepUpFinish (bo_login b)),
      ((''POST'', ''/api/recovery/regenerate''), StepUp, \<lambda>b. RecoveryRegenerate),
      ((''POST'', ''/api/vpn/import''), Session, \<lambda>b. VpnImport (bo_string b ''config'')),
      ((''GET'', ''/api/vpn/config''), Session, \<lambda>b. VpnConfig),
      ((''POST'', ''/api/vpn/up''), Session, \<lambda>b. VpnUp),
      ((''POST'', ''/api/vpn/down''), Session, \<lambda>b. VpnDown),
      ((''GET'', ''/api/vpn/status''), Session, \<lambda>b. VpnStatus),
      ((''GET'', ''/api/vpn/killswitch''), Session, \<lambda>b. KillSwitchGet),
      ((''POST'', ''/api/vpn/killswitch''), Session, \<lambda>b. KillSwitchSet (bo_bool b ''enabled'')),
      ((''GET'', ''/api/wifi/status''), Session, \<lambda>b. WifiStatus),
      ((''POST'', ''/api/wifi/scan''), Session, \<lambda>b. WifiScan),
      ((''POST'', ''/api/wifi/ap''), Session, \<lambda>b. WifiAp (bo_wifi b)),
      ((''POST'', ''/api/wifi/uplink''), Session, \<lambda>b. WifiUplink (bo_wifi b)),
      ((''GET'', ''/api/net/portal''), Session, \<lambda>b. NetPortal),
      ((''POST'', ''/api/net/portal-mode''), Session, \<lambda>b. NetPortalMode (bo_bool b ''active'')),
      ((''GET'', ''/api/dns''), Session, \<lambda>b. DnsGet),
      ((''POST'', ''/api/dns''), Session, \<lambda>b. DnsSet (bo_bool b ''enabled'')),
      ((''POST'', ''/api/dns/provider''), Session, \<lambda>b. DnsProvider (bo_string b ''provider'')),
      ((''GET'', ''/api/privacy/mac-schedule''), Session, \<lambda>b. MacScheduleGet),
      ((''POST'', ''/api/privacy/mac-schedule''), Session, \<lambda>b. MacScheduleSet (bo_string b ''mode'')),
      ((''GET'', ''/api/privacy/mac-profile''), Session, \<lambda>b. MacProfileGet),
      ((''POST'', ''/api/privacy/mac-profile''), Session, \<lambda>b. MacProfileSet (bo_string b ''profile'')),
      ((''POST'', ''/api/privacy/roll-mac''), Session, \<lambda>b. RollMac),
      ((''GET'', ''/api/maintenance/board''), Session, \<lambda>b. MaintBoard),
      ((''POST'', ''/api/maintenance/firmware''), Session, \<lambda>b. FirmwareUpload (bo_upload b)),
      ((''POST'', ''/api/maintenance/firmware/flash''), StepUp, \<lambda>b. FirmwareFlash),
      ((''POST'', ''/api/maintenance/factory-reset''), StepUp, \<lambda>b. FactoryReset)]"

text \<open>\<open>requireSession\<close> and \<open>requireStepUp\<close> around a handler.\<close>

definition gated :: "'d env \<Rightarrow> string \<Rightarrow> gate \<Rightarrow> ('d world, response) state \<Rightarrow> ('d world, response) state" where
  "gated E tok g h = (case g of
     Open \<Rightarrow> h
   | Session \<Rightarrow> require_session E tok h
   | StepUp \<Rightarrow> require_session E tok (require_step_up E tok h))"

section \<open>Serving\<close>

datatype reply = Api response | NotFound | MethodNotAllowed | RedirectTo string | CaFile string | Static string

definition method_serves :: "string \<Rightarrow> string \<Rightarrow> bool" where
  "method_serves pattern m \<longleftrightarrow> m = pattern \<or> pattern = ''GET'' \<and> m = ''HEAD''"

definition api_route :: "string \<Rightarrow> string \<Rightarrow> route option" where
  "api_route m p = find (\<lambda>r. method_serves (fst (fst r)) m \<and> segments (snd (fst r)) = segments p) routes"

definition serve_api :: "'d env \<Rightarrow> (string \<Rightarrow> string) \<Rightarrow> request \<Rightarrow> ('d world, reply) state" where
  "serve_api E why r =
     (case api_route (rq_method r) (rq_path r) of
        Some (_, g, mk) \<Rightarrow> do {
          resp \<leftarrow> gated E (session_token r) g (handler E why (session_token r) (mk (rq_body r)));
          ret (Api resp) }
      | None \<Rightarrow>
          (if \<exists>t \<in> set routes. segments (snd (fst t)) = segments (rq_path r) then ret MethodNotAllowed
           else ret NotFound))"

text \<open>
  The root: a path that is not clean is redirected (\<open>CONNECT\<close> apart), and so is \<open>/api\<close> to the
  subtree; the CA download exists when TLS is on; everything else is a static file.
\<close>

definition serve_root :: "'d env \<Rightarrow> (string \<Rightarrow> string) \<Rightarrow> string \<Rightarrow> request \<Rightarrow> ('d world, reply) state" where
  "serve_root E why caPath r =
     (let path = (if rq_method r = ''CONNECT'' then rq_path r else clean_path (rq_path r)) in
      if segments path = [''api''] then ret (RedirectTo (path @ ''/''))
      else if path \<noteq> rq_path r then ret (RedirectTo path)
      else if hd (segments path) = ''api'' then serve_api E why r
      else if caPath \<noteq> [] \<and> method_serves ''GET'' (rq_method r) \<and> segments path = [''ca.pem''] then ret (CaFile caPath)
      else ret (Static path))"

section \<open>The table and the gates of the endpoints\<close>

lemma routes_gates:
  "(k, g, mk) \<in> set routes \<Longrightarrow>
   g = (if open_route (mk b) then Open else if step_up_route (mk b) then StepUp else Session)"
  unfolding routes_def list.set by (elim insertE emptyE; simp)

lemma find_member: "find P xs = Some x \<Longrightarrow> x \<in> set xs \<and> P x"
  by (induction xs) (auto split: if_splits)

lemma gated_handle:
  assumes "(k, g, mk) \<in> set routes"
  shows "gated E tok g (handler E why tok (mk b)) = handle E why tok (mk b)"
  using routes_gates [OF assms, of b] by (simp add: gated_def handle_def)

text \<open>What a request does to the state is what its endpoint does, and nothing without a route.\<close>

definition takes :: "route \<Rightarrow> request \<Rightarrow> bool" where
  "takes t r \<longleftrightarrow> t \<in> set routes \<and> method_serves (fst (fst t)) (rq_method r) \<and> segments (snd (fst t)) = segments (rq_path r)"

lemma serve_api_final:
  "final (serve_api E why r) w = w \<or>
   (\<exists>k g mk. takes (k, g, mk) r \<and> final (serve_api E why r) w = final (handle E why (session_token r) (mk (rq_body r))) w)"
proof (cases "api_route (rq_method r) (rq_path r)")
  case None
  then show ?thesis by (simp add: serve_api_def run_branch)
next
  case (Some t)
  obtain k g mk where t: "t = (k, g, mk)" by (cases t) auto
  with find_member [OF Some [unfolded api_route_def]] have "takes (k, g, mk) r" by (simp add: takes_def)
  moreover have "final (serve_api E why r) w = final (handle E why (session_token r) (mk (rq_body r))) w"
    using Some t gated_handle [of k g mk E "session_token r" why "rq_body r"] \<open>takes (k, g, mk) r\<close> by (simp add: serve_api_def takes_def)
  ultimately show ?thesis by blast
qed

lemma serve_final:
  assumes "final (serve_root E why ca r) w \<noteq> w"
  obtains k g mk where "takes (k, g, mk) r"
    "final (serve_root E why ca r) w = final (handle E why (session_token r) (mk (rq_body r))) w"
proof -
  have "final (serve_root E why ca r) w = final (serve_api E why r) w"
    using assms by (auto simp: serve_root_def Let_def run_branch split: if_splits)
  with assms serve_api_final that show thesis by metis
qed

end
