(* ===== verification/Serve_Properties.thy ===== *)
theory Serve_Properties
  imports Http_Serve Api_Properties
begin

text \<open>
  The API seen from the wire: whatever method, path spelling, cookies and body a request has, the
  device changes only behind the session gate, and a request without a live session gets 401.
\<close>

section \<open>Who may change the device\<close>

text \<open>
  C1. The device changes only for a live session: a request, whatever its method and however its
  path is spelled, that changes the device was taken by a route behind the session gate, with a
  cookie whose session is stored and within both limits, and on the step-up routes also with an
  unexpired step-up credit of that session.
\<close>

theorem request_needs_session:
  assumes "w_dev (final (serve_root E why ca r) w) \<noteq> w_dev w"
  shows "\<exists>k g mk. takes (k, g, mk) r \<and> g \<noteq> Open \<and> session_live E (session_token r) (clock E (Suc (w_n w))) (w_db w)
    \<and> (g = StepUp \<longrightarrow> (\<exists>e n. w_stepups w (session_token r) = Some e \<and> n > w_n w \<and> clock E n < e))"
proof -
  have "final (serve_root E why ca r) w \<noteq> w" using assms by auto
  then obtain k g mk where t: "takes (k, g, mk) r"
    "final (serve_root E why ca r) w = final (handle E why (session_token r) (mk (rq_body r))) w"
    by (rule serve_final)
  have "w_dev (final (handle E why (session_token r) (mk (rq_body r))) w) \<noteq> w_dev w" using assms t(2) by simp
  from device_needs_session [OF this] routes_gates [of k g mk "rq_body r"] t(1)
  show ?thesis by (intro exI [of _ k] exI [of _ g] exI [of _ mk]) (auto simp: takes_def split: if_splits)
qed

text \<open>The example: a request with a percent-encoded letter in its path.\<close>

definition plain_body :: bodies where
  "plain_body = \<lparr>bo_register = None, bo_login = None, bo_string = (\<lambda>k. None), bo_bool = (\<lambda>k. None),
     bo_wifi = None, bo_upload = \<lparr>up_bytes = [], up_cut = False\<rparr>\<rparr>"

definition up_request :: "string \<Rightarrow> request" where
  "up_request tok = \<lparr>rq_method = ''POST'', rq_path = ''/api/vpn/%75p'', rq_cookies = [(sessionCookie, tok)],
     rq_body = plain_body\<rparr>"

lemma up_route:
  "api_route ''POST'' ''/api/vpn/%75p'' = Some ((''POST'', ''/api/vpn/up''), Session, \<lambda>b. VpnUp)"
  "clean_path ''/api/vpn/%75p'' = ''/api/vpn/%75p''" "segments ''/api/vpn/%75p'' = [''api'', ''vpn'', ''up'']"
proof -
  show s: "segments ''/api/vpn/%75p'' = [''api'', ''vpn'', ''up'']" by code_simp
  have "segments ''/api/health'' \<noteq> [''api'', ''vpn'', ''up'']" by code_simp
  show "clean_path ''/api/vpn/%75p'' = ''/api/vpn/%75p''" by code_simp
  show "api_route ''POST'' ''/api/vpn/%75p'' = Some ((''POST'', ''/api/vpn/up''), Session, \<lambda>b. VpnUp)"
    unfolding api_route_def s routes_def by (simp add: method_serves_def segments_def segment_def hex_val_def)
qed

lemma up_serves:
  "serve_root E why ca (up_request tok) =
     do { resp \<leftarrow> require_session E tok (vpn_up_handler E); ret (Api resp) }"
  by (simp add: serve_root_def serve_api_def up_request_def up_route session_token_def gated_def handler_def)

theorem request_needs_session_witness:
  "w_dev (final (serve_root count_env id [] (up_request ''tok'')) stepped_up) \<noteq> w_dev stepped_up
   \<and> session_live count_env ''tok'' (clock count_env (Suc (w_n stepped_up))) (w_db stepped_up)"
proof -
  have d: "w_dev (final (serve_root count_env id [] (up_request ''tok'')) stepped_up) \<noteq> w_dev stepped_up"
    using count_up by (simp add: up_serves handle_def handler_def)
  have "session_token (up_request ''tok'') = ''tok''" by (simp add: session_token_def up_request_def)
  with d request_needs_session [OF d] show ?thesis by auto
qed

section \<open>Who gets 401\<close>

lemma invalid_session:
  assumes "\<not> session_live E tok (clock E (Suc (w_n w))) (w_db w)"
  shows "\<not> result (session_valid E tok True) w"
    "final (session_valid E tok True) w = w\<lparr>w_n := w_n (final (session_valid E tok True) w),
       w_db := (w_db w)\<lparr>db_sessions := db_sessions (w_db (final (session_valid E tok True) w))\<rparr>\<rparr>"
proof -
  show r: "\<not> result (session_valid E tok True) w" using assms by (simp add: session_valid_result)
  obtain n d where "final (session_valid E tok True) w = w\<lparr>w_n := n, w_db := d\<rparr>"
    "d = w_db w \<or> d = session_delete tok (w_db w)"
  proof -
    have "\<exists>n d. final (session_valid E tok True) w = w\<lparr>w_n := n, w_db := d\<rparr> \<and> (d = w_db w \<or> d = session_delete tok (w_db w))"
    proof (cases "tok = [] \<or> io_fault E (w_n w) \<or> session_look E tok (w_db w) = None")
      case True
      then show ?thesis
        by (intro exI [of _ "w_n (final (session_valid E tok True) w)"] exI [of _ "w_db w"])
          (auto simp: session_valid_def session_def db_view_def run_branch)
    next
      case False
      then obtain i l where l: "session_look E tok (w_db w) = Some (i, l)" "tok \<noteq> []" "\<not> io_fault E (w_n w)" by auto
      let ?n = "Suc (w_n w)"
      have x: "l + sessionIdle < clock E ?n \<or> i + sessionAbsolute < clock E ?n"
        using assms l(1,2) by (auto simp: session_live_def live_at_def)
      have "final (session_valid E tok True) w
          = w\<lparr>w_n := Suc (Suc ?n), w_db := commit (io_fault E (Suc ?n)) (\<lambda>d. Some (session_delete tok d)) (w_db w)\<rparr>"
        using l x by (auto simp: session_valid_def session_def delete_session_def)
      then show ?thesis
        by (intro exI [of _ "Suc (Suc ?n)"] exI [of _ "commit (io_fault E (Suc ?n)) (\<lambda>d. Some (session_delete tok d)) (w_db w)"])
          (simp add: commit_def)
    qed
    then show thesis using that by blast
  qed
  then show "final (session_valid E tok True) w = w\<lparr>w_n := w_n (final (session_valid E tok True) w),
       w_db := (w_db w)\<lparr>db_sessions := db_sessions (w_db (final (session_valid E tok True) w))\<rparr>\<rparr>"
    by (auto simp: session_delete_def)
qed



end
