(* ===== verification/Dns_Server.thy ===== *)
theory Dns_Server
  imports Dns_Forwarder Sample_Env "HOL-Library.Multiset"
begin

text \<open>
  \<open>internal/dns/forwarder.go\<close>, the serving side: building the forwarder, binding its two
  listeners, the UDP loop with its bounded workers, the TCP accept loop and the address the
  forwarder's own resolver dials.  The UDP loop is a step relation: the reader, up to 32
  workers, and the rest of the daemon interleave.
\<close>

section \<open>Building and binding\<close>

definition ListenAddr :: string where "ListenAddr = ''127.0.0.1:5335''"

definition new_forwarder :: "string \<Rightarrow> forwarder" where
  "new_forwarder addr =
     \<lparr>fw_addr = addr, fw_url = [], fw_provider = DefaultProvider, fw_queries = 0, fw_failures = 0,
      fw_lastOK = 0, fw_lastErr = None, fw_idle = 0\<rparr>"

definition provider_key :: "forwarder \<Rightarrow> string" where
  "provider_key f = fw_provider f"

record stats =
  st_queries :: "64 word"
  st_failures :: "64 word"
  st_lastOK :: int
  st_lastError :: string

definition forwarder_stats :: "forwarder \<Rightarrow> stats" where
  "forwarder_stats f =
     \<lparr>st_queries = fw_queries f, st_failures = fw_failures f, st_lastOK = fw_lastOK f,
      st_lastError = (case fw_lastErr f of None \<Rightarrow> [] | Some e \<Rightarrow> e)\<rparr>"

text \<open>
  The two listeners with the local addresses the system gave them, and the sockets that are open
  (network and address).  \<open>sys\<close> is the system's answer to a request for one.
\<close>

record sockets =
  sk_pc :: "string option"
  sk_ln :: "string option"
  sk_open :: "(string \<times> string) list"

definition fwd_listen :: "(string \<Rightarrow> string \<Rightarrow> err + string) \<Rightarrow> string \<Rightarrow> sockets \<Rightarrow> err option \<times> sockets" where
  "fwd_listen sys addr s =
     (case sys ''udp'' addr of
        Inl e \<Rightarrow> (Some e, s)
      | Inr pc \<Rightarrow>
         (let s1 = s\<lparr>sk_open := (''udp'', pc) # sk_open s\<rparr> in
          case sys ''tcp'' addr of
            Inl e \<Rightarrow> (Some e, s1\<lparr>sk_open := remove1 (''udp'', pc) (sk_open s1)\<rparr>)
          | Inr ln \<Rightarrow> (None, s1\<lparr>sk_open := (''tcp'', ln) # sk_open s1, sk_pc := Some pc, sk_ln := Some ln\<rparr>)))"

definition fwd_addr :: "string \<Rightarrow> sockets \<Rightarrow> string" where
  "fwd_addr addr s = (case sk_pc s of Some a \<Rightarrow> a | None \<Rightarrow> addr)"

text \<open>The address the resolver of \<open>LookupHost\<close> dials, whatever name server it was going to ask.\<close>

definition lookup_dial :: "string \<Rightarrow> sockets \<Rightarrow> string \<Rightarrow> string \<Rightarrow> string" where
  "lookup_dial addr s network asked =
     (case sk_ln s of
        Some ln \<Rightarrow> if network = ''tcp'' then ln else fwd_addr addr s
      | None \<Rightarrow> fwd_addr addr s)"

text \<open>A failed start leaves no socket open; after a successful one lookups stay on the two listeners.\<close>

lemma listen_all_or_nothing:
  "fwd_listen sys addr s = (Some e, t) \<Longrightarrow> t = s"
  "fwd_listen sys addr s = (None, t) \<Longrightarrow> \<exists>pc ln. sys ''udp'' addr = Inr pc \<and> sys ''tcp'' addr = Inr ln
     \<and> sk_open t = (''tcp'', ln) # (''udp'', pc) # sk_open s
     \<and> lookup_dial addr t network asked = (if network = ''tcp'' then ln else pc)"
  by (auto simp: fwd_listen_def Let_def lookup_dial_def fwd_addr_def split: sum.splits)

section \<open>The TCP accept loop\<close>

text \<open>What one \<open>Accept\<close> returns: a connection with the input it will deliver, or an error, with
  whether the context is done or the listener closed by then.\<close>

datatype accepted = Accepted bytes | AcceptError bool

fun serve_tcp :: "accepted list \<Rightarrow> bytes list" where
  "serve_tcp [] = []"
| "serve_tcp (Accepted inp # as) = inp # serve_tcp as"
| "serve_tcp (AcceptError done # as) = (if done then [] else serve_tcp as)"

section \<open>The UDP loop\<close>

definition max_workers :: nat where "max_workers = 32"

text \<open>
  The reader waits for a datagram, holds one while all slots are taken, or has returned.  The
  last three fields are history: every datagram read, every query handled with its answer, and
  every answer that went out.
\<close>

datatype reader = Reading | Holding bytes string | Returned

record 'd udp =
  ud_world :: "'d world"
  ud_reader :: reader
  ud_busy :: "(bytes \<times> string) multiset"
  ud_cancelled :: bool
  ud_closed :: bool
  ud_read :: "(bytes \<times> string) multiset"
  ud_done :: "(bytes \<times> string \<times> bytes option) multiset"
  ud_sent :: "(bytes \<times> string) multiset"

text \<open>
  A datagram longer than the buffer is cut to it.  Shutdown is two steps: the context is done,
  then the goroutine of \<open>Serve\<close> closes the sockets; a read that fails in between ends the loop too.
\<close>

inductive udp_step :: "'d env \<Rightarrow> 'd udp \<Rightarrow> 'd udp \<Rightarrow> bool" for E where
  receive: "ud_reader s = Reading \<Longrightarrow> \<not> ud_closed s \<Longrightarrow> q = take maxMsg datagram \<Longrightarrow>
     udp_step E s (s\<lparr>ud_reader := Holding q a, ud_read := ud_read s + {#(q, a)#}\<rparr>)"
| read_error: "ud_reader s = Reading \<Longrightarrow> \<not> ud_closed s \<Longrightarrow> \<not> ud_cancelled s \<Longrightarrow> udp_step E s s"
| return: "ud_reader s = Reading \<Longrightarrow> ud_closed s \<or> ud_cancelled s \<Longrightarrow> udp_step E s (s\<lparr>ud_reader := Returned\<rparr>)"
| acquire: "ud_reader s = Holding q a \<Longrightarrow> size (ud_busy s) < max_workers \<Longrightarrow>
     udp_step E s (s\<lparr>ud_reader := Reading, ud_busy := ud_busy s + {#(q, a)#}\<rparr>)"
| answer: "(q, a) \<in># ud_busy s \<Longrightarrow> r = result (dns_handle E q) (ud_world s) \<Longrightarrow>
     out = (case r of Some m \<Rightarrow> if written \<and> \<not> ud_closed s then {#(m, a)#} else {#} | None \<Rightarrow> {#}) \<Longrightarrow>
     udp_step E s (s\<lparr>ud_world := final (dns_handle E q) (ud_world s), ud_busy := ud_busy s - {#(q, a)#},
       ud_done := ud_done s + {#(q, a, r)#}, ud_sent := ud_sent s + out\<rparr>)"
| cancel: "udp_step E s (s\<lparr>ud_cancelled := True\<rparr>)"
| close: "ud_cancelled s \<Longrightarrow> udp_step E s (s\<lparr>ud_closed := True\<rparr>)"
| elsewhere: "fw_queries (w_fwd w') = fw_queries (w_fwd (ud_world s)) \<Longrightarrow> udp_step E s (s\<lparr>ud_world := w'\<rparr>)"

inductive_cases udp_stepE: "udp_step E s t"

definition udp_start :: "'d world \<Rightarrow> 'd udp" where
  "udp_start w = \<lparr>ud_world = w, ud_reader = Reading, ud_busy = {#}, ud_cancelled = False, ud_closed = False,
     ud_read = {#}, ud_done = {#}, ud_sent = {#}\<rparr>"

abbreviation udp_runs :: "'d env \<Rightarrow> 'd udp \<Rightarrow> 'd udp \<Rightarrow> bool" where
  "udp_runs E \<equiv> (udp_step E)\<^sup>*\<^sup>*"

fun held :: "reader \<Rightarrow> (bytes \<times> string) multiset" where
  "held (Holding q a) = {#(q, a)#}"
| "held _ = {#}"

definition asked :: "bytes \<times> string \<times> bytes option \<Rightarrow> bytes \<times> string" where
  "asked d = (fst d, fst (snd d))"

definition answers :: "(bytes \<times> string \<times> bytes option) multiset \<Rightarrow> (bytes \<times> string) multiset" where
  "answers D = (\<Sum>d \<in># D. case snd (snd d) of Some m \<Rightarrow> {#(m, fst (snd d))#} | None \<Rightarrow> {#})"

text \<open>The queries that were counted: those with a header.\<close>

definition counted :: "(bytes \<times> string \<times> bytes option) multiset \<Rightarrow> nat" where
  "counted d = size (filter_mset (\<lambda>x. 12 \<le> length (fst x)) d)"

section \<open>The invariant\<close>

lemma dns_handle_queries:
  "fw_queries (w_fwd (final (dns_handle E q) w)) = fw_queries (w_fwd w) + (if length q < 12 then 0 else 1)"
  using keeps_exchange(4) [THEN keepsD, of E q]
  by (simp add: dns_handle_def run_branch split: sum.split)

lemma answers_add: "answers (add_mset (q, a, r) D) = answers D + (case r of Some m \<Rightarrow> {#(m, a)#} | None \<Rightarrow> {#})"
  by (simp add: answers_def split: option.split)

text \<open>What was done for a query: none of its own for a stub, and otherwise an answer of the handler.\<close>

definition handled :: "'d env \<Rightarrow> bytes \<times> string \<times> bytes option \<Rightarrow> bool" where
  "handled E d \<longleftrightarrow> length (fst d) \<le> maxMsg \<and> (\<exists>w. snd (snd d) = result (dns_handle E (fst d)) w)"

definition udp_inv :: "'d env \<Rightarrow> 'd world \<Rightarrow> 'd udp \<Rightarrow> bool" where
  "udp_inv E w0 s \<longleftrightarrow>
     size (ud_busy s) \<le> max_workers
   \<and> ud_read s = held (ud_reader s) + ud_busy s + image_mset asked (ud_done s)
   \<and> ud_sent s \<subseteq># answers (ud_done s)
   \<and> (\<forall>d \<in># ud_done s. handled E d) \<and> (\<forall>x \<in># ud_read s. length (fst x) \<le> maxMsg)
   \<and> fw_queries (w_fwd (ud_world s)) = fw_queries (w_fwd w0) + word_of_nat (counted (ud_done s))"

lemma udp_inv_start: "udp_inv E w (udp_start w)"
  by (simp add: udp_inv_def udp_start_def answers_def counted_def)

lemma udp_step_inv:
  assumes "udp_step E s t" "udp_inv E w0 s"
  shows "udp_inv E w0 t"
  using assms(1)
proof cases
  case (receive q datagram a)
  then show ?thesis using assms(2) by (auto simp: udp_inv_def)
next
  case (acquire q a)
  then show ?thesis using assms(2) by (auto simp: udp_inv_def)
next
  case (answer q a r out written)
  have q: "(q, a) \<in># ud_read s" using assms(2) answer(2) by (simp add: udp_inv_def)
  have "out \<subseteq># (case r of Some m \<Rightarrow> {#(m, a)#} | None \<Rightarrow> {#})" using answer(4) by (auto split: option.split)
  moreover have "\<forall>x \<in># ud_read s. length (fst x) \<le> maxMsg" using assms(2) unfolding udp_inv_def by blast
  then have "handled E (q, a, r)" using q answer(3) by (fastforce simp: handled_def)
  moreover have "size (ud_busy s - {#(q, a)#}) \<le> size (ud_busy s)" by (simp add: size_Diff_submset answer(2))
  moreover have "ud_busy s = add_mset (q, a) (ud_busy s - {#(q, a)#})" using answer(2) by simp
  ultimately show ?thesis
    using assms(2) unfolding answer(1) udp_inv_def
    by (simp add: answers_add asked_def counted_def dns_handle_queries subset_mset.add_mono)
qed (use assms(2) in \<open>auto simp: udp_inv_def\<close>)

lemma udp_run_inv: "udp_runs E s t \<Longrightarrow> udp_inv E w0 s \<Longrightarrow> udp_inv E w0 t"
  by (induction rule: rtranclp_induct) (auto intro: udp_step_inv)


section \<open>Shutdown\<close>

text \<open>The steps of the server itself change what the reader does or what is in flight.\<close>

definition udp_view :: "'d udp \<Rightarrow> reader \<times> (bytes \<times> string) multiset" where
  "udp_view s = (ud_reader s, ud_busy s)"

inductive udp_path :: "'d env \<Rightarrow> 'd udp \<Rightarrow> nat \<Rightarrow> 'd udp \<Rightarrow> bool" for E s where
  here: "udp_path E s 0 s"
| beside: "udp_path E s n t \<Longrightarrow> udp_step E t u \<Longrightarrow> udp_view u = udp_view t \<Longrightarrow> udp_path E s n u"
| move: "udp_path E s n t \<Longrightarrow> udp_step E t u \<Longrightarrow> udp_view u \<noteq> udp_view t \<Longrightarrow> udp_path E s (Suc n) u"

fun reader_work :: "reader \<Rightarrow> nat" where
  "reader_work (Holding q a) = 3"
| "reader_work Reading = 1"
| "reader_work Returned = 0"

definition udp_work :: "'d udp \<Rightarrow> nat" where
  "udp_work s = reader_work (ud_reader s) + size (ud_busy s)"

lemma closed_step:
  assumes "udp_step E s t" "ud_closed s"
  shows "ud_closed t \<and> (udp_work t < udp_work s \<or> udp_view t = udp_view s \<and> udp_work t = udp_work s)"
  using assms(1)
proof cases
  case (answer q a r out written)
  have "size (ud_busy s - {#(q, a)#}) < size (ud_busy s)" using answer(2) by (rule size_Diff1_less)
  then show ?thesis using assms(2) by (simp add: answer(1) udp_work_def)
qed (use assms(2) in \<open>simp_all add: udp_work_def udp_view_def\<close>)

lemma busy_moves:
  assumes "ud_busy s \<noteq> {#}"
  shows "\<exists>t. udp_step E s t \<and> udp_view t \<noteq> udp_view s"
proof -
  obtain q a where qa: "(q, a) \<in># ud_busy s" using assms by (metis multiset_nonemptyE surj_pair)
  have "size (ud_busy s - {#(q, a)#}) < size (ud_busy s)" using qa by (rule size_Diff1_less)
  then have "ud_busy s - {#(q, a)#} \<noteq> ud_busy s" by (metis less_irrefl)
  then show ?thesis using udp_step.answer [OF qa refl refl, of E False] by (fastforce simp: udp_view_def)
qed

lemma closed_moves:
  assumes "ud_closed s" "udp_work s \<noteq> 0"
  shows "\<exists>t. udp_step E s t \<and> udp_view t \<noteq> udp_view s"
proof (cases "ud_busy s = {#} \<or> (\<exists>q a. ud_reader s = Holding q a) \<and> size (ud_busy s) < max_workers")
  case True
  show ?thesis
  proof (cases "ud_reader s")
    case Reading
    then show ?thesis using udp_step.return [of s E] assms(1) by (fastforce simp: udp_view_def)
  next
    case (Holding q a)
    then have "size (ud_busy s) < max_workers" using True by (auto simp: max_workers_def)
    then show ?thesis using udp_step.acquire [OF Holding] Holding by (fastforce simp: udp_view_def)
  next
    case Returned
    then show ?thesis using True assms(2) by (simp add: udp_work_def)
  qed
qed (use busy_moves in blast)

lemma closed_path:
  assumes "udp_path E s n t" "ud_closed s"
  shows "ud_closed t \<and> n + udp_work t \<le> udp_work s"
  using assms(1)
proof (induction rule: udp_path.induct)
  case (beside n t u)
  then show ?case using closed_step [OF beside(2)] by (auto simp: udp_work_def udp_view_def)
next
  case (move n t u)
  then show ?case using closed_step [OF move(2)] by auto
qed (simp add: assms(2))

lemma path_runs: "udp_path E s n t \<Longrightarrow> udp_runs E s t"
  by (induction rule: udp_path.induct) auto

text \<open>
  C34. Shutdown drains: once the sockets are closed the server makes at most 35 more moves, as long
  as any is left one is possible, and when none is left the loop has returned and every datagram
  ever read was handled.
\<close>

theorem shutdown_drains:
  assumes "udp_runs E (udp_start w) s" "ud_closed s" "udp_path E s n t"
  shows "n \<le> 35 \<and> (if \<nexists>u. udp_step E t u \<and> udp_view u \<noteq> udp_view t
     then ud_reader t = Returned \<and> ud_busy t = {#} \<and> ud_read t = image_mset asked (ud_done t) else n < 35)"
proof -
  have s: "udp_inv E w s" by (rule udp_run_inv [OF assms(1) udp_inv_start])
  have t: "udp_inv E w t" by (rule udp_run_inv [OF path_runs [OF assms(3)] s])
  have w: "udp_work s \<le> 35"
    using s by (cases "ud_reader s") (simp_all add: udp_inv_def udp_work_def max_workers_def)
  note p = closed_path [OF assms(3,2)]
  show ?thesis
  proof (cases "udp_work t = 0")
    case True
    then have "ud_reader t = Returned" "ud_busy t = {#}" by (auto simp: udp_work_def elim: reader_work.elims)
    moreover have "\<nexists>u. udp_step E t u \<and> udp_view u \<noteq> udp_view t"
      using closed_step p True by (metis not_less_zero)
    ultimately show ?thesis using p w t by (auto simp: udp_inv_def)
  next
    case False
    then have "\<exists>u. udp_step E t u \<and> udp_view u \<noteq> udp_view t" using p by (intro closed_moves) auto
    then show ?thesis using p w False by auto
  qed
qed

section \<open>Examples\<close>

text \<open>One query of twelve bytes is read, handed to a worker and answered; then the socket closes.\<close>

definition sample_query :: bytes where "sample_query = replicate 12 1"

lemma udp_one_query:
  obtains s where "udp_runs idle_env (udp_start (sample_world ())) s" "ud_reader s = Reading" "ud_busy s = {#}" "\<not> ud_closed s"
    "ud_sent s \<noteq> {#}" "size (ud_done s) = 1"
proof -
  let ?q = "sample_query" and ?s0 = "udp_start (sample_world ())" and ?E = idle_env
  let ?s1 = "?s0\<lparr>ud_reader := Holding ?q ''c'', ud_read := {#(?q, ''c'')#}\<rparr>"
  let ?s2 = "?s1\<lparr>ud_reader := Reading, ud_busy := {#(?q, ''c'')#}\<rparr>"
  obtain m where m: "result (dns_handle ?E ?q) (ud_world ?s2) = Some m"
    using dns_handle_answers [of ?E ?q "ud_world ?s2"] by (auto simp: sample_query_def)
  let ?s3 = "?s2\<lparr>ud_world := final (dns_handle ?E ?q) (ud_world ?s2), ud_busy := {#},
    ud_done := {#(?q, ''c'', Some m)#}, ud_sent := {#(m, ''c'')#}\<rparr>"
  have "udp_step ?E ?s0 ?s1"
    using udp_step.receive [of ?s0 ?q ?q ?E "''c''"] by (simp add: udp_start_def sample_query_def maxMsg_def)
  moreover have "udp_step ?E ?s1 ?s2"
    using udp_step.acquire [of ?s1 ?q "''c''" ?E] by (simp add: udp_start_def max_workers_def)
  moreover have "udp_step ?E ?s2 ?s3"
    using udp_step.answer [of ?q "''c''" ?s2 _ ?E _ True, OF _ refl refl] m by (simp add: udp_start_def)
  ultimately have "udp_runs ?E ?s0 ?s3" by (meson converse_rtranclp_into_rtranclp rtranclp.rtrancl_refl)
  then show thesis by (rule that) (simp_all add: udp_start_def)
qed


theorem shutdown_drains_witness:
  "\<exists>s t. ud_sent s \<noteq> {#} \<and> udp_path idle_env s 1 t \<and> ud_read t = image_mset asked (ud_done t)"
proof -
  obtain s where s: "udp_runs idle_env (udp_start (sample_world ())) s" "ud_reader s = Reading" "ud_busy s = {#}" "ud_sent s \<noteq> {#}"
    using udp_one_query by blast
  let ?c = "s\<lparr>ud_cancelled := True\<rparr>"
  let ?s = "?c\<lparr>ud_closed := True\<rparr>" and ?t = "?c\<lparr>ud_closed := True, ud_reader := Returned\<rparr>"
  have "udp_runs idle_env (udp_start (sample_world ())) ?c" using s(1) udp_step.cancel by (rule rtranclp.rtrancl_into_rtrancl)
  moreover have "udp_step idle_env ?c (?c\<lparr>ud_closed := True\<rparr>)" by (rule udp_step.close) simp
  ultimately have c: "udp_runs idle_env (udp_start (sample_world ())) ?s" by (rule rtranclp.rtrancl_into_rtrancl)
  have "udp_step idle_env ?s ?t" using udp_step.return [of ?s idle_env] s(2) by simp
  then have p: "udp_path idle_env ?s (Suc 0) ?t"
    using s(2) by (intro udp_path.move [OF udp_path.here]) (simp_all add: udp_view_def)
  have "udp_work ?t = 0" using s(3) by (simp add: udp_work_def)
  then have "\<nexists>u. udp_step idle_env ?t u \<and> udp_view u \<noteq> udp_view ?t"
    using closed_step [of idle_env ?t] by fastforce
  with shutdown_drains [OF c _ p] s(4) p show ?thesis by (intro exI [of _ ?s] exI [of _ ?t]) auto
qed

end
