(* ===== verification/Daemon.thy ===== *)
theory Daemon
  imports Main_Config Certgen Dns_Server Http_Serve
begin

text \<open>
  \<open>cmd/mistd/main.go\<close> and \<open>store.Open\<close>: the flags, and the start of the daemon up to the point
  where it only waits for a server to fail.  The machine it starts on says what opening the
  database, binding and listening give; a start ends in an exit code or in a running daemon.
\<close>

section \<open>Flags\<close>

record flags =
  fl_addr :: string
  fl_tlsAddr :: string
  fl_tlsDir :: string
  fl_db :: string
  fl_rp :: string
  fl_origins :: string
  fl_dnsListen :: string

definition default_flags :: flags where
  "default_flags =
     \<lparr>fl_addr = [], fl_tlsAddr = '':443'', fl_tlsDir = ''/etc/mistui/tls'', fl_db = ''/etc/mistui/mistui.db'',
      fl_rp = ''mist.lan'', fl_origins = [], fl_dnsListen = ListenAddr\<rparr>"

definition set_flag :: "string \<Rightarrow> string \<Rightarrow> flags \<Rightarrow> flags option" where
  "set_flag name v f =
     (if name = ''addr'' then Some (f\<lparr>fl_addr := v\<rparr>)
      else if name = ''tls-addr'' then Some (f\<lparr>fl_tlsAddr := v\<rparr>)
      else if name = ''tls-dir'' then Some (f\<lparr>fl_tlsDir := v\<rparr>)
      else if name = ''db'' then Some (f\<lparr>fl_db := v\<rparr>)
      else if name = ''rp'' then Some (f\<lparr>fl_rp := v\<rparr>)
      else if name = ''origins'' then Some (f\<lparr>fl_origins := v\<rparr>)
      else if name = ''dns-listen'' then Some (f\<lparr>fl_dnsListen := v\<rparr>)
      else None)"

text \<open>
  \<open>flag.Parse\<close> for string flags: one or two dashes, the value after an equals sign or in the next
  argument; it stops at the first argument that is no flag.  \<open>Inl\<close> is the exit code of an error:
  zero when help is asked for.
\<close>

definition undefined_flag :: "string \<Rightarrow> nat" where
  "undefined_flag name = (if name = ''help'' \<or> name = ''h'' then 0 else 2)"

fun parse_flags :: "string list \<Rightarrow> flags \<Rightarrow> nat + flags" where
  "parse_flags [] f = Inr f"
| "parse_flags (s # rest) f =
     (if length s < 2 \<or> hd s \<noteq> CHR ''-'' \<or> s = ''--'' then Inr f
      else
        (let name = drop (if s ! 1 = CHR ''-'' then 2 else 1) s in
         if name = [] \<or> hd name = CHR ''-'' \<or> hd name = CHR ''='' then Inl 2
         else (case cut CHR ''='' name of
             Some (k, v) \<Rightarrow>
               (case set_flag k v f of None \<Rightarrow> Inl (undefined_flag k) | Some f' \<Rightarrow> parse_flags rest f')
           | None \<Rightarrow>
               (if set_flag name [] f = None then Inl (undefined_flag name)
                else (case rest of
                    [] \<Rightarrow> Inl 2
                  | v # rest' \<Rightarrow>
                     (case set_flag name v f of None \<Rightarrow> Inl 2 | Some f' \<Rightarrow> parse_flags rest' f'))))))"

section \<open>Opening the store\<close>

text \<open>A database file has the buckets that were ever created in it; opening adds the missing ones.\<close>

record db_file =
  df_creds :: "bytes bucket option"
  df_sessions :: "string bucket option"
  df_config :: "string bucket option"

definition create_bucket_if_not_exists :: "'v bucket option \<Rightarrow> 'v bucket" where
  "create_bucket_if_not_exists b = (case b of None \<Rightarrow> [] | Some m \<Rightarrow> m)"

definition store_open :: "bool \<Rightarrow> bool \<Rightarrow> db_file \<Rightarrow> db option \<times> db_file" where
  "store_open opened committed file =
     (if \<not> opened then (None, file)
      else if \<not> committed then (None, file)
      else
        (let d = \<lparr>db_creds = create_bucket_if_not_exists (df_creds file),
                  db_sessions = create_bucket_if_not_exists (df_sessions file),
                  db_config = create_bucket_if_not_exists (df_config file)\<rparr>
         in (Some d, \<lparr>df_creds = Some (db_creds d), df_sessions = Some (db_sessions d), df_config = Some (db_config d)\<rparr>)))"

section \<open>The machine\<close>

record 'd machine =
  mc_env :: "'d env"
  mc_dev :: 'd
  mc_image :: "bytes option"
  mc_opens :: "string \<Rightarrow> bool"
  mc_commits :: "string \<Rightarrow> bool"
  mc_db :: "string \<Rightarrow> db_file"
  mc_pki :: pki
  mc_tls :: "string \<Rightarrow> tls_dir"
  mc_bind :: "string \<Rightarrow> string \<Rightarrow> err + string"
  mc_listens :: "string \<Rightarrow> bool"

datatype task = MacSchedule | PortalWatch | DnsServe

text \<open>A running daemon: its servers (the TLS one with the files it serves from), the CA file
  offered for download, the DNS sockets and the goroutines.\<close>

record 'd daemon =
  da_env :: "'d env"
  da_world :: "'d world"
  da_tls :: "(string \<times> tls_dir) option"
  da_plain :: "string option"
  da_ca :: string
  da_socks :: sockets
  da_tasks :: "task list"

datatype 'd outcome = Exit nat | Running "'d daemon"

definition daemon_env :: "flags \<Rightarrow> 'd machine \<Rightarrow> 'd env" where
  "daemon_env f M = (mc_env M)\<lparr>rp_id := fl_rp f,
     allowed_origins := allowed_origins_of (fl_origins f) (fl_rp f) (fl_tlsAddr f) (fl_addr f)\<rparr>"

text \<open>\<open>httpapi.New\<close>: empty single-use sets, an empty kick channel, no note; then the stored provider.\<close>

definition new_server :: "flags \<Rightarrow> 'd machine \<Rightarrow> db \<Rightarrow> 'd world" where
  "new_server f M d =
     final (restore_provider (daemon_env f M))
       \<lparr>w_n = 0, w_db = d, w_dev = mc_dev M, w_chals = Map.empty, w_stepups = Map.empty, w_note = None,
        w_kick = False, w_fwd = new_forwarder (fl_dnsListen f), w_image = mc_image M\<rparr>"

definition no_sockets :: sockets where
  "no_sockets = \<lparr>sk_pc = None, sk_ln = None, sk_open = []\<rparr>"

text \<open>The key pair as the TLS server loads it.\<close>

definition key_pair_loads :: "pki \<Rightarrow> tls_dir \<Rightarrow> bool" where
  "key_pair_loads P s =
     (case (read_cert P (td_cert s), read_pem P ''EC PRIVATE KEY'' (td_key s)) of
        (Some c, Some der) \<Rightarrow> pk_parse_key P der = Some (ct_pub c)
      | _ \<Rightarrow> False)"

definition server_starts :: "'d machine \<Rightarrow> tls_dir \<Rightarrow> bool \<times> string \<Rightarrow> bool" where
  "server_starts M t l = (mc_listens M (snd l) \<and> (fst l \<longrightarrow> key_pair_loads (mc_pki M) t))"

section \<open>Starting\<close>

text \<open>The TLS material, when TLS is on.\<close>

definition start_tls :: "flags \<Rightarrow> 'd machine \<Rightarrow> bool \<times> tls_dir" where
  "start_tls f M =
     (if fl_tlsAddr f = [] then (True, mc_tls M (fl_tlsDir f))
      else run_state (ensure_material (mc_pki M) (fl_rp f)) (mc_tls M (fl_tlsDir f)))"

text \<open>The part after the material: goroutines, the DNS listeners, the servers.\<close>

definition start_servers :: "flags \<Rightarrow> 'd machine \<Rightarrow> db \<Rightarrow> tls_dir \<Rightarrow> 'd outcome" where
  "start_servers f M d t =
     (let w = new_server f M d;
          (e, socks) = fwd_listen (mc_bind M) (fl_dnsListen f) no_sockets;
          w' = w\<lparr>w_fwd := (w_fwd w)\<lparr>fw_addr := fwd_addr (fl_dnsListen f) socks\<rparr>\<rparr>;
          ls = listeners (fl_tlsAddr f) (fl_addr f)
      in if ls = [] then Exit 1
         else if list_all (server_starts M t) ls then
           Running \<lparr>da_env = daemon_env f M, da_world = w',
             da_tls = (if fl_tlsAddr f = [] then None else Some (fl_tlsAddr f, t)),
             da_plain = (if fl_addr f = [] then None else Some (fl_addr f)),
             da_ca = (if fl_tlsAddr f = [] then [] else fl_tlsDir f @ ''/ca.pem''), da_socks = socks,
             da_tasks = [MacSchedule, PortalWatch] @ (if e = None then [DnsServe] else [])\<rparr>
         else Exit 1)"

definition start :: "flags \<Rightarrow> 'd machine \<Rightarrow> 'd outcome \<times> 'd machine" where
  "start f M =
     (case store_open (mc_opens M (fl_db f)) (mc_commits M (fl_db f)) (mc_db M (fl_db f)) of
        (None, file) \<Rightarrow> (Exit 1, M)
      | (Some d, file) \<Rightarrow>
         (let M1 = M\<lparr>mc_db := (mc_db M)(fl_db f := file)\<rparr>;
              (ok, t) = start_tls f M1;
              M2 = M1\<lparr>mc_tls := (mc_tls M1)(fl_tlsDir f := t)\<rparr>
          in (if ok then start_servers f M2 d t else Exit 1, M2)))"

text \<open>The process: parse the command line, then start.\<close>

definition mistd :: "string list \<Rightarrow> 'd machine \<Rightarrow> 'd outcome \<times> 'd machine" where
  "mistd args M = (case parse_flags args default_flags of Inl code \<Rightarrow> (Exit code, M) | Inr f \<Rightarrow> start f M)"

end
