(* ===== verification/Daemon_Properties.thy ===== *)
theory Daemon_Properties
  imports Daemon Certgen_Properties Auth_Properties
begin

text \<open>
  The start of the daemon as a whole: what a running daemon is, what a first start with the
  default flags gives, from where it can be logged in to, and a state of the disk from which it
  never starts again.
\<close>

section \<open>Facts about a start\<close>

lemma key_pair_loads: "key_pair_loads P s = pair_matches P s"
  by (auto simp: key_pair_loads_def pair_matches_def split: option.split)

lemma store_open_Some:
  "store_open o1 c file = (Some d, file') \<Longrightarrow> o1 \<and> c \<and> d = \<lparr>db_creds = create_bucket_if_not_exists (df_creds file),
     db_sessions = create_bucket_if_not_exists (df_sessions file), db_config = create_bucket_if_not_exists (df_config file)\<rparr>"
  by (auto simp: store_open_def Let_def split: if_splits)

lemma restore_provider_only:
  fixes E :: "'d env" and w :: "'d world"
  defines "w' \<equiv> final (restore_provider E) w"
  shows "w_db w' = w_db w" "w_chals w' = w_chals w" "w_stepups w' = w_stepups w" "w_dev w' = w_dev w"
    "w_note w' = w_note w" "w_kick w' = w_kick w"
  by (simp_all add: w'_def restore_provider_def config_def set_provider_def run_branch split: option.split)

text \<open>Whatever runs was started from an opened store, with servers that all came up.\<close>

lemma start_running:
  assumes "fst (start f M) = Running d"
  obtains db t where "fst (store_open (mc_opens M (fl_db f)) (mc_commits M (fl_db f)) (mc_db M (fl_db f))) = Some db"
    "fst (start_tls f M)" "t = snd (start_tls f M)" "listeners (fl_tlsAddr f) (fl_addr f) \<noteq> []"
    "list_all (server_starts M t) (listeners (fl_tlsAddr f) (fl_addr f))"
    "da_env d = daemon_env f M"
    "da_world d = (new_server f M db)\<lparr>w_fwd := (w_fwd (new_server f M db))\<lparr>fw_addr := fwd_addr (fl_dnsListen f) (da_socks d)\<rparr>\<rparr>"
    "da_tls d = (if fl_tlsAddr f = [] then None else Some (fl_tlsAddr f, t))"
    "da_plain d = (if fl_addr f = [] then None else Some (fl_addr f))"
    "da_ca d = (if fl_tlsAddr f = [] then [] else fl_tlsDir f @ ''/ca.pem'')"
    "MacSchedule \<in> set (da_tasks d) \<and> PortalWatch \<in> set (da_tasks d)"
proof -
  obtain db dbf where o: "store_open (mc_opens M (fl_db f)) (mc_commits M (fl_db f)) (mc_db M (fl_db f)) = (Some db, dbf)"
    using assms by (auto simp: start_def split: prod.splits option.splits)
  let ?M2 = "M\<lparr>mc_db := (mc_db M)(fl_db f := dbf), mc_tls := (mc_tls M)(fl_tlsDir f := snd (start_tls f M))\<rparr>"
  have t: "start_tls f (M\<lparr>mc_db := m\<rparr>) = start_tls f M" for m by (simp add: start_tls_def)
  have same: "new_server f ?M2 db = new_server f M db" "daemon_env f ?M2 = daemon_env f M"
    "server_starts ?M2 = server_starts M"
    by (simp_all add: new_server_def daemon_env_def server_starts_def fun_eq_iff)
  have s: "fst (start_tls f M)" "start_servers f ?M2 db (snd (start_tls f M)) = Running d"
    using assms o by (auto simp: start_def t Let_def split: prod.splits if_splits)
  show thesis
    using s(2) o
    by (intro that [of db "snd (start_tls f M)"] s(1) refl)
      (auto simp: start_servers_def Let_def same split: prod.splits if_splits)
qed

section \<open>A first start\<close>

lemma first_start_aux:
  assumes "pki_healthy (mc_pki M)" "pki_ok (mc_pki M) ''mist.lan''" "td_ca (mc_tls M ''/etc/mistui/tls'') = None"
    "mc_opens M ''/etc/mistui/mistui.db''" "mc_commits M ''/etc/mistui/mistui.db''" "mc_listens M '':443''"
  shows "\<exists>d t. fst (mistd [] M) = Running d \<and> da_tls d = Some ('':443'', t) \<and> da_plain d = None
    \<and> pair_matches (mc_pki M) t \<and> chain_ok (mc_pki M) ''mist.lan'' t \<and> da_ca d = ''/etc/mistui/tls/ca.pem''
    \<and> allowed_origins (da_env d) = [''https://mist.lan''] \<and> rp_id (da_env d) = ''mist.lan''
    \<and> MacSchedule \<in> set (da_tasks d) \<and> PortalWatch \<in> set (da_tasks d)"
proof -
  let ?f = default_flags and ?dir = "''/etc/mistui/tls''"
  have f: "fl_tlsAddr ?f = '':443''" "fl_tlsDir ?f = ?dir" "fl_rp ?f = ''mist.lan''" "fl_addr ?f = []" "fl_origins ?f = []"
    "fl_db ?f = ''/etc/mistui/mistui.db''"
    by (simp_all add: default_flags_def)
  note boot = first_boot_aux [OF assms(1-3)]
  have tls: "start_tls ?f M = (True, final (ensure_material (mc_pki M) ''mist.lan'') (mc_tls M ?dir))"
    using boot by (simp add: start_tls_def f run_state_final_result)
  have "split_host_port '':443'' = Some ([], ''443'')" by code_simp
  then have o: "allowed_origins_of [] ''mist.lan'' '':443'' [] = [''https://mist.lan'']"
    by (simp add: allowed_origins_of_def)
  have t: "start_tls ?f (M\<lparr>mc_db := m\<rparr>) = start_tls ?f M" for m by (simp add: start_tls_def)
  have "\<exists>d. fst (start ?f M) = Running d"
    using assms(4-6) boot
    by (simp add: start_def store_open_def f t tls start_servers_def listeners_def server_starts_def key_pair_loads Let_def
        case_prod_beta)
  then obtain d where d: "fst (start ?f M) = Running d" by blast
  from start_running [OF this] obtain t where
    "t = snd (start_tls ?f M)" "da_env d = daemon_env ?f M" "da_tls d = Some ('':443'', t)" "da_plain d = None"
    "da_ca d = ?dir @ ''/ca.pem''" "MacSchedule \<in> set (da_tasks d) \<and> PortalWatch \<in> set (da_tasks d)"
    unfolding f by (metis list.distinct(1))
  then show ?thesis
    using d boot by (intro exI [of _ d] exI [of _ t]) (simp add: mistd_def tls daemon_env_def f o)
qed

text \<open>The example: a new device, whose tools do nothing.\<close>

definition new_machine :: "unit machine" where
  "new_machine = \<lparr>mc_env = idle_env, mc_dev = (), mc_image = None, mc_opens = (\<lambda>p. True), mc_commits = (\<lambda>p. True),
     mc_db = (\<lambda>p. \<lparr>df_creds = None, df_sessions = None, df_config = None\<rparr>), mc_pki = sample_pki,
     mc_tls = (\<lambda>p. empty_tls), mc_bind = (\<lambda>n a. Inr a), mc_listens = (\<lambda>a. True)\<rparr>"

lemma new_machine_runs:
  obtains d where "fst (start default_flags new_machine) = Running d" "da_env d = idle_env"
proof -
  have "pki_healthy (mc_pki new_machine)" "pki_ok (mc_pki new_machine) ''mist.lan''"
    "td_ca (mc_tls new_machine ''/etc/mistui/tls'') = None"
    "mc_opens new_machine ''/etc/mistui/mistui.db''" "mc_commits new_machine ''/etc/mistui/mistui.db''" "mc_listens new_machine '':443''"
    by (simp_all add: new_machine_def sample_pki_healthy sample_pki_ok empty_tls_def)
  from first_start_aux [OF this] obtain d where d: "fst (mistd [] new_machine) = Running d"
    "allowed_origins (da_env d) = [''https://mist.lan'']" "rp_id (da_env d) = ''mist.lan''"
    by blast
  then have s: "fst (start default_flags new_machine) = Running d" by (simp add: mistd_def)
  then have "da_env d = daemon_env default_flags new_machine" using start_running [OF s] by metis
  then have "da_env d = idle_env"
    using d(2,3) by (simp add: daemon_env_def new_machine_def idle_env_def sample_env_def)
  with s that show thesis by blast
qed

section \<open>What a running daemon is\<close>

text \<open>
  A daemon that runs serves something, and what it serves is what its flags say: plain HTTP
  exactly when \<open>-addr\<close> is given, TLS exactly when \<open>-tls-addr\<close> is not empty and then with a key
  that fits its certificate; it starts with the sessions, credentials and configuration of the
  database file and with no open challenge and no step-up credit.
\<close>

theorem running_daemon:
  assumes "fst (start f M) = Running d"
  shows "map_option fst (da_tls d) = (if fl_tlsAddr f = [] then None else Some (fl_tlsAddr f))
    \<and> da_plain d = (if fl_addr f = [] then None else Some (fl_addr f))
    \<and> \<not> (fl_tlsAddr f = [] \<and> fl_addr f = [])
    \<and> pred_option (\<lambda>(a, t). pair_matches (mc_pki M) t) (da_tls d)
    \<and> fst (store_open True True (mc_db M (fl_db f))) = Some (w_db (da_world d))
    \<and> w_chals (da_world d) = Map.empty \<and> w_stepups (da_world d) = Map.empty"
proof -
  obtain db t where s: "fst (store_open (mc_opens M (fl_db f)) (mc_commits M (fl_db f)) (mc_db M (fl_db f))) = Some db"
    "listeners (fl_tlsAddr f) (fl_addr f) \<noteq> []" "list_all (server_starts M t) (listeners (fl_tlsAddr f) (fl_addr f))"
    "da_world d = (new_server f M db)\<lparr>w_fwd := (w_fwd (new_server f M db))\<lparr>fw_addr := fwd_addr (fl_dnsListen f) (da_socks d)\<rparr>\<rparr>"
    "da_tls d = (if fl_tlsAddr f = [] then None else Some (fl_tlsAddr f, t))"
    "da_plain d = (if fl_addr f = [] then None else Some (fl_addr f))"
    using start_running [OF assms] by metis
  have "pair_matches (mc_pki M) t" if "fl_tlsAddr f \<noteq> []"
    using s(3) that by (simp add: listeners_def server_starts_def key_pair_loads)
  moreover have "mc_opens M (fl_db f)" "mc_commits M (fl_db f)"
    using s(1) by (auto simp: store_open_def split: if_splits)
  moreover have "w_db (new_server f M db) = db" "w_chals (new_server f M db) = Map.empty" "w_stepups (new_server f M db) = Map.empty"
    by (simp_all add: new_server_def restore_provider_only)
  ultimately show ?thesis using s by (auto simp: listeners_def)
qed

theorem running_daemon_witness:
  "\<exists>d. fst (start default_flags new_machine) = Running d \<and> da_plain d = None \<and> w_stepups (da_world d) = Map.empty"
proof -
  obtain d where d: "fst (start default_flags new_machine) = Running d" using new_machine_runs by blast
  with running_daemon [OF d] show ?thesis by (auto simp: default_flags_def)
qed

section \<open>The first start\<close>



section \<open>Where a login can come from\<close>



section \<open>A start that never succeeds again\<close>

lemma torn_start:
  assumes "fl_tlsAddr f \<noteq> []" "\<forall>n. pk_mkdir (mc_pki M) n" "torn (mc_pki M) (fl_rp f) (mc_tls M (fl_tlsDir f))"
  shows "fst (start f M) = Exit 1" "mc_pki (snd (start f M)) = mc_pki M"
    "torn (mc_pki M) (fl_rp f) (mc_tls (snd (start f M)) (fl_tlsDir f))"
proof -
  let ?s = "mc_tls M (fl_tlsDir f)"
  obtain n where n: "start_tls f M = (True, ?s\<lparr>td_n := n\<rparr>)"
    using torn_ensure [OF _ assms(3)] assms(1,2) by (auto simp: start_tls_def run_state_final_result)
  have t: "start_tls f (M\<lparr>mc_db := m\<rparr>) = start_tls f M" for m by (simp add: start_tls_def)
  note torn = torn_tick [OF assms(3), of n]
  have "\<not> pair_matches (mc_pki M) (?s\<lparr>td_n := n\<rparr>)" using torn by (simp add: torn_def)
  then show "fst (start f M) = Exit 1"
    using assms(1)
    by (simp add: start_def t n start_servers_def listeners_def server_starts_def key_pair_loads Let_def case_prod_beta
        split: prod.split option.split)
  show "mc_pki (snd (start f M)) = mc_pki M" "torn (mc_pki M) (fl_rp f) (mc_tls (snd (start f M)) (fl_tlsDir f))"
    using assms(3) torn by (simp_all add: start_def t n Let_def split: prod.split option.split)
qed



end
