(* ===== verification/Run_Exec.thy ===== *)
theory Run_Exec
  imports Http_Net Sample_Env
begin

text \<open>
  \<open>internal/run/run.go\<close>: the production command runner, over what \<open>os/exec\<close> reports of one
  process (its error and its combined output).  Its output is trimmed; its error quotes the
  whole argument vector, which matters where an argument is a secret.
\<close>

type_synonym 'd process = "'d \<Rightarrow> string list \<Rightarrow> (err option \<times> string) \<times> 'd"

definition exec_run :: "'d process \<Rightarrow> 'd \<Rightarrow> string list \<Rightarrow> (err + string) \<times> 'd" where
  "exec_run co d argv =
     (case co d argv of
        ((Some e, out), d') \<Rightarrow>
          (Inl (hd argv @ '' '' @ join_with CHR '' '' (tl argv) @ '': '' @ e @ '': '' @ trim_space out), d')
      | ((None, out), d') \<Rightarrow> (Inr (trim_space out), d'))"

text \<open>The environment whose commands are such processes.\<close>

definition with_exec :: "'d process \<Rightarrow> 'd env \<Rightarrow> 'd env" where
  "with_exec co E = E\<lparr>run_cmd := exec_run co\<rparr>"

section \<open>Command lists\<close>

lemma join_contains: "x \<in> set xs \<Longrightarrow> \<exists>a b. join_with c xs = a @ x @ b"
proof (induction xs rule: induct_list012)
  case (3 y z zs)
  show ?case
  proof (cases "x = y")
    case True
    then have "join_with c (y # z # zs) = [] @ x @ c # join_with c (z # zs)" by simp
    then show ?thesis by blast
  next
    case False
    with 3 obtain a b where "join_with c (z # zs) = a @ x @ b" by auto
    then have "join_with c (y # z # zs) = (y @ c # a) @ x @ b" by simp
    then show ?thesis by blast
  qed
qed (auto intro: exI [of _ "[]"])

text \<open>The error of a failing argument vector quotes every argument.\<close>

lemma exec_error_quotes:
  assumes "fst (exec_run co d argv) = Inl e" "x \<in> set (tl argv)"
  shows "\<exists>a b. e = a @ x @ b"
proof -
  obtain m out where e: "e = (hd argv @ '' '') @ join_with CHR '' '' (tl argv) @ '': '' @ m @ '': '' @ trim_space out"
    using assms(1) by (auto simp: exec_run_def split: prod.splits option.splits)
  obtain a b where "join_with CHR '' '' (tl argv) = a @ x @ b" using join_contains [OF assms(2)] by blast
  then have "e = ((hd argv @ '' '') @ a) @ x @ (b @ '': '' @ m @ '': '' @ trim_space out)" by (simp add: e)
  then show ?thesis by blast
qed

lemma dev_all_take:
  assumes "fst (dev_all f (take n cs) d) = None" "n < length cs"
    "fst (f (snd (dev_all f (take n cs) d)) (cs ! n)) = Inl e"
  shows "fst (dev_all f cs d) = Some e"
proof -
  have "cs = take n cs @ cs ! n # drop (Suc n) cs" using assms(2) by (rule id_take_nth_drop)
  then have "dev_all f cs d = dev_all f (take n cs @ cs ! n # drop (Suc n) cs) d" by simp
  also have "\<dots> = dev_all f (cs ! n # drop (Suc n) cs) (snd (dev_all f (take n cs) d))"
    using assms(1) by (cases "dev_all f (take n cs) d") (simp add: dev_all_append)
  finally show ?thesis using assms(3) by (auto split: prod.split sum.split)
qed

section \<open>The private key in an error\<close>

text \<open>
  C38. When the command that writes the tunnel's private key fails, the error of the import holds
  the key: the caller logs that error.  The client sees none of it.
\<close>

theorem failed_key_write_quotes_key:
  fixes E :: "'d env" and w :: "'d world" and co :: "'d process" and c :: vpn_config
  defines "v \<equiv> snd (dev_all (exec_run co) (take 5 (import_cmds c)) (w_dev w))"
  assumes "fst (dev_all (exec_run co) (take 5 (import_cmds c)) (w_dev w)) = None"
    "fst (fst (co v (import_cmds c ! 5))) \<noteq> None"
  shows "\<exists>a b. result (vpn_import_config (with_exec co E) c) w = Some (a @ c_privateKey c @ b)"
proof -
  have len: "5 < length (import_cmds c)" by (simp add: import_cmds_def)
  have cmd: "import_cmds c ! 5 = [''uci'', ''set'', ''network.'' @ Iface @ ''.private_key='' @ c_privateKey c]"
    by (simp add: import_cmds_def nth_append)
  obtain m out where "fst (co v (import_cmds c ! 5)) = (Some m, out)"
    using assms(3) by (cases "fst (co v (import_cmds c ! 5))") auto
  then obtain e where e: "fst (exec_run co v (import_cmds c ! 5)) = Inl e"
    by (simp add: exec_run_def case_prod_beta)
  have "''network.'' @ Iface @ ''.private_key='' @ c_privateKey c \<in> set (tl (import_cmds c ! 5))" by (simp add: cmd)
  from exec_error_quotes [OF e this] obtain a b where "e = a @ (''network.'' @ Iface @ ''.private_key='' @ c_privateKey c) @ b"
    by blast
  then have "e = (a @ ''network.'' @ Iface @ ''.private_key='') @ c_privateKey c @ b" by simp
  moreover have "result (vpn_import_config (with_exec co E) c) w = Some e"
    using dev_all_take [OF assms(2) len] e by (simp add: vpn_import_config_def with_exec_def v_def)
  ultimately show ?thesis by blast
qed

text \<open>The client's answer to a failed import is a constant text.\<close>

lemma failed_import_answer:
  assumes "parse_config t = Inr c" "t \<noteq> []" "result (vpn_import_config E (result (pin_endpoints E c) w)) (final (pin_endpoints E c) w) \<noteq> None"
  shows "result (vpn_import E why (Some t)) w = http_error ''import failed'' StatusBadGateway"
  using assms by (simp add: vpn_import_def Let_def)

text \<open>The example: a device whose sixth command fails, as when its storage is full.\<close>

definition full_disk :: "nat process" where
  "full_disk d argv = ((if d = 5 then Some ''exit status 1'' else None, ''uci: I/O error''), Suc d)"

definition secret_config :: vpn_config where
  "secret_config = \<lparr>c_privateKey = ''SECRET'', c_addresses = [], c_dns = [], c_mtu = [], c_peers = []\<rparr>"

lemma full_disk_run:
  "d \<noteq> 5 \<Longrightarrow> exec_run full_disk d argv = (Inr (trim_space ''uci: I/O error''), Suc d)"
  by (simp add: exec_run_def full_disk_def)

theorem failed_key_write_quotes_key_witness:
  "\<exists>a b. result (vpn_import_config (with_exec full_disk (sample_env (\<lambda>d c. (Inr [], d)) (\<lambda>d c. (None, d)))) secret_config)
     (sample_world 0) = Some (a @ ''SECRET'' @ b)"
proof -
  have len: "length (take 5 (import_cmds secret_config)) = 5" by (simp add: import_cmds_def)
  have run: "d + length cs \<le> 5 \<Longrightarrow> dev_all (exec_run full_disk) cs d = (None, d + length cs)" for cs d
    by (induction cs arbitrary: d) (simp_all add: full_disk_run)
  have w: "w_dev (sample_world (0 :: nat)) = 0" by (simp add: sample_world_def)
  have "dev_all (exec_run full_disk) (take 5 (import_cmds secret_config)) (w_dev (sample_world 0)) = (None, 5)"
    using run [of 0 "take 5 (import_cmds secret_config)"] unfolding len w by simp
  with failed_key_write_quotes_key [of full_disk secret_config "sample_world 0"] show ?thesis
    by (simp add: full_disk_def secret_config_def)
qed

end
