(* ===== verification/Gen_Ouis.thy ===== *)
theory Gen_Ouis
  imports Identity
begin

unbundle bit_operations_syntax

text \<open>
  \<open>internal/netcfg/gen/gen_ouis.go\<close>: the program that makes \<open>oui_data.go\<close> from the IEEE registry.
  Its input is the list of rows the CSV reader delivers before its first error.  The properties:
  whatever the registry holds, the daemon's decoder accepts what the generator writes, and the
  constants that ship are what the generator writes for some registry.
\<close>

section \<open>The vendor patterns\<close>

definition word_char :: "char \<Rightarrow> bool" where
  "word_char c \<longleftrightarrow> CHR ''0'' \<le> c \<and> c \<le> CHR ''9'' \<or> CHR ''A'' \<le> c \<and> c \<le> CHR ''Z''
     \<or> CHR ''a'' \<le> c \<and> c \<le> CHR ''z'' \<or> c = CHR ''_''"

text \<open>
  A literal under \<open>(?i)\<close>, at the start of a text: the rest after the match.  Beside the two
  cases of a letter, \<open>s\<close> matches the long s (U+017F).
\<close>

fun fold_prefix :: "string \<Rightarrow> string \<Rightarrow> string option" where
  "fold_prefix [] s = Some s"
| "fold_prefix (p # ps) [] = None"
| "fold_prefix (p # ps) (c # s) =
     (if lower_char c = p then fold_prefix ps s
      else if p = CHR ''s'' \<and> c = CHR 0xC5 \<and> take 1 s = [CHR 0xBF] then fold_prefix ps (drop 1 s)
      else None)"

fun match_fold :: "string \<Rightarrow> string \<Rightarrow> bool" where
  "match_fold p [] = (fold_prefix p [] \<noteq> None)"
| "match_fold p (c # s) = (fold_prefix p (c # s) \<noteq> None \<or> match_fold p s)"

text \<open>The literal between word boundaries; the flag tells whether a word character is before.\<close>

fun match_word :: "bool \<Rightarrow> string \<Rightarrow> string \<Rightarrow> bool" where
  "match_word inside p s =
     ((\<not> inside \<and> (case fold_prefix p s of None \<Rightarrow> False | Some r \<Rightarrow> r = [] \<or> \<not> word_char (hd r)))
      \<or> (case s of [] \<Rightarrow> False | c # s' \<Rightarrow> match_word (word_char c) p s'))"

declare match_word.simps [simp del]

definition vendors :: "(string \<times> (string \<Rightarrow> bool)) list" where
  "vendors = [(''apple'', match_word False ''apple''), (''samsung'', match_fold ''samsung''),
     (''google'', match_word False ''google'')]"

section \<open>Collecting the pools\<close>

definition hex6 :: "string \<Rightarrow> bool" where
  "hex6 s \<longleftrightarrow> length s = 6 \<and> (\<forall>c \<in> set s. hex_val c \<noteq> None)"

text \<open>The assignment of a row that is kept: lower case, six digits, the two low bits of the first byte clear.\<close>

definition row_key :: "string list \<Rightarrow> string option" where
  "row_key row =
     (if length row < 3 \<or> row ! 0 \<noteq> ''MA-L'' then None
      else
        (let asn = to_lower (trim_space (row ! 1)) in
         if \<not> hex6 asn then None
         else
           (case (hex_val (asn ! 0), hex_val (asn ! 1)) of
              (Some x, Some y) \<Rightarrow> if (x * 16 + y) AND 3 \<noteq> 0 then None else Some asn
            | _ \<Rightarrow> None)))"

definition row_vendor :: "string list \<Rightarrow> string option" where
  "row_vendor row = map_option fst (find (\<lambda>v. snd v (row ! 2)) vendors)"

type_synonym pools = "string \<Rightarrow> string list"

definition add_row :: "string list \<Rightarrow> pools \<Rightarrow> pools" where
  "add_row row m =
     (case row_key row of
        None \<Rightarrow> m
      | Some asn \<Rightarrow>
         (case row_vendor row of
            None \<Rightarrow> m
          | Some v \<Rightarrow> if asn \<in> set (m v) then m else m(v := m v @ [asn])))"

definition collect :: "string list list \<Rightarrow> pools" where
  "collect rows = fold add_row rows (\<lambda>v. [])"

section \<open>Writing the constants\<close>

function chunks96 :: "string \<Rightarrow> string list" where
  "chunks96 s = (if s = [] then [] else take 96 s # chunks96 (drop 96 s))"
  by pat_completeness auto
termination by (relation "measure length") auto

declare chunks96.simps [simp del]

definition pool_keys_of :: "string list list \<Rightarrow> string \<Rightarrow> string list" where
  "pool_keys_of rows v = sort (collect rows v)"

definition nl :: string where "nl = [CHR 0x0A]"

definition quoted :: "string \<Rightarrow> string" where "quoted s = CHR 0x22 # s @ [CHR 0x22]"

text \<open>The text of one constant, and the value such a text denotes: the concatenation of its literals.\<close>

definition const_text :: "string \<Rightarrow> string list \<Rightarrow> string" where
  "const_text v keys =
     ''// '' @ v @ '': '' @ dec (length keys) @ '' OUIs'' @ nl
     @ ''const '' @ v @ ''OUIHex = '' @ quoted [] @ '' +'' @ nl
     @ concat (map (\<lambda>c. CHR 0x09 # quoted c @ '' +'' @ nl) (chunks96 (concat keys)))
     @ CHR 0x09 # quoted [] @ nl @ nl"

fun literals :: "string list \<Rightarrow> string list" where
  "literals (before # lit # rest) = lit # literals rest"
| "literals _ = []"

definition const_value :: "string \<Rightarrow> string" where
  "const_value text = concat (literals (split_on CHR 0x22 text))"

definition source_url :: string where
  "source_url = ''https://standards-oui.ieee.org/oui/oui.csv''"

definition data_file :: "string list list \<Rightarrow> string" where
  "data_file rows =
     ''// Code generated by internal/netcfg/gen/gen_ouis.go; DO NOT EDIT.'' @ nl
     @ ''// Source: IEEE MA-L registry ('' @ source_url @ '').'' @ nl
     @ ''// Only globally-administered unicast prefixes (real hardware) are kept.'' @ nl @ nl
     @ ''package netcfg'' @ nl @ nl
     @ ''// Each constant is a run of 3-byte OUI prefixes, hex, decoded at init.'' @ nl
     @ concat (map (\<lambda>v. const_text (fst v) (pool_keys_of rows (fst v))) vendors)"

section \<open>What is collected\<close>

lemma concat_chunks96: "concat (chunks96 s) = s"
  by (induction s rule: chunks96.induct) (subst chunks96.simps, simp)

lemma literals_quoted:
  "CHR 0x22 \<notin> set a \<Longrightarrow> CHR 0x22 \<notin> set s \<Longrightarrow>
   literals (split_on CHR 0x22 (a @ quoted s @ b)) = s # literals (split_on CHR 0x22 b)"
  by (simp add: quoted_def split_on_append)

lemma literals_lines:
  "\<forall>c \<in> set cs. CHR 0x22 \<notin> set c \<Longrightarrow> CHR 0x22 \<notin> set a \<Longrightarrow>
   literals (split_on CHR 0x22 (a @ concat (map (\<lambda>c. CHR 0x09 # quoted c @ '' +'' @ nl) cs) @ CHR 0x09 # quoted [] @ nl @ nl))
     = cs @ [[]]"
proof (induction cs arbitrary: a)
  case Nil
  then show ?case
    using literals_quoted [of "a @ [CHR 0x09]" "[]" "nl @ nl"] by (simp add: nl_def split_on_notin)
next
  case (Cons c cs)
  then show ?case
    using literals_quoted [of "a @ [CHR 0x09]" c] Cons.IH [of "'' +'' @ nl"] by (simp add: nl_def)
qed

lemma no_quote: "CHR 0x22 \<notin> set (dec n)"
proof
  assume "CHR 0x22 \<in> set (dec n)"
  then obtain d where "CHR 0x22 = digit_char d" "d < 10" using dec_digits by blast
  moreover have "digit_char d \<noteq> CHR 0x22" if "d < 10" for d by (rule digit_char_ne [OF that]) simp
  ultimately show False by metis
qed

lemma in_chunks96: "c \<in> set (chunks96 s) \<Longrightarrow> set c \<subseteq> set s"
  using concat_chunks96 [of s] by (metis UN_upper set_concat)

lemma const_value_text:
  assumes "CHR 0x22 \<notin> set v" "\<forall>k \<in> set keys. CHR 0x22 \<notin> set k"
  shows "const_value (const_text v keys) = concat keys"
proof -
  let ?a = "''// '' @ v @ '': '' @ dec (length keys) @ '' OUIs'' @ nl @ ''const '' @ v @ ''OUIHex = ''"
  have a: "CHR 0x22 \<notin> set ?a" using assms(1) no_quote by (simp add: nl_def)
  have c: "\<forall>c \<in> set (chunks96 (concat keys)). CHR 0x22 \<notin> set c"
    using assms(2) in_chunks96 [of _ "concat keys"] by fastforce
  have "literals (split_on CHR 0x22 (const_text v keys)) = [] # chunks96 (concat keys) @ [[]]"
    using literals_quoted [OF a, of "[]"] literals_lines [OF c, of "'' +'' @ nl"] by (simp add: const_text_def nl_def)
  then show ?thesis by (simp add: const_value_def concat_chunks96)
qed

lemma oui_key_no_quote: "oui_key k \<Longrightarrow> CHR 0x22 \<notin> set k"
proof -
  have "key_val s = Some ns \<Longrightarrow> c \<in> set s \<Longrightarrow> nibble c \<noteq> None" for s ns c
    by (induction s arbitrary: ns) (auto split: option.splits)
  moreover have "nibble CHR 0x22 = None" by (simp add: nibble_def hex_val_def less_eq_char_def)
  ultimately show "oui_key k \<Longrightarrow> CHR 0x22 \<notin> set k" unfolding oui_key_def by blast
qed

lemma lower_char_not_upper: "\<not> (CHR ''A'' \<le> lower_char c \<and> lower_char c \<le> CHR ''F'')"
  by (auto simp: lower_char_def less_eq_char_def)

lemma to_lower_not_upper: "c \<in> set (to_lower s) \<Longrightarrow> \<not> (CHR ''A'' \<le> c \<and> c \<le> CHR ''F'')"
  using lower_char_not_upper
  by (induction s rule: to_lower.induct) (auto simp: less_eq_char_def split: if_splits)

lemma row_key_shape:
  assumes "row_key row = Some k"
  shows "oui_key k"
proof -
  from assms obtain x y where k: "k = to_lower (trim_space (row ! 1))" "hex6 k"
    "hex_val (k ! 1) = Some y" "(x * 16 + y) AND 3 = (0 :: nat)"
    by (auto simp: row_key_def Let_def split: if_splits option.splits)
  have nib: "\<forall>c \<in> set k. \<exists>n. nibble c = Some n"
    using k(2) to_lower_not_upper [of _ "trim_space (row ! 1)"] by (auto simp: k(1) hex6_def nibble_def)
  have val: "\<forall>c \<in> set s. \<exists>n. nibble c = Some n \<Longrightarrow> \<exists>ns. key_val s = Some ns" for s
    by (induction s) (auto split: option.split)
  have len: "length k = 6" using k(2) by (simp add: hex6_def)
  then obtain a b r where s: "k = a # b # r" by (cases k; cases "tl k") auto
  obtain n m ns where v: "nibble a = Some n" "nibble b = Some m" "key_val r = Some ns"
    using nib val [of r] s by auto
  have "m = y" using k(3) nibble_hex [OF v(2)] s by simp
  moreover have "(x * 16 + y) AND mask 2 = (x * 16 + y) mod 4" by (simp add: take_bit_eq_mod flip: take_bit_eq_mask)
  moreover have "mask 2 = (3 :: nat)" by (simp add: mask_eq_exp_minus_1)
  ultimately have "m mod 4 = 0" using k(4) by simp presburger
  then show ?thesis using len s v by (simp add: oui_key_def)
qed

lemma collect_pool:
  "distinct (m v) \<Longrightarrow> distinct (fold add_row rows m v) \<and>
     set (fold add_row rows m v) = set (m v) \<union> {k. \<exists>row \<in> set rows. row_key row = Some k \<and> row_vendor row = Some v}"
proof (induction rows arbitrary: m)
  case (Cons row rows)
  have "distinct (add_row row m v)" using Cons.prems by (auto simp: add_row_def split: option.split)
  moreover have "set (add_row row m v) = set (m v) \<union> {k. row_key row = Some k \<and> row_vendor row = Some v}"
    by (auto simp: add_row_def split: option.split)
  ultimately show ?case using Cons.IH [of "add_row row m"] by auto
qed simp

lemma pool_keys_of:
  "sorted_wrt (<) (pool_keys_of rows v)"
  "set (pool_keys_of rows v) = {k. \<exists>row \<in> set rows. row_key row = Some k \<and> row_vendor row = Some v}"
  using collect_pool [of "\<lambda>v. []" v rows] by (auto simp: pool_keys_of_def collect_def strict_sorted_iff)

text \<open>
  Whatever the registry delivers, the daemon starts with the generated data: each constant
  decodes without the panic of \<open>decodeOUIs\<close>, to one prefix per kept assignment of the vendor, in
  ascending order and without repetition, all of them globally administered unicast.
\<close>

theorem generated_pools_decode:
  "list_all (\<lambda>(v, _). \<exists>ks. decode_ouis (const_value (const_text v (pool_keys_of rows v))) = Some (map oui_bytes ks)
       \<and> sorted_wrt (<) ks \<and> set ks = {k. \<exists>row \<in> set rows. row_key row = Some k \<and> row_vendor row = Some v}
       \<and> list_all (\<lambda>u. length u = 3 \<and> hd u AND 3 = 0) (map oui_bytes ks)) vendors"
proof -
  have "\<exists>ks. decode_ouis (const_value (const_text v (pool_keys_of rows v))) = Some (map oui_bytes ks)
       \<and> sorted_wrt (<) ks \<and> set ks = {k. \<exists>row \<in> set rows. row_key row = Some k \<and> row_vendor row = Some v}
       \<and> list_all (\<lambda>u. length u = 3 \<and> hd u AND 3 = 0) (map oui_bytes ks)" if v: "CHR 0x22 \<notin> set v" for v
  proof (intro exI conjI)
    have keys: "\<forall>k \<in> set (pool_keys_of rows v). oui_key k" using row_key_shape by (auto simp: pool_keys_of(2))
    then have "const_value (const_text v (pool_keys_of rows v)) = concat (pool_keys_of rows v)"
      using v oui_key_no_quote by (intro const_value_text) auto
    then show "decode_ouis (const_value (const_text v (pool_keys_of rows v))) = Some (map oui_bytes (pool_keys_of rows v))"
      using decode_keys [OF keys] by simp
    show "list_all (\<lambda>u. length u = 3 \<and> hd u AND 3 = 0) (map oui_bytes (pool_keys_of rows v))"
      using keys by (fastforce simp: list_all_iff elim!: oui_key_decodes)
  qed (rule pool_keys_of)+
  then show ?thesis by (simp add: vendors_def)
qed

section \<open>The data that ships\<close>

text \<open>A registry with the shipped prefixes, one row each.\<close>

definition row_for :: "string \<Rightarrow> string \<Rightarrow> string list" where
  "row_for name k = [''MA-L'', k, name]"

definition shipped_rows :: "string list list" where
  "shipped_rows = map (row_for ''Apple, Inc.'') (keys6 appleOUIHex)
     @ map (row_for ''Samsung Electronics Co.,Ltd'') (keys6 samsungOUIHex)
     @ map (row_for ''Google, Inc.'') (keys6 googleOUIHex)"

lemma lower_fixed: "\<forall>c \<in> set s. plain_char c \<and> lower_char c = c \<Longrightarrow> to_lower s = s"
  by (induction s rule: to_lower.induct) (auto simp: plain_char_def less_eq_char_def)

lemma row_key_for:
  assumes "oui_key k"
  shows "row_key (row_for name k) = Some k"
proof -
  obtain ns where ns: "key_val k = Some ns" "ns ! 1 mod 4 = 0" "length k = 6" using assms by (auto simp: oui_key_def)
  have val: "key_val s = Some ms \<Longrightarrow> list_all2 (\<lambda>c n. nibble c = Some n) s ms" for s ms
    by (induction s arbitrary: ms) (auto split: option.splits)
  note v = val [OF ns(1)]
  then have n: "\<forall>c \<in> set k. \<exists>n. nibble c = Some n" by (auto simp: list_all2_conv_all_nth in_set_conv_nth)
  have p: "nibble c = Some n \<Longrightarrow> plain_char c \<and> lower_char c = c" for c n
    by (auto simp: nibble_def hex_val_def plain_char_def lower_char_def less_eq_char_def split: if_splits)
  have "trim_space k = k" using n p by (intro trim_space_tight tight_plain_all) blast
  moreover have "to_lower k = k" using n p by (intro lower_fixed) blast
  moreover have "hex6 k" using n nibble_hex ns(3) by (fastforce simp: hex6_def)
  moreover have "nibble (k ! 0) = Some (ns ! 0)" "nibble (k ! 1) = Some (ns ! 1)"
    using v ns(3) by (auto simp: list_all2_conv_all_nth)
  moreover have "(x * 16 + ns ! 1) AND 3 = 0" for x
  proof -
    have "(x * 16 + ns ! 1) AND mask 2 = (x * 16 + ns ! 1) mod 4" by (simp add: take_bit_eq_mod flip: take_bit_eq_mask)
    moreover have "mask 2 = (3 :: nat)" by (simp add: mask_eq_exp_minus_1)
    ultimately show ?thesis using ns(2) by simp presburger
  qed
  ultimately show ?thesis by (simp add: row_key_def row_for_def nibble_hex)
qed

lemma fold_vendor_rows:
  assumes "\<And>k. row_vendor (row_for name k) = Some v"
  shows "\<forall>k \<in> set ks. oui_key k \<Longrightarrow> distinct (m v @ ks) \<Longrightarrow> fold add_row (map (row_for name) ks) m = m(v := m v @ ks)"
proof (induction ks arbitrary: m)
  case (Cons k ks)
  have "add_row (row_for name k) m = m(v := m v @ [k])"
    using Cons.prems assms by (simp add: add_row_def row_key_for)
  moreover have "fold add_row (map (row_for name) ks) (m(v := m v @ [k])) = m(v := m v @ k # ks)"
    using Cons.IH [of "m(v := m v @ [k])"] Cons.prems by (simp add: fun_upd_def) (auto simp: fun_eq_iff)
  ultimately show ?case by simp
qed simp

lemma sample_vendors:
  "row_vendor (row_for ''Apple, Inc.'' k) = Some ''apple''"
  "row_vendor (row_for ''Samsung Electronics Co.,Ltd'' k) = Some ''samsung''"
  "row_vendor (row_for ''Google, Inc.'' k) = Some ''google''"
proof -
  have "map_option fst (find (\<lambda>v. snd v ''Apple, Inc.'') vendors) = Some ''apple''" by code_simp
  moreover have "map_option fst (find (\<lambda>v. snd v ''Samsung Electronics Co.,Ltd'') vendors) = Some ''samsung''" by code_simp
  moreover have "map_option fst (find (\<lambda>v. snd v ''Google, Inc.'') vendors) = Some ''google''" by code_simp
  ultimately show "row_vendor (row_for ''Apple, Inc.'' k) = Some ''apple''"
    "row_vendor (row_for ''Samsung Electronics Co.,Ltd'' k) = Some ''samsung''"
    "row_vendor (row_for ''Google, Inc.'' k) = Some ''google''"
    by (simp_all add: row_vendor_def row_for_def)
qed

lemma shipped_run:
  assumes "h \<in> {appleOUIHex, samsungOUIHex, googleOUIHex}"
  shows "\<forall>k \<in> set (keys6 h). oui_key k" "sorted_wrt (<) (keys6 h)" "concat (keys6 h) = h"
proof -
  obtain q where "pool_from [] h = Some q" using shipped_keys [OF assms] by blast
  from pool_keys [OF this] show "\<forall>k \<in> set (keys6 h). oui_key k" "sorted_wrt (<) (keys6 h)" "concat (keys6 h) = h"
    by blast+
qed

text \<open>
  The constants of \<open>oui_data.go\<close> are what the generator writes: on a registry with one
  matching row for each shipped prefix its three constants have exactly the shipped values.
\<close>

theorem shipped_data_is_generated:
  "const_value (const_text ''apple'' (pool_keys_of shipped_rows ''apple'')) = appleOUIHex
   \<and> const_value (const_text ''samsung'' (pool_keys_of shipped_rows ''samsung'')) = samsungOUIHex
   \<and> const_value (const_text ''google'' (pool_keys_of shipped_rows ''google'')) = googleOUIHex"
proof -
  note a = shipped_run [of appleOUIHex] and s = shipped_run [of samsungOUIHex] and g = shipped_run [of googleOUIHex]
  have d: "distinct (keys6 h)" "sort (keys6 h) = keys6 h" if "sorted_wrt (<) (keys6 h)" for h
    using that by (auto simp: strict_sorted_iff sorted_sort_id)
  let ?m = "(\<lambda>v. [])(''apple'' := keys6 appleOUIHex, ''samsung'' := keys6 samsungOUIHex, ''google'' := keys6 googleOUIHex)"
  have "collect shipped_rows = ?m"
    using a s g d by (simp add: collect_def shipped_rows_def fold_vendor_rows [OF sample_vendors(1)]
        fold_vendor_rows [OF sample_vendors(2)] fold_vendor_rows [OF sample_vendors(3)])
  moreover have "\<forall>k \<in> set (keys6 h). CHR 0x22 \<notin> set k" if "\<forall>k \<in> set (keys6 h). oui_key k" for h
    using that oui_key_no_quote by blast
  ultimately show ?thesis using a s g d by (simp add: pool_keys_of_def const_value_text)
qed

end
