(* ===== verification/Router_Guard.thy ===== *)
theory Router_Guard
  imports Router_Restart
begin

text \<open>
  What the daemon's commands can do to the direct forwardings of the firewall.  A command other
  than the kill-switch scripts that does not edit an anonymous section of the \<open>firewall\<close> package
  is \<open>mild\<close>: it leaves the direct forwardings being edited as they are, and at most commits or
  reloads those there are.  The locale \<open>steady_tools\<close> adds this to the interface of the tools, for
  commands that fail too; every program of the daemon except the pause and the kill switch runs
  mild commands only.
\<close>

section \<open>Direct forwardings in the three tables\<close>

definition direct_work :: "router \<Rightarrow> package" where
  "direct_work r = filter lan_wan (rt_work r ''firewall'')"

definition direct_saved :: "router \<Rightarrow> package" where
  "direct_saved r = filter lan_wan (rt_saved r ''firewall'')"

definition direct_live :: "router \<Rightarrow> package" where
  "direct_live r = filter lan_wan (rt_live r ''firewall'')"

lemmas direct_defs = direct_work_def direct_saved_def direct_live_def

text \<open>The direct forwardings after a mild command are the old ones, perhaps committed or loaded.\<close>

definition spared :: "router \<Rightarrow> router \<Rightarrow> bool" where
  "spared r r' \<longleftrightarrow> rt_reloads r' ''firewall'' = rt_reloads r ''firewall'' \<and> direct_work r' = direct_work r
     \<and> direct_saved r' \<in> {direct_saved r, direct_work r}
     \<and> direct_live r' \<in> {direct_live r, direct_saved r, direct_work r}"

lemma spared_refl [simp]: "spared r r"
  by (simp add: spared_def)

lemma spared_trans: "spared r s \<Longrightarrow> spared s t \<Longrightarrow> spared r t"
  by (auto simp: spared_def)

section \<open>Mild commands\<close>

text \<open>Edits of other packages, or of a named section.\<close>

fun edits_apart :: "string \<Rightarrow> selector \<Rightarrow> bool" where
  "edits_apart p (Named n) = (p \<noteq> ''firewall'' \<or> n \<noteq> [])"
| "edits_apart p s = (p \<noteq> ''firewall'')"

fun mild_cmd :: "cmd \<Rightarrow> bool" where
  "mild_cmd (SetOpt p s k v) = edits_apart p s"
| "mild_cmd (SetSection p n t) = edits_apart p (Named n)"
| "mild_cmd (AddList p s k v) = edits_apart p s"
| "mild_cmd (DeleteSection p n) = edits_apart p (Named n)"
| "mild_cmd (DeleteOpt p s k) = edits_apart p s"
| "mild_cmd (DelList p s k v) = edits_apart p s"
| "mild_cmd (DeleteAll p t) = (p \<noteq> ''firewall'')"
| "mild_cmd KsOn = False" | "mild_cmd KsOff = False"
| "mild_cmd c = True"

definition mild :: "string list \<Rightarrow> bool" where
  "mild argv \<longleftrightarrow> (case decode argv of None \<Rightarrow> True | Some c \<Rightarrow> mild_cmd c)"

lemma spared_work_to:
  "(p = ''firewall'' \<Longrightarrow> filter lan_wan q = direct_work r) \<Longrightarrow> spared r (work_to p q r)"
  by (simp add: spared_def direct_defs)

lemma spared_commit: "spared r (commit_pkg p r)"
  by (simp add: spared_def direct_defs commit_pkg_def)

lemma spared_reload: "reload p r = Some r' \<Longrightarrow> spared r r'"
  by (auto simp: spared_def direct_defs reload_def split: if_splits)

lemma spared_edit:
  assumes "edit p f r = Some r'" "p = ''firewall'' \<Longrightarrow> \<exists>n. n \<noteq> [] \<and> (\<forall>q. f (rt_work r p) = Some q \<longrightarrow> same_but {n} (rt_work r p) q)"
  shows "spared r r'"
proof -
  obtain q where q: "f (rt_work r p) = Some q" "r' = work_to p q r" using assms(1) by (auto simp: edit_work)
  show ?thesis unfolding q(2)
    using q(1) assms(2) same_but_lan_wan [of _ "rt_work r p" q] by (intro spared_work_to) (auto simp: direct_work_def)
qed

lemma same_but_sel:
  assumes "edits_apart ''firewall'' s" "\<And>x. us_name (f x) = us_name x"
  shows "\<exists>n. n \<noteq> [] \<and> (\<forall>q. update_sel s f p = Some q \<longrightarrow> same_but {n} p q)"
  using assms same_but_update [of _ f p] by (cases s) auto

lemma same_but_sel_default:
  assumes "edits_apart ''firewall'' s" "\<And>x. us_name (f x) = us_name x"
  shows "\<exists>n. n \<noteq> [] \<and> same_but {n} p (case update_sel s f p of None \<Rightarrow> p | Some q \<Rightarrow> q)"
  using same_but_sel [OF assms, of p] by (auto split: option.split)

text \<open>The scripts that edit the firewall add or change no direct forwarding.\<close>

lemma spared_zone: "spared r (exec_zone r)"
proof -
  have "filter lan_wan (snd (zone_edit fw)) = filter lan_wan fw" for fw
    by (simp add: zone_edit_def vpn_zone_def lan_wan_def opt_text_def)
  then show ?thesis
    using spared_trans [OF spared_work_to spared_commit]
    by (auto simp: exec_zone_def direct_work_def split: prod.split) (metis snd_conv)
qed

lemma update_first_spares:
  "update_first P f p = Some q \<Longrightarrow> (\<And>x. P x \<Longrightarrow> lan_wan (f x) = False \<and> \<not> lan_wan x) \<Longrightarrow> filter lan_wan q = filter lan_wan p"
  by (induction p arbitrary: q) (auto split: if_splits)

lemma spared_wan:
  assumes "exec_wan r = Some r'"
  shows "spared r r'"
proof -
  obtain fw where fw: "wan_edit (rt_work r ''firewall'') = Some fw" "r' = commit_pkg ''firewall'' (work_to ''firewall'' fw r)"
    using assms by (auto simp: exec_wan_def split: option.splits)
  have "filter lan_wan fw = direct_work r"
    using update_first_spares [OF fw(1) [unfolded wan_edit_def]] by (auto simp: wan_zone_def lan_wan_def direct_work_def)
  then show ?thesis unfolding fw(2) by (intro spared_trans [OF spared_work_to spared_commit])
qed

lemma mild_cmd_spares:
  assumes "mild_cmd c" "exec c r = Some r'"
  shows "spared r r'"
proof (cases c)
  case (SetOpt p s k v)
  with assms show ?thesis using same_but_sel [of s "set_opt k [v]"] by (auto intro!: spared_edit [of p _ r r'])
next
  case (SetSection p n t)
  with assms show ?thesis using same_but_put by (auto intro!: spared_edit [of p _ r r'])
next
  case (AddList p s k v)
  with assms show ?thesis
    using same_but_sel [of s "\<lambda>x. set_opt k (us_opts x k @ [v]) x"] by (auto intro!: spared_edit [of p _ r r'])
next
  case (AddSection p t)
  have "\<not> lan_wan (new_section [] t)" by (simp add: lan_wan_def new_section_def)
  then have "filter lan_wan (add_section t (rt_work r p)) = filter lan_wan (rt_work r p)" by (simp add: add_section_def)
  with AddSection assms show ?thesis
    by (auto simp: edit_work direct_work_def intro!: spared_work_to)
next
  case (DeleteSection p n)
  with assms show ?thesis using same_but_del by (auto intro!: spared_edit [of p _ r r'])
next
  case (DeleteOpt p s k)
  with assms show ?thesis using same_but_sel_default [of s "set_opt k []"] by (auto intro!: spared_edit [of p _ r r'])
next
  case (DelList p s k v)
  with assms show ?thesis
    using same_but_sel_default [of s "\<lambda>x. set_opt k (filter (\<lambda>y. y \<noteq> v) (us_opts x k)) x"]
    by (auto intro!: spared_edit [of p _ r r'])
next
  case (DeleteAll p t)
  with assms show ?thesis by (auto intro!: spared_edit [of p _ r r'])
next
  case (Commit p)
  with assms show ?thesis using spared_commit by auto
next
  case (Service s a)
  with assms show ?thesis using spared_reload by auto
next
  case WifiReload
  with assms show ?thesis using spared_reload by auto
next
  case ZoneScript
  with assms show ?thesis using spared_zone by auto
next
  case WanScript
  with assms show ?thesis using spared_wan by auto
qed (use assms in \<open>auto simp: spared_def direct_defs\<close>)

section \<open>The interface\<close>

locale steady_tools = reliable_tools +
  assumes spares: "mild argv \<Longrightarrow> spared (view d) (view (snd (run d argv)))"
begin

lemma all_spare: "list_all mild cs \<Longrightarrow> spared (view d) (view (snd (dev_all run cs d)))"
proof (induction cs arbitrary: d)
  case (Cons c cs)
  obtain r e where r: "run d c = (r, e)" by (cases "run d c")
  have "spared (view d) (view e)" using spares [of c d] Cons.prems r by simp
  then show ?case using Cons.IH [of e] Cons.prems r by (auto intro: spared_trans split: sum.split)
qed simp

end

interpretation steady_machine: steady_tools uci_run "\<lambda>r. r"
proof unfold_locales
  fix argv d
  assume "mild argv"
  then show "spared d (snd (uci_run d argv))"
    by (auto simp: mild_def uci_run_def intro: mild_cmd_spares split: option.split)
qed

section \<open>The commands of the daemon\<close>

text \<open>A command the datatype has, and one that edits another package, told by the start of its path.\<close>

lemma mild_ok: "cmd_ok c \<Longrightarrow> mild_cmd c \<Longrightarrow> mild (argv_of c)"
  by (simp add: mild_def decode_argv)

lemma mild_ops: "list_all cmd_ok cs \<Longrightarrow> list_all mild_cmd cs \<Longrightarrow> list_all mild (map argv_of cs)"
  by (induction cs) (auto intro: mild_ok)

definition elsewhere :: "string \<Rightarrow> bool" where
  "elsewhere p \<longleftrightarrow> p \<noteq> ''firewall'' \<and> CHR ''.'' \<notin> set p \<and> CHR ''='' \<notin> set p"

lemma cut_skip: "c \<notin> set a \<Longrightarrow> cut c (a @ s) = map_option (\<lambda>(x, v). (a @ x, v)) (cut c s)"
  by (cases "cut c s"; induction a) auto

lemma path_elsewhere:
  assumes "elsewhere p" "cut CHR ''='' (p @ CHR ''.'' # r) = Some (path, v)"
  obtains xs where "split_on CHR ''.'' path = p # xs"
proof -
  have "cut CHR ''='' ((p @ [CHR ''.'']) @ r) = Some (path, v)" using assms(2) by simp
  then obtain x where "path = p @ CHR ''.'' # x"
    using assms(1) by (subst (asm) cut_skip) (auto simp: elsewhere_def)
  then show thesis using that assms(1) by (simp add: split_on_append elsewhere_def)
qed

lemma edits_elsewhere: "elsewhere p \<Longrightarrow> edits_apart p s"
  by (cases s) (auto simp: elsewhere_def)

lemma mild_path:
  "(\<And>n. mild_cmd (sec p n)) \<Longrightarrow> (\<And>s k. mild_cmd (opt p s k)) \<Longrightarrow>
   case decode_path (p # xs) sec opt of None \<Rightarrow> True | Some c \<Rightarrow> mild_cmd c"
  by (cases "(p # xs, sec, opt)" rule: decode_path.cases) auto

lemma mild_elsewhere:
  assumes "elsewhere p"
  shows "mild [''uci'', ''set'', p @ CHR ''.'' # r]" "mild [''uci'', ''add_list'', p @ CHR ''.'' # r]"
    "mild (shell (sh ''uci -q del_list `'' @ (p @ CHR ''.'' # r) @ sh ''` || true''))"
proof -
  let ?s = "p @ CHR ''.'' # r"
  show "mild [''uci'', ''set'', ?s]"
  proof (cases "cut CHR ''='' ?s")
    case (Some pv)
    obtain path v where pv: "pv = (path, v)" by force
    obtain xs where "split_on CHR ''.'' path = p # xs" using path_elsewhere [OF assms] Some pv by metis
    moreover have "case decode_path (p # xs) (\<lambda>p n. SetSection p n v) (\<lambda>p s k. SetOpt p s k v) of
        None \<Rightarrow> True | Some c \<Rightarrow> mild_cmd c" for xs
      using edits_elsewhere [OF assms] by (intro mild_path) (simp_all del: edits_apart.simps)
    ultimately show ?thesis using Some pv by (simp add: mild_def decode_set_def)
  qed (simp add: mild_def decode_set_def)
  have lists: "case (case cut CHR ''='' ?s of None \<Rightarrow> None | Some (path, v) \<Rightarrow>
      (case split_on CHR ''.'' path of [p, s, k] \<Rightarrow> Some (f p s k v) | _ \<Rightarrow> None)) of None \<Rightarrow> True | Some c \<Rightarrow> mild_cmd c"
    if "\<And>s k v. mild_cmd (f p s k v)" for f
  proof (cases "cut CHR ''='' ?s")
    case (Some pv)
    obtain path v where pv: "pv = (path, v)" by force
    obtain xs where "split_on CHR ''.'' path = p # xs" using path_elsewhere [OF assms] Some pv by metis
    then show ?thesis using Some pv that by (auto split: list.split)
  qed simp
  show "mild [''uci'', ''add_list'', ?s]" "mild (shell (sh ''uci -q del_list `'' @ ?s @ sh ''` || true''))"
    using lists [of "\<lambda>p s k v. AddList p (parse_sel s) k v"] lists [of "\<lambda>p s k v. DelList p (parse_sel s) k v"]
      edits_elsewhere [OF assms] decode_del_list_script [of ?s]
    by (simp_all add: mild_def decode_add_list_def decode_del_list_def shell_def)
qed

lemma elsewhere_packages: "elsewhere ''wireless''" "elsewhere ''network''" "elsewhere ''dhcp''"
  by (simp_all add: elsewhere_def)

lemmas mild_paths = mild_elsewhere(1,2) [OF elsewhere_packages(1)] mild_elsewhere(1,2) [OF elsewhere_packages(2)]
  mild_elsewhere(1,2) [OF elsewhere_packages(3)]

text \<open>Commands that are read back as no edit at all.\<close>

lemma mild_other:
  "mild [''uci'', ''-q'', ''get'', x]" "mild [''uci'', ''commit'', x]" "mild [''uci'', ''add'', x, y]"
  "mild [''wg'', ''show'', x]" "mild [''ubus'', ''call'', x, y]" "mild [''ubus'', ''call'', x, y, z]"
  "mild [''sysupgrade'', ''--test'', x]" "mild [a, b]"
  by (auto simp: mild_def split: option.split)

lemma mild_scripts:
  "mild (shell ks_query_script)" "mild (shell zone_script)" "mild (shell wan_script)" "mild (shell (enabled_script spec))"
  by (simp_all add: mild_def shell_def decode_script_fixed decode_query_script)

text \<open>The deletions with constant paths.\<close>

lemma mild_deletes:
  "mild [''sh'', ''-c'', ''uci -q delete wireless.default_radio0 || true'']"
  "mild [''sh'', ''-c'', ''uci -q delete wireless.'' @ staSection @ ''.macaddr || true'']"
  "mild [''sh'', ''-c'', ''uci -q delete wireless.'' @ staSection @ ''.key || true'']"
  "mild [''sh'', ''-c'', ''uci -q delete network.'' @ uplinkNet @ ''.hostname || true'']"
  "mild [''sh'', ''-c'', ''uci -q delete network.'' @ Iface @ '' || true'']"
  "mild [''sh'', ''-c'', ''uci -q delete dhcp.@dnsmasq[0].noresolv || true'']"
  "mild [''sh'', ''-c'', ''while uci -q delete network.@'' @ peer_type @ ''[0]; do :; done'']"
  using mild_ok [of "DeleteSection ''wireless'' ''default_radio0''"] mild_ok [of "DeleteOpt ''wireless'' (Named staSection) ''macaddr''"]
    mild_ok [of "DeleteOpt ''wireless'' (Named staSection) ''key''"] mild_ok [of "DeleteOpt ''network'' (Named uplinkNet) ''hostname''"]
    mild_ok [of "DeleteSection ''network'' Iface"] mild_ok [of "DeleteOpt ''dhcp'' (First ''dnsmasq'') ''noresolv''"]
    mild_ok [of "DeleteAll ''network'' peer_type"]
  by (simp_all add: ops_text ident_def ident_char_def word_char_def less_eq_char_def staSection_def uplinkNet_def Iface_def peer_type_def)

lemmas mild_argv = mild_paths [simplified] mild_other mild_deletes [simplified] mild_scripts [unfolded shell_def]

lemma mild_ap: "list_all mild (ap_cmds ssid key)"
  by (simp add: ap_cmds_def wl_set_def mild_argv)

lemma mild_identity: "list_all mild (mac_cmds i)" "list_all mild (hostname_cmds i)" "list_all mild (identity_cmds j)"
  by (simp_all add: identity_cmds_def mac_cmds_def hostname_cmds_def wl_set_def mild_argv)

lemma mild_uplink: "list_all mild (uplink_cmds ssid key i)"
  by (simp add: uplink_cmds_def wl_set_def mild_argv mild_identity)

lemma mild_import: "list_all mild (import_cmds c)"
proof -
  have "list_all mild (import_peer_cmds p)" for p
    by (auto simp: import_peer_cmds_def peer_set_def mild_argv list_all_iff)
  then show ?thesis by (auto simp: import_cmds_def mild_argv list_all_iff)
qed

lemma mild_dns:
  "list_all mild (dns_enable_cmds spec)" "list_all mild (dns_disable_cmds spec)"
  "list_all mild fail_closed_on_cmds" "list_all mild fail_closed_off_cmds"
proof -
  have del: "mild (del_server spec)"
    using mild_elsewhere(3) [OF elsewhere_packages(3), of "''@dnsmasq[0].server='' @ spec"] by (simp add: del_server_def shell_def sh_def)
  have set: "mild (fw_set n k v)" if "ident n" "ident k" "v \<noteq> []" for n k v
    using that mild_ok [of "SetOpt ''firewall'' (Named n) k v"] by (simp add: ops_text ident_names) (simp add: ident_def)
  have sec: "mild [''uci'', ''set'', ''firewall.'' @ n @ ''='' @ v]" "mild (fw_delete n)" if "ident n" for n v
    using that mild_ok [of "SetSection ''firewall'' n v"] mild_ok [of "DeleteSection ''firewall'' n"]
    by (simp_all add: ops_text ident_names) (simp_all add: ident_def)
  show "list_all mild (dns_enable_cmds spec)" "list_all mild (dns_disable_cmds spec)"
    "list_all mild fail_closed_off_cmds"
    using sec(1) [of "''mistui_dns_out''" "''rule''"] sec(1) [of "''mistui_dns_fwd''" "''rule''"]
      sec(1) [of "''mistui_dns_hijack''" "''redirect''"] ident_names
    by (simp_all add: dns_enable_cmds_def dns_disable_cmds_def fail_closed_off_cmds_def del set sec(2) mild_argv)
  show "list_all mild fail_closed_on_cmds"
    unfolding fail_closed_text
    by (rule mild_ops [OF dns_ops_ok(3)]) (simp add: fail_closed_ops_def section_ops_def write_ops_def ks_table_def list_all_iff)
qed

end
