(* ===== verification/Guard_Frames.thy ===== *)
theory Guard_Frames
  imports Router_Guard
begin

text \<open>
  Every program of the daemon but the pause, its end and the kill switch is \<open>plain\<close>: it moves
  forward in the clock, spares the direct forwardings and leaves the stored pause alone.  The
  rules follow the programs' structure, from the primitives to the handlers.
\<close>

section \<open>Plain programs\<close>

definition portal_text :: "'d world \<Rightarrow> string option" where
  "portal_text w = bucket_get (db_config (w_db w)) portalModeKey"

lemma stored_pause_text: "portal_text v = portal_text w \<Longrightarrow> stored_pause E (w_db v) = stored_pause E (w_db w)"
  by (simp add: portal_text_def stored_pause_def)

definition plain :: "('d \<Rightarrow> router) \<Rightarrow> ('d world, 'a) state \<Rightarrow> bool" where
  "plain view m \<longleftrightarrow> (\<forall>w. w_n w \<le> w_n (final m w) \<and> spared (view (w_dev w)) (view (w_dev (final m w)))
     \<and> portal_text (final m w) = portal_text w)"

named_theorems plain_intro \<open>rules that show a program plain\<close>

lemma plainD:
  "plain view m \<Longrightarrow> w_n w \<le> w_n (final m w)"
  "plain view m \<Longrightarrow> spared (view (w_dev w)) (view (w_dev (final m w)))"
  "plain view m \<Longrightarrow> portal_text (final m w) = portal_text w"
  by (simp_all add: plain_def)

lemma plain_branch [plain_intro]:
  "plain view (ret x)" "plain view m \<Longrightarrow> (\<And>a. plain view (f a)) \<Longrightarrow> plain view (m \<bind> f)"
  "(b \<Longrightarrow> plain view m) \<Longrightarrow> (\<not> b \<Longrightarrow> plain view n) \<Longrightarrow> plain view (if b then m else n)"
  "(y = None \<Longrightarrow> plain view m) \<Longrightarrow> (\<And>z. y = Some z \<Longrightarrow> plain view (g z)) \<Longrightarrow>
     plain view (case y of None \<Rightarrow> m | Some z \<Rightarrow> g z)"
  "(\<And>z. s = Inl z \<Longrightarrow> plain view (h z)) \<Longrightarrow> (\<And>z. s = Inr z \<Longrightarrow> plain view (k z)) \<Longrightarrow>
     plain view (case s of Inl z \<Rightarrow> h z | Inr z \<Rightarrow> k z)"
  "(\<And>z u. p = (z, u) \<Longrightarrow> plain view (q z u)) \<Longrightarrow> plain view (case p of (z, u) \<Rightarrow> q z u)"
  "(\<And>z. z = t \<Longrightarrow> plain view (l z)) \<Longrightarrow> plain view (let z = t in l z)"
  by (auto simp: plain_def split: option.split sum.split prod.split intro: order_trans spared_trans)

text \<open>The primitives that touch neither device nor configuration.\<close>

lemma plain_reads [plain_intro]:
  "plain view (time_now E)" "plain view (random_bytes E k)" "plain view (io_ok E)" "plain view (db_view E f)"
  "plain view (observe E h)" "plain view (get_world g)"
  by (simp_all add: plain_def portal_text_def)

lemma plain_modify [plain_intro]:
  "(\<And>w. w_n (f w) = w_n w) \<Longrightarrow> (\<And>w. w_dev (f w) = w_dev w) \<Longrightarrow> (\<And>w. w_db (f w) = w_db w) \<Longrightarrow> plain view (modify f)"
  by (simp add: plain_def portal_text_def)

lemma plain_update:
  "(\<And>d d'. f d = Some d' \<Longrightarrow> bucket_get (db_config d') portalModeKey = bucket_get (db_config d) portalModeKey) \<Longrightarrow>
   plain view (db_update E f)"
  by (auto simp: plain_def portal_text_def commit_def split: option.split)

lemma plain_sets [plain_intro]: "plain view (grant E s k)" "plain view (consume E s k)"
  unfolding grant_def consume_def by (intro plain_intro; cases s; simp)+

lemma plain_store [plain_intro]:
  "plain view (put_credential E c cose)" "plain view (credential E c)" "plain view (credential_count E)"
  "plain view (list_credential_ids E)" "plain view (config E k)" "plain view (put_session E t i s)"
  "plain view (session E t)" "plain view (bump_session E t s)" "plain view (delete_session E t)"
  unfolding store_ops by (intro plain_intro plain_update; auto dest: session_only_sessions(1,2) simp: session_only_sessions(3))+

lemma plain_config:
  "k \<noteq> portalModeKey \<Longrightarrow> plain view (put_config E k v)" "k \<noteq> portalModeKey \<Longrightarrow> plain view (delete_config E k)"
  unfolding store_ops by (intro plain_update; auto simp: checked_put_Some bucket_laws)+

lemma other_keys:
  "recoveryHashKey \<noteq> portalModeKey" "vpnSummaryKey \<noteq> portalModeKey" "macLastRollKey \<noteq> portalModeKey"
  "macScheduleKey \<noteq> portalModeKey" "macProfileKey \<noteq> portalModeKey" "dnsDefaultedKey \<noteq> portalModeKey"
  "dnsProviderKey \<noteq> portalModeKey"
  by (simp_all add: recoveryHashKey_def vpnSummaryKey_def macLastRollKey_def macScheduleKey_def macProfileKey_def
      dnsDefaultedKey_def dnsProviderKey_def portalModeKey_def)

lemmas plain_keys [plain_intro] = plain_config(1) [OF other_keys(1)] plain_config(1) [OF other_keys(2)]
  plain_config(1) [OF other_keys(3)] plain_config(1) [OF other_keys(4)] plain_config(1) [OF other_keys(5)]
  plain_config(1) [OF other_keys(6)] plain_config(1) [OF other_keys(7)] plain_config(2) [OF other_keys(1)]

section \<open>Authentication\<close>

lemma plain_sessions [plain_intro]:
  "plain view (new_token E)" "plain view (issue_session E)" "plain view (session_valid E tok b)" "plain view (logout E tok)"
  unfolding new_token_def issue_session_def session_valid_def logout_def by (intro plain_intro)+

lemma plain_ceremony [plain_intro]:
  "plain view (provisioned E)" "plain view (issue_challenge E)" "plain view (verify_ceremony E cdj c)"
  "plain view (mint_recovery_code E)"
  unfolding provisioned_def issue_challenge_def verify_ceremony_def mint_recovery_code_def by (intro plain_intro)+

lemma plain_assertion [plain_intro]:
  "plain view (check_assertion E req)" "plain view (recovery_check E c)" "plain view (recovery_commit E)"
  unfolding check_assertion_def recovery_check_def recovery_commit_def by (intro plain_intro)+

lemma plain_auth [plain_intro]:
  "plain view (register_begin E tok)" "plain view (register_finish E tok rq)" "plain view (login_begin E)"
  "plain view (login_finish E lq)" "plain view (login_recovery E c)" "plain view (recovery_regenerate E)"
  "plain view (step_up_begin E)" "plain view (step_up_finish E tok lq)" "plain view (health E)" "plain view (session_state E tok)"
  unfolding register_begin_def register_finish_def login_begin_def login_finish_def login_recovery_def
    recovery_regenerate_def step_up_begin_def step_up_finish_def health_def session_state_def
  by (intro plain_intro)+

lemma plain_gates [plain_intro]:
  "plain view h \<Longrightarrow> plain view (require_session E tok h)" "plain view h \<Longrightarrow> plain view (require_step_up E tok h)"
  unfolding require_session_def require_step_up_def by (intro plain_intro | assumption)+

section \<open>Programs that read the device or the network\<close>

lemma plain_small [plain_intro]:
  "plain view (probe_portal E)" "plain view (portal_get E)" "plain view close_upstream" "plain view (set_provider k)"
  "plain view (set_portal_note n)" "plain view kick_portal_watch" "plain view take_kick" "plain view (generate_identity E key)"
  "plain view (save_image E u)" "plain view image_size" "plain view (mac_schedule E)" "plain view (mac_profile E)"
  "plain view (record_roll E)" "plain view (mac_roll_due E)" "plain view (join_identity E)" "plain view (pin_peer E p)"
  unfolding probe_portal_def portal_get_def close_upstream_def set_provider_def set_portal_note_def kick_portal_watch_def
    take_kick_def generate_identity_def save_image_def image_size_def mac_schedule_def mac_profile_def record_roll_def
    mac_roll_due_def join_identity_def pin_peer_def
  by (intro plain_intro; simp)+

lemma plain_pin [plain_intro]: "plain view (pin_endpoints E c)"
proof -
  have "plain view (pin_peers E ps)" for ps by (induction ps) (simp_all, (intro plain_intro | assumption)+)
  then show ?thesis unfolding pin_endpoints_def by (intro plain_intro)
qed

lemma plain_gets [plain_intro]:
  "plain view (mac_schedule_get E)" "plain view (mac_schedule_set E m)" "plain view (mac_profile_get E)"
  "plain view (mac_profile_set E p)" "plain view (vpn_config_get E)" "plain view (dns_provider_set E k)" "plain view (net_portal E)"
  unfolding mac_schedule_get_def mac_schedule_set_def mac_profile_get_def mac_profile_set_def vpn_config_get_def
    dns_provider_set_def net_portal_def
  by (intro plain_intro)+

section \<open>Programs that run commands\<close>

locale steady_daemon = steady_tools "run_cmd E" view for E :: "'d env" and view :: "'d \<Rightarrow> router" +
  assumes flush: "flush_harmless E view"
begin

lemma plain_run: "mild argv \<Longrightarrow> plain view (run E argv)"
  using spares by (simp add: plain_def portal_text_def)

lemma plain_all: "list_all mild cs \<Longrightarrow> plain view (run_all E cs)"
  using all_spare by (simp add: plain_def portal_text_def)

lemma plain_device [plain_intro]:
  "plain view (vpn_up E i)" "plain view (vpn_down E i)" "plain view (vpn_status E)" "plain view (kill_switch E)"
  "plain view (vpn_import_config E c)" "plain view (dns_enable E)" "plain view (dns_disable E)" "plain view (dns_enabled E)"
  "plain view (set_fail_closed E b)" "plain view (board_info E)" "plain view (test_image E)" "plain view (set_ap E ssid key)"
  "plain view (join_uplink E ssid key ji)" "plain view (apply_sta_identity E j)" "plain view (wifi_get_status E)"
  "plain view (up_device E)"
  unfolding vpn_up_def vpn_down_def run_only_def vpn_status_def kill_switch_def vpn_import_config_def dns_enable_def
    dns_disable_def dns_enabled_def set_fail_closed_def board_info_def test_image_def set_ap_def join_uplink_def
    apply_sta_identity_def wifi_get_status_def up_device_def
  by (intro plain_intro plain_run plain_all mild_argv [simplified] mild_ap mild_uplink mild_identity mild_import mild_dns; simp add: mild_argv)+

lemma plain_scan [plain_intro]: "plain view (wifi_scan E)"
proof -
  have "plain view (wait_device E n r)" for n r
    by (induction n arbitrary: r) (simp_all, (intro plain_intro | assumption)+)
  then show ?thesis unfolding wifi_scan_def by (intro plain_intro plain_run mild_other)
qed

lemma plain_handlers [plain_intro]:
  "plain view (vpn_import E why q)" "plain view (vpn_up_handler E)" "plain view (vpn_down_handler E)"
  "plain view (vpn_status_handler E)" "plain view (kill_switch_get E)" "plain view (wifi_status_handler E)"
  "plain view (wifi_scan_handler E)" "plain view (dns_get E)" "plain view (dns_switch_on E)" "plain view (dns_switch_off E)"
  "plain view (apply_dns_default E)" "plain view (roll_mac E)" "plain view (mac_tick E)" "plain view (maint_board E)"
  "plain view (maint_firmware_upload E u)"
  unfolding vpn_import_def vpn_up_handler_def vpn_down_handler_def vpn_status_handler_def kill_switch_get_def
    wifi_status_handler_def wifi_scan_handler_def dns_get_def dns_switch_on_def dns_switch_off_def apply_dns_default_def
    roll_mac_def mac_tick_def maint_board_def maint_firmware_upload_def
  by (intro plain_intro)+

lemma plain_wifi [plain_intro]: "plain view (wifi_set_ap E p)" "plain view (wifi_join_uplink E p)"
  unfolding wifi_set_ap_def wifi_join_uplink_def by (intro plain_intro)+

end

interpretation steady_router: steady_daemon router_env "\<lambda>r. r"
  using steady_machine.steady_tools_axioms
  by (simp add: steady_daemon_def steady_daemon_axioms_def flush_harmless_def)

end
