(* ===== verification/Guard_Properties.thy ===== *)
theory Guard_Properties
  imports Guard_Frames
begin

text \<open>
  The kill switch over whole histories of the daemon: requests, turns of the portal watch, the
  rotation, DNS queries and restarts, in any order.  Once the switch is on, the direct path is
  closed, in the running firewall and in the one of the next boot, unless a bounded pause is in
  force that will close it again; what ends this is a request to switch it off, a flash or
  reset, and a manual change of encrypted DNS during a pause, which \<open>dns_choice_drops_switch\<close>
  shows to leave it off.
\<close>

section \<open>Closed and consistent routers\<close>

text \<open>The direct path is closed in the three tables; and: it is open in all that matter or closed in all.\<close>

definition shut :: "router \<Rightarrow> bool" where
  "shut r \<longleftrightarrow> rt_reloads r ''firewall'' \<and> no_direct (rt_work r ''firewall'') \<and> no_direct (rt_saved r ''firewall'')
     \<and> no_direct (rt_live r ''firewall'')"

definition quiet :: "router \<Rightarrow> bool" where
  "quiet r \<longleftrightarrow> rt_reloads r ''firewall'' \<and> (no_direct (rt_work r ''firewall'') \<longrightarrow> shut r)"

lemma shut_quiet: "shut r \<Longrightarrow> quiet r"
  by (simp add: quiet_def shut_def)

lemma no_direct_tables: "no_direct (rt_work r ''firewall'') \<longleftrightarrow> direct_work r = []"
  "no_direct (rt_saved r ''firewall'') \<longleftrightarrow> direct_saved r = []" "no_direct (rt_live r ''firewall'') \<longleftrightarrow> direct_live r = []"
  by (simp_all add: no_direct_def direct_defs)

lemma spared_shut: "spared r r' \<Longrightarrow> shut r \<Longrightarrow> shut r'"
  by (auto simp: spared_def shut_def no_direct_tables)

lemma spared_quiet: "spared r r' \<Longrightarrow> quiet r \<Longrightarrow> quiet r'"
  by (auto simp: spared_def quiet_def shut_def no_direct_tables)

lemma ks_on_shut: "quiet r \<Longrightarrow> shut (exec_ks_on r)"
proof (cases "\<exists>s \<in> set (rt_work r ''firewall''). lan_wan s")
  case True
  assume "quiet r"
  with True show ?thesis by (simp add: quiet_def shut_def ks_on_exec no_direct_def)
next
  case False
  assume "quiet r"
  with False show ?thesis by (simp add: quiet_def ks_on_exec no_direct_alt)
qed

lemma ks_off_quiet:
  assumes "quiet r"
  obtains r' where "exec_ks_off r = Some r'" "quiet r'"
proof (cases "\<exists>s \<in> set (rt_work r ''firewall''). lan_wan s")
  case True
  then show ?thesis using that [of r] assms by (auto simp: exec_ks_off_def ks_off_edit_def)
next
  case False
  have "lan_wan (set_opt ''dest'' [''wan''] (set_opt ''src'' [''lan''] (new_section [] ''forwarding'')))"
    by (simp add: lan_wan_def opt_text_def)
  then show ?thesis using that False assms
    by (auto simp: exec_ks_off_def ks_off_edit_def no_direct_alt reload_def quiet_def)
qed

lemma booted_kept: "quiet r \<Longrightarrow> quiet (booted r)" "shut r \<Longrightarrow> shut (booted r)"
  by (simp_all add: quiet_def shut_def booted_def)

section \<open>What is kept\<close>

definition protected :: "'d env \<Rightarrow> ('d \<Rightarrow> router) \<Rightarrow> 'd world \<Rightarrow> bool" where
  "protected E view w \<longleftrightarrow> pause_bounded E w \<and> quiet (view (w_dev w))
     \<and> (case stored_pause E (w_db w) of None \<Rightarrow> shut (view (w_dev w)) | Some r \<Rightarrow> pr_savedKS r)"

definition unpaused :: "'d env \<Rightarrow> ('d \<Rightarrow> router) \<Rightarrow> 'd world \<Rightarrow> bool" where
  "unpaused E view w \<longleftrightarrow> protected E view w \<and> stored_pause E (w_db w) = None"

text \<open>A closed router is protected with and without a pause that remembers the switch.\<close>

lemma shut_protected:
  "pause_bounded E w \<Longrightarrow> shut (view (w_dev w)) \<Longrightarrow> (\<And>r. stored_pause E (w_db w) = Some r \<Longrightarrow> pr_savedKS r) \<Longrightarrow>
   protected E view w"
  by (auto simp: protected_def shut_quiet split: option.split)

text \<open>A step that leaves the pause alone and spares the firewall.\<close>

lemma plain_stored: "plain view m \<Longrightarrow> stored_pause E (w_db (final m w)) = stored_pause E (w_db w)"
  by (rule stored_pause_text [OF plainD(3)])

lemma plain_bounded:
  assumes "portal_env E" "plain view m" "pause_bounded E w"
  shows "pause_bounded E (final m w)"
  using pause_step_same [OF assms(1,3) plainD(1) [OF assms(2)] plain_stored [OF assms(2)]] by (simp add: pause_step_def)

lemma plain_protected:
  assumes "portal_env E" "plain view m"
  shows "maintains (protected E view) m"
proof (rule maintainsI)
  fix w
  assume "protected E view w"
  then show "protected E view (final m w)"
    using plain_bounded [OF assms, of w] spared_quiet [OF plainD(2) [OF assms(2)], of w] spared_shut [OF plainD(2) [OF assms(2)], of w]
    by (simp add: protected_def plain_stored [OF assms(2)] split: option.splits)
qed

lemma plain_unpaused: "portal_env E \<Longrightarrow> plain view m \<Longrightarrow> maintains (unpaused E view) m"
  by (rule maintainsI) (simp add: unpaused_def plain_stored maintainsD [OF plain_protected])

context steady_daemon
begin

lemma switch_on: "quiet (view (w_dev w)) \<Longrightarrow> shut (view (w_dev (final (set_kill_switch E True) w)))"
  by (simp add: ks_on [OF refl flush] ks_on_shut)

lemma switch_off: "quiet (view (w_dev w)) \<Longrightarrow> quiet (view (w_dev (final (set_kill_switch E False) w)))"
  by (erule ks_off_quiet) (simp add: ks_off [OF refl])

lemma plain_quiet: "plain view m \<Longrightarrow> quiet (view (w_dev w)) \<Longrightarrow> quiet (view (w_dev (final m w)))"
  by (rule spared_quiet [OF plainD(2)])

lemma plain_shut: "plain view m \<Longrightarrow> shut (view (w_dev w)) \<Longrightarrow> shut (view (w_dev (final m w)))"
  by (rule spared_shut [OF plainD(2)])

lemma relax_quiet: "quiet (view (w_dev w)) \<Longrightarrow> quiet (view (w_dev (final (relax E rec) w)))"
proof -
  assume q: "quiet (view (w_dev w))"
  let ?w1 = "final (vpn_down E Iface) w"
  let ?w2 = "if pr_savedKS rec then final (set_kill_switch E False) ?w1 else ?w1"
  have "quiet (view (w_dev ?w1))" by (intro plain_quiet q plain_intro)
  then have "quiet (view (w_dev ?w2))" using switch_off by simp
  moreover have "final (relax E rec) w = (if pr_savedDNS rec then final (dns_disable E) ?w2 else ?w2)"
    by (simp add: relax_def run_branch)
  ultimately show ?thesis using plain_quiet [OF plain_device(7)] by simp
qed

lemma restore_shut:
  assumes "quiet (view (w_dev w))" "pr_savedKS rec"
  shows "shut (view (w_dev (final (restore E rec) w)))"
proof -
  define w1 where "w1 = final (do { raw \<leftarrow> config E vpnSummaryKey;
     (if raw \<noteq> None \<and> raw \<noteq> Some None then vpn_up E Iface else ret None) }) w"
  have "quiet (view (w_dev w1))" unfolding w1_def by (intro plain_quiet [OF _ assms(1)] plain_intro)
  note on = switch_on [OF this]
  define rest where "rest = (if pr_savedDNS rec then do { _ \<leftarrow> dns_enable E; set_fail_closed E True } else ret None)"
  have "final (restore E rec) w = final rest (final (set_kill_switch E True) w1)"
    using assms(2) by (simp add: restore_def w1_def rest_def run_branch)
  moreover have "plain view rest" unfolding rest_def by (intro plain_intro)
  ultimately show ?thesis using plain_shut [OF _ on] by simp
qed

section \<open>The pause\<close>

lemma fresh_plain: "plain view (fresh_record E)"
  unfolding fresh_record_def by (intro plain_intro)

lemma enter_record_device: "spared (view (w_dev w)) (view (w_dev (final (enter_record E url) w)))"
proof -
  define m where "m = do { old \<leftarrow> portal_get E; case old of Some r \<Rightarrow> ret r | None \<Rightarrow> fresh_record E }"
  have m: "plain view m" unfolding m_def by (intro plain_intro fresh_plain)
  have save: "w_dev (final (save_portal_record E r) v) = w_dev v" for r v by (rule keepsD, intro keeps_intro)
  have "w_dev (final (enter_record E url) w) = w_dev (final m w)"
    by (simp add: enter_record_def m_def run_branch Let_def save)
  with plainD(2) [OF m, of w] show ?thesis by simp
qed

lemma enter_protected:
  assumes "portal_env E"
  shows "maintains (protected E view) (enter_portal_mode E url)"
proof (rule maintainsI)
  fix w
  assume w: "protected E view w"
  let ?u = "final (enter_record E url) w" and ?rec = "result (enter_record E url) w" and ?v = "final (enter_portal_mode E url) w"
  have b: "pause_bounded E w" "quiet (view (w_dev w))" using w by (simp_all add: protected_def)
  obtain r where r: "stored_pause E (w_db ?u) = Some r" "case stored_pause E (w_db w) of Some old \<Rightarrow> same_posture old r
      | None \<Rightarrow> pr_savedKS r = (result (kill_switch E) w = Some True)"
    using enter_stores [OF portal_envD(1-3) [OF assms] bounded_fits [OF b(1)], of url] by metis
  have "pr_savedKS r"
    using w r(2) ks_query(1) [OF refl, of w] by (auto simp: protected_def same_posture_def shut_def split: option.splits)
  moreover have v: "w_db ?v = w_db ?u" "w_dev ?v = w_dev (final (relax E ?rec) ?u)"
    by (simp_all add: enter_portal_mode_def keeps_db_machine set_portal_note_def kick_portal_watch_def)
  moreover have "quiet (view (w_dev ?u))" by (rule spared_quiet [OF enter_record_device b(2)])
  from relax_quiet [OF this] have "quiet (view (w_dev ?v))" by (simp add: v(2))
  moreover have "pause_bounded E ?v" using enter_step [OF assms b(1), of url] by (simp add: pause_step_def)
  ultimately show "protected E view ?v" using r(1) by (simp add: protected_def)
qed

lemma exit_protected:
  assumes "portal_env E"
  shows "maintains (protected E view) (exit_portal_mode E note)"
proof (rule maintainsI)
  fix w
  assume w: "protected E view w"
  let ?v = "final (exit_portal_mode E note) w" and ?w1 = "w\<lparr>w_n := Suc (w_n w)\<rparr>"
  note get = portal_get_run(2) [of E w] portal_get_plain(1) [OF portal_envD(1) [OF assms], of w]
  have "shut (view (w_dev ?v))"
  proof (cases "stored_pause E (w_db w)")
    case None
    with w get show ?thesis by (simp add: exit_portal_mode_def protected_def)
  next
    case (Some r)
    with w have "quiet (view (w_dev ?w1))" "pr_savedKS r" by (simp_all add: protected_def)
    from restore_shut [OF this] Some get show ?thesis
      by (simp add: exit_portal_mode_def set_portal_note_def delete_config_def)
  qed
  moreover have "pause_bounded E ?v" "stored_pause E (w_db ?v) = None"
    using exit_drops [OF portal_envD(1) [OF assms]] by (simp_all add: pause_bounded_def)
  ultimately show "protected E view ?v" by (intro shut_protected) simp_all
qed

lemma scout_protected:
  assumes "portal_env E"
  shows "maintains (protected E view) (portal_scout E stops)"
proof -
  note plain = plain_protected [OF assms]
  have round: "maintains (protected E view) (scout_round E d)" for d
    unfolding scout_round_def by (intro maintains_intro enter_protected [OF assms] plain plain_intro)
  have rounds: "maintains (protected E view) (scout_rounds E d stops)" for d
    by (induction stops) (simp_all, (intro maintains_intro round | assumption)+)
  show ?thesis unfolding portal_scout_def by (rule maintains_bind [OF plain [OF plain_reads(1)] rounds])
qed

lemma watch_paused_protected:
  assumes "portal_env E" "protected E view w" "stored_pause E (w_db w) = Some rec"
  shows "protected E view (final (watch_paused E rec) w)"
proof -
  let ?w1 = "final (time_now E) w" and ?v = "final (watch_paused E rec) w"
  let ?w2 = "final (probe_portal E) ?w1" and ?p = "result (probe_portal E) ?w1"
  note plain = plain_protected [OF assms(1), THEN maintainsD]
  have w1: "protected E view ?w1" by (intro plain assms(2) plain_intro)
  have w2: "protected E view ?w2" by (intro plain w1 plain_intro)
  note exit = exit_protected [OF assms(1), THEN maintainsD]
  consider "?v = final (exit_portal_mode E expired_note) ?w1" | "?v = final (exit_portal_mode E online_note) ?w2" | "?v = ?w2"
    | "?v = final (save_portal_record E (rec\<lparr>pr_url := ps_url ?p\<rparr>)) ?w2"
    by (cases "pr_deadline rec < clock E (w_n w)"; cases "ps_online ?p";
        cases "ps_captive ?p \<and> ps_url ?p \<noteq> [] \<and> ps_url ?p \<noteq> pr_url rec")
      (auto simp: watch_paused_def)
  then show ?thesis
  proof cases
    case 4
    let ?r = "rec\<lparr>pr_url := ps_url ?p\<rparr>"
    have "pause_bounded E w" "pr_savedKS rec" using assms(2,3) by (simp_all add: protected_def)
    then have "times_fit ?r" "pr_active ?r" "pause_bounded E ?v"
      using assms(3) stored_active [OF assms(3)] watch_paused_step [OF assms(1) _ assms(3)]
      by (simp_all add: pause_bounded_def [of E w] times_fit_def pause_step_def)
    with save_stored(1) [OF portal_envD(1,2) [OF assms(1)], of ?r ?w2] \<open>pr_savedKS rec\<close>
    have "\<exists>r. stored_pause E (w_db ?v) = Some r \<and> pr_savedKS r" by (auto simp: 4)
    moreover have "w_dev ?v = w_dev ?w2" unfolding 4 by (rule keepsD, intro keeps_intro)
    ultimately show ?thesis using w2 \<open>pause_bounded E ?v\<close> by (auto simp: protected_def)
  qed (use w1 w2 exit in simp_all)
qed

lemma watch_protected:
  assumes "portal_env E"
  shows "maintains (protected E view) (watch_turn E wk)"
proof (rule maintainsI)
  fix w
  assume w: "protected E view w"
  note plain = plain_protected [OF assms, THEN maintainsD]
  let ?w1 = "w\<lparr>w_n := Suc (w_n w)\<rparr>"
  have g: "result (portal_get E) w = stored_pause E (w_db w)" "final (portal_get E) w = ?w1"
    using portal_get_plain(1) [OF portal_envD(1) [OF assms]] by (simp_all add: portal_get_run(2))
  have w1: "protected E view ?w1" using plain [OF plain_small(2) [of view E] w] g(2) by simp
  have kick: "protected E view (final take_kick v)" if "protected E view v" for v by (intro plain that plain_intro)
  show "protected E view (final (watch_turn E wk) w)"
  proof (cases "stored_pause E (w_db w)")
    case None
    with g w1 kick [OF w1] maintainsD [OF scout_protected [OF assms]] show ?thesis by (simp add: watch_turn_def)
  next
    case (Some r)
    have "protected E view (final (watch_paused E r) ?w1)"
      by (rule watch_paused_protected [OF assms w1]) (simp add: Some)
    with Some g kick show ?thesis by (simp add: watch_turn_def)
  qed
qed

section \<open>Requests\<close>

lemma switch_on_protected:
  assumes "portal_env E"
  shows "maintains (protected E view) (kill_switch_set E (Some True))"
proof (rule maintainsI)
  fix w
  assume w: "protected E view w"
  let ?w1 = "final (set_kill_switch E True) w"
  have "quiet (view (w_dev w))" "pause_bounded E w" using w by (simp_all add: protected_def)
  moreover have "w_db ?w1 = w_db w" by (rule keepsD, intro keeps_intro)
  ultimately have w1: "protected E view ?w1"
    using w switch_on bounded_same [OF assms _ forwardD [OF forward_portal(5)], of w E True]
    by (intro shut_protected) (auto simp: protected_def split: option.splits)
  define m where "m = do { dns \<leftarrow> dns_enabled E; if dns = Some True then set_fail_closed E True else ret None }"
  let ?w2 = "final m ?w1"
  have m: "plain view m" unfolding m_def by (intro plain_intro)
  have w2: "protected E view ?w2" by (rule maintainsD [OF plain_protected [OF assms m] w1])
  have "shut (view (w_dev ?w1))" by (rule switch_on) fact
  then have s2: "shut (view (w_dev ?w2))" by (rule plain_shut [OF m])
  let ?w3 = "final (cancel_portal_mode E ''you changed the kill switch manually'') ?w2"
  have "w_dev ?w3 = w_dev ?w2" by (rule keepsD, intro keeps_intro)
  then have w3: "protected E view ?w3"
    using s2 cancel_drops [OF portal_envD(1) [OF assms]] by (intro shut_protected) (simp_all add: pause_bounded_def)
  have "final (kill_switch_set E (Some True)) w =
      (if result (set_kill_switch E True) w = None then if result m ?w1 = None then ?w3 else ?w2 else ?w1)"
    by (cases "result (set_kill_switch E True) w"; cases "result (dns_enabled E) ?w1 = Some True")
      (simp_all add: kill_switch_set_def m_def)
  with w1 w2 w3 show "protected E view (final (kill_switch_set E (Some True)) w)" by simp
qed

text \<open>A change of encrypted DNS outside a pause leaves the pause record alone: there is none.\<close>

lemma dns_set_unpaused:
  assumes "portal_env E"
  shows "maintains (unpaused E view) (dns_set E q)"
proof -
  have cancel: "maintains (unpaused E view) (cancel_portal_mode E n)" for n
  proof (rule maintainsI)
    fix w
    assume w: "unpaused E view w"
    then have "final (cancel_portal_mode E n) w = final (portal_get E) w"
      using portal_get_plain(1) [OF portal_envD(1) [OF assms], of w] by (simp add: cancel_portal_mode_def unpaused_def)
    then show "unpaused E view (final (cancel_portal_mode E n) w)"
      using maintainsD [OF plain_unpaused [OF assms plain_small(2)] w] by simp
  qed
  then show ?thesis unfolding dns_set_def by (intro maintains_intro cancel plain_unpaused [OF assms] plain_intro)
qed

lemma portal_mode_protected: "portal_env E \<Longrightarrow> maintains (protected E view) (net_portal_mode E q)"
  unfolding net_portal_mode_def by (intro maintains_intro enter_protected exit_protected)

end

text \<open>
  The requests that do not let the switch down: all but switching it off, a flash or a reset, and
  a change of encrypted DNS while a pause is in force.
\<close>

fun lets_stand :: "'d env \<Rightarrow> 'd world \<Rightarrow> endpoint \<Rightarrow> bool" where
  "lets_stand E w (KillSwitchSet q) = (q \<noteq> Some False)"
| "lets_stand E w (DnsSet q) = (stored_pause E (w_db w) = None)"
| "lets_stand E w FirmwareFlash = False"
| "lets_stand E w FactoryReset = False"
| "lets_stand E w ep = True"

text \<open>The handlers that are plain, and the others.\<close>

fun special :: "endpoint \<Rightarrow> bool" where
  "special (KillSwitchSet q) = True" | "special (NetPortalMode q) = True" | "special (DnsSet q) = True"
| "special FirmwareFlash = True" | "special FactoryReset = True" | "special ep = False"

context steady_daemon
begin

lemma handler_plain: "\<not> special ep \<Longrightarrow> plain view (handler E why tok ep)"
  unfolding handler_def by (cases ep) (simp_all, (intro plain_intro)+)

lemma handle_protected:
  assumes "portal_env E" "lets_stand E w ep" "protected E view w"
  shows "protected E view (final (handle E why tok ep) w)"
proof (cases "\<exists>q. ep = DnsSet q")
  case True
  then obtain q where q: "ep = DnsSet q" by blast
  then have "unpaused E view w" using assms(2,3) by (simp add: unpaused_def)
  moreover have "handle E why tok ep = require_session E tok (dns_set E q)" by (simp add: q handle_def handler_def)
  then have "maintains (unpaused E view) (handle E why tok ep)"
    by (simp add: require_session_def)
      (intro maintains_intro plain_unpaused [OF assms(1) plain_sessions(3)] dns_set_unpaused [OF assms(1)])
  ultimately show ?thesis using maintainsD by (fastforce simp: unpaused_def)
next
  case False
  note plain = plain_protected [OF assms(1)]
  have "maintains (protected E view) (handler E why tok ep)"
  proof (cases "special ep")
    case True
    then consider q where "ep = KillSwitchSet q" "q \<noteq> Some False" | q where "ep = NetPortalMode q"
      using False assms(2) by (cases ep) auto
    then show ?thesis
    proof cases
      case (1 q)
      moreover have "maintains (protected E view) (kill_switch_set E None)"
        unfolding kill_switch_set_def by (simp add: maintains_return)
      ultimately show ?thesis using switch_on_protected [OF assms(1)] by (cases q) (auto simp: handler_def)
    next
      case (2 q)
      then show ?thesis using portal_mode_protected [OF assms(1)] by (simp add: handler_def)
    qed
  qed (intro plain handler_plain)
  then have "maintains (protected E view) (handle E why tok ep)"
    unfolding handle_def require_session_def require_step_up_def
    by (intro maintains_intro plain [OF plain_sessions(3)] plain [OF plain_sets(2)] plain [OF plain_reads(1)] | assumption)+
  with assms(3) show ?thesis by (rule maintainsD [rotated])
qed

end

section \<open>Histories\<close>

text \<open>
  A step of the daemon on its router: a request that lets the switch stand, a turn of the watch, a
  wake-up of the rotation, a DNS query, or a power loss, after which a new process finds the
  database and the router boots from what was committed.
\<close>

inductive guard_step :: "'d env \<Rightarrow> ('d \<Rightarrow> router) \<Rightarrow> 'd world \<Rightarrow> 'd world \<Rightarrow> bool" for E view where
  Request: "lets_stand E w ep \<Longrightarrow> guard_step E view w (final (handle E why tok ep) w)"
| Watch: "guard_step E view w (final (watch_turn E wk) w)"
| Rotation: "guard_step E view w (final (mac_tick E) w)"
| Query: "guard_step E view w (final (dns_handle E q) w)"
| Restart: "w_db v = w_db w \<Longrightarrow> view (w_dev v) = booted (view (w_dev w)) \<Longrightarrow> w_n w \<le> w_n v \<Longrightarrow> guard_step E view w v"

lemma plain_query: "plain view (dns_handle E q)"
proof -
  have "plain view (dns_exchange E q)"
    unfolding dns_exchange_def by (intro plain_intro; simp)
  then show ?thesis unfolding dns_handle_def by (intro plain_intro; simp)
qed

context steady_daemon
begin

lemma guard_step_protected:
  assumes "portal_env E" "guard_step E view w w'" "protected E view w"
  shows "protected E view w'"
  using assms(2)
proof cases
  case (Request ep why tok)
  then show ?thesis using handle_protected [OF assms(1) _ assms(3)] by simp
next
  case (Restart)
  have "pause_bounded E w" using assms(3) by (simp add: protected_def)
  then have "pause_bounded E w'" by (rule bounded_same [OF assms(1) _ Restart(3,1)])
  then show ?thesis using assms(3) booted_kept [of "view (w_dev w)"]
    unfolding protected_def Restart(1,2) by (simp split: option.splits)
next
  case (Watch wk)
  show ?thesis unfolding Watch by (rule maintainsD [OF watch_protected [OF assms(1)] assms(3)])
next
  case Rotation
  show ?thesis unfolding Rotation by (rule maintainsD [OF plain_protected [OF assms(1) plain_handlers(13)] assms(3)])
next
  case (Query q)
  show ?thesis unfolding Query by (rule maintainsD [OF plain_protected [OF assms(1) plain_query] assms(3)])
qed

lemma history_protected:
  assumes "portal_env E" "(guard_step E view)\<^sup>*\<^sup>* w w'" "protected E view w"
  shows "protected E view w'"
  using assms(2,3) by (induction rule: rtranclp_induct) (auto intro: guard_step_protected [OF assms(1)])

lemma protected_posture:
  assumes "protected E view w"
  shows "case stored_pause E (w_db w) of
      None \<Rightarrow> no_direct (rt_live (view (w_dev w)) ''firewall'') \<and> no_direct (rt_saved (view (w_dev w)) ''firewall'')
        \<and> result (kill_switch E) w = Some True
    | Some r \<Rightarrow> pr_savedKS r \<and> pr_deadline r \<le> clock E (w_n w) + portalWindow"
  using assms ks_query(1) [OF refl, of w] by (auto simp: protected_def pause_bounded_def shut_def split: option.splits)

end


text \<open>The example: a session's holder begins a pause on a closed router.\<close>

definition shut_router :: router where
  "shut_router = closed_router\<lparr>rt_saved := sample_packages(''firewall'' := [])\<rparr>"


section \<open>A change of encrypted DNS during a pause\<close>

context reliable_tools
begin

lemma dns_disable_succeeds:
  assumes "run_cmd E = run" "spec_ok (server_spec (fw_addr (w_fwd w)))" "ready (view (w_dev w))"
  shows "result (dns_disable E) w = None"
proof -
  let ?spec = "server_spec (fw_addr (w_fwd w))"
  obtain r where "exec_all (dns_disable_ops ?spec) (view (w_dev w)) = Some r"
    using dns_disable_exec [of ?spec "view (w_dev w)"] ready_D(2) [OF assms(3)] by auto
  then show ?thesis using list_succeeds(1) [OF assms(1) dns_ops_ok(2)] assms(2)
    by (simp add: dns_disable_def dns_disable_text spec_ok_def del: run_all_run)
qed

text \<open>While the direct path is open, a change of encrypted DNS succeeds and leaves it open.\<close>

lemma dns_choice_open:
  assumes "run_cmd E = run" "spec_ok (server_spec (fw_addr (w_fwd w)))" "ready (view (w_dev w))"
    "\<not> no_direct (rt_work (view (w_dev w)) ''firewall'')"
  shows "rs_code (result (dns_set E (Some b)) w) = 200"
    "\<not> no_direct (rt_work (view (w_dev (final (dns_set E (Some b)) w))) ''firewall'')"
proof -
  define m where "m = (if b then dns_switch_on E else dns_switch_off E)"
  have m: "result m w = None" "\<not> no_direct (rt_work (view (w_dev (final m w))) ''firewall'')"
  proof -
    let ?w1 = "final (dns_enable E) w"
    have "result (dns_enable E) w = None" by (rule dns_enable_succeeds [OF assms(1,2)]) (use assms(3) in \<open>simp_all add: ready_def\<close>)
    moreover have open1: "\<not> no_direct (rt_work (view (w_dev ?w1)) ''firewall'')" using dns_on(2) [OF assms(1-3)] assms(4) by simp
    ultimately have "result (dns_switch_on E) w = None" "final (dns_switch_on E) w = final (kill_switch E) ?w1"
      using ks_query(1) [OF assms(1), of ?w1] by (simp_all add: dns_switch_on_def)
    moreover have "result (dns_switch_off E) w = None" "final (dns_switch_off E) w = final (dns_disable E) w"
      using dns_disable_succeeds [OF assms(1-3)] by (simp_all add: dns_switch_off_def)
    ultimately show "result m w = None" "\<not> no_direct (rt_work (view (w_dev (final m w))) ''firewall'')"
      using open1 ks_query(2) [OF assms(1), of ?w1] dns_off(2) [OF assms(1-3)] assms(4) by (simp_all add: m_def)
  qed
  have dev: "w_dev (final (put_config E k v) x) = w_dev x" "w_dev (final (cancel_portal_mode E n) x) = w_dev x" for k v n x
    by (rule keepsD, intro keeps_intro)+
  show "rs_code (result (dns_set E (Some b)) w) = 200"
    "\<not> no_direct (rt_work (view (w_dev (final (dns_set E (Some b)) w))) ''firewall'')"
    using m by (simp_all add: dns_set_def m_def [symmetric] dev)
qed

end

text \<open>
  C32. A change of encrypted DNS during a pause drops the kill switch: the pause had switched it
  off, the request, answered 200, removes the record that would bring it back, and the switch
  stays off though nobody asked for that.
\<close>

theorem dns_choice_drops_switch:
  fixes E :: "'d env" and w :: "'d world" and view :: "'d \<Rightarrow> router" and url :: string and b :: bool
  defines "w1 \<equiv> final (enter_portal_mode E url) w"
  defines "w2 \<equiv> final (dns_set E (Some b)) w1"
  assumes "portal_env E" "reliable_tools (run_cmd E) view" "stored_pause E (w_db w) = None"
    "spec_ok (server_spec (fw_addr (w_fwd w)))" "ready (view (w_dev w))" "result (kill_switch E) w = Some True"
  shows "(\<exists>r. stored_pause E (w_db w1) = Some r \<and> pr_savedKS r) \<and> rs_code (result (dns_set E (Some b)) w1) = 200
    \<and> stored_pause E (w_db w2) = None \<and> result (kill_switch E) w2 = Some False"
proof -
  note ks = reliable_tools.ks_query(1) [OF assms(4) refl]
  obtain r where r: "stored_pause E (w_db w1) = Some r" "w_fwd w1 = w_fwd w" "ready (view (w_dev w1))"
    "pr_savedKS r = no_direct (rt_work (view (w_dev w)) ''firewall'')"
    "\<not> no_direct (rt_work (view (w_dev w1)) ''firewall'')"
    unfolding w1_def by (rule enter_posture [OF assms(3-7), of url])
  have spec: "spec_ok (server_spec (fw_addr (w_fwd w1)))" using assms(6) by (simp only: r(2))
  note d = reliable_tools.dns_choice_open [OF assms(4) refl spec r(3,5), of b]
  obtain v where "w2 = final (cancel_portal_mode E ''you changed encrypted DNS manually'') v"
    using dns_set_200 [OF d(1)] unfolding w2_def by blast
  then have "stored_pause E (w_db w2) = None" using cancel_drops [OF portal_envD(1) [OF assms(3)]] by simp
  then show ?thesis using r(1,4) d assms(8) ks [of w] ks [of w2] by (simp add: w2_def)
qed

theorem dns_choice_drops_switch_witness:
  "result (kill_switch router_env) (final (dns_set router_env (Some True))
     (final (enter_portal_mode router_env []) (sample_world closed_router))) = Some False"
  using dns_choice_drops_switch [OF closed_sample(1) router_env_tools(2) sample_unpaused closed_sample(2-4), of "[]" True]
  by simp

end
